(* ===== verification/Prelude.thy ===== *)
theory Prelude
  imports Complex_Main "HOL-Library.Sublist" "HOL-Library.Multiset"
begin

text \<open>
  Shared vocabulary of the development: the parts of JavaScript that the dashboard under
  src/ui uses, as executable HOL functions, with the generic facts about them.

  Conventions.  A JavaScript string is a \<^typ>\<open>string\<close> whose characters are code units below
  128 (case mapping, length and slicing are the ASCII ones; percent-encoding reads a character
  as one byte).  A JavaScript number is an exact \<^typ>\<open>int\<close> or \<^typ>\<open>rat\<close>: rounding of double
  arithmetic is not modelled.  An optional property or a nullable value is an \<open>option\<close>.
  Arrays are lists; a \<open>Set\<close> is a duplicate-free list in insertion order.
\<close>

named_theorems js_simps \<open>evaluation rules of the JavaScript library functions\<close>
named_theorems page_defs \<open>unfolding rules for handlers and derived values of a page\<close>

subsection \<open>Property lookup on object literals\<close>

text \<open>
  Reading \<open>table[key]\<close> on an object literal finds an own property, else a property inherited
  from \<open>Object.prototype\<close> (a function, or the prototype object), else nothing.
\<close>

datatype 'v slot = Own 'v | Inherited string | Absent

definition object_prototype_keys :: "string list" where
  "object_prototype_keys =
     [''constructor'', ''hasOwnProperty'', ''isPrototypeOf'', ''propertyIsEnumerable'',
      ''toLocaleString'', ''toString'', ''valueOf'', ''__proto__'', ''__defineGetter__'',
      ''__defineSetter__'', ''__lookupGetter__'', ''__lookupSetter__'']"

definition obj_get :: "(string \<times> 'v) list \<Rightarrow> string \<Rightarrow> 'v slot" where
  "obj_get tbl k =
     (case map_of tbl k of Some v \<Rightarrow> Own v
      | None \<Rightarrow> if k \<in> set object_prototype_keys then Inherited k else Absent)"

subsection \<open>Strings\<close>

definition js_lower_char :: "char \<Rightarrow> char" where
  "js_lower_char c =
     (if 65 \<le> (of_char c :: nat) \<and> (of_char c :: nat) \<le> 90 then char_of ((of_char c :: nat) + 32) else c)"

definition js_upper_char :: "char \<Rightarrow> char" where
  "js_upper_char c =
     (if 97 \<le> (of_char c :: nat) \<and> (of_char c :: nat) \<le> 122 then char_of ((of_char c :: nat) - 32) else c)"

definition toLowerCase :: "string \<Rightarrow> string" where
  "toLowerCase s = map js_lower_char s"

definition toUpperCase :: "string \<Rightarrow> string" where
  "toUpperCase s = map js_upper_char s"

text \<open>\<open>hay.includes(needle)\<close>: a contiguous occurrence.\<close>

definition str_includes :: "string \<Rightarrow> string \<Rightarrow> bool" where
  "str_includes hay needle = sublist needle hay"

text \<open>\<open>s.split(c)\<close> for a one-character separator: never the empty list.\<close>

fun split_char :: "char \<Rightarrow> string \<Rightarrow> string list" where
  "split_char c [] = [[]]"
| "split_char c (x # xs) =
     (if x = c then [] # split_char c xs
      else (case split_char c xs of [] \<Rightarrow> [[x]] | w # ws \<Rightarrow> (x # w) # ws))"

text \<open>\<open>parts.join(sep)\<close>.\<close>

fun join_str :: "string \<Rightarrow> string list \<Rightarrow> string" where
  "join_str sep [] = []"
| "join_str sep [w] = w"
| "join_str sep (w # v # ws) = w @ sep @ join_str sep (v # ws)"

text \<open>\<open>parts.join(c)\<close> for a one-character separator, the inverse of \<open>split\<close>.\<close>

abbreviation join_char :: "char \<Rightarrow> string list \<Rightarrow> string" where
  "join_char c \<equiv> join_str [c]"

subsection \<open>Numbers and their decimal text\<close>

definition digit_char :: "nat \<Rightarrow> char" where
  "digit_char d = char_of (48 + d :: nat)"

definition is_digit :: "char \<Rightarrow> bool" where
  "is_digit c \<longleftrightarrow> 48 \<le> (of_char c :: nat) \<and> (of_char c :: nat) \<le> 57"

definition digit_val :: "char \<Rightarrow> nat" where
  "digit_val c = (of_char c :: nat) - 48"

fun show_nat :: "nat \<Rightarrow> string" where
  "show_nat n = (if n < 10 then [digit_char n] else show_nat (n div 10) @ [digit_char (n mod 10)])"

declare show_nat.simps [simp del]

text \<open>\<open>String(n)\<close> and template interpolation of an integer.\<close>

definition show_int :: "int \<Rightarrow> string" where
  "show_int n = (if n < 0 then ''-'' @ show_nat (nat (- n)) else show_nat (nat n))"

fun digits_val :: "nat \<Rightarrow> string \<Rightarrow> nat" where
  "digits_val acc [] = acc"
| "digits_val acc (c # cs) = digits_val (10 * acc + digit_val c) cs"

text \<open>
  \<open>parseInt(s, 10)\<close>: leading white space, an optional sign, the longest run of digits;
  \<open>None\<close> is NaN.
\<close>

definition is_space :: "char \<Rightarrow> bool" where
  "is_space c \<longleftrightarrow> (of_char c :: nat) \<in> {9, 10, 11, 12, 13, 32}"

definition parse_digits :: "string \<Rightarrow> nat option" where
  "parse_digits s = (let ds = takeWhile is_digit s in if ds = [] then None else Some (digits_val 0 ds))"

definition parseInt10 :: "string \<Rightarrow> int option" where
  "parseInt10 s =
     (case dropWhile is_space s of
        [] \<Rightarrow> None
      | c # cs \<Rightarrow>
          if c = CHR ''-'' then map_option (\<lambda>n. - int n) (parse_digits cs)
          else if c = CHR ''+'' then map_option int (parse_digits cs)
          else map_option int (parse_digits (c # cs)))"

text \<open>\<open>Math.round\<close>, and \<open>x.toFixed(d)\<close> for finite \<open>x\<close> (ties go to the larger integer).\<close>

definition math_round :: "rat \<Rightarrow> int" where
  "math_round x = \<lfloor>x + 1 / 2\<rfloor>"

definition pad_zeros :: "nat \<Rightarrow> string \<Rightarrow> string" where
  "pad_zeros k s = replicate (k - length s) (CHR ''0'') @ s"

definition fixed_digits :: "nat \<Rightarrow> nat \<Rightarrow> string" where
  "fixed_digits d n =
     (if d = 0 then show_nat n
      else show_nat (n div 10 ^ d) @ ''.'' @ pad_zeros d (show_nat (n mod 10 ^ d)))"

definition toFixed :: "nat \<Rightarrow> rat \<Rightarrow> string" where
  "toFixed d x =
     (if x < 0 then ''-'' @ fixed_digits d (nat \<lfloor>- x * 10 ^ d + 1 / 2\<rfloor>)
      else fixed_digits d (nat \<lfloor>x * 10 ^ d + 1 / 2\<rfloor>))"

subsection \<open>Arrays\<close>

text \<open>\<open>xs.slice(a, b)\<close>: negative indices count from the end, both are clamped.\<close>

definition rel_index :: "int \<Rightarrow> nat \<Rightarrow> nat" where
  "rel_index k n = (if k < 0 then nat (int n + k) else min (nat k) n)"

definition js_slice :: "int \<Rightarrow> int \<Rightarrow> 'a list \<Rightarrow> 'a list" where
  "js_slice a b xs =
     (let i = rel_index a (length xs); j = rel_index b (length xs) in take (j - i) (drop i xs))"

text \<open>
  \<open>[...xs].sort(cmp)\<close>: the stable sort, here by insertion from the right; a consistent
  comparator determines the result uniquely.
\<close>

fun insert_by :: "('a \<Rightarrow> 'a \<Rightarrow> int) \<Rightarrow> 'a \<Rightarrow> 'a list \<Rightarrow> 'a list" where
  "insert_by cmp x [] = [x]"
| "insert_by cmp x (y # ys) = (if cmp x y \<le> 0 then x # y # ys else y # insert_by cmp x ys)"

definition sort_by :: "('a \<Rightarrow> 'a \<Rightarrow> int) \<Rightarrow> 'a list \<Rightarrow> 'a list" where
  "sort_by cmp xs = foldr (insert_by cmp) xs []"

text \<open>The default comparator of \<open>sort()\<close>: code unit order of strings.\<close>

fun code_unit_compare :: "string \<Rightarrow> string \<Rightarrow> int" where
  "code_unit_compare [] [] = 0"
| "code_unit_compare [] (y # ys) = - 1"
| "code_unit_compare (x # xs) [] = 1"
| "code_unit_compare (x # xs) (y # ys) =
     (if (of_char x :: nat) < of_char y then - 1
      else if (of_char y :: nat) < of_char x then 1
      else code_unit_compare xs ys)"

text \<open>\<open>new Set(xs)\<close> keeps first occurrences in order; \<open>add\<close> and \<open>delete\<close>.\<close>

fun set_of_array :: "'a list \<Rightarrow> 'a list" where
  "set_of_array [] = []"
| "set_of_array (x # xs) = x # filter (\<lambda>y. y \<noteq> x) (set_of_array xs)"

definition set_add :: "'a \<Rightarrow> 'a list \<Rightarrow> 'a list" where
  "set_add x xs = (if x \<in> set xs then xs else xs @ [x])"

definition set_delete :: "'a \<Rightarrow> 'a list \<Rightarrow> 'a list" where
  "set_delete x xs = filter (\<lambda>y. y \<noteq> x) xs"

text \<open>Object with string keys in insertion order: \<open>{...o, [k]: v}\<close> and \<open>delete o[k]\<close>.\<close>

fun obj_set :: "'k \<Rightarrow> 'v \<Rightarrow> ('k \<times> 'v) list \<Rightarrow> ('k \<times> 'v) list" where
  "obj_set k v [] = [(k, v)]"
| "obj_set k v ((k', v') # ps) = (if k' = k then (k, v) # ps else (k', v') # obj_set k v ps)"

definition obj_delete :: "'k \<Rightarrow> ('k \<times> 'v) list \<Rightarrow> ('k \<times> 'v) list" where
  "obj_delete k ps = filter (\<lambda>p. fst p \<noteq> k) ps"

subsection \<open>Reachable states of an interface\<close>

inductive reach :: "('s \<Rightarrow> bool) \<Rightarrow> ('s \<Rightarrow> 's \<Rightarrow> bool) \<Rightarrow> 's \<Rightarrow> bool"
  for init :: "'s \<Rightarrow> bool" and step :: "'s \<Rightarrow> 's \<Rightarrow> bool" where
  reach_init: "init s \<Longrightarrow> reach init step s"
| reach_step: "reach init step s \<Longrightarrow> step s t \<Longrightarrow> reach init step t"

locale state_machine =
  fixes init :: "'s \<Rightarrow> bool" and step :: "'s \<Rightarrow> 's \<Rightarrow> bool" and inv :: "'s \<Rightarrow> bool"
  assumes inv_init: "init s \<Longrightarrow> inv s"
    and inv_step: "inv s \<Longrightarrow> step s t \<Longrightarrow> inv t"
begin

lemma reach_inv: "reach init step s \<Longrightarrow> inv s"
  by (induction rule: reach.induct) (auto intro: inv_init inv_step)

lemma reach_between: "reach init step s \<Longrightarrow> step s t \<Longrightarrow> inv s \<and> inv t"
  using reach_inv inv_step by blast

end

subsection \<open>Comparators\<close>

text \<open>
  The contract of a comparator: ECMAScript requires \<open>localeCompare\<close> and any function given to
  \<open>sort\<close> to be consistent.
\<close>

locale comparator =
  fixes cmp :: "'a \<Rightarrow> 'a \<Rightarrow> int"
  assumes cmp_antisym: "cmp x y \<le> 0 \<longleftrightarrow> 0 \<le> cmp y x"
    and cmp_trans: "cmp x y \<le> 0 \<Longrightarrow> cmp y z \<le> 0 \<Longrightarrow> cmp x z \<le> 0"
begin

lemma cmp_total: "cmp x y \<le> 0 \<or> cmp y x \<le> 0"
  using cmp_antisym by (meson linear)

lemma cmp_refl: "cmp x x \<le> 0"
  using cmp_total by blast

lemma comparator_flip: "comparator (\<lambda>x y. - cmp x y)"
proof
  show "(- cmp x y \<le> 0) = (0 \<le> - cmp y x)" for x y
    using cmp_antisym [of y x] by simp
  show "- cmp x y \<le> 0 \<Longrightarrow> - cmp y z \<le> 0 \<Longrightarrow> - cmp x z \<le> 0" for x y z
    using cmp_antisym cmp_trans by (metis neg_le_0_iff_le)
qed

lemma comparator_key: "comparator (\<lambda>x y. cmp (f x) (f y))"
proof
  show "(cmp (f x) (f y) \<le> 0) = (0 \<le> cmp (f y) (f x))" for x y by (rule cmp_antisym)
  show "cmp (f x) (f y) \<le> 0 \<Longrightarrow> cmp (f y) (f z) \<le> 0 \<Longrightarrow> cmp (f x) (f z) \<le> 0" for x y z
    by (rule cmp_trans)
qed

end

subsection \<open>Facts about strings and numbers\<close>

lemma length_to_case [simp]: "length (toLowerCase s) = length s" "length (toUpperCase s) = length s"
  by (simp_all add: toLowerCase_def toUpperCase_def)

lemma split_char_nonempty [simp]: "split_char c s \<noteq> []"
  by (induction s) (auto split: list.splits)

lemma join_split_char [simp]: "join_char c (split_char c s) = s"
proof (induction s)
  case (Cons x xs)
  obtain w ws where w: "split_char c xs = w # ws"
    by (meson list.exhaust split_char_nonempty)
  with Cons.IH show ?case by (cases ws) auto
qed simp

lemma split_char_no_sep: "c \<notin> set s \<Longrightarrow> split_char c s = [s]"
  by (induction s) auto

lemma split_char_app: "c \<notin> set w \<Longrightarrow> split_char c (w @ c # s) = w # split_char c s"
  by (induction w) (auto split: list.splits)

lemma split_join_char:
  "ws \<noteq> [] \<Longrightarrow> (\<And>w. w \<in> set ws \<Longrightarrow> c \<notin> set w) \<Longrightarrow> split_char c (join_char c ws) = ws"
proof (induction ws)
  case (Cons w ws)
  then show ?case by (cases ws) (auto simp: split_char_app split_char_no_sep)
qed simp

lemma of_char_digit [simp]: "d < 10 \<Longrightarrow> (of_char (digit_char d) :: nat) = 48 + d"
  by (simp add: digit_char_def)

lemma is_digit_digit_char [simp]: "d < 10 \<Longrightarrow> is_digit (digit_char d)"
  by (simp add: is_digit_def)

lemma digit_val_digit_char [simp]: "d < 10 \<Longrightarrow> digit_val (digit_char d) = d"
  by (simp add: digit_val_def)

lemma digits_val_append: "digits_val acc (xs @ ys) = digits_val (digits_val acc xs) ys"
  by (induction xs arbitrary: acc) auto

lemma show_nat_nonempty [simp]: "show_nat n \<noteq> []"
  by (subst show_nat.simps) simp

lemma show_nat_digits: "c \<in> set (show_nat n) \<Longrightarrow> is_digit c"
proof (induction n rule: show_nat.induct)
  case (1 n)
  then show ?case by (cases "n < 10") (auto simp: show_nat.simps [of n])
qed

lemma digits_val_show_nat [simp]: "digits_val 0 (show_nat n) = n"
proof (induction n rule: show_nat.induct)
  case (1 n)
  then show ?case by (cases "n < 10") (auto simp: show_nat.simps [of n] digits_val_append)
qed

lemma takeWhile_show_nat [simp]: "takeWhile is_digit (show_nat n) = show_nat n"
  by (simp add: show_nat_digits takeWhile_eq_all_conv)

lemma show_nat_Cons: "\<exists>c cs. show_nat n = c # cs \<and> is_digit c"
  by (metis list.exhaust list.set_intros(1) show_nat_digits show_nat_nonempty)

lemma digit_not_special:
  "is_digit c \<Longrightarrow> \<not> is_space c" "is_digit c \<Longrightarrow> c \<noteq> CHR ''-''" "is_digit c \<Longrightarrow> c \<noteq> CHR ''+''"
  "is_digit c \<Longrightarrow> c \<noteq> CHR ''/''"
  by (auto simp: is_digit_def is_space_def)

lemma parse_show_int: "parseInt10 (show_int n) = Some n"
proof (cases "n < 0")
  case True
  then show ?thesis
    by (simp add: show_int_def parseInt10_def is_space_def parse_digits_def)
next
  case False
  obtain c cs where c: "show_nat (nat n) = c # cs" "is_digit c"
    using show_nat_Cons by blast
  then have "takeWhile is_digit (c # cs) = c # cs" "digits_val 0 (c # cs) = nat n"
    by (metis takeWhile_show_nat) (metis c(1) digits_val_show_nat)
  then have "parse_digits (c # cs) = Some (nat n)"
    by (simp add: parse_digits_def del: digits_val.simps)
  with c False show ?thesis
    by (simp add: show_int_def parseInt10_def digit_not_special)
qed

lemma show_int_inj: "show_int m = show_int n \<longleftrightarrow> m = n"
  by (metis option.inject parse_show_int)

lemma show_int_no_slash: "CHR ''/'' \<notin> set (show_int n)"
  by (auto simp: show_int_def dest: show_nat_digits digit_not_special(4))

lemma show_int_nonempty [simp]: "show_int n \<noteq> []"
  by (simp add: show_int_def)

subsection \<open>Facts about arrays\<close>

lemma js_slice_nonneg:
  "0 \<le> a \<Longrightarrow> a \<le> b \<Longrightarrow> js_slice a b xs = take (nat (b - a)) (drop (nat a) xs)"
  by (auto simp: js_slice_def rel_index_def min_def nat_diff_distrib Let_def)

lemma mset_insert_by [simp]: "mset (insert_by cmp x xs) = add_mset x (mset xs)"
  by (induction xs) auto

lemma mset_sort_by [simp]: "mset (sort_by cmp xs) = mset xs"
  by (induction xs) (auto simp: sort_by_def)

lemma set_sort_by [simp]: "set (sort_by cmp xs) = set xs"
  by (metis mset_sort_by set_mset_mset)

lemma length_sort_by [simp]: "length (sort_by cmp xs) = length xs"
  by (metis mset_sort_by size_mset)

lemma distinct_sort_by [simp]: "distinct (sort_by cmp xs) = distinct xs"
  using mset_eq_imp_distinct_iff mset_sort_by by blast

lemma set_insert_by [simp]: "set (insert_by cmp x xs) = insert x (set xs)"
  by (metis mset_insert_by set_mset_add_mset_insert set_mset_mset)

lemma set_set_of_array [simp]: "set (set_of_array xs) = set xs"
  by (induction xs) auto

lemma distinct_set_of_array [simp]: "distinct (set_of_array xs)"
  by (induction xs) auto

lemma set_set_add [simp]: "set (set_add x xs) = insert x (set xs)"
  by (auto simp: set_add_def)

lemma distinct_set_add [simp]: "distinct xs \<Longrightarrow> distinct (set_add x xs)"
  by (auto simp: set_add_def)

lemma set_set_delete [simp]: "set (set_delete x xs) = set xs - {x}"
  by (auto simp: set_delete_def)

lemma distinct_set_delete [simp]: "distinct xs \<Longrightarrow> distinct (set_delete x xs)"
  by (simp add: set_delete_def)

lemma map_of_obj_set [simp]: "map_of (obj_set k v ps) = (map_of ps)(k \<mapsto> v)"
  by (induction ps) auto

lemma keys_obj_set [simp]: "fst ` set (obj_set k v ps) = insert k (fst ` set ps)"
proof (induction ps)
  case (Cons p ps)
  then show ?case by (cases p) (simp add: insert_commute)
qed simp

lemma distinct_obj_set [simp]: "distinct (map fst ps) \<Longrightarrow> distinct (map fst (obj_set k v ps))"
proof (induction ps)
  case (Cons p ps)
  then show ?case
    using keys_obj_set [of k v ps] by (cases p) (simp, blast)
qed simp

lemma map_of_obj_delete [simp]: "map_of (obj_delete k ps) = (map_of ps)(k := None)"
  by (induction ps) (auto simp: obj_delete_def fun_eq_iff)

context comparator
begin

lemma sorted_insert_by:
  "sorted_wrt (\<lambda>x y. cmp x y \<le> 0) xs \<Longrightarrow> sorted_wrt (\<lambda>x y. cmp x y \<le> 0) (insert_by cmp x xs)"
proof (induction xs)
  case (Cons y ys)
  then show ?case
    using cmp_total [of x y] by (auto intro: cmp_trans)
qed simp

lemma sorted_sort_by: "sorted_wrt (\<lambda>x y. cmp x y \<le> 0) (sort_by cmp xs)"
  by (induction xs) (auto simp: sort_by_def sorted_insert_by)

lemma cmp_eq_trans: "cmp x y = 0 \<Longrightarrow> cmp x z = 0 \<Longrightarrow> cmp z y \<le> 0"
  using cmp_antisym cmp_trans by (metis order_refl)

lemma filter_insert_by:
  "filter (\<lambda>y. cmp x y = 0) (insert_by cmp z xs) = filter (\<lambda>y. cmp x y = 0) (z # xs)"
  by (induction xs) (auto dest: cmp_eq_trans)

text \<open>Stability: equal elements keep their order.\<close>

lemma filter_sort_by: "filter (\<lambda>y. cmp x y = 0) (sort_by cmp xs) = filter (\<lambda>y. cmp x y = 0) xs"
proof (induction xs)
  case (Cons z xs)
  have "sort_by cmp (z # xs) = insert_by cmp z (sort_by cmp xs)" by (simp add: sort_by_def)
  with Cons show ?case by (simp add: filter_insert_by)
qed (simp add: sort_by_def)

end

lemma code_unit_antisym: "code_unit_compare x y = - code_unit_compare y x"
  by (induction x y rule: code_unit_compare.induct) auto

lemma code_unit_trans:
  "code_unit_compare x y \<le> 0 \<Longrightarrow> code_unit_compare y z \<le> 0 \<Longrightarrow> code_unit_compare x z \<le> 0"
proof (induction x z arbitrary: y rule: code_unit_compare.induct)
  case (3 x xs)
  then show ?case by (cases y) (auto split: if_splits)
next
  case (4 x xs z zs)
  then show ?case by (cases y) (auto split: if_splits)
qed auto

interpretation code_unit: comparator code_unit_compare
proof
  show "(code_unit_compare x y \<le> 0) = (0 \<le> code_unit_compare y x)" for x y
    using code_unit_antisym [of x y] by simp
qed (rule code_unit_trans)

end
