(* ===== verification/View.thy ===== *)
theory View
  imports Prelude
begin

text \<open>
  What a React component returns, as a tree: one \<open>El\<close> per JSX element with its tag, the
  properties that depend on data, and its event handlers.  A handler is not a function on the
  DOM but the action it dispatches, so that a page is a state, a set of actions and a handler
  per action.  Constant \<open>className\<close>, layout and ARIA properties are left out; a class name that
  is computed from data is kept: \<open>AClasses\<close> holds the arguments of \<open>cn\<close>, whose merging
  (tailwind-merge) is third-party.  \<open>AData\<close> holds the rows given to a chart, a label and numbers.

  \<open>offers\<close> collects the actions a user can trigger on a rendered tree.  It encodes what the
  widget library documents: a disabled control fires nothing, the content of a closed dialog is
  not mounted, a \<open>Select\<close> reports only the values of its items.  The panels of a \<open>Tabs\<close> all
  count, since switching panels is internal to the widget.
\<close>

subsection \<open>Trees\<close>

datatype attr =
    AStr string | ABool bool | AInt int | ANum rat | ANone
  | AClasses "string list"
  | AData "(string \<times> rat list) list"

datatype 'a handler = Do 'a | OnText "string \<Rightarrow> 'a" | OnBool "bool \<Rightarrow> 'a"

datatype 'a node =
    Text string
  | El string "(string \<times> attr) list" "(string \<times> 'a handler) list" "'a node list"

text \<open>Abbreviations for the common element shapes.\<close>

definition el :: "string \<Rightarrow> 'a node list \<Rightarrow> 'a node" where
  "el t cs = El t [] [] cs"

definition icon :: "string \<Rightarrow> 'a node" where
  "icon t = El t [] [] []"

definition on_click :: "string \<Rightarrow> (string \<times> attr) list \<Rightarrow> 'a \<Rightarrow> 'a node list \<Rightarrow> 'a node" where
  "on_click t as a cs = El t as [(''onClick'', Do a)] cs"

text \<open>\<open>{cond && node}\<close> as a list of children.\<close>

definition shown :: "bool \<Rightarrow> 'a node \<Rightarrow> 'a node list" where
  "shown c n = (if c then [n] else [])"

subsection \<open>What a user can do, what a user can read\<close>

definition attr_of :: "string \<Rightarrow> (string \<times> attr) list \<Rightarrow> attr" where
  "attr_of k as = (case map_of as k of Some v \<Rightarrow> v | None \<Rightarrow> ANone)"

definition is_disabled :: "(string \<times> attr) list \<Rightarrow> bool" where
  "is_disabled as \<longleftrightarrow> attr_of ''disabled'' as = ABool True"

definition closed_dialog :: "string \<Rightarrow> (string \<times> attr) list \<Rightarrow> bool" where
  "closed_dialog t as \<longleftrightarrow>
     t \<in> set [''Dialog'', ''AlertDialog'', ''CommandDialog'', ''Sheet''] \<and> attr_of ''open'' as = ABool False"

definition dialog_content :: "string \<Rightarrow> bool" where
  "dialog_content t \<longleftrightarrow> t \<in> set [''DialogContent'', ''AlertDialogContent'', ''CommandInput'', ''CommandList'', ''SheetContent'']"

fun item_values :: "'a node \<Rightarrow> string list" where
  "item_values (Text s) = []"
| "item_values (El t as hs cs) =
     (if t = ''SelectItem'' then (case attr_of ''value'' as of AStr v \<Rightarrow> [v] | _ \<Rightarrow> [])
      else concat (map item_values cs))"

fun handler_actions :: "string \<Rightarrow> 'a node list \<Rightarrow> 'a handler \<Rightarrow> 'a set" where
  "handler_actions t cs (Do a) = {a}"
| "handler_actions t cs (OnBool f) = {f True, f False}"
| "handler_actions t cs (OnText f) =
     (if t = ''Select'' then f ` set (concat (map item_values cs)) else range f)"

fun offers_in :: "bool \<Rightarrow> 'a node \<Rightarrow> 'a set" where
  "offers_in hid (Text s) = {}"
| "offers_in hid (El t as hs cs) =
     (if hid \<and> dialog_content t then {}
      else (if is_disabled as then {} else (\<Union>h \<in> set hs. handler_actions t cs (snd h)))
         \<union> (\<Union>c \<in> set cs. offers_in (closed_dialog t as) c))"

definition offers :: "'a node \<Rightarrow> 'a set" where
  "offers n = offers_in False n"

fun texts :: "'a node \<Rightarrow> string list" where
  "texts (Text s) = [s]"
| "texts (El t as hs cs) = concat (map texts cs)"

fun tags :: "'a node \<Rightarrow> string list" where
  "tags (Text s) = []"
| "tags (El t as hs cs) = t # concat (map tags cs)"

subsection \<open>Effects of handlers\<close>

text \<open>
  The calls a handler makes on its environment, in order.  A query key is the list given to
  TanStack Query; \<open>KUndef\<close> is an \<open>undefined\<close> component.
\<close>

datatype key_part = KStr string | KInt int | KUndef

type_synonym query_key = "key_part list"

datatype effect =
    ToastSuccess string
  | ToastError string
  | InvalidateQueries query_key
  | RouterPush string
  | ClipboardWrite string
  | SetTimeout int string
  | StorageSet string string
  | SetTheme string
  | Download string string string
  | Refetch query_key
  | Mutate string "string list"
  | SignIn string
  | SignInTo string string
  | SignOut
  | LocationHref string
  | SetCookie string
  | ScrollToTop

definition opt_key :: "int option \<Rightarrow> key_part" where
  "opt_key i = (case i of Some n \<Rightarrow> KInt n | None \<Rightarrow> KUndef)"

subsection \<open>Rules for \<open>offers\<close> and \<open>texts\<close>\<close>

lemma mem_if: "x \<in> (if b then A else B) \<longleftrightarrow> (b \<and> x \<in> A) \<or> (\<not> b \<and> x \<in> B)"
  by simp

lemma offers_Text [simp]: "offers (Text s) = {}"
  by (simp add: offers_def)

lemma offers_in_open: "\<not> hid \<or> \<not> dialog_content t \<Longrightarrow>
  offers_in hid (El t as hs cs) = offers_in False (El t as hs cs)"
  by auto

lemma offers_El:
  "offers (El t as hs cs) =
     (if is_disabled as then {} else (\<Union>h \<in> set hs. handler_actions t cs (snd h)))
     \<union> (\<Union>c \<in> set cs. offers_in (closed_dialog t as) c)"
  by (simp add: offers_def)

lemma offers_in_el [simp]:
  "offers_in hid (el t cs) =
     (if hid \<and> dialog_content t then {} else \<Union>c \<in> set cs. offers_in (closed_dialog t []) c)"
  by (simp add: el_def)

lemma closed_dialog_Nil [simp]: "closed_dialog t [] = False"
  by (simp add: closed_dialog_def attr_of_def)

lemma is_disabled_Nil [simp]: "is_disabled [] = False"
  by (simp add: is_disabled_def attr_of_def)

lemma offers_in_icon [simp]: "offers_in hid (icon t) = {}"
  by (simp add: icon_def)

lemma offers_in_on_click [simp]:
  "offers_in hid (on_click t as a cs) =
     (if hid \<and> dialog_content t then {}
      else (if is_disabled as then {} else {a}) \<union> (\<Union>c \<in> set cs. offers_in (closed_dialog t as) c))"
  by (simp add: on_click_def)

lemma set_shown [simp]: "set (shown c n) = (if c then {n} else {})"
  by (simp add: shown_def)

lemma is_disabled_Cons [simp]:
  "is_disabled ((k, v) # as) = (if k = ''disabled'' then v = ABool True else is_disabled as)"
  by (simp add: is_disabled_def attr_of_def)

lemma attr_of_Cons [simp]: "attr_of k ((k', v) # as) = (if k' = k then v else attr_of k as)"
  by (simp add: attr_of_def)

lemma attr_of_Nil [simp]: "attr_of k [] = ANone"
  by (simp add: attr_of_def)

lemma texts_el [simp]: "texts (el t cs) = concat (map texts cs)"
  by (simp add: el_def)

lemma texts_icon [simp]: "texts (icon t) = []"
  by (simp add: icon_def)

lemma texts_on_click [simp]: "texts (on_click t as a cs) = concat (map texts cs)"
  by (simp add: on_click_def)

lemma item_values_icon [simp]: "item_values (icon t) = []"
  by (simp add: icon_def)

lemma item_values_el [simp]: "t \<noteq> ''SelectItem'' \<Longrightarrow> item_values (el t cs) = concat (map item_values cs)"
  by (simp add: el_def)

text \<open>The tags the pages use, evaluated once.\<close>

lemma dialog_content_tags [simp]:
  "\<not> dialog_content ''div''"
  "\<not> dialog_content ''span''"
  "\<not> dialog_content ''p''"
  "\<not> dialog_content ''h1''"
  "\<not> dialog_content ''h2''"
  "\<not> dialog_content ''h3''"
  "\<not> dialog_content ''code''"
  "\<not> dialog_content ''pre''"
  "\<not> dialog_content ''nav''"
  "\<not> dialog_content ''a''"
  "\<not> dialog_content ''button''"
  "\<not> dialog_content ''kbd''"
  "\<not> dialog_content ''dl''"
  "\<not> dialog_content ''dt''"
  "\<not> dialog_content ''dd''"
  "\<not> dialog_content ''tr''"
  "\<not> dialog_content ''td''"
  "\<not> dialog_content ''svg''"
  "\<not> dialog_content ''header''"
  "\<not> dialog_content ''main''"
  "\<not> dialog_content ''hr''"
  "\<not> dialog_content ''Fragment''"
  "\<not> dialog_content ''Link''"
  "\<not> dialog_content ''Button''"
  "\<not> dialog_content ''Badge''"
  "\<not> dialog_content ''Input''"
  "\<not> dialog_content ''Textarea''"
  "\<not> dialog_content ''Label''"
  "\<not> dialog_content ''Checkbox''"
  "\<not> dialog_content ''Switch''"
  "\<not> dialog_content ''Select''"
  "\<not> dialog_content ''SelectTrigger''"
  "\<not> dialog_content ''SelectValue''"
  "\<not> dialog_content ''SelectContent''"
  "\<not> dialog_content ''SelectItem''"
  "\<not> dialog_content ''Table''"
  "\<not> dialog_content ''TableHeader''"
  "\<not> dialog_content ''TableRow''"
  "\<not> dialog_content ''TableHead''"
  "\<not> dialog_content ''TableBody''"
  "\<not> dialog_content ''TableCell''"
  "\<not> dialog_content ''Card''"
  "\<not> dialog_content ''CardHeader''"
  "\<not> dialog_content ''CardTitle''"
  "\<not> dialog_content ''CardDescription''"
  "\<not> dialog_content ''CardContent''"
  "\<not> dialog_content ''Tabs''"
  "\<not> dialog_content ''TabsList''"
  "\<not> dialog_content ''TabsTrigger''"
  "\<not> dialog_content ''TabsContent''"
  "\<not> dialog_content ''Dialog''"
  "\<not> dialog_content ''DialogTrigger''"
  "\<not> dialog_content ''DialogHeader''"
  "\<not> dialog_content ''DialogTitle''"
  "\<not> dialog_content ''DialogDescription''"
  "\<not> dialog_content ''DialogFooter''"
  "\<not> dialog_content ''AlertDialog''"
  "\<not> dialog_content ''AlertDialogHeader''"
  "\<not> dialog_content ''AlertDialogTitle''"
  "\<not> dialog_content ''AlertDialogDescription''"
  "\<not> dialog_content ''AlertDialogFooter''"
  "\<not> dialog_content ''AlertDialogCancel''"
  "\<not> dialog_content ''AlertDialogAction''"
  "\<not> dialog_content ''DropdownMenu''"
  "\<not> dialog_content ''DropdownMenuTrigger''"
  "\<not> dialog_content ''DropdownMenuContent''"
  "\<not> dialog_content ''DropdownMenuItem''"
  "\<not> dialog_content ''DropdownMenuSeparator''"
  "\<not> dialog_content ''DropdownMenuLabel''"
  "\<not> dialog_content ''ScrollArea''"
  "\<not> dialog_content ''Editor''"
  "\<not> dialog_content ''Avatar''"
  "\<not> dialog_content ''AvatarFallback''"
  "\<not> dialog_content ''Tooltip''"
  "\<not> dialog_content ''TooltipTrigger''"
  "\<not> dialog_content ''TooltipContent''"
  "\<not> dialog_content ''Suspense''"
  "\<not> dialog_content ''OrgSwitcher''"
  "\<not> dialog_content ''CommandPalette''"
  "\<not> dialog_content ''UserMenu''"
  "\<not> dialog_content ''Sparkline''"
  "\<not> dialog_content ''MiniRingChart''"
  "\<not> dialog_content ''FleetHealthChart''"
  "\<not> dialog_content ''ResourceUtilizationChart''"
  "\<not> dialog_content ''DeviceResourceChart''"
  "\<not> dialog_content ''CommandDialog''"
  "\<not> dialog_content ''CommandItem''"
  "\<not> dialog_content ''CommandGroup''"
  "\<not> dialog_content ''CommandEmpty''"
  "\<not> dialog_content ''CommandSeparator''"
  "\<not> dialog_content ''Sheet''"
  "\<not> dialog_content ''SheetTrigger''"
  "\<not> dialog_content ''SheetTitle''"
  "dialog_content ''DialogContent''"
  "dialog_content ''AlertDialogContent''"
  "dialog_content ''CommandInput''"
  "dialog_content ''CommandList''"
  "dialog_content ''SheetContent''"
  by (simp_all add: dialog_content_def)

lemma closed_dialog_tags [simp]:
  "\<not> closed_dialog ''div'' as"
  "\<not> closed_dialog ''span'' as"
  "\<not> closed_dialog ''p'' as"
  "\<not> closed_dialog ''h1'' as"
  "\<not> closed_dialog ''h2'' as"
  "\<not> closed_dialog ''h3'' as"
  "\<not> closed_dialog ''code'' as"
  "\<not> closed_dialog ''pre'' as"
  "\<not> closed_dialog ''nav'' as"
  "\<not> closed_dialog ''a'' as"
  "\<not> closed_dialog ''button'' as"
  "\<not> closed_dialog ''kbd'' as"
  "\<not> closed_dialog ''dl'' as"
  "\<not> closed_dialog ''dt'' as"
  "\<not> closed_dialog ''dd'' as"
  "\<not> closed_dialog ''tr'' as"
  "\<not> closed_dialog ''td'' as"
  "\<not> closed_dialog ''svg'' as"
  "\<not> closed_dialog ''header'' as"
  "\<not> closed_dialog ''main'' as"
  "\<not> closed_dialog ''hr'' as"
  "\<not> closed_dialog ''Fragment'' as"
  "\<not> closed_dialog ''Link'' as"
  "\<not> closed_dialog ''Button'' as"
  "\<not> closed_dialog ''Badge'' as"
  "\<not> closed_dialog ''Input'' as"
  "\<not> closed_dialog ''Textarea'' as"
  "\<not> closed_dialog ''Label'' as"
  "\<not> closed_dialog ''Checkbox'' as"
  "\<not> closed_dialog ''Switch'' as"
  "\<not> closed_dialog ''Select'' as"
  "\<not> closed_dialog ''SelectTrigger'' as"
  "\<not> closed_dialog ''SelectValue'' as"
  "\<not> closed_dialog ''SelectContent'' as"
  "\<not> closed_dialog ''SelectItem'' as"
  "\<not> closed_dialog ''Table'' as"
  "\<not> closed_dialog ''TableHeader'' as"
  "\<not> closed_dialog ''TableRow'' as"
  "\<not> closed_dialog ''TableHead'' as"
  "\<not> closed_dialog ''TableBody'' as"
  "\<not> closed_dialog ''TableCell'' as"
  "\<not> closed_dialog ''Card'' as"
  "\<not> closed_dialog ''CardHeader'' as"
  "\<not> closed_dialog ''CardTitle'' as"
  "\<not> closed_dialog ''CardDescription'' as"
  "\<not> closed_dialog ''CardContent'' as"
  "\<not> closed_dialog ''Tabs'' as"
  "\<not> closed_dialog ''TabsList'' as"
  "\<not> closed_dialog ''TabsTrigger'' as"
  "\<not> closed_dialog ''TabsContent'' as"
  "\<not> closed_dialog ''DialogTrigger'' as"
  "\<not> closed_dialog ''DialogHeader'' as"
  "\<not> closed_dialog ''DialogTitle'' as"
  "\<not> closed_dialog ''DialogDescription'' as"
  "\<not> closed_dialog ''DialogFooter'' as"
  "\<not> closed_dialog ''AlertDialogHeader'' as"
  "\<not> closed_dialog ''AlertDialogTitle'' as"
  "\<not> closed_dialog ''AlertDialogDescription'' as"
  "\<not> closed_dialog ''AlertDialogFooter'' as"
  "\<not> closed_dialog ''AlertDialogCancel'' as"
  "\<not> closed_dialog ''AlertDialogAction'' as"
  "\<not> closed_dialog ''DropdownMenu'' as"
  "\<not> closed_dialog ''DropdownMenuTrigger'' as"
  "\<not> closed_dialog ''DropdownMenuContent'' as"
  "\<not> closed_dialog ''DropdownMenuItem'' as"
  "\<not> closed_dialog ''DropdownMenuSeparator'' as"
  "\<not> closed_dialog ''DropdownMenuLabel'' as"
  "\<not> closed_dialog ''ScrollArea'' as"
  "\<not> closed_dialog ''Editor'' as"
  "\<not> closed_dialog ''Avatar'' as"
  "\<not> closed_dialog ''AvatarFallback'' as"
  "\<not> closed_dialog ''Tooltip'' as"
  "\<not> closed_dialog ''TooltipTrigger'' as"
  "\<not> closed_dialog ''TooltipContent'' as"
  "\<not> closed_dialog ''Suspense'' as"
  "\<not> closed_dialog ''OrgSwitcher'' as"
  "\<not> closed_dialog ''CommandPalette'' as"
  "\<not> closed_dialog ''UserMenu'' as"
  "\<not> closed_dialog ''Sparkline'' as"
  "\<not> closed_dialog ''MiniRingChart'' as"
  "\<not> closed_dialog ''FleetHealthChart'' as"
  "\<not> closed_dialog ''ResourceUtilizationChart'' as"
  "\<not> closed_dialog ''DeviceResourceChart'' as"
  "\<not> closed_dialog ''CommandItem'' as"
  "\<not> closed_dialog ''CommandGroup'' as"
  "\<not> closed_dialog ''CommandEmpty'' as"
  "\<not> closed_dialog ''CommandSeparator'' as"
  "\<not> closed_dialog ''SheetTrigger'' as"
  "\<not> closed_dialog ''SheetContent'' as"
  "\<not> closed_dialog ''SheetTitle'' as"
  "\<not> closed_dialog ''DialogContent'' as"
  "\<not> closed_dialog ''AlertDialogContent'' as"
  "\<not> closed_dialog ''CommandInput'' as"
  "\<not> closed_dialog ''CommandList'' as"
  "closed_dialog ''Dialog'' as = (attr_of ''open'' as = ABool False)"
  "closed_dialog ''AlertDialog'' as = (attr_of ''open'' as = ABool False)"
  "closed_dialog ''Sheet'' as = (attr_of ''open'' as = ABool False)"
  "closed_dialog ''CommandDialog'' as = (attr_of ''open'' as = ABool False)"
  by (simp_all add: closed_dialog_def)

end
