(* ===== verification/Url.thy ===== *)
theory Url
  imports Prelude
begin

text \<open>
  Percent-encoding and query strings: \<open>encodeURIComponent\<close>, \<open>decodeURIComponent\<close> and
  \<open>URLSearchParams\<close> as the WHATWG and ECMAScript standards define them (one character is one
  byte).  The reader of a query string, \<open>parse_query\<close>, is the standard's
  \<open>application/x-www-form-urlencoded\<close> parser: it is what the controller's framework applies to
  the URLs the dashboard builds, and the reference point of the round-trip theorems.
\<close>

subsection \<open>Encoders\<close>

definition hex_digit :: "nat \<Rightarrow> char" where
  "hex_digit d = (if d < 10 then char_of (48 + d :: nat) else char_of (55 + d :: nat))"

definition pct :: "char \<Rightarrow> string" where
  "pct c = [CHR ''%'', hex_digit (of_char c div 16), hex_digit (of_char c mod 16)]"

definition is_alnum :: "char \<Rightarrow> bool" where
  "is_alnum c \<longleftrightarrow> (let n = of_char c :: nat in
     48 \<le> n \<and> n \<le> 57 \<or> 65 \<le> n \<and> n \<le> 90 \<or> 97 \<le> n \<and> n \<le> 122)"

definition uri_safe :: "char \<Rightarrow> bool" where
  "uri_safe c \<longleftrightarrow> is_alnum c \<or> (of_char c :: nat) \<in> {45, 95, 46, 33, 126, 42, 39, 40, 41}"

definition form_safe :: "char \<Rightarrow> bool" where
  "form_safe c \<longleftrightarrow> is_alnum c \<or> (of_char c :: nat) \<in> {42, 45, 46, 95}"

definition encodeURIComponent :: "string \<Rightarrow> string" where
  "encodeURIComponent s = concat (map (\<lambda>c. if uri_safe c then [c] else pct c) s)"

definition form_encode_char :: "char \<Rightarrow> string" where
  "form_encode_char c =
     (if form_safe c then [c] else if c = CHR '' '' then ''+'' else pct c)"

definition form_encode :: "string \<Rightarrow> string" where
  "form_encode s = concat (map form_encode_char s)"

text \<open>\<open>new URLSearchParams(ps).toString()\<close>.\<close>

definition search_params :: "(string \<times> string) list \<Rightarrow> string" where
  "search_params ps =
     join_char (CHR ''&'') (map (\<lambda>(k, v). form_encode k @ ''='' @ form_encode v) ps)"

subsection \<open>Decoders\<close>

definition is_hex :: "char \<Rightarrow> bool" where
  "is_hex c \<longleftrightarrow> (let n = of_char c :: nat in
     48 \<le> n \<and> n \<le> 57 \<or> 65 \<le> n \<and> n \<le> 70 \<or> 97 \<le> n \<and> n \<le> 102)"

definition hex_val :: "char \<Rightarrow> nat" where
  "hex_val c = (let n = of_char c :: nat in
     if n \<le> 57 then n - 48 else if n \<le> 70 then n - 55 else n - 87)"

text \<open>\<open>None\<close> is the URIError that a malformed escape raises.\<close>

fun decodeURIComponent :: "string \<Rightarrow> string option" where
  "decodeURIComponent [] = Some []"
| "decodeURIComponent (c # cs) =
     (if c = CHR ''%''
      then (case cs of
              a # b # r \<Rightarrow>
                if is_hex a \<and> is_hex b
                then map_option ((#) (char_of (16 * hex_val a + hex_val b))) (decodeURIComponent r)
                else None
            | _ \<Rightarrow> None)
      else map_option ((#) c) (decodeURIComponent cs))"

fun form_decode :: "string \<Rightarrow> string" where
  "form_decode [] = []"
| "form_decode (c # cs) =
     (if c = CHR ''+'' then CHR '' '' # form_decode cs
      else if c = CHR ''%''
      then (case cs of
              a # b # r \<Rightarrow>
                if is_hex a \<and> is_hex b
                then char_of (16 * hex_val a + hex_val b) # form_decode r
                else c # form_decode cs
            | _ \<Rightarrow> c # form_decode cs)
      else c # form_decode cs)"

definition parse_pair :: "string \<Rightarrow> string \<times> string" where
  "parse_pair s =
     (form_decode (takeWhile (\<lambda>c. c \<noteq> CHR ''='') s),
      form_decode (drop 1 (dropWhile (\<lambda>c. c \<noteq> CHR ''='') s)))"

definition parse_query :: "string \<Rightarrow> (string \<times> string) list" where
  "parse_query s = map parse_pair (filter (\<lambda>w. w \<noteq> []) (split_char (CHR ''&'') s))"

subsection \<open>Round trips\<close>

lemma hex_digit_props:
  assumes "d < 16"
  shows "is_hex (hex_digit d)" "hex_val (hex_digit d) = d"
  using assms by (auto simp: is_hex_def hex_val_def hex_digit_def Let_def)

lemma of_char_bound: "(of_char c :: nat) < 256"
  by (metis nat_of_char_less_256)

lemma pct_decodes:
  "char_of (16 * hex_val (hex_digit (of_char c div 16)) + hex_val (hex_digit (of_char c mod 16))) = c"
  using of_char_bound [of c] by (simp add: hex_digit_props less_mult_imp_div_less)

lemma pct_hex: "is_hex (hex_digit (of_char c div 16))" "is_hex (hex_digit (of_char c mod 16))"
  using of_char_bound [of c] by (simp_all add: hex_digit_props less_mult_imp_div_less)

lemma uri_safe_not_pct: "uri_safe c \<Longrightarrow> c \<noteq> CHR ''%''"
  by (auto simp: uri_safe_def is_alnum_def Let_def)

lemma form_safe_plain:
  "form_safe c \<Longrightarrow> c \<noteq> CHR ''%'' \<and> c \<noteq> CHR ''+'' \<and> c \<noteq> CHR ''&'' \<and> c \<noteq> CHR ''=''"
  by (auto simp: form_safe_def is_alnum_def Let_def)

lemma decode_encode_URIComponent: "decodeURIComponent (encodeURIComponent s) = Some s"
proof (induction s)
  case (Cons c s)
  then show ?case
    using uri_safe_not_pct [of c]
    by (auto simp: encodeURIComponent_def pct_def pct_hex pct_decodes)
qed (simp add: encodeURIComponent_def)

lemma form_decode_char: "form_decode (form_encode_char c @ s) = c # form_decode s"
  using form_safe_plain [of c]
  by (auto simp: form_encode_char_def pct_def pct_hex pct_decodes)

lemma form_decode_encode [simp]: "form_decode (form_encode s) = s"
  by (induction s) (simp_all add: form_encode_def form_decode_char)

lemma hex_digit_plain: "d < 16 \<Longrightarrow> hex_digit d \<noteq> CHR ''&'' \<and> hex_digit d \<noteq> CHR ''=''"
  using hex_digit_props(1) [of d] by (auto simp: is_hex_def Let_def)

lemma form_encode_plain: "CHR ''&'' \<notin> set (form_encode s)" "CHR ''='' \<notin> set (form_encode s)"
proof -
  have "x \<noteq> CHR ''&'' \<and> x \<noteq> CHR ''=''" if "x \<in> set (form_encode_char c)" for x c
    using that form_safe_plain [of c] less_mult_imp_div_less [of "of_char c" 16 16] of_char_bound [of c]
      hex_digit_plain [of "of_char c div 16"] hex_digit_plain [of "of_char c mod 16"]
    by (auto simp: form_encode_char_def pct_def split: if_splits)
  then show "CHR ''&'' \<notin> set (form_encode s)" "CHR ''='' \<notin> set (form_encode s)"
    by (auto simp: form_encode_def)
qed

lemma takeWhile_no_eq: "CHR ''='' \<notin> set a \<Longrightarrow> takeWhile (\<lambda>c. c \<noteq> CHR ''='') (a @ CHR ''='' # b) = a"
  by (induction a) auto

lemma dropWhile_no_eq:
  "CHR ''='' \<notin> set a \<Longrightarrow> dropWhile (\<lambda>c. c \<noteq> CHR ''='') (a @ CHR ''='' # b) = CHR ''='' # b"
  by (induction a) auto

lemma parse_pair_encode: "parse_pair (form_encode k @ CHR ''='' # form_encode v) = (k, v)"
  by (simp add: parse_pair_def takeWhile_no_eq dropWhile_no_eq form_encode_plain)

text \<open>Reading back a query string gives exactly the parameters that were put in, in order.\<close>

lemma parse_search_params: "parse_query (search_params ps) = ps"
proof (cases "ps = []")
  case False
  let ?w = "\<lambda>(k, v). form_encode k @ ''='' @ form_encode v"
  have "split_char (CHR ''&'') (search_params ps) = map ?w ps"
    unfolding search_params_def
    by (rule split_join_char) (use False in \<open>auto simp: form_encode_plain\<close>)
  moreover have "filter (\<lambda>w. w \<noteq> []) (map ?w ps) = map ?w ps"
    by (auto simp: filter_id_conv)
  moreover have "map (parse_pair \<circ> ?w) ps = ps"
    by (rule map_idI) (auto simp: parse_pair_encode)
  ultimately show ?thesis by (simp add: parse_query_def)
qed (simp add: parse_query_def search_params_def)

lemma search_params_inj: "search_params ps = search_params qs \<longleftrightarrow> ps = qs"
  by (metis parse_search_params)

end
