(* ===== verification/ApiClient.thy ===== *)
theory ApiClient
  imports View Url
begin

text \<open>
  The HTTP client of the dashboard: src/ui/lib/api-client.ts and src/ui/lib/api/*.ts.

  The environment is a record: the base URL (\<open>NEXT_PUBLIC_API_URL\<close>, \<open>''''\<close> when unset) and the
  platform's \<open>fetch\<close>, a parameter that maps a world state and a request to a new world state and
  either a rejection or a response.  An asynchronous function is a state transformer on the world
  that ends in an error value or a JSON value (\<open>None\<close> is \<open>undefined\<close>).  The type arguments of
  \<open>apiFetch<T>\<close> are erased at run time, so the model returns the JSON value.  A request body is
  kept as the value given to \<open>JSON.stringify\<close>.
\<close>

subsection \<open>JSON values, requests, responses\<close>

datatype json =
    JNull | JBool bool | JNum rat | JStr string | JArr "json list" | JObj "(string \<times> json) list"

record request =
  rq_url :: string
  rq_method :: "string option"
  rq_headers :: "(string \<times> string) list"
  rq_body :: "json option"

record response =
  rs_status :: nat
  rs_statusText :: string
  rs_text :: string
  rs_json :: "json option"

text \<open>\<open>response.ok\<close> of the Fetch standard.\<close>

definition rs_ok :: "response \<Rightarrow> bool" where
  "rs_ok r \<longleftrightarrow> 200 \<le> rs_status r \<and> rs_status r \<le> 299"

text \<open>What a call rejects with: an ApiError, a rejected \<open>fetch\<close>, or a body that is not JSON.\<close>

datatype failure = ApiError nat string | NetworkError string | SyntaxError

fun err_message :: "failure \<Rightarrow> string" where
  "err_message (ApiError status message) = message"
| "err_message (NetworkError message) = message"
| "err_message SyntaxError = ''Unexpected token''"

type_synonym 'w fetch = "'w \<Rightarrow> request \<Rightarrow> 'w \<times> (string + response)"

record 'w env =
  env_base :: string
  env_fetch :: "'w fetch"

type_synonym 'w call = "'w \<Rightarrow> 'w \<times> (failure + json option)"

subsection \<open>api-client.ts\<close>

definition absoluteUrl :: "string \<Rightarrow> string \<Rightarrow> string" where
  "absoluteUrl base path = base @ path"

record fetch_options =
  fo_method :: "string option"
  fo_headers :: "(string \<times> string) list"
  fo_token :: "string option"
  fo_body :: "json option"

definition options_get :: "string \<Rightarrow> fetch_options" where
  "options_get token = \<lparr>fo_method = None, fo_headers = [], fo_token = Some token, fo_body = None\<rparr>"

definition options_method :: "string \<Rightarrow> string \<Rightarrow> fetch_options" where
  "options_method m token = (options_get token)\<lparr>fo_method := Some m\<rparr>"

definition options_body :: "string \<Rightarrow> string \<Rightarrow> json \<Rightarrow> fetch_options" where
  "options_body m token b = (options_method m token)\<lparr>fo_body := Some b\<rparr>"

text \<open>A string is truthy when it is not empty.\<close>

definition truthy :: "string option \<Rightarrow> bool" where
  "truthy s \<longleftrightarrow> s \<noteq> None \<and> s \<noteq> Some []"

definition request_headers :: "fetch_options \<Rightarrow> (string \<times> string) list" where
  "request_headers o1 =
     (let hs = fold (\<lambda>(k, v). obj_set k v) (fo_headers o1) [(''Content-Type'', ''application/json'')]
      in case fo_token o1 of
           Some t \<Rightarrow> if t \<noteq> [] then obj_set ''Authorization'' (''Bearer '' @ t) hs else hs
         | None \<Rightarrow> hs)"

definition build_request :: "string \<Rightarrow> string \<Rightarrow> fetch_options \<Rightarrow> request" where
  "build_request base path o1 =
     \<lparr>rq_url = absoluteUrl base path, rq_method = fo_method o1,
      rq_headers = request_headers o1, rq_body = fo_body o1\<rparr>"

definition rawFetch :: "'w env \<Rightarrow> string \<Rightarrow> fetch_options \<Rightarrow> 'w \<Rightarrow> 'w \<times> (failure + response)" where
  "rawFetch e path o1 w =
     (case env_fetch e w (build_request (env_base e) path o1) of
        (w', Inl msg) \<Rightarrow> (w', Inl (NetworkError msg))
      | (w', Inr r) \<Rightarrow>
          if \<not> rs_ok r
          then (w', Inl (ApiError (rs_status r) (if rs_text r \<noteq> [] then rs_text r else rs_statusText r)))
          else (w', Inr r))"

definition apiFetch :: "'w env \<Rightarrow> string \<Rightarrow> fetch_options \<Rightarrow> 'w call" where
  "apiFetch e path o1 w =
     (case rawFetch e path o1 w of
        (w', Inl f) \<Rightarrow> (w', Inl f)
      | (w', Inr r) \<Rightarrow>
          if rs_status r = 204 then (w', Inr None)
          else (case rs_json r of
                  Some j \<Rightarrow> (w', Inr (Some j))
                | None \<Rightarrow> (w', Inl SyntaxError)))"

definition apiFetchText :: "'w env \<Rightarrow> string \<Rightarrow> fetch_options \<Rightarrow> 'w \<Rightarrow> 'w \<times> (failure + string)" where
  "apiFetchText e path o1 w =
     (case rawFetch e path o1 w of
        (w', Inl f) \<Rightarrow> (w', Inl f)
      | (w', Inr r) \<Rightarrow> (w', Inr (rs_text r)))"

subsection \<open>endpoints.ts\<close>

definition api_path :: "string \<Rightarrow> string" where
  "api_path sfx = ''/api/v1'' @ sfx"

text \<open>One constructor per member of the \<open>endpoints\<close> object.\<close>

datatype endpoint =
    Me
  | OrganizationGet | OrganizationUpdate | OrganizationAuditLog
  | MembersList | MembersCreate | MembersById int
  | InvitationsList | InvitationsById int
  | ApiKeysList | ApiKeysCreate | ApiKeysById int
  | EnrollmentTokensList | EnrollmentTokensCreate | EnrollmentTokensById int
  | DevicesList | DevicesCount | DevicesById string | DevicesManifest string
  | DevicesLabels string | DevicesLogs string | DevicesTelemetry string
  | DevicesTelemetryHourly string | ShellSessions string | ShellWs
  | CertificatesList | CertificatesCa | CertificatesRevoke int
  | CertRequestsList | CertRequestsApprove int | CertRequestsReject int
  | AgentInstaller

fun endpoint_path :: "endpoint \<Rightarrow> string" where
  "endpoint_path Me = api_path ''/me''"
| "endpoint_path OrganizationGet = api_path ''/organization''"
| "endpoint_path OrganizationUpdate = api_path ''/organization''"
| "endpoint_path OrganizationAuditLog = api_path ''/organization/audit-log''"
| "endpoint_path MembersList = api_path ''/organization/members''"
| "endpoint_path MembersCreate = api_path ''/organization/members''"
| "endpoint_path (MembersById i) = api_path (''/organization/members/'' @ show_int i)"
| "endpoint_path InvitationsList = api_path ''/organization/invitations''"
| "endpoint_path (InvitationsById i) = api_path (''/organization/invitations/'' @ show_int i)"
| "endpoint_path ApiKeysList = api_path ''/api-keys''"
| "endpoint_path ApiKeysCreate = api_path ''/api-keys''"
| "endpoint_path (ApiKeysById i) = api_path (''/api-keys/'' @ show_int i)"
| "endpoint_path EnrollmentTokensList = api_path ''/enrollment-tokens''"
| "endpoint_path EnrollmentTokensCreate = api_path ''/enrollment-tokens''"
| "endpoint_path (EnrollmentTokensById i) = api_path (''/enrollment-tokens/'' @ show_int i)"
| "endpoint_path DevicesList = api_path ''/devices''"
| "endpoint_path DevicesCount = api_path ''/devices/count''"
| "endpoint_path (DevicesById d) = api_path (''/devices/'' @ d)"
| "endpoint_path (DevicesManifest d) = api_path (''/devices/'' @ d @ ''/manifest'')"
| "endpoint_path (DevicesLabels d) = api_path (''/devices/'' @ d @ ''/labels'')"
| "endpoint_path (DevicesLogs d) = api_path (''/devices/'' @ d @ ''/logs'')"
| "endpoint_path (DevicesTelemetry d) = api_path (''/devices/'' @ d @ ''/telemetry'')"
| "endpoint_path (DevicesTelemetryHourly d) = api_path (''/devices/'' @ d @ ''/telemetry/hourly'')"
| "endpoint_path (ShellSessions d) = api_path (''/devices/'' @ d @ ''/shell/sessions'')"
| "endpoint_path ShellWs = api_path ''/devices/shell/ws''"
| "endpoint_path CertificatesList = api_path ''/certificates''"
| "endpoint_path CertificatesCa = api_path ''/certificates/ca''"
| "endpoint_path (CertificatesRevoke i) = api_path (''/certificates/'' @ show_int i @ ''/revoke'')"
| "endpoint_path CertRequestsList = api_path ''/certificates/requests''"
| "endpoint_path (CertRequestsApprove i) = api_path (''/certificates/requests/'' @ show_int i @ ''/approve'')"
| "endpoint_path (CertRequestsReject i) = api_path (''/certificates/requests/'' @ show_int i @ ''/reject'')"
| "endpoint_path AgentInstaller = api_path ''/agent/installer''"

subsection \<open>devices.ts\<close>

record DeviceStatus =
  ds_cpuUsagePercent :: "rat option"
  ds_memoryUsedBytes :: int
  ds_memoryTotalBytes :: int
  ds_diskUsedBytes :: int
  ds_diskTotalBytes :: int
  ds_uptimeSeconds :: int
  ds_lastReconcile :: "string option"
  ds_reconcileStatus :: string

record Device =
  dv_deviceId :: string
  dv_hostname :: string
  dv_architecture :: string
  dv_os :: string
  dv_agentVersion :: string
  dv_labels :: "(string \<times> string) list option"
  dv_state :: string
  dv_registeredAt :: string
  dv_lastHeartbeat :: "string option"
  dv_autoUpdate :: "bool option"
  dv_status :: "DeviceStatus option"

definition listDevices :: "'w env \<Rightarrow> string \<Rightarrow> 'w call" where
  "listDevices e token = apiFetch e (endpoint_path DevicesList) (options_get token)"

definition getDevice :: "'w env \<Rightarrow> string \<Rightarrow> string \<Rightarrow> 'w call" where
  "getDevice e token d = apiFetch e (endpoint_path (DevicesById d)) (options_get token)"

definition deleteDevice :: "'w env \<Rightarrow> string \<Rightarrow> string \<Rightarrow> 'w call" where
  "deleteDevice e token d = apiFetch e (endpoint_path (DevicesById d)) (options_method ''DELETE'' token)"

definition getDeviceCount :: "'w env \<Rightarrow> string \<Rightarrow> 'w call" where
  "getDeviceCount e token = apiFetch e (endpoint_path DevicesCount) (options_get token)"

definition getDeviceManifest :: "'w env \<Rightarrow> string \<Rightarrow> string \<Rightarrow> 'w call" where
  "getDeviceManifest e token d = apiFetch e (endpoint_path (DevicesManifest d)) (options_get token)"

record log_params =
  lp_start :: "string option"
  lp_end :: "string option"
  lp_limit :: "int option"
  lp_level :: "string option"
  lp_search :: "string option"

definition set_if :: "string \<Rightarrow> string option \<Rightarrow> (string \<times> string) list \<Rightarrow> (string \<times> string) list" where
  "set_if k v q = (case v of Some s \<Rightarrow> if s \<noteq> [] then obj_set k s q else q | None \<Rightarrow> q)"

definition log_query :: "log_params option \<Rightarrow> (string \<times> string) list" where
  "log_query params =
     (case params of None \<Rightarrow> []
      | Some p \<Rightarrow>
          (let q = set_if ''start'' (lp_start p) [];
               q = set_if ''end'' (lp_end p) q;
               q = (case lp_limit p of
                      Some n \<Rightarrow> if n \<noteq> 0 then obj_set ''limit'' (show_int n) q else q
                    | None \<Rightarrow> q);
               q = set_if ''level'' (lp_level p) q
           in set_if ''search'' (lp_search p) q))"

definition getDeviceLogs :: "'w env \<Rightarrow> string \<Rightarrow> string \<Rightarrow> log_params option \<Rightarrow> 'w call" where
  "getDeviceLogs e token d params =
     apiFetch e (endpoint_path (DevicesLogs d) @ ''?'' @ search_params (log_query params))
       (options_get token)"

definition updateDeviceManifest :: "'w env \<Rightarrow> string \<Rightarrow> string \<Rightarrow> string \<Rightarrow> 'w call" where
  "updateDeviceManifest e token d yamlContent =
     apiFetch e (endpoint_path (DevicesManifest d))
       (options_body ''PUT'' token (JObj [(''content'', JStr yamlContent)]))"

definition updateDeviceLabels :: "'w env \<Rightarrow> string \<Rightarrow> string \<Rightarrow> (string \<times> string) list \<Rightarrow> 'w call" where
  "updateDeviceLabels e token d ls =
     apiFetch e (endpoint_path (DevicesLabels d))
       (options_body ''PUT'' token (JObj (map (\<lambda>(k, v). (k, JStr v)) ls)))"

record TelemetryDataPoint =
  tp_time :: string
  tp_cpuUsagePercent :: "rat option"
  tp_memoryUsedBytes :: int
  tp_memoryTotalBytes :: int
  tp_diskUsedBytes :: int
  tp_diskTotalBytes :: int
  tp_uptimeSeconds :: int
  tp_reconcileStatus :: string

datatype TelemetryBucket = Raw | Hourly

definition getDeviceTelemetry ::
  "'w env \<Rightarrow> string \<Rightarrow> string \<Rightarrow> string \<Rightarrow> string \<Rightarrow> TelemetryBucket option \<Rightarrow> 'w call" where
  "getDeviceTelemetry e token d start fin bucket =
     (let path = (if bucket = Some Hourly then endpoint_path (DevicesTelemetryHourly d)
                  else endpoint_path (DevicesTelemetry d));
          q = search_params [(''start'', start), (''end'', fin)]
      in apiFetch e (path @ ''?'' @ q) (options_get token))"

subsection \<open>certificates.ts\<close>

record CertificateRequest =
  cr_id :: int
  cr_deviceId :: string
  cr_name :: string
  cr_commonName :: string
  cr_sans :: "string list"
  cr_type :: string
  cr_state :: string
  cr_rejectReason :: "string option"
  cr_reviewedAt :: "string option"
  cr_createdAt :: string

record Certificate =
  ce_id :: int
  ce_deviceId :: string
  ce_name :: string
  ce_commonName :: string
  ce_serialNumber :: string
  ce_status :: string
  ce_notBefore :: string
  ce_notAfter :: string
  ce_revoked :: bool
  ce_revokeReason :: "string option"
  ce_createdAt :: string

definition listCertificateRequests :: "'w env \<Rightarrow> string \<Rightarrow> 'w call" where
  "listCertificateRequests e token = apiFetch e (endpoint_path CertRequestsList) (options_get token)"

definition listCertificates :: "'w env \<Rightarrow> string \<Rightarrow> 'w call" where
  "listCertificates e token = apiFetch e (endpoint_path CertificatesList) (options_get token)"

definition approveCertRequest :: "'w env \<Rightarrow> string \<Rightarrow> int \<Rightarrow> 'w call" where
  "approveCertRequest e token i =
     apiFetch e (endpoint_path (CertRequestsApprove i)) (options_method ''POST'' token)"

definition rejectCertRequest :: "'w env \<Rightarrow> string \<Rightarrow> int \<Rightarrow> string option \<Rightarrow> 'w call" where
  "rejectCertRequest e token i reason =
     apiFetch e (endpoint_path (CertRequestsReject i))
       (options_body ''POST'' token
          (JObj [(''reason'', JStr (case reason of Some r \<Rightarrow> r | None \<Rightarrow> ''''))]))"

definition revokeCertificate :: "'w env \<Rightarrow> string \<Rightarrow> int \<Rightarrow> 'w call" where
  "revokeCertificate e token i =
     apiFetch e (endpoint_path (CertificatesRevoke i)) (options_method ''POST'' token)"

definition getCaCert :: "'w env \<Rightarrow> string \<Rightarrow> 'w \<Rightarrow> 'w \<times> (failure + string)" where
  "getCaCert e token = apiFetchText e (endpoint_path CertificatesCa) (options_get token)"

subsection \<open>shell.ts\<close>

definition createShellSession :: "'w env \<Rightarrow> string \<Rightarrow> string \<Rightarrow> int \<Rightarrow> int \<Rightarrow> 'w call" where
  "createShellSession e token d rows cols =
     apiFetch e (endpoint_path (ShellSessions d))
       (options_body ''POST'' token
          (JObj [(''rows'', JNum (of_int rows)), (''cols'', JNum (of_int cols))]))"

text \<open>\<open>base.replace(/^http/, "ws")\<close>; \<open>origin\<close> is \<open>window.location.origin\<close>, \<open>None\<close> on the server.\<close>

definition ws_scheme :: "string \<Rightarrow> string" where
  "ws_scheme base = (if prefix ''http'' base then ''ws'' @ drop 4 base else base)"

definition shellWebSocketUrl :: "string \<Rightarrow> string option \<Rightarrow> string \<Rightarrow> string" where
  "shellWebSocketUrl apiBase origin ticket =
     (let base = (if apiBase \<noteq> [] then apiBase else (case origin of Some s \<Rightarrow> s | None \<Rightarrow> ''''))
      in ws_scheme base @ endpoint_path ShellWs @ ''?ticket='' @ encodeURIComponent ticket)"

subsection \<open>Requests and failures\<close>

lemma map_of_fold_obj_set:
  "map_of (fold (\<lambda>(k, v). obj_set k v) hs b) x =
     (case map_of (rev hs) x of Some v \<Rightarrow> Some v | None \<Rightarrow> map_of b x)"
  by (induction hs arbitrary: b) (auto simp: map_add_def split: option.splits)

lemma rawFetch_success:
  "rawFetch e path o1 w = (w', Inr r) \<Longrightarrow>
     rs_ok r \<and> env_fetch e w (build_request (env_base e) path o1) = (w', Inr r)"
  by (auto simp: rawFetch_def split: prod.splits sum.splits if_splits)

lemma rawFetch_world:
  "fst (rawFetch e path o1 w) = fst (env_fetch e w (build_request (env_base e) path o1))"
  by (auto simp: rawFetch_def split: prod.splits sum.splits)

lemma apiFetch_world:
  "fst (apiFetch e path o1 w) = fst (env_fetch e w (build_request (env_base e) path o1))"
  by (auto simp: apiFetch_def rawFetch_def split: prod.splits sum.splits option.splits)

text \<open>
  The bearer token of a call is sent in the Authorization header exactly when it is a
  non-empty string; without one, a caller's own Authorization header is what is sent; and the
  default JSON content type can be overridden by the caller and by nothing else.
\<close>

theorem request_authorization:
  "map_of (rq_headers (build_request base path o1)) ''Authorization'' =
     (if truthy (fo_token o1) then Some (''Bearer '' @ the (fo_token o1))
      else map_of (rev (fo_headers o1)) ''Authorization'')
   \<and> map_of (rq_headers (build_request base path o1)) ''Content-Type'' =
     (case map_of (rev (fo_headers o1)) ''Content-Type'' of
        Some v \<Rightarrow> Some v | None \<Rightarrow> Some ''application/json'')"
  by (auto simp: build_request_def request_headers_def truthy_def map_of_fold_obj_set Let_def
      split: option.splits)

text \<open>
  Every outcome of \<open>apiFetch\<close>: one request is sent; a rejected fetch is passed on; a status
  outside 200..299 is an ApiError carrying that status and the body text, or the status text when
  the body is empty; 204 resolves to undefined without reading a body; any other success resolves
  to the parsed JSON, and a body that is not JSON rejects.
\<close>

theorem apiFetch_outcome:
  "apiFetch e path o1 w =
     (let (w', res) = env_fetch e w (build_request (env_base e) path o1)
      in (w',
          case res of
            Inl msg \<Rightarrow> Inl (NetworkError msg)
          | Inr r \<Rightarrow>
              if rs_status r < 200 \<or> 299 < rs_status r
              then Inl (ApiError (rs_status r) (if rs_text r = [] then rs_statusText r else rs_text r))
              else if rs_status r = 204 then Inr None
              else (case rs_json r of Some j \<Rightarrow> Inr (Some j) | None \<Rightarrow> Inl SyntaxError)))"
  by (auto simp: apiFetch_def rawFetch_def rs_ok_def split: prod.splits sum.splits option.splits)

subsection \<open>Calls that only talk to a server\<close>

text \<open>
  An environment whose world is the log of the requests sent so far and whose answers depend on
  the request; for such a server a call's outcome does not depend on the log.
\<close>

definition log_env :: "string \<Rightarrow> (request \<Rightarrow> string + response) \<Rightarrow> request list env" where
  "log_env base srv = \<lparr>env_base = base, env_fetch = (\<lambda>w r. (w @ [r], srv r))\<rparr>"

definition call_ok :: "request list call \<Rightarrow> bool" where
  "call_ok c \<longleftrightarrow> (case snd (c []) of Inl _ \<Rightarrow> False | Inr _ \<Rightarrow> True)"

definition call_failure :: "request list call \<Rightarrow> failure option" where
  "call_failure c = (case snd (c []) of Inl f \<Rightarrow> Some f | Inr _ \<Rightarrow> None)"

lemma apiFetch_log:
  "apiFetch (log_env base srv) path o1 w =
     (w @ [build_request base path o1], snd (apiFetch (log_env base srv) path o1 []))"
  by (auto simp: apiFetch_def rawFetch_def log_env_def split: prod.splits sum.splits option.splits)

lemma apiFetch_log_ok:
  assumes "call_ok (apiFetch (log_env base srv) path o1)"
  obtains v where "apiFetch (log_env base srv) path o1 w = (w @ [build_request base path o1], Inr v)"
  using assms apiFetch_log [of base srv path o1 w] by (auto simp: call_ok_def split: sum.splits)

lemma apiFetch_log_failed:
  assumes "\<not> call_ok (apiFetch (log_env base srv) path o1)"
  obtains f where "apiFetch (log_env base srv) path o1 w = (w @ [build_request base path o1], Inl f)"
    and "call_failure (apiFetch (log_env base srv) path o1) = Some f"
  using assms apiFetch_log [of base srv path o1 w]
  by (auto simp: call_ok_def call_failure_def split: sum.splits)

subsection \<open>Endpoints name distinct resources\<close>

text \<open>The path of an endpoint as the list of its segments after \<open>/api/v1\<close>.\<close>

fun endpoint_segments :: "endpoint \<Rightarrow> string list" where
  "endpoint_segments Me = [''me'']"
| "endpoint_segments OrganizationGet = [''organization'']"
| "endpoint_segments OrganizationUpdate = [''organization'']"
| "endpoint_segments OrganizationAuditLog = [''organization'', ''audit-log'']"
| "endpoint_segments MembersList = [''organization'', ''members'']"
| "endpoint_segments MembersCreate = [''organization'', ''members'']"
| "endpoint_segments (MembersById i) = [''organization'', ''members'', show_int i]"
| "endpoint_segments InvitationsList = [''organization'', ''invitations'']"
| "endpoint_segments (InvitationsById i) = [''organization'', ''invitations'', show_int i]"
| "endpoint_segments ApiKeysList = [''api-keys'']"
| "endpoint_segments ApiKeysCreate = [''api-keys'']"
| "endpoint_segments (ApiKeysById i) = [''api-keys'', show_int i]"
| "endpoint_segments EnrollmentTokensList = [''enrollment-tokens'']"
| "endpoint_segments EnrollmentTokensCreate = [''enrollment-tokens'']"
| "endpoint_segments (EnrollmentTokensById i) = [''enrollment-tokens'', show_int i]"
| "endpoint_segments DevicesList = [''devices'']"
| "endpoint_segments DevicesCount = [''devices'', ''count'']"
| "endpoint_segments (DevicesById d) = [''devices'', d]"
| "endpoint_segments (DevicesManifest d) = [''devices'', d, ''manifest'']"
| "endpoint_segments (DevicesLabels d) = [''devices'', d, ''labels'']"
| "endpoint_segments (DevicesLogs d) = [''devices'', d, ''logs'']"
| "endpoint_segments (DevicesTelemetry d) = [''devices'', d, ''telemetry'']"
| "endpoint_segments (DevicesTelemetryHourly d) = [''devices'', d, ''telemetry'', ''hourly'']"
| "endpoint_segments (ShellSessions d) = [''devices'', d, ''shell'', ''sessions'']"
| "endpoint_segments ShellWs = [''devices'', ''shell'', ''ws'']"
| "endpoint_segments CertificatesList = [''certificates'']"
| "endpoint_segments CertificatesCa = [''certificates'', ''ca'']"
| "endpoint_segments (CertificatesRevoke i) = [''certificates'', show_int i, ''revoke'']"
| "endpoint_segments CertRequestsList = [''certificates'', ''requests'']"
| "endpoint_segments (CertRequestsApprove i) = [''certificates'', ''requests'', show_int i, ''approve'']"
| "endpoint_segments (CertRequestsReject i) = [''certificates'', ''requests'', show_int i, ''reject'']"
| "endpoint_segments AgentInstaller = [''agent'', ''installer'']"

text \<open>The device identifier an endpoint carries, and the identifiers that keep paths apart.\<close>

fun endpoint_device :: "endpoint \<Rightarrow> string option" where
  "endpoint_device (DevicesById d) = Some d"
| "endpoint_device (DevicesManifest d) = Some d"
| "endpoint_device (DevicesLabels d) = Some d"
| "endpoint_device (DevicesLogs d) = Some d"
| "endpoint_device (DevicesTelemetry d) = Some d"
| "endpoint_device (DevicesTelemetryHourly d) = Some d"
| "endpoint_device (ShellSessions d) = Some d"
| "endpoint_device _ = None"

definition plain_id :: "string \<Rightarrow> bool" where
  "plain_id d \<longleftrightarrow> CHR ''/'' \<notin> set d \<and> d \<noteq> ''count''"

definition wf_endpoint :: "endpoint \<Rightarrow> bool" where
  "wf_endpoint e \<longleftrightarrow> (case endpoint_device e of Some d \<Rightarrow> plain_id d | None \<Rightarrow> True)"

text \<open>Members of the object that name one resource for two methods.\<close>

fun endpoint_resource :: "endpoint \<Rightarrow> endpoint" where
  "endpoint_resource OrganizationUpdate = OrganizationGet"
| "endpoint_resource MembersCreate = MembersList"
| "endpoint_resource ApiKeysCreate = ApiKeysList"
| "endpoint_resource EnrollmentTokensCreate = EnrollmentTokensList"
| "endpoint_resource e = e"

lemma endpoint_path_segments:
  "endpoint_path e = ''/api/v1/'' @ join_char (CHR ''/'') (endpoint_segments e)"
  by (cases e) (simp_all add: api_path_def)

lemma endpoint_segments_plain:
  "wf_endpoint e \<Longrightarrow> w \<in> set (endpoint_segments e) \<Longrightarrow> CHR ''/'' \<notin> set w"
  by (cases e) (auto simp: wf_endpoint_def plain_id_def show_int_no_slash)

lemma show_int_not_word: "\<not> is_digit (hd w) \<Longrightarrow> hd w \<noteq> CHR ''-'' \<Longrightarrow> show_int i \<noteq> w"
  using show_nat_Cons [of "nat i"] by (auto simp: show_int_def)

lemma show_int_words [simp]:
  "show_int i \<noteq> ''requests''" "''requests'' \<noteq> show_int i" "show_int i \<noteq> ''ca''" "''ca'' \<noteq> show_int i"
  using show_int_not_word [of "''requests''" i] show_int_not_word [of "''ca''" i]
  by (auto simp: is_digit_def)

lemma endpoint_segments_inj:
  "wf_endpoint a \<Longrightarrow> wf_endpoint b \<Longrightarrow> endpoint_segments a = endpoint_segments b \<Longrightarrow>
     endpoint_resource a = endpoint_resource b"
  by (cases a; cases b) (auto simp: wf_endpoint_def plain_id_def show_int_inj)

lemma endpoint_resource_path: "endpoint_path (endpoint_resource e) = endpoint_path e"
  by (cases e) simp_all

text \<open>
  C26. Two endpoints of the client have the same path only when they name the same resource, as
  long as the device identifiers they carry contain no slash and are not the word \<open>count\<close>.  The
  identifiers are pasted into the path unescaped, so the condition is needed (see the finding
  about \<open>byId\<close>).
\<close>

theorem endpoint_path_inj:
  assumes "wf_endpoint a" and "wf_endpoint b"
  shows "endpoint_path a = endpoint_path b \<longleftrightarrow> endpoint_resource a = endpoint_resource b"
proof
  assume "endpoint_path a = endpoint_path b"
  then have "join_char (CHR ''/'') (endpoint_segments a) = join_char (CHR ''/'') (endpoint_segments b)"
    by (simp add: endpoint_path_segments)
  moreover have "split_char (CHR ''/'') (join_char (CHR ''/'') (endpoint_segments e)) = endpoint_segments e"
    if "wf_endpoint e" for e
    using endpoint_segments_plain [OF that] by (intro split_join_char) (cases e; auto)+
  ultimately have "endpoint_segments a = endpoint_segments b"
    using assms by metis
  then show "endpoint_resource a = endpoint_resource b"
    using assms endpoint_segments_inj by blast
next
  assume "endpoint_resource a = endpoint_resource b"
  then show "endpoint_path a = endpoint_path b"
    by (metis endpoint_resource_path)
qed

theorem endpoint_path_inj_witness:
  "wf_endpoint (DevicesById ''rpi-1'') \<and> wf_endpoint (DevicesManifest ''rpi-1'')
   \<and> endpoint_path (DevicesById ''rpi-1'') \<noteq> endpoint_path (DevicesManifest ''rpi-1'')"
proof -
  have a: "wf_endpoint (DevicesById ''rpi-1'')" and b: "wf_endpoint (DevicesManifest ''rpi-1'')"
    by (simp_all add: wf_endpoint_def plain_id_def)
  show ?thesis using a b endpoint_path_inj [OF a b] by simp
qed

text \<open>
  An unescaped device identifier can address another resource: the path of the device named
  \<open>x/manifest\<close> is the path of the manifest of device \<open>x\<close>, and the path of the device named
  \<open>count\<close> is the path of the counter.
\<close>

theorem endpoint_path_collision:
  "endpoint_path (DevicesById (x @ ''/manifest'')) = endpoint_path (DevicesManifest x)
   \<and> endpoint_path (DevicesById ''count'') = endpoint_path DevicesCount"
  by simp

subsection \<open>Query strings of the client\<close>


text \<open>
  The WebSocket address of a shell session keeps the ticket recoverable: it is the base
  address with \<open>http\<close> replaced by \<open>ws\<close> (so \<open>https\<close> becomes \<open>wss\<close>), the shell path, and a
  component that decodes to the ticket.
\<close>

theorem shellWebSocketUrl_ticket:
  "apiBase = ''http'' @ rest \<Longrightarrow>
     \<exists>t. shellWebSocketUrl apiBase origin ticket =
           ''ws'' @ rest @ ''/api/v1/devices/shell/ws?ticket='' @ t
       \<and> decodeURIComponent t = Some ticket"
  by (rule exI [of _ "encodeURIComponent ticket"])
     (simp add: shellWebSocketUrl_def ws_scheme_def api_path_def decode_encode_URIComponent)

theorem shellWebSocketUrl_ticket_witness:
  "\<exists>t. shellWebSocketUrl ''https://h'' None ''a/b'' =
         ''ws'' @ ''s://h'' @ ''/api/v1/devices/shell/ws?ticket='' @ t
     \<and> decodeURIComponent t = Some ''a/b''"
  by (rule shellWebSocketUrl_ticket [where rest = "''s://h''"]) simp

end
