(* ===== verification/Auth.thy ===== *)
theory Auth
  imports ApiClient
begin

text \<open>
  Sessions of the dashboard: the NextAuth callbacks of src/ui/lib/auth.ts, the route guard of
  src/ui/middleware.ts, the guard component that restarts a sign-in
  (src/ui/components/refresh-error-guard.tsx) and the redirect of the landing page.

  NextAuth itself is not modelled; its callbacks are.  The environment (\<open>process.env\<close>) is a
  record, the clock is an argument in milliseconds, and the token endpoint's answer is an argument:
  a rejected fetch, or a status with a JSON body (\<open>None\<close> when the body is not JSON).
\<close>

subsection \<open>Data\<close>

text \<open>\<open>expiresAt\<close> can be absent, a number, or NaN (the sum with a missing \<open>expires_in\<close>).\<close>

datatype expiry = NoExpiry | At int | NaNExpiry

record JWT =
  tk_accessToken :: "string option"
  tk_refreshToken :: "string option"
  tk_idToken :: "string option"
  tk_expiresAt :: expiry
  tk_error :: "string option"

record Account =
  ac_access_token :: "string option"
  ac_refresh_token :: "string option"
  ac_id_token :: "string option"
  ac_expires_at :: "int option"

text \<open>The fields of the token endpoint's JSON answers the callback reads.\<close>

record token_body =
  tb_access_token :: "string option"
  tb_refresh_token :: "string option"
  tb_id_token :: "string option"
  tb_expires_in :: "int option"
  tb_error :: "string option"

datatype token_answer = Rejected | Answer nat "token_body option"

record auth_env =
  ev_issuer :: "string option"
  ev_client_id :: "string option"
  ev_client_secret :: "string option"
  ev_auth_url :: "string option"
  ev_nextauth_url :: "string option"
  ev_skip_auth :: "string option"

definition issuer :: "auth_env \<Rightarrow> string" where
  "issuer e = (case ev_issuer e of Some s \<Rightarrow> s | None \<Rightarrow> ''http://localhost:3000/kc/realms/edgeguardian'')"

definition client_id :: "auth_env \<Rightarrow> string" where
  "client_id e = (case ev_client_id e of Some s \<Rightarrow> s | None \<Rightarrow> ''edgeguardian-ui'')"

definition client_secret :: "auth_env \<Rightarrow> string" where
  "client_secret e = (case ev_client_secret e of Some s \<Rightarrow> s | None \<Rightarrow> '''')"

subsection \<open>The jwt callback\<close>

definition authorized :: "'a option \<Rightarrow> bool" where
  "authorized auth = (auth \<noteq> None)"

text \<open>The first block: a sign-in copies the account's tokens.\<close>

definition jwt_account :: "Account option \<Rightarrow> JWT \<Rightarrow> JWT" where
  "jwt_account account t =
     (case account of
        None \<Rightarrow> t
      | Some a \<Rightarrow> t\<lparr>tk_accessToken := ac_access_token a, tk_refreshToken := ac_refresh_token a,
                    tk_idToken := ac_id_token a,
                    tk_expiresAt := (case ac_expires_at a of Some n \<Rightarrow> At n | None \<Rightarrow> NoExpiry)\<rparr>)"

definition still_valid :: "int \<Rightarrow> JWT \<Rightarrow> bool" where
  "still_valid now t = (case tk_expiresAt t of At n \<Rightarrow> now < n * 1000 | _ \<Rightarrow> False)"

definition refresh_form :: "auth_env \<Rightarrow> string \<Rightarrow> (string \<times> string) list" where
  "refresh_form e refreshToken =
     [(''grant_type'', ''refresh_token''), (''client_id'', client_id e),
      (''client_secret'', client_secret e), (''refresh_token'', refreshToken)]"

definition refresh_url :: "auth_env \<Rightarrow> string" where
  "refresh_url e = issuer e @ ''/protocol/openid-connect/token''"

text \<open>
  The \<open>try\<close> block after the fetch: \<open>now\<close> is the clock when the answer is stored.  A successful
  answer whose body is not JSON throws in \<open>response.json()\<close> and lands in the \<open>catch\<close>.
\<close>

definition jwt_answer :: "int \<Rightarrow> token_answer \<Rightarrow> JWT \<Rightarrow> JWT" where
  "jwt_answer now ans t =
     (case ans of
        Rejected \<Rightarrow> t
      | Answer code body \<Rightarrow>
          if 200 \<le> code \<and> code \<le> 299
          then (case body of
                  None \<Rightarrow> t
                | Some b \<Rightarrow>
                    t\<lparr>tk_accessToken := tb_access_token b,
                      tk_refreshToken := (case tb_refresh_token b of Some r \<Rightarrow> Some r | None \<Rightarrow> tk_refreshToken t),
                      tk_idToken := (if truthy (tb_id_token b) then tb_id_token b else tk_idToken t),
                      tk_expiresAt := (case tb_expires_in b of Some n \<Rightarrow> At (now div 1000 + n) | None \<Rightarrow> NaNExpiry),
                      tk_error := None\<rparr>)
          else if 400 \<le> code \<and> code < 500
          then (case body of
                  Some b \<Rightarrow> if tb_error b = Some ''invalid_grant'' then t\<lparr>tk_error := Some ''RefreshTokenError''\<rparr> else t
                | None \<Rightarrow> t)
          else t)"

text \<open>
  The callback.  \<open>endpoint\<close> is the token endpoint, asked with the refresh form; \<open>now\<close> and \<open>now2\<close>
  are the two readings of the clock.
\<close>

definition jwt ::
  "auth_env \<Rightarrow> ((string \<times> string) list \<Rightarrow> token_answer) \<Rightarrow> int \<Rightarrow> int \<Rightarrow> Account option \<Rightarrow> JWT \<Rightarrow> JWT" where
  "jwt e endpoint now now2 account t0 =
     (let t = jwt_account account t0
      in if still_valid now t then t
         else if \<not> truthy (tk_refreshToken t) then t\<lparr>tk_error := Some ''RefreshTokenError''\<rparr>
         else jwt_answer now2 (endpoint (refresh_form e (the (tk_refreshToken t)))) t)"

subsection \<open>The session callback\<close>

record Session =
  se_user :: bool
  se_accessToken :: "string option"
  se_idToken :: "string option"
  se_logoutUrl :: "string option"
  se_error :: "string option"

text \<open>\<open>base.replace(/\/$/, "")\<close>.\<close>

definition strip_slash :: "string \<Rightarrow> string" where
  "strip_slash s = (if s \<noteq> [] \<and> last s = CHR ''/'' then butlast s else s)"

definition auth_base :: "auth_env \<Rightarrow> string" where
  "auth_base e = (case ev_auth_url e of Some s \<Rightarrow> s
     | None \<Rightarrow> (case ev_nextauth_url e of Some s \<Rightarrow> s | None \<Rightarrow> ''''))"

definition logout_params :: "auth_env \<Rightarrow> JWT \<Rightarrow> (string \<times> string) list" where
  "logout_params e t =
     (if truthy (tk_idToken t) then [(''id_token_hint'', the (tk_idToken t))]
      else [(''client_id'', client_id e)])
     @ (if auth_base e \<noteq> []
        then [(''post_logout_redirect_uri'', strip_slash (auth_base e) @ ''/auth/login'')] else [])"

definition logoutUrl :: "auth_env \<Rightarrow> JWT \<Rightarrow> string" where
  "logoutUrl e t = issuer e @ ''/protocol/openid-connect/logout?'' @ search_params (logout_params e t)"

definition session_callback :: "auth_env \<Rightarrow> JWT \<Rightarrow> Session \<Rightarrow> Session" where
  "session_callback e t s =
     (let s = s\<lparr>se_accessToken := tk_accessToken t\<rparr>;
          s = (if truthy (tk_idToken t) then s\<lparr>se_idToken := tk_idToken t\<rparr> else s);
          s = s\<lparr>se_logoutUrl := Some (logoutUrl e t)\<rparr>
      in if truthy (tk_error t) then s\<lparr>se_error := tk_error t\<rparr> else s)"

subsection \<open>middleware.ts, refresh-error-guard.tsx, the landing page's redirect\<close>

datatype mw_result = Next | Redirect string

text \<open>
  The matcher \<open>/(dashboard|devices|certificates|audit|settings)(.*)\<close>, and the guard for a request
  with URL \<open>origin @ path\<close>.
\<close>

definition mw_matcher :: "string \<Rightarrow> bool" where
  "mw_matcher path \<longleftrightarrow>
     list_ex (\<lambda>p. prefix (''/'' @ p) path) [''dashboard'', ''devices'', ''certificates'', ''audit'', ''settings'']"

definition middleware :: "auth_env \<Rightarrow> string \<Rightarrow> string \<Rightarrow> 'a option \<Rightarrow> mw_result" where
  "middleware e origin path auth =
     (if ev_skip_auth e = Some ''true'' then Next
      else if auth = None
      then Redirect (origin @ ''/auth/login?'' @ search_params [(''callbackUrl'', origin @ path)])
      else Next)"

definition RefreshErrorGuard_effect :: "Session option \<Rightarrow> effect list" where
  "RefreshErrorGuard_effect s =
     (case s of
        Some s1 \<Rightarrow> if se_error s1 = Some ''RefreshTokenError'' then [SignIn ''keycloak''] else []
      | None \<Rightarrow> [])"

text \<open>\<open>LandingPage\<close>: a signed-in user without a session error is redirected.\<close>

definition landing_redirect :: "Session option \<Rightarrow> string option" where
  "landing_redirect s =
     (case s of
        Some s1 \<Rightarrow> if se_user s1 \<and> \<not> truthy (se_error s1) then Some ''/dashboard'' else None
      | None \<Rightarrow> None)"

subsection \<open>The token life cycle\<close>

text \<open>One run of the callback on a stored token (no account): the steps between requests.\<close>

inductive jwt_step :: "auth_env \<Rightarrow> JWT \<Rightarrow> JWT \<Rightarrow> bool" for e where
  "now \<le> now2 \<Longrightarrow> jwt_step e t (jwt e endpoint now now2 None t)"

definition jwt_signed_in :: "JWT \<Rightarrow> bool" where
  "jwt_signed_in t \<longleftrightarrow> truthy (tk_refreshToken t) \<and> tk_error t = None"

text \<open>
  A token that has a refresh token never loses it, and the only error a token can carry is
  \<open>RefreshTokenError\<close>.
\<close>

definition jwt_ok :: "JWT \<Rightarrow> bool" where
  "jwt_ok t \<longleftrightarrow> tk_refreshToken t \<noteq> None \<and> tk_error t \<in> {None, Some ''RefreshTokenError''}"

lemmas jwt_unfold = jwt_def jwt_account_def jwt_answer_def Let_def

lemma jwt_ok_step: "jwt_ok t \<Longrightarrow> jwt_step e t t' \<Longrightarrow> jwt_ok t'"
  by (erule jwt_step.cases)
     (auto simp: jwt_ok_def jwt_unfold split: token_answer.splits option.splits)

interpretation jwt_life: state_machine jwt_signed_in "jwt_step e" jwt_ok for e
proof
  show "jwt_signed_in t \<Longrightarrow> jwt_ok t" for t
    by (auto simp: jwt_signed_in_def jwt_ok_def truthy_def)
  show "jwt_ok t \<Longrightarrow> jwt_step e t t' \<Longrightarrow> jwt_ok t'" for t t'
    by (rule jwt_ok_step)
qed

text \<open>
  C4. Over any number of requests, with any answers of the identity provider, a session that
  signed in with a refresh token keeps a refresh token, and the only error it can show is
  \<open>RefreshTokenError\<close>.
\<close>

theorem jwt_session_invariant:
  "reach jwt_signed_in (jwt_step e) t \<Longrightarrow>
     tk_refreshToken t \<noteq> None \<and> tk_error t \<in> {None, Some ''RefreshTokenError''}"
  using jwt_life.reach_inv [of e t] by (simp add: jwt_ok_def)

definition jwt_fresh :: JWT where
  "jwt_fresh = \<lparr>tk_accessToken = Some ''a'', tk_refreshToken = Some ''r'', tk_idToken = None,
                tk_expiresAt = At 100, tk_error = None\<rparr>"

definition env_default :: auth_env where
  "env_default = \<lparr>ev_issuer = None, ev_client_id = None, ev_client_secret = None,
                  ev_auth_url = None, ev_nextauth_url = None, ev_skip_auth = None\<rparr>"

theorem jwt_session_invariant_witness:
  "tk_refreshToken (jwt env_default (\<lambda>_. Rejected) 200000 200001 None jwt_fresh) \<noteq> None
   \<and> tk_error (jwt env_default (\<lambda>_. Rejected) 200000 200001 None jwt_fresh) \<in> {None, Some ''RefreshTokenError''}"
proof (rule jwt_session_invariant [where e = env_default])
  have "jwt_signed_in jwt_fresh" by (simp add: jwt_signed_in_def jwt_fresh_def truthy_def)
  then have "reach jwt_signed_in (jwt_step env_default) jwt_fresh" by (rule reach_init)
  then show "reach jwt_signed_in (jwt_step env_default) (jwt env_default (\<lambda>_. Rejected) 200000 200001 None jwt_fresh)"
    by (rule reach_step) (rule jwt_step.intros, simp)
qed

text \<open>
  When the callback asks for a refresh: it leaves a token alone while the clock is before its
  expiry, flags a token without a refresh token, and otherwise asks the token endpoint exactly
  with the refresh grant of that refresh token.  In particular an unexpired token is returned
  unchanged even when the identity provider is down.
\<close>

theorem jwt_decision:
  "jwt e endpoint now now2 None t =
     (if still_valid now t then t
      else if truthy (tk_refreshToken t)
      then jwt_answer now2
             (endpoint [(''grant_type'', ''refresh_token''), (''client_id'', client_id e),
                        (''client_secret'', client_secret e), (''refresh_token'', the (tk_refreshToken t))]) t
      else t\<lparr>tk_error := Some ''RefreshTokenError''\<rparr>)"
  by (simp add: jwt_def jwt_account_def refresh_form_def)

text \<open>
  C2. After a successful refresh the token is usable again: it carries the new access token, has
  no error whatever it carried before, keeps the old refresh and id tokens when the answer has no
  new ones, and the callback returns it unchanged until less than a second before the announced
  lifetime has run out.
\<close>

theorem jwt_refresh_success:
  assumes "\<not> still_valid now t" and "truthy (tk_refreshToken t)"
    and "endpoint (refresh_form e (the (tk_refreshToken t))) = Answer code (Some b)"
    and "200 \<le> code" and "code \<le> 299" and "tb_expires_in b = Some n"
    and "t' = jwt e endpoint now now2 None t"
  shows "tk_accessToken t' = tb_access_token b \<and> tk_error t' = None
       \<and> (tb_refresh_token b = None \<longrightarrow> tk_refreshToken t' = tk_refreshToken t)
       \<and> (\<not> truthy (tb_id_token b) \<longrightarrow> tk_idToken t' = tk_idToken t)
       \<and> (\<forall>later later2 ep2. later < now2 + 1000 * n - 999 \<longrightarrow> jwt e ep2 later later2 None t' = t')"
proof -
  have t': "t' = jwt_answer now2 (Answer code (Some b)) t"
    using assms by (simp add: jwt_def jwt_account_def)
  have exp: "tk_expiresAt t' = At (now2 div 1000 + n)"
    using assms(4-6) by (simp add: t' jwt_answer_def)
  have "later < (now2 div 1000 + n) * 1000" if "later < now2 + 1000 * n - 999" for later
    using that by presburger
  then have "jwt e ep2 later later2 None t' = t'" if "later < now2 + 1000 * n - 999" for later later2 ep2
    using that exp by (simp add: jwt_def jwt_account_def still_valid_def)
  moreover have "tk_accessToken t' = tb_access_token b" "tk_error t' = None"
    "tb_refresh_token b = None \<longrightarrow> tk_refreshToken t' = tk_refreshToken t"
    "\<not> truthy (tb_id_token b) \<longrightarrow> tk_idToken t' = tk_idToken t"
    using assms(4-6) by (simp_all add: t' jwt_answer_def)
  ultimately show ?thesis by blast
qed

definition body_ok :: token_body where
  "body_ok = \<lparr>tb_access_token = Some ''new'', tb_refresh_token = None, tb_id_token = None,
              tb_expires_in = Some 300, tb_error = None\<rparr>"

theorem jwt_refresh_success_witness:
  "tk_accessToken (jwt env_default (\<lambda>_. Answer 200 (Some body_ok)) 200000 200500 None jwt_fresh) = Some ''new''
   \<and> jwt env_default (\<lambda>_. Rejected) 400000 400500 None
          (jwt env_default (\<lambda>_. Answer 200 (Some body_ok)) 200000 200500 None jwt_fresh)
        = jwt env_default (\<lambda>_. Answer 200 (Some body_ok)) 200000 200500 None jwt_fresh"
proof -
  have "truthy (tk_refreshToken jwt_fresh)" "\<not> still_valid 200000 jwt_fresh"
    "tb_expires_in body_ok = Some 300" "tb_access_token body_ok = Some ''new''"
    by (simp_all add: still_valid_def jwt_fresh_def truthy_def body_ok_def)
  then show ?thesis
    using jwt_refresh_success
      [of 200000 jwt_fresh "\<lambda>_. Answer 200 (Some body_ok)" env_default 200 body_ok 300
          "jwt env_default (\<lambda>_. Answer 200 (Some body_ok)) 200000 200500 None jwt_fresh" 200500]
    by simp
qed

text \<open>
  C3. An outage of the identity provider (rejected fetch, status 5xx, a 4xx that is not
  \<open>invalid_grant\<close>, a body that is not JSON) never ends a session: the token comes back exactly as
  it was.  Only an \<open>invalid_grant\<close> answer of status 4xx flags the token.
\<close>

theorem jwt_refresh_failure:
  assumes "\<not> still_valid now t" and "truthy (tk_refreshToken t)"
    and "ans = endpoint (refresh_form e (the (tk_refreshToken t)))"
    and "\<And>code b. ans = Answer code (Some b) \<Longrightarrow> code < 200 \<or> 299 < code"
  shows "jwt e endpoint now now2 None t =
     (if \<exists>code b. ans = Answer code (Some b) \<and> 400 \<le> code \<and> code < 500 \<and> tb_error b = Some ''invalid_grant''
      then t\<lparr>tk_error := Some ''RefreshTokenError''\<rparr> else t)"
proof -
  have "jwt e endpoint now now2 None t = jwt_answer now2 ans t"
    using assms by (simp add: jwt_def jwt_account_def)
  then show ?thesis
    using assms(4) by (auto simp: jwt_answer_def split: token_answer.splits option.splits)
qed

definition body_invalid :: token_body where
  "body_invalid = \<lparr>tb_access_token = None, tb_refresh_token = None, tb_id_token = None,
                   tb_expires_in = None, tb_error = Some ''invalid_grant''\<rparr>"

theorem jwt_refresh_failure_witness:
  "jwt env_default (\<lambda>_. Answer 400 (Some body_invalid)) 200000 200500 None jwt_fresh
     = jwt_fresh\<lparr>tk_error := Some ''RefreshTokenError''\<rparr>
   \<and> jwt env_default (\<lambda>_. Answer 503 None) 200000 200500 None jwt_fresh = jwt_fresh"
  using jwt_refresh_failure
    [of 200000 jwt_fresh "Answer 400 (Some body_invalid)" "\<lambda>_. Answer 400 (Some body_invalid)" env_default 200500]
    jwt_refresh_failure [of 200000 jwt_fresh "Answer 503 None" "\<lambda>_. Answer 503 None" env_default 200500]
  by (simp add: still_valid_def jwt_fresh_def truthy_def body_invalid_def)

text \<open>
  From flag to sign-in: when the token of a session is flagged, the session object shows the
  error, the guard of the dashboard restarts the Keycloak sign-in and the landing page does not
  send the user back to the dashboard; a session that is not flagged triggers neither.
\<close>

theorem flagged_token_restarts_sign_in:
  assumes "se_error s = None" and "se_user s" and "tk_error t \<in> {None, Some ''RefreshTokenError''}"
  shows "RefreshErrorGuard_effect (Some (session_callback e t s)) =
           (if tk_error t = None then [] else [SignIn ''keycloak''])
       \<and> landing_redirect (Some (session_callback e t s)) =
           (if tk_error t = None then Some ''/dashboard'' else None)
       \<and> se_accessToken (session_callback e t s) = tk_accessToken t"
  using assms
  by (auto simp: session_callback_def RefreshErrorGuard_effect_def landing_redirect_def truthy_def Let_def)

definition session_empty :: Session where
  "session_empty = \<lparr>se_user = True, se_accessToken = None, se_idToken = None, se_logoutUrl = None, se_error = None\<rparr>"

theorem flagged_token_restarts_sign_in_witness:
  "RefreshErrorGuard_effect
     (Some (session_callback env_default (jwt_fresh\<lparr>tk_error := Some ''RefreshTokenError''\<rparr>) session_empty))
   = [SignIn ''keycloak'']"
  using flagged_token_restarts_sign_in
    [of session_empty "jwt_fresh\<lparr>tk_error := Some ''RefreshTokenError''\<rparr>" env_default]
  by (simp add: session_empty_def)

text \<open>
  The logout address identifies the session to Keycloak by its id token when there is one and
  by the client otherwise, and returns to this application's login page when the public base
  address is configured, with at most one trailing slash of it removed.
\<close>

theorem logoutUrl_params:
  "\<exists>q. se_logoutUrl (session_callback e t s) = Some (issuer e @ ''/protocol/openid-connect/logout?'' @ q)
     \<and> parse_query q =
         (if truthy (tk_idToken t) then [(''id_token_hint'', the (tk_idToken t))]
          else [(''client_id'', client_id e)])
       @ (if auth_base e = [] then []
          else [(''post_logout_redirect_uri'', strip_slash (auth_base e) @ ''/auth/login'')])"
  by (rule exI [of _ "search_params (logout_params e t)"])
     (simp add: session_callback_def logoutUrl_def parse_search_params logout_params_def Let_def)

text \<open>
  Protected routes: without a session and without the development bypass, a request is
  redirected to the login page of the same origin, and the address it came from can be read back
  from the \<open>callbackUrl\<close> parameter; with a session it is let through.
\<close>

theorem middleware_protects:
  "ev_skip_auth e \<noteq> Some ''true'' \<Longrightarrow>
     (\<exists>q. middleware e origin path (None :: 'a option) = Redirect (origin @ ''/auth/login?'' @ q)
        \<and> parse_query q = [(''callbackUrl'', origin @ path)])
   \<and> middleware e origin path (Some s) = Next"
  by (auto simp: middleware_def parse_search_params)

theorem middleware_protects_witness:
  "(\<exists>q. middleware env_default ''https://eg'' ''/devices?x=1'' (None :: unit option)
          = Redirect (''https://eg'' @ ''/auth/login?'' @ q)
      \<and> parse_query q = [(''callbackUrl'', ''https://eg'' @ ''/devices?x=1'')])
   \<and> middleware env_default ''https://eg'' ''/devices?x=1'' (Some ()) = Next"
  by (rule middleware_protects) (simp add: env_default_def)

end
