(* ===== verification/Routing.thy ===== *)
theory Routing
  imports Auth
begin

text \<open>
  The rewrites of src/ui/next.config.ts: the browser talks to one origin, and the server forwards the
  paths of the API to the controller and those under \<open>/kc\<close> to Keycloak.

  The matching of paths is Next's.  It is a parameter: a function that takes the rules and a path and
  gives the address the request is forwarded to, or \<open>None\<close>.  The locale \<open>next_rewrites\<close> states what its
  documentation says of rules that end in a wildcard \<open>/:path*\<close>, and \<open>path_rewrite\<close> is a function that
  meets it.  Only paths with plain segments are covered, so that no escaping is involved, and the
  forwarding of the query string is left out.
\<close>

subsection \<open>next.config.ts\<close>

record rewrite_env =
  rw_INTERNAL_API_URL :: "string option"
  rw_INTERNAL_KEYCLOAK_URL :: "string option"

definition apiUpstream :: "rewrite_env \<Rightarrow> string" where
  "apiUpstream e = (case rw_INTERNAL_API_URL e of Some u \<Rightarrow> u | None \<Rightarrow> ''http://controller:8443'')"

definition keycloakUpstream :: "rewrite_env \<Rightarrow> string" where
  "keycloakUpstream e = (case rw_INTERNAL_KEYCLOAK_URL e of Some u \<Rightarrow> u | None \<Rightarrow> ''http://keycloak:9090'')"

record Rewrite =
  rr_source :: string
  rr_destination :: string

definition nextConfig_rewrites :: "rewrite_env \<Rightarrow> Rewrite list" where
  "nextConfig_rewrites e =
     [\<lparr>rr_source = ''/api/v1/:path*'', rr_destination = apiUpstream e @ ''/api/v1/:path*''\<rparr>,
      \<lparr>rr_source = ''/kc/:path*'', rr_destination = keycloakUpstream e @ ''/kc/:path*''\<rparr>]"

subsection \<open>The documented behaviour of wildcard rules\<close>

text \<open>Segments that need no escaping and are not removed when an address is resolved.\<close>

definition plain_char :: "char \<Rightarrow> bool" where
  "plain_char c \<longleftrightarrow> is_alnum c \<or> c \<in> {CHR ''-'', CHR ''_'', CHR ''.'', CHR ''~''}"

definition plain_segment :: "string \<Rightarrow> bool" where
  "plain_segment s \<longleftrightarrow> s \<noteq> [] \<and> s \<noteq> ''.'' \<and> s \<noteq> ''..'' \<and> list_all plain_char s"

definition path_of :: "string list \<Rightarrow> string" where
  "path_of ss = concat (map (\<lambda>s. CHR ''/'' # s) ss)"

definition wildcard :: string where
  "wildcard = ''/:path*''"

text \<open>The address of a server: a scheme, a host name and an optional port.\<close>

definition origin_of :: "string \<Rightarrow> string \<Rightarrow> nat option \<Rightarrow> string" where
  "origin_of scheme host port =
     scheme @ ''://'' @ host @ (case port of None \<Rightarrow> [] | Some n \<Rightarrow> '':'' @ show_nat n)"

definition server_address :: "string \<Rightarrow> bool" where
  "server_address u \<longleftrightarrow>
     (\<exists>scheme host port. u = origin_of scheme host port \<and> scheme \<in> {''http'', ''https''} \<and> plain_segment host)"

locale next_rewrites =
  fixes forward :: "Rewrite list \<Rightarrow> string \<Rightarrow> string option"
  assumes wildcard_applies:
      "list_all plain_segment ps \<Longrightarrow> list_all plain_segment ss \<Longrightarrow> server_address u \<Longrightarrow>
       forward (\<lparr>rr_source = path_of ps @ wildcard, rr_destination = u @ path_of ps @ wildcard\<rparr> # rs)
         (path_of ps @ path_of ss) = Some (u @ path_of ps @ path_of ss)"
    and wildcard_skips:
      "list_all plain_segment ps \<Longrightarrow> \<not> prefix (path_of ps) path \<Longrightarrow>
       forward (\<lparr>rr_source = path_of ps @ wildcard, rr_destination = d\<rparr> # rs) path = forward rs path"
begin

text \<open>The two rules of the application do not get in each other's way.\<close>

lemma api_forwarded:
  assumes "list_all plain_segment ss" and "server_address (apiUpstream e)"
  shows "forward (nextConfig_rewrites e) (''/api/v1'' @ path_of ss) = Some (apiUpstream e @ ''/api/v1'' @ path_of ss)"
proof -
  have "list_all plain_segment [''api'', ''v1'']" by (simp add: plain_segment_def plain_char_def is_alnum_def)
  from wildcard_applies [OF this assms] show ?thesis
    by (simp add: nextConfig_rewrites_def path_of_def wildcard_def)
qed

lemma keycloak_forwarded:
  assumes "list_all plain_segment ss" and "server_address (keycloakUpstream e)"
  shows "forward (nextConfig_rewrites e) (''/kc'' @ path_of ss) = Some (keycloakUpstream e @ ''/kc'' @ path_of ss)"
proof -
  have api: "list_all plain_segment [''api'', ''v1'']" and kc: "list_all plain_segment [''kc'']"
    by (simp_all add: plain_segment_def plain_char_def is_alnum_def)
  have "\<not> prefix (path_of [''api'', ''v1'']) (''/kc'' @ path_of ss)" by (simp add: path_of_def)
  from wildcard_skips [OF api this] wildcard_applies [OF kc assms] show ?thesis
    by (simp add: nextConfig_rewrites_def path_of_def wildcard_def)
qed

end

subsection \<open>A matcher that meets the contract\<close>

text \<open>The first rule whose source, less the wildcard, is a prefix of whole segments applies.\<close>

definition strip_wildcard :: "string \<Rightarrow> string" where
  "strip_wildcard s = take (length s - length wildcard) s"

fun path_rewrite :: "Rewrite list \<Rightarrow> string \<Rightarrow> string option" where
  "path_rewrite [] path = None"
| "path_rewrite (r # rs) path =
     (let p = strip_wildcard (rr_source r)
      in if path = p \<or> prefix (p @ ''/'') path
         then Some (strip_wildcard (rr_destination r) @ drop (length p) path)
         else path_rewrite rs path)"

lemma strip_wildcard [simp]: "strip_wildcard (s @ wildcard) = s"
  by (simp add: strip_wildcard_def)

lemma strip_wildcard_tail [simp]: "strip_wildcard (s @ t @ wildcard) = s @ t"
  using strip_wildcard [of "s @ t"] by simp

lemma path_of_slash: "path_of ss = [] \<or> prefix ''/'' (path_of ss)"
  by (cases ss) (simp_all add: path_of_def)

interpretation path_rules: next_rewrites path_rewrite
proof
  fix ps ss u rs
  have "p @ path_of ss = p \<or> prefix (p @ ''/'') (p @ path_of ss)" for p
    using path_of_slash [of ss] by auto
  then show "path_rewrite (\<lparr>rr_source = path_of ps @ wildcard, rr_destination = u @ path_of ps @ wildcard\<rparr> # rs)
      (path_of ps @ path_of ss) = Some (u @ path_of ps @ path_of ss)"
    by (simp add: Let_def)
next
  fix ps path d rs
  assume "\<not> prefix (path_of ps) path"
  then have "path \<noteq> path_of ps" "\<not> prefix (path_of ps @ ''/'') path" by (auto dest: append_prefixD)
  then show "path_rewrite (\<lparr>rr_source = path_of ps @ wildcard, rr_destination = d\<rparr> # rs) path = path_rewrite rs path"
    by (simp add: Let_def)
qed

subsection \<open>Requests reach their servers\<close>

lemma plain_show_nat: "list_all plain_char (show_nat n)"
  by (auto simp: list_all_iff plain_char_def is_alnum_def is_digit_def Let_def dest!: show_nat_digits)

lemma plain_show_int [simp]: "plain_segment (show_int i)"
proof -
  have "show_int i \<noteq> ''.''" "show_int i \<noteq> ''..''"
    using show_int_not_word [of "''.''" i] show_int_not_word [of "''..''" i] by (simp_all add: is_digit_def)
  moreover have "list_all plain_char (show_int i)"
    using plain_show_nat by (simp add: show_int_def plain_char_def)
  ultimately show ?thesis by (simp add: plain_segment_def)
qed

lemma plain_words:
  "list_all plain_segment
     [''me'', ''organization'', ''audit-log'', ''members'', ''invitations'', ''api-keys'', ''enrollment-tokens'',
      ''devices'', ''count'', ''manifest'', ''labels'', ''logs'', ''telemetry'', ''hourly'', ''shell'', ''sessions'',
      ''ws'', ''certificates'', ''ca'', ''revoke'', ''requests'', ''approve'', ''reject'', ''agent'', ''installer'']"
  by (simp add: plain_segment_def plain_char_def is_alnum_def)

lemmas plain_word [simp] = plain_words [unfolded list.pred_inject]

definition plain_endpoint :: "endpoint \<Rightarrow> bool" where
  "plain_endpoint ep \<longleftrightarrow> (case endpoint_device ep of Some d \<Rightarrow> plain_segment d | None \<Rightarrow> True)"

lemma plain_endpoint_segments: "plain_endpoint ep \<Longrightarrow> list_all plain_segment (endpoint_segments ep)"
  by (cases ep) (simp_all add: plain_endpoint_def)

lemma path_of_join: "ss \<noteq> [] \<Longrightarrow> path_of ss = CHR ''/'' # join_char (CHR ''/'') ss"
  by (induction ss rule: list_nonempty_induct) (auto simp: path_of_def neq_Nil_conv)

lemma endpoint_path_of: "endpoint_path ep = ''/api/v1'' @ path_of (endpoint_segments ep)"
proof -
  have "endpoint_segments ep \<noteq> []" by (cases ep) simp_all
  then show ?thesis by (simp add: endpoint_path_segments path_of_join)
qed

text \<open>
  C27. Calls of the API reach the controller: when the client is built for its own origin (an empty
  \<open>NEXT_PUBLIC_API_URL\<close>, as in the Docker image), the address of every endpoint, with a device identifier
  that needs no escaping, is not intercepted by the sign-in guard and is forwarded to the same path of
  the controller, never to Keycloak; and the refresh of a token against the default issuer is forwarded
  to the token endpoint of Keycloak, below \<open>/kc\<close>.
\<close>

theorem requests_forwarded:
  assumes "next_rewrites forward" and "plain_endpoint ep"
    and "server_address (apiUpstream e)" and "server_address (keycloakUpstream e)"
    and "ev_issuer a = None"
  shows "\<not> mw_matcher (rq_url (build_request [] (endpoint_path ep) o1))
       \<and> forward (nextConfig_rewrites e) (rq_url (build_request [] (endpoint_path ep) o1))
           = Some (apiUpstream e @ endpoint_path ep)
       \<and> (\<exists>path. refresh_url a = ''http://localhost:3000'' @ path \<and> \<not> mw_matcher path
             \<and> forward (nextConfig_rewrites e) path = Some (keycloakUpstream e @ path))"
proof -
  let ?ss = "[''realms'', ''edgeguardian'', ''protocol'', ''openid-connect'', ''token'']"
  have ss: "list_all plain_segment ?ss" by (simp add: plain_segment_def plain_char_def is_alnum_def)
  have url: "rq_url (build_request [] (endpoint_path ep) o1) = ''/api/v1'' @ path_of (endpoint_segments ep)"
    by (simp add: build_request_def absoluteUrl_def endpoint_path_of)
  have "\<not> mw_matcher (''/api/v1'' @ path_of (endpoint_segments ep))" "\<not> mw_matcher (''/kc'' @ path_of ?ss)"
    by (simp_all add: mw_matcher_def)
  moreover have "refresh_url a = ''http://localhost:3000'' @ ''/kc'' @ path_of ?ss"
    using assms(5) by (simp add: refresh_url_def issuer_def path_of_def)
  ultimately show ?thesis
    using next_rewrites.api_forwarded [OF assms(1) plain_endpoint_segments [OF assms(2)] assms(3)]
      next_rewrites.keycloak_forwarded [OF assms(1) ss assms(4)]
    unfolding url by (simp only: endpoint_path_of append_assoc) blast
qed

definition rewrite_env_default :: rewrite_env where
  "rewrite_env_default = \<lparr>rw_INTERNAL_API_URL = None, rw_INTERNAL_KEYCLOAK_URL = None\<rparr>"

lemma default_upstreams:
  "server_address (apiUpstream rewrite_env_default)" "server_address (keycloakUpstream rewrite_env_default)"
proof -
  have "apiUpstream rewrite_env_default = origin_of ''http'' ''controller'' (Some 8443)"
    "keycloakUpstream rewrite_env_default = origin_of ''http'' ''keycloak'' (Some 9090)"
    by (simp_all add: apiUpstream_def keycloakUpstream_def rewrite_env_default_def origin_of_def show_nat.simps
        digit_char_def char_of_def bit_0)
  moreover have "plain_segment ''controller''" "plain_segment ''keycloak''"
    by (simp_all add: plain_segment_def plain_char_def is_alnum_def)
  ultimately show "server_address (apiUpstream rewrite_env_default)" "server_address (keycloakUpstream rewrite_env_default)"
    unfolding server_address_def by blast+
qed

theorem requests_forwarded_witness:
  "path_rewrite (nextConfig_rewrites rewrite_env_default)
     (rq_url (build_request [] (endpoint_path (DevicesLogs ''pi-4'')) (options_get ''t'')))
     = Some ''http://controller:8443/api/v1/devices/pi-4/logs''"
proof -
  have "plain_endpoint (DevicesLogs ''pi-4'')" "ev_issuer env_default = None"
    by (simp_all add: plain_endpoint_def plain_segment_def plain_char_def is_alnum_def env_default_def)
  from requests_forwarded [OF path_rules.next_rewrites_axioms this(1) default_upstreams this(2), of "options_get ''t''"]
  show ?thesis by (simp add: apiUpstream_def rewrite_env_default_def api_path_def)
qed

end
