(* ===== verification/Widgets.thy ===== *)
theory Widgets
  imports ApiClient
begin

text \<open>
  The shared components of src/ui/components: page header, empty state, confirmation dialog, state
  badge, metric card, skeletons, the error boundary, and the charts (whose drawing is recharts'
  and whose data is computed here).  They are polymorphic in the actions of the page that uses
  them.
\<close>

subsection \<open>page-header.tsx, empty-state.tsx, confirm-dialog.tsx\<close>

definition PageHeader :: "string \<Rightarrow> string option \<Rightarrow> 'a node list \<Rightarrow> 'a node" where
  "PageHeader title description children =
     el ''div''
       ([el ''div''
           ([el ''h1'' [Text title]]
            @ (if truthy description then [el ''p'' [Text (the description)]] else []))]
        @ (if children \<noteq> [] then [el ''div'' children] else []))"

definition EmptyState :: "string \<Rightarrow> string \<Rightarrow> string option \<Rightarrow> 'a node list \<Rightarrow> 'a node" where
  "EmptyState Icon title description children =
     el ''div''
       ([el ''div'' [icon Icon], el ''h3'' [Text title]]
        @ (if truthy description then [el ''p'' [Text (the description)]] else [])
        @ (if children \<noteq> [] then [el ''div'' children] else []))"

text \<open>
  \<open>confirmLabel\<close> and \<open>variant\<close> are the arguments after defaulting; clicking either button also
  makes the dialog widget report \<open>onOpenChange(false)\<close>, which is the handler of the root.
\<close>

definition ConfirmDialog ::
  "bool \<Rightarrow> (bool \<Rightarrow> 'a) \<Rightarrow> string \<Rightarrow> string \<Rightarrow> string \<Rightarrow> string \<Rightarrow> 'a \<Rightarrow> bool \<Rightarrow> 'a node" where
  "ConfirmDialog open1 onOpenChange title description confirmLabel variant onConfirm loading =
     El ''AlertDialog'' [(''open'', ABool open1)] [(''onOpenChange'', OnBool onOpenChange)]
       [el ''AlertDialogContent''
          [el ''AlertDialogHeader''
             [el ''AlertDialogTitle'' [Text title],
              el ''AlertDialogDescription'' [Text description]],
           el ''AlertDialogFooter''
             [El ''AlertDialogCancel'' [(''disabled'', ABool loading)] [] [Text ''Cancel''],
              on_click ''AlertDialogAction''
                [(''disabled'', ABool loading),
                 (''className'',
                    if variant = ''destructive''
                    then AStr ''bg-destructive text-destructive-foreground hover:bg-destructive/90''
                    else ANone)]
                onConfirm
                [Text (if loading then ''Loading...'' else confirmLabel)]]]]"

subsection \<open>state-badge.tsx\<close>

record state_style =
  ss_classes :: string
  ss_dot :: string

definition style_offline :: state_style where
  "style_offline =
     \<lparr>ss_classes = ''border-zinc-400/30 bg-zinc-400/10 text-zinc-500 dark:border-zinc-500/30 dark:bg-zinc-500/10 dark:text-zinc-400'',
      ss_dot = ''bg-zinc-400 dark:bg-zinc-500''\<rparr>"

definition stateConfig :: "(string \<times> state_style) list" where
  "stateConfig =
     [(''ONLINE'',
       \<lparr>ss_classes = ''border-emerald-500/30 bg-emerald-500/10 text-emerald-600 dark:border-emerald-400/30 dark:bg-emerald-400/10 dark:text-emerald-400'',
        ss_dot = ''bg-emerald-500 dark:bg-emerald-400''\<rparr>),
      (''OFFLINE'', style_offline),
      (''DEGRADED'',
       \<lparr>ss_classes = ''border-amber-500/30 bg-amber-500/10 text-amber-600 dark:border-amber-400/30 dark:bg-amber-400/10 dark:text-amber-400'',
        ss_dot = ''bg-amber-500 dark:bg-amber-400''\<rparr>),
      (''PENDING'',
       \<lparr>ss_classes = ''border-blue-500/30 bg-blue-500/10 text-blue-600 dark:border-blue-400/30 dark:bg-blue-400/10 dark:text-blue-400'',
        ss_dot = ''bg-blue-500 dark:bg-blue-400''\<rparr>),
      (''UPDATING'',
       \<lparr>ss_classes = ''border-violet-500/30 bg-violet-500/10 text-violet-600 dark:border-violet-400/30 dark:bg-violet-400/10 dark:text-violet-400'',
        ss_dot = ''bg-violet-500 dark:bg-violet-400''\<rparr>)]"

text \<open>The key is upper case, so it never hits an inherited property (lemma below).\<close>

definition state_config :: "string \<Rightarrow> state_style" where
  "state_config st =
     (case obj_get stateConfig (toUpperCase st) of Own c \<Rightarrow> c | _ \<Rightarrow> style_offline)"

definition StateBadge :: "string \<Rightarrow> 'a node" where
  "StateBadge st =
     (let config = state_config st; isOnline = (toUpperCase st = ''ONLINE'')
      in El ''Badge''
           [(''variant'', AStr ''outline''), (''className'', AClasses [''gap-1.5'', ss_classes config])] []
           [el ''span''
              (shown isOnline
                 (El ''span''
                    [(''className'', AClasses [''absolute inline-flex h-full w-full animate-ping rounded-full opacity-50'', ss_dot config])]
                    [] [])
               @ [El ''span''
                    [(''className'', AClasses [''relative inline-flex h-2 w-2 rounded-full'', ss_dot config])] [] []]),
            Text st])"

subsection \<open>metric-card.tsx\<close>

record 'a metric_card =
  mc_title :: string
  mc_value :: string
  mc_description :: "string option"
  mc_icon :: string
  mc_iconColor :: "string option"
  mc_trend :: "(int \<times> string) option"
  mc_chart :: "'a node option"
  mc_href :: "string option"

definition metric :: "string \<Rightarrow> string \<Rightarrow> string \<Rightarrow> string \<Rightarrow> 'a metric_card" where
  "metric title value description icn =
     \<lparr>mc_title = title, mc_value = value, mc_description = Some description, mc_icon = icn,
      mc_iconColor = None, mc_trend = None, mc_chart = None, mc_href = None\<rparr>"

definition MetricCard :: "'a metric_card \<Rightarrow> 'a node" where
  "MetricCard p =
     (let iconColor = (case mc_iconColor p of Some c \<Rightarrow> c | None \<Rightarrow> ''text-muted-foreground'');
          content =
            El ''Card''
              [(''className'', AClasses ([''group relative overflow-hidden'']
                  @ (if truthy (mc_href p) then [''cursor-pointer hover:border-primary/30''] else [])))] []
              [El ''div'' [] [] [],
               el ''CardHeader''
                 [el ''CardTitle'' [Text (mc_title p)],
                  El ''div''
                    [(''className'', AClasses ([''flex h-8 w-8 items-center justify-center rounded-lg bg-primary/10'']
                        @ (if iconColor = ''text-muted-foreground'' then [''bg-muted''] else [])))] []
                    [El (mc_icon p) [(''className'', AClasses [''h-4 w-4'', iconColor])] [] []]],
               el ''CardContent''
                 [el ''div''
                    ([el ''div''
                        ([el ''div'' [Text (mc_value p)]]
                         @ (if truthy (mc_description p) then [el ''p'' [Text (the (mc_description p))]] else [])
                         @ (case mc_trend p of
                              Some (v, lbl) \<Rightarrow>
                                [El ''p''
                                   [(''className'', AClasses [''mt-1 text-xs font-semibold'',
                                       if 0 \<le> v then ''text-emerald-500 dark:text-emerald-400''
                                       else ''text-red-500 dark:text-red-400''])] []
                                   [Text (if 0 \<le> v then ''+'' else ''''), Text (show_int v @ ''% '' @ lbl)]]
                            | None \<Rightarrow> []))]
                     @ (case mc_chart p of Some c \<Rightarrow> [el ''div'' [c]] | None \<Rightarrow> []))]]
      in if truthy (mc_href p)
         then El ''Link'' [(''href'', AStr (the (mc_href p)))] [] [content]
         else content)"

subsection \<open>loading-skeleton.tsx\<close>

definition skeleton :: "'a node" where
  "skeleton = icon ''Skeleton''"

definition MetricCardSkeleton :: "'a node" where
  "MetricCardSkeleton =
     el ''Card''
       [el ''CardHeader'' [skeleton, skeleton], el ''CardContent'' [skeleton, skeleton]]"

definition TableRowSkeleton :: "nat \<Rightarrow> 'a node" where
  "TableRowSkeleton columns = el ''tr'' (replicate columns (el ''td'' [skeleton]))"

definition DeviceDetailSkeleton :: "'a node" where
  "DeviceDetailSkeleton =
     el ''div''
       [el ''div'' [skeleton, skeleton],
        el ''div'' (replicate 4 MetricCardSkeleton),
        el ''Card'' [el ''CardHeader'' [skeleton], el ''CardContent'' [skeleton]]]"

subsection \<open>error-boundary.tsx\<close>

text \<open>The error's message is what the state keeps of it.\<close>

record boundary =
  eb_hasError :: bool
  eb_error :: "string option"

definition boundary_init :: boundary where
  "boundary_init = \<lparr>eb_hasError = False, eb_error = None\<rparr>"

definition getDerivedStateFromError :: "string \<Rightarrow> boundary" where
  "getDerivedStateFromError message = \<lparr>eb_hasError = True, eb_error = Some message\<rparr>"

datatype 'a boundary_act = TryAgain | Inner 'a

definition boundary_retry :: "boundary \<Rightarrow> boundary" where
  "boundary_retry s = s\<lparr>eb_hasError := False, eb_error := None\<rparr>"

definition ErrorBoundary_render ::
  "boundary \<Rightarrow> 'a boundary_act node option \<Rightarrow> 'a boundary_act node list \<Rightarrow> 'a boundary_act node list" where
  "ErrorBoundary_render s fallback children =
     (if eb_hasError s
      then (case fallback of
              Some f \<Rightarrow> [f]
            | None \<Rightarrow>
                [el ''Card''
                   [el ''CardContent''
                      [icon ''AlertTriangle'',
                       el ''div''
                         [el ''h3'' [Text ''Something went wrong''],
                          el ''p'' [Text (if truthy (eb_error s) then the (eb_error s)
                                          else ''An unexpected error occurred.'')]],
                       on_click ''Button'' [(''variant'', AStr ''outline'')] TryAgain
                         [icon ''RotateCcw'', Text ''Try again'']]]])
      else children)"

subsection \<open>Charts: sparkline, mini ring, fleet health, resource utilization, device resources\<close>

definition Sparkline :: "rat list \<Rightarrow> string \<Rightarrow> 'a node" where
  "Sparkline xs color =
     (let chartData = map (\<lambda>i. ('''', [of_nat i, xs ! i])) [0..<length xs]
      in el ''ResponsiveContainer''
           [El ''LineChart'' [(''data'', AData chartData)] []
              [El ''Line'' [(''stroke'', AStr color)] [] []]])"

definition MiniRingChart_data :: "int \<Rightarrow> int \<Rightarrow> int list" where
  "MiniRingChart_data value tot = [value, max 0 (tot - value)]"

definition MiniRingChart :: "int \<Rightarrow> int \<Rightarrow> 'a node" where
  "MiniRingChart value tot =
     el ''PieChart''
       [El ''Pie'' [(''data'', AData (map (\<lambda>v. ('''', [of_int v])) (MiniRingChart_data value tot)))] []
          [El ''Cell'' [(''fill'', AStr ''#34d399'')] [] [],
           El ''Cell'' [(''fill'', AStr ''var(--color-muted)'')] [] []]]"

definition FleetHealth_colors :: "(string \<times> string) list" where
  "FleetHealth_colors = [(''Online'', ''#34d399''), (''Degraded'', ''#fbbf24''), (''Offline'', ''#71717a'')]"

definition FleetHealth_data :: "int \<Rightarrow> int \<Rightarrow> int \<Rightarrow> (string \<times> int) list" where
  "FleetHealth_data online degraded offline =
     filter (\<lambda>d. 0 < snd d) [(''Online'', online), (''Degraded'', degraded), (''Offline'', offline)]"

definition FleetHealth_label :: "string \<Rightarrow> rat \<Rightarrow> string" where
  "FleetHealth_label name percent = name @ '' '' @ toFixed 0 (percent * 100) @ ''%''"

definition FleetHealthChart :: "int \<Rightarrow> int \<Rightarrow> int \<Rightarrow> 'a node" where
  "FleetHealthChart online degraded offline =
     (let rows = FleetHealth_data online degraded offline
      in if rows = [] then el ''div'' [Text ''No devices registered yet'']
         else el ''ResponsiveContainer''
                [el ''PieChart''
                   [El ''Pie'' [(''data'', AData (map (\<lambda>(n, v). (n, [of_int v])) rows))] []
                      (map (\<lambda>(n, v). El ''Cell''
                         [(''fill'', case map_of FleetHealth_colors n of Some c \<Rightarrow> AStr c | None \<Rightarrow> ANone)] [] []) rows),
                    icon ''Tooltip'', icon ''Legend'']])"

text \<open>The sign of a difference of numbers, as \<open>sort\<close> reads it.\<close>

definition num_compare :: "rat \<Rightarrow> rat \<Rightarrow> int" where
  "num_compare x y = (if x < y then - 1 else if x = y then 0 else 1)"

definition dev_cpu :: "Device \<Rightarrow> rat option" where
  "dev_cpu d = Option.bind (dv_status d) ds_cpuUsagePercent"

definition or_zero :: "rat option \<Rightarrow> rat" where
  "or_zero x = (case x of Some r \<Rightarrow> r | None \<Rightarrow> 0)"

definition ResourceUtilization_data :: "Device list \<Rightarrow> (string \<times> int) list" where
  "ResourceUtilization_data devices =
     (let ds = filter (\<lambda>d. dev_cpu d \<noteq> None) devices;
          ds = sort_by (\<lambda>a b. num_compare (or_zero (dev_cpu b)) (or_zero (dev_cpu a))) ds
      in map (\<lambda>d. (dv_hostname d, math_round (or_zero (dev_cpu d)))) (js_slice 0 5 ds))"

definition cpu_color :: "int \<Rightarrow> string" where
  "cpu_color c = (if c > 80 then ''#f87171'' else if c > 50 then ''#fbbf24'' else ''#06b6d4'')"

definition ResourceUtilizationChart :: "Device list \<Rightarrow> 'a node" where
  "ResourceUtilizationChart devices =
     (let rows = ResourceUtilization_data devices
      in if rows = [] then el ''div'' [Text ''No resource data available'']
         else el ''ResponsiveContainer''
                [El ''BarChart'' [(''data'', AData (map (\<lambda>(n, v). (n, [of_int v])) rows))] []
                   [icon ''XAxis'', icon ''YAxis'', icon ''Tooltip'',
                    el ''Bar'' (map (\<lambda>(n, v). El ''Cell'' [(''fill'', AStr (cpu_color v))] [] []) rows)]])"

record DeviceResourcePoint =
  rp_time :: string
  rp_cpu :: rat
  rp_memory :: rat

definition axis_format :: "string \<Rightarrow> string" where
  "axis_format axisFormat = (if axisFormat = ''day'' then ''MMM d HH:mm'' else ''HH:mm'')"

definition DeviceResourceChart :: "DeviceResourcePoint list \<Rightarrow> string \<Rightarrow> 'a node" where
  "DeviceResourceChart points axisFormat =
     el ''ResponsiveContainer''
       [El ''AreaChart'' [(''data'', AData (map (\<lambda>p. (rp_time p, [rp_cpu p, rp_memory p])) points))] []
          [icon ''CartesianGrid'',
           El ''XAxis'' [(''tickFormatter'', AStr (axis_format axisFormat))] [] [],
           icon ''YAxis'',
           El ''Tooltip'' [(''labelFormatter'', AStr ''MMM d, yyyy HH:mm:ss'')] [] [],
           icon ''Legend'',
           El ''Area'' [(''dataKey'', AStr ''cpu''), (''name'', AStr ''CPU'')] [] [],
           El ''Area'' [(''dataKey'', AStr ''memory''), (''name'', AStr ''Memory'')] [] []]]"

subsection \<open>What the shared components offer\<close>

lemma offers_in_PageHeader [simp]:
  "offers_in h (PageHeader t d cs) = (\<Union>c \<in> set cs. offers_in False c)"
  by (auto simp: PageHeader_def dialog_content_def)

lemma offers_in_EmptyState [simp]:
  "offers_in h (EmptyState i t d cs) = (\<Union>c \<in> set cs. offers_in False c)"
  by (auto simp: EmptyState_def dialog_content_def)

lemma offers_in_StateBadge [simp]: "offers_in h (StateBadge st) = {}"
  by (auto simp: StateBadge_def dialog_content_def Let_def)

lemma offers_in_TableRowSkeleton [simp]: "offers_in h (TableRowSkeleton n) = {}"
  by (auto simp: TableRowSkeleton_def skeleton_def)

lemma offers_in_ConfirmDialog:
  "offers_in h (ConfirmDialog open1 chg t d l v act loading) =
     {chg True, chg False} \<union> (if open1 \<and> \<not> loading then {act} else {})"
  by (auto simp: ConfirmDialog_def dialog_content_def closed_dialog_def)

lemma offers_in_MetricCard:
  "offers_in h (MetricCard p) = (case mc_chart p of Some c \<Rightarrow> offers_in False c | None \<Rightarrow> {})"
  by (auto simp: MetricCard_def dialog_content_def closed_dialog_def Let_def split: option.splits)

lemma offers_in_charts [simp]:
  "offers_in h (Sparkline xs c) = {}" "offers_in h (MiniRingChart a b) = {}"
  "offers_in h (FleetHealthChart x y z) = {}" "offers_in h (ResourceUtilizationChart ds) = {}"
  "offers_in h (DeviceResourceChart ps ax) = {}"
  by (auto simp: Sparkline_def MiniRingChart_def FleetHealthChart_def ResourceUtilizationChart_def
      DeviceResourceChart_def dialog_content_def Let_def split: if_splits)

subsection \<open>Properties\<close>

lemma upper_no_lower: "c \<in> set (toUpperCase s) \<Longrightarrow> \<not> (97 \<le> (of_char c :: nat) \<and> (of_char c :: nat) \<le> 122)"
  by (auto simp: toUpperCase_def js_upper_char_def)

lemma upper_not_inherited: "toUpperCase s \<notin> set object_prototype_keys"
proof
  assume "toUpperCase s \<in> set object_prototype_keys"
  then have "CHR ''o'' \<in> set (toUpperCase s) \<or> CHR ''e'' \<in> set (toUpperCase s)"
    by (auto simp: object_prototype_keys_def)
  then show False using upper_no_lower [of _ s] by fastforce
qed

interpretation num_cmp: comparator num_compare
  by unfold_locales (auto simp: num_compare_def split: if_splits)

interpretation num_cmp_desc: comparator "\<lambda>a b :: Device. num_compare (or_zero (dev_cpu b)) (or_zero (dev_cpu a))"
proof -
  have "(\<lambda>a b :: Device. num_compare (or_zero (dev_cpu b)) (or_zero (dev_cpu a))) =
        (\<lambda>a b. - num_compare (or_zero (dev_cpu a)) (or_zero (dev_cpu b)))"
    by (auto simp: num_compare_def fun_eq_iff)
  then show "comparator (\<lambda>a b :: Device. num_compare (or_zero (dev_cpu b)) (or_zero (dev_cpu a)))"
    using comparator.comparator_key [OF num_cmp.comparator_flip, of "\<lambda>d. or_zero (dev_cpu d)"] by simp
qed

end
