(* ===== verification/Listing.thy ===== *)
theory Listing
  imports Widgets
begin

text \<open>
  Pagination as the list pages share it: \<open>xs.slice(page * pageSize, (page + 1) * pageSize)\<close> and
  \<open>Math.ceil(xs.length / pageSize)\<close>.  The locale states what a page needs of its list and proves,
  once, that the pages partition the list and when a page is empty; the devices, audit and
  certificate pages interpret it.
\<close>

definition page_slice :: "int \<Rightarrow> int \<Rightarrow> 'a list \<Rightarrow> 'a list" where
  "page_slice page pageSize xs = js_slice (page * pageSize) ((page + 1) * pageSize) xs"

definition total_pages :: "nat \<Rightarrow> int \<Rightarrow> int" where
  "total_pages n pageSize = \<lceil>of_nat n / of_int pageSize :: rat\<rceil>"

lemma page_slice_nat:
  assumes "0 \<le> page" and "0 < ps"
  shows "page_slice page ps xs = take (nat ps) (drop (nat page * nat ps) xs)"
proof -
  have "page_slice page ps xs = take (nat ((page + 1) * ps - page * ps)) (drop (nat (page * ps)) xs)"
    unfolding page_slice_def using assms by (intro js_slice_nonneg) (auto simp: algebra_simps)
  moreover have "(page + 1) * ps - page * ps = ps" by (simp add: algebra_simps)
  ultimately show ?thesis using assms by (simp add: nat_mult_distrib)
qed

lemma less_total_pages:
  assumes "0 < ps" and "0 \<le> page"
  shows "page < total_pages n ps \<longleftrightarrow> nat page * nat ps < n"
proof -
  have "page < total_pages n ps \<longleftrightarrow> (of_int page :: rat) < of_nat n / of_int ps"
    by (simp add: total_pages_def less_ceiling_iff)
  also have "\<dots> \<longleftrightarrow> (of_int (page * ps) :: rat) < of_int (int n)"
    using assms by (simp add: pos_less_divide_eq)
  also have "\<dots> \<longleftrightarrow> page * ps < int n"
    by (rule of_int_less_iff)
  also have "\<dots> \<longleftrightarrow> nat page * nat ps < n"
    using assms nat_less_iff [of "page * ps" n] by (simp add: nat_mult_distrib)
  finally show ?thesis .
qed

lemma total_pages_nonneg: "0 < ps \<Longrightarrow> 0 \<le> total_pages n ps"
proof -
  assume "0 < ps"
  then have "(0 :: rat) \<le> of_nat n / of_int ps" by simp
  then show ?thesis unfolding total_pages_def using zero_le_ceiling by linarith
qed

lemma total_pages_cover: "0 < ps \<Longrightarrow> n \<le> nat (total_pages n ps) * nat ps"
  using less_total_pages [of ps "total_pages n ps" n] total_pages_nonneg [of ps n] by simp

lemma concat_pages:
  assumes "0 < ps"
  shows "concat (map (\<lambda>p. page_slice (int p) ps xs) [0..<n]) = take (n * nat ps) xs"
proof (induction n)
  case (Suc n)
  have "take (n * nat ps + nat ps) xs = take (n * nat ps) xs @ take (nat ps) (drop (n * nat ps) xs)"
    by (rule take_add)
  moreover have "Suc n * nat ps = n * nat ps + nat ps" by simp
  ultimately show ?case using Suc assms by (simp add: page_slice_nat del: mult_Suc)
qed simp

text \<open>The text under a list: first and last row shown, and the number of rows.\<close>

definition showing_text :: "int \<Rightarrow> int \<Rightarrow> nat \<Rightarrow> string" where
  "showing_text page pageSize n =
     ''Showing '' @ show_int (page * pageSize + 1) @ ''-''
     @ show_int (min ((page + 1) * pageSize) (int n)) @ '' of '' @ show_int (int n)"

lemma int_min_diff: "m < n \<Longrightarrow> int (min k (n - m)) = min (int k) (int n - int m)" for k m n :: nat
  by (auto simp: min_def)

locale paged_list =
  fixes ok :: "'s \<Rightarrow> bool" and rows :: "'s \<Rightarrow> 'x list" and page_no :: "'s \<Rightarrow> int"
    and page_size :: "'s \<Rightarrow> int" and visible :: "'s \<Rightarrow> 'x list"
  assumes size_pos: "ok s \<Longrightarrow> 0 < page_size s"
    and page_nonneg: "ok s \<Longrightarrow> 0 \<le> page_no s"
    and visible_slice: "visible s = page_slice (page_no s) (page_size s) (rows s)"
begin

lemma visible_nat:
  "ok s \<Longrightarrow> visible s = take (nat (page_size s)) (drop (nat (page_no s) * nat (page_size s)) (rows s))"
  by (simp add: visible_slice page_slice_nat size_pos page_nonneg)

lemma visible_subset: "ok s \<Longrightarrow> set (visible s) \<subseteq> set (rows s)"
  using set_take_subset set_drop_subset by (fastforce simp: visible_nat)

lemma visible_bounded: "ok s \<Longrightarrow> length (visible s) \<le> nat (page_size s)"
  by (simp add: visible_nat)

lemma visible_empty_iff:
  "ok s \<Longrightarrow> visible s = [] \<longleftrightarrow> total_pages (length (rows s)) (page_size s) \<le> page_no s"
proof -
  assume ok: "ok s"
  then have "visible s = [] \<longleftrightarrow> length (rows s) \<le> nat (page_no s) * nat (page_size s)"
    using size_pos [OF ok] by (auto simp: visible_nat)
  then show ?thesis
    using less_total_pages [OF size_pos [OF ok] page_nonneg [OF ok], of "length (rows s)"] by linarith
qed

lemma next_page_empty_iff:
  "ok s \<Longrightarrow> page_slice (page_no s + 1) (page_size s) (rows s) = [] \<longleftrightarrow>
     total_pages (length (rows s)) (page_size s) - 1 \<le> page_no s"
proof -
  assume ok: "ok s"
  have nn: "0 \<le> page_no s + 1" using page_nonneg [OF ok] by simp
  have "page_slice (page_no s + 1) (page_size s) (rows s) = [] \<longleftrightarrow>
        length (rows s) \<le> nat (page_no s + 1) * nat (page_size s)"
    using size_pos [OF ok] nn by (auto simp: page_slice_nat)
  then show ?thesis
    using less_total_pages [OF size_pos [OF ok] nn, of "length (rows s)"] by linarith
qed

lemma pages_partition:
  "ok s \<Longrightarrow>
     concat (map (\<lambda>p. page_slice (int p) (page_size s) (rows s))
               [0..<nat (total_pages (length (rows s)) (page_size s))]) = rows s"
  using total_pages_cover [OF size_pos, of s "length (rows s)"]
  by (simp add: concat_pages size_pos)

lemma visible_count:
  "ok s \<Longrightarrow> visible s \<noteq> [] \<Longrightarrow>
     int (length (visible s)) =
       min ((page_no s + 1) * page_size s) (int (length (rows s))) - page_no s * page_size s"
proof -
  assume ok: "ok s" and ne: "visible s \<noteq> []"
  let ?p = "nat (page_no s)" and ?k = "nat (page_size s)"
  have lt: "?p * ?k < length (rows s)"
    using ne size_pos [OF ok] by (simp add: visible_nat [OF ok])
  have len: "length (visible s) = min ?k (length (rows s) - ?p * ?k)"
    by (simp add: visible_nat [OF ok] min.commute)
  have "int (length (visible s)) = min (int ?k) (int (length (rows s)) - int (?p * ?k))"
    unfolding len using lt by (rule int_min_diff)
  moreover have "int ?k = page_size s" "int (?p * ?k) = page_no s * page_size s"
    using size_pos [OF ok] page_nonneg [OF ok] by simp_all
  ultimately show ?thesis using page_nonneg [OF ok] by (simp add: algebra_simps min_def)
qed

end

end
