(* ===== verification/Organizations.thy ===== *)
theory Organizations
  imports ApiClient
begin

text \<open>
  The organization side of the client: src/ui/lib/api/organizations.ts, the organization context
  (src/ui/lib/hooks/use-organization.ts) and the switcher of the sidebar
  (src/ui/components/org-switcher.tsx).  The context's state is the answer of \<open>/me\<close>, the chosen
  organization and the browser's local storage entry.
\<close>

subsection \<open>organizations.ts: data\<close>

record Organization =
  og_id :: int
  og_name :: string
  og_slug :: string
  og_description :: "string option"
  og_createdAt :: string

record OrgRole =
  or_id :: int
  or_name :: string
  or_slug :: string
  or_role :: string

record MeUser =
  mu_id :: int
  mu_email :: string
  mu_displayName :: string
  mu_avatarUrl :: "string option"
  mu_createdAt :: string

record MeResponse =
  me_user :: MeUser
  me_organizations :: "OrgRole list"

record OrgMember =
  om_id :: int
  om_userId :: int
  om_email :: "string option"
  om_displayName :: "string option"
  om_avatarUrl :: "string option"
  om_role :: string
  om_joinedAt :: string

record EnrollmentToken =
  et_id :: int
  et_token :: string
  et_name :: string
  et_maxUses :: int
  et_useCount :: int
  et_expiresAt :: "string option"
  et_createdAt :: string

record ApiKeyEntry =
  ak_id :: int
  ak_name :: string
  ak_prefix :: string
  ak_lastUsedAt :: "string option"
  ak_expiresAt :: "string option"
  ak_createdAt :: string

record Invitation =
  iv_id :: int
  iv_email :: string
  iv_role :: string
  iv_createdAt :: string

datatype invite_status = Added | Invited

record InviteResult =
  ir_status :: invite_status
  ir_member :: "OrgMember option"
  ir_invitation :: "Invitation option"

record AuditLogEntry =
  al_id :: int
  al_userId :: int
  al_userEmail :: "string option"
  al_action :: string
  al_resourceType :: string
  al_resourceId :: string
  al_details :: "json option"
  al_createdAt :: string

subsection \<open>organizations.ts: calls\<close>

definition getMe :: "'w env \<Rightarrow> string \<Rightarrow> 'w call" where
  "getMe e token = apiFetch e (endpoint_path Me) (options_get token)"

definition getOrganization :: "'w env \<Rightarrow> string \<Rightarrow> 'w call" where
  "getOrganization e token = apiFetch e (endpoint_path OrganizationGet) (options_get token)"

text \<open>\<open>JSON.stringify\<close> drops the members that are \<open>undefined\<close>.\<close>

definition opt_member :: "string \<Rightarrow> string option \<Rightarrow> (string \<times> json) list" where
  "opt_member k v = (case v of Some s \<Rightarrow> [(k, JStr s)] | None \<Rightarrow> [])"

definition updateOrganization :: "'w env \<Rightarrow> string \<Rightarrow> string option \<Rightarrow> string option \<Rightarrow> 'w call" where
  "updateOrganization e token name description =
     apiFetch e (endpoint_path OrganizationUpdate)
       (options_body ''PUT'' token
          (JObj (opt_member ''name'' name @ opt_member ''description'' description)))"

definition listMembers :: "'w env \<Rightarrow> string \<Rightarrow> 'w call" where
  "listMembers e token = apiFetch e (endpoint_path MembersList) (options_get token)"

definition inviteMember :: "'w env \<Rightarrow> string \<Rightarrow> string \<Rightarrow> string \<Rightarrow> 'w call" where
  "inviteMember e token email role =
     apiFetch e (endpoint_path MembersCreate)
       (options_body ''POST'' token (JObj [(''email'', JStr email), (''role'', JStr role)]))"

definition removeMember :: "'w env \<Rightarrow> string \<Rightarrow> int \<Rightarrow> 'w call" where
  "removeMember e token i = apiFetch e (endpoint_path (MembersById i)) (options_method ''DELETE'' token)"

definition listInvitations :: "'w env \<Rightarrow> string \<Rightarrow> 'w call" where
  "listInvitations e token = apiFetch e (endpoint_path InvitationsList) (options_get token)"

definition revokeInvitation :: "'w env \<Rightarrow> string \<Rightarrow> int \<Rightarrow> 'w call" where
  "revokeInvitation e token i =
     apiFetch e (endpoint_path (InvitationsById i)) (options_method ''DELETE'' token)"

definition updateMemberRole :: "'w env \<Rightarrow> string \<Rightarrow> int \<Rightarrow> string \<Rightarrow> 'w call" where
  "updateMemberRole e token i role =
     apiFetch e (endpoint_path (MembersById i))
       (options_body ''PATCH'' token (JObj [(''role'', JStr role)]))"

definition listEnrollmentTokens :: "'w env \<Rightarrow> string \<Rightarrow> 'w call" where
  "listEnrollmentTokens e token = apiFetch e (endpoint_path EnrollmentTokensList) (options_get token)"

text \<open>A NaN is written as \<open>null\<close> by \<open>JSON.stringify\<close>.\<close>

definition num_json :: "rat option \<Rightarrow> json" where
  "num_json x = (case x of Some r \<Rightarrow> JNum r | None \<Rightarrow> JNull)"

definition createEnrollmentToken :: "'w env \<Rightarrow> string \<Rightarrow> string \<Rightarrow> rat option \<Rightarrow> 'w call" where
  "createEnrollmentToken e token description maxUses =
     apiFetch e (endpoint_path EnrollmentTokensCreate)
       (options_body ''POST'' token
          (JObj [(''description'', JStr description), (''maxUses'', num_json maxUses)]))"

definition deleteEnrollmentToken :: "'w env \<Rightarrow> string \<Rightarrow> int \<Rightarrow> 'w call" where
  "deleteEnrollmentToken e token i =
     apiFetch e (endpoint_path (EnrollmentTokensById i)) (options_method ''DELETE'' token)"

definition buildInstallerUrl :: "string \<Rightarrow> string \<Rightarrow> string \<Rightarrow> string \<Rightarrow> string" where
  "buildInstallerUrl base os arch tokenSecret =
     (let params = search_params [(''os'', os), (''arch'', arch), (''token'', tokenSecret)]
      in absoluteUrl base (endpoint_path AgentInstaller @ ''?'' @ params))"

definition listApiKeys :: "'w env \<Rightarrow> string \<Rightarrow> 'w call" where
  "listApiKeys e token = apiFetch e (endpoint_path ApiKeysList) (options_get token)"

definition createApiKey :: "'w env \<Rightarrow> string \<Rightarrow> string \<Rightarrow> 'w call" where
  "createApiKey e token name =
     apiFetch e (endpoint_path ApiKeysCreate) (options_body ''POST'' token (JObj [(''name'', JStr name)]))"

definition deleteApiKey :: "'w env \<Rightarrow> string \<Rightarrow> int \<Rightarrow> 'w call" where
  "deleteApiKey e token i = apiFetch e (endpoint_path (ApiKeysById i)) (options_method ''DELETE'' token)"

record audit_params =
  ap_page :: "int option"
  ap_size :: "int option"
  ap_action :: "string option"
  ap_resourceType :: "string option"

definition audit_query :: "audit_params option \<Rightarrow> (string \<times> string) list" where
  "audit_query params =
     (case params of None \<Rightarrow> []
      | Some p \<Rightarrow>
          (let q = (case ap_page p of Some n \<Rightarrow> obj_set ''page'' (show_int n) [] | None \<Rightarrow> []);
               q = (case ap_size p of Some n \<Rightarrow> obj_set ''size'' (show_int n) q | None \<Rightarrow> q);
               q = set_if ''action'' (ap_action p) q
           in set_if ''resourceType'' (ap_resourceType p) q))"

definition listAuditLog :: "'w env \<Rightarrow> string \<Rightarrow> audit_params option \<Rightarrow> 'w call" where
  "listAuditLog e token params =
     (let qs = search_params (audit_query params)
      in apiFetch e (endpoint_path OrganizationAuditLog @ (if qs \<noteq> [] then ''?'' @ qs else ''''))
           (options_get token))"

subsection \<open>use-organization.ts\<close>

definition org_storage_key :: string where
  "org_storage_key = ''edgeguardian-org-id''"

record org_ctx =
  oc_me :: "MeResponse option"
  oc_isLoading :: bool
  oc_orgId :: "int option"
  oc_window :: bool
  oc_stored :: "string option"

definition org_ctx_init :: "bool \<Rightarrow> string option \<Rightarrow> org_ctx" where
  "org_ctx_init window stored =
     \<lparr>oc_me = None, oc_isLoading = True, oc_orgId = None, oc_window = window, oc_stored = stored\<rparr>"

text \<open>A number is falsy when it is 0; \<open>undefined\<close> is falsy too.\<close>

definition falsy_id :: "int option \<Rightarrow> bool" where
  "falsy_id i \<longleftrightarrow> i = None \<or> i = Some 0"

definition stored_id :: "org_ctx \<Rightarrow> int option" where
  "stored_id c =
     (let stored = (if oc_window c then oc_stored c else None)
      in if truthy stored then parseInt10 (the stored) else None)"

definition find_org :: "int option \<Rightarrow> OrgRole list \<Rightarrow> OrgRole option" where
  "find_org i os = (case i of Some n \<Rightarrow> List.find (\<lambda>o1. or_id o1 = n) os | None \<Rightarrow> None)"

text \<open>The effect that picks an organization once \<open>/me\<close> has answered.\<close>

definition select_org_effect :: "org_ctx \<Rightarrow> org_ctx" where
  "select_org_effect c =
     (case oc_me c of
        None \<Rightarrow> c
      | Some m \<Rightarrow>
          if falsy_id (oc_orgId c)
          then c\<lparr>oc_orgId :=
                   (case find_org (stored_id c) (me_organizations m) of
                      Some o1 \<Rightarrow> Some (or_id o1)
                    | None \<Rightarrow> (case me_organizations m of o1 # _ \<Rightarrow> Some (or_id o1) | [] \<Rightarrow> None))\<rparr>
          else c)"

definition setOrgId :: "int \<Rightarrow> org_ctx \<Rightarrow> org_ctx \<times> effect list" where
  "setOrgId i c =
     (if oc_window c
      then (c\<lparr>oc_orgId := Some i, oc_stored := Some (show_int i)\<rparr>, [StorageSet org_storage_key (show_int i)])
      else (c\<lparr>oc_orgId := Some i\<rparr>, []))"

definition currentOrg :: "org_ctx \<Rightarrow> OrgRole option" where
  "currentOrg c = (case oc_me c of Some m \<Rightarrow> find_org (oc_orgId c) (me_organizations m) | None \<Rightarrow> None)"

text \<open>\<open>Number(s)\<close> for decimal text: white space is trimmed, the empty string is 0, \<open>None\<close> is NaN.\<close>

definition trim :: "string \<Rightarrow> string" where
  "trim s = rev (dropWhile is_space (rev (dropWhile is_space s)))"

definition parse_exponent :: "string \<Rightarrow> int option" where
  "parse_exponent s =
     (case s of
        [] \<Rightarrow> Some 0
      | c # t \<Rightarrow>
          if c \<noteq> CHR ''e'' \<and> c \<noteq> CHR ''E'' then None
          else (let (neg, u) = (case t of
                        x # u \<Rightarrow> if x = CHR ''-'' then (True, u) else if x = CHR ''+'' then (False, u) else (False, t)
                      | [] \<Rightarrow> (False, t))
                in if u \<noteq> [] \<and> list_all is_digit u
                   then Some ((if neg then - 1 else 1) * int (digits_val 0 u)) else None))"

definition parse_unsigned :: "string \<Rightarrow> rat option" where
  "parse_unsigned s =
     (let ds = takeWhile is_digit s; r = dropWhile is_digit s;
          (fs, r) = (case r of
                c # t \<Rightarrow> if c = CHR ''.'' then (takeWhile is_digit t, dropWhile is_digit t) else ([], r)
              | [] \<Rightarrow> ([], r))
      in if ds = [] \<and> fs = [] then None
         else map_option
                (\<lambda>x. of_nat (digits_val 0 (ds @ fs)) * 10 powi (x - int (length fs)))
                (parse_exponent r))"

definition js_Number :: "string \<Rightarrow> rat option" where
  "js_Number s =
     (case trim s of
        [] \<Rightarrow> Some 0
      | c # t \<Rightarrow>
          if c = CHR ''-'' then map_option uminus (parse_unsigned t)
          else if c = CHR ''+'' then parse_unsigned t
          else parse_unsigned (c # t))"

subsection \<open>org-switcher.tsx\<close>

datatype org_act = PickOrg "rat option"

definition OrgSwitcher :: "org_ctx \<Rightarrow> org_act node list" where
  "OrgSwitcher c =
     (case oc_me c of
        None \<Rightarrow> []
      | Some m \<Rightarrow>
          if me_organizations m = [] then []
          else
            [El ''Select''
               [(''value'', if falsy_id (oc_orgId c) then ANone else AStr (show_int (the (oc_orgId c))))]
               [(''onValueChange'', OnText (\<lambda>v. PickOrg (js_Number v)))]
               [el ''SelectTrigger''
                  [el ''div'' [icon ''Building2'',
                     El ''SelectValue'' [(''placeholder'', AStr ''Select organization'')] [] []]],
                el ''SelectContent''
                  (map (\<lambda>o1. El ''SelectItem'' [(''value'', AStr (show_int (or_id o1)))] []
                          [el ''div''
                             [el ''span'' [Text (or_name o1)],
                              El ''Badge'' [(''variant'', AStr ''secondary'')] [] [Text (or_role o1)]]])
                     (me_organizations m))]])"

text \<open>\<open>setOrgId(Number(val))\<close>; the items only carry integers, so a NaN leaves no choice.\<close>

definition org_switch :: "org_act \<Rightarrow> org_ctx \<Rightarrow> org_ctx \<times> effect list" where
  "org_switch a c = (case a of PickOrg (Some r) \<Rightarrow> setOrgId \<lfloor>r\<rfloor> c | PickOrg None \<Rightarrow> (c, []))"

subsection \<open>Choosing an organization\<close>

lemma find_org_Some: "find_org i os = Some o1 \<Longrightarrow> o1 \<in> set os \<and> i = Some (or_id o1)"
  by (auto simp: find_org_def find_Some_iff split: option.splits)

lemma find_org_mem: "o1 \<in> set os \<Longrightarrow> \<exists>o2. find_org (Some (or_id o1)) os = Some o2 \<and> or_id o2 = or_id o1"
proof -
  assume "o1 \<in> set os"
  then have "find_org (Some (or_id o1)) os \<noteq> None"
    by (auto simp: find_org_def find_None_iff)
  then show ?thesis using find_org_Some by fastforce
qed


definition org_a :: OrgRole where
  "org_a = \<lparr>or_id = 7, or_name = ''A'', or_slug = ''a'', or_role = ''OWNER''\<rparr>"

definition org_b :: OrgRole where
  "org_b = \<lparr>or_id = 12, or_name = ''B'', or_slug = ''b'', or_role = ''VIEWER''\<rparr>"

definition me_ab :: MeResponse where
  "me_ab = \<lparr>me_user = \<lparr>mu_id = 1, mu_email = ''u'', mu_displayName = ''U'', mu_avatarUrl = None, mu_createdAt = ''''\<rparr>,
           me_organizations = [org_a, org_b]\<rparr>"


text \<open>
  Choosing an organization survives a reload: the identifier written to local storage is
  read back, and as long as the user still belongs to that organization the fresh page chooses
  it again.
\<close>

theorem setOrgId_survives_reload:
  assumes "oc_window c" and "o1 \<in> set (me_organizations m)"
  shows "oc_orgId (select_org_effect
           ((org_ctx_init True (oc_stored (fst (setOrgId (or_id o1) c))))\<lparr>oc_me := Some m\<rparr>))
         = Some (or_id o1)"
proof -
  obtain o2 where "find_org (Some (or_id o1)) (me_organizations m) = Some o2" "or_id o2 = or_id o1"
    using find_org_mem [OF assms(2)] by blast
  with assms(1) show ?thesis
    by (simp add: select_org_effect_def org_ctx_init_def setOrgId_def falsy_id_def stored_id_def
        truthy_def parse_show_int)
qed

theorem setOrgId_survives_reload_witness:
  "oc_orgId (select_org_effect
     ((org_ctx_init True (oc_stored (fst (setOrgId (or_id org_b) (org_ctx_init True None)))))\<lparr>oc_me := Some me_ab\<rparr>))
   = Some (or_id org_b)"
  by (rule setOrgId_survives_reload) (simp_all add: org_ctx_init_def me_ab_def)

lemma trim_show_int [simp]: "trim (show_int n) = show_int n"
proof -
  have "\<not> is_space x" if "x \<in> set (show_int n)" for x
    using that digit_not_special(1) show_nat_digits
    by (auto simp: show_int_def is_space_def split: if_splits)
  then have "dropWhile is_space (show_int n) = show_int n" "dropWhile is_space (rev (show_int n)) = rev (show_int n)"
    by (metis dropWhile_eq_self_iff hd_in_set, metis dropWhile_eq_self_iff hd_in_set set_rev)
  then show ?thesis by (simp add: trim_def)
qed

lemma dropWhile_show_nat [simp]: "dropWhile is_digit (show_nat n) = []"
  by (simp add: dropWhile_eq_Nil_conv show_nat_digits)

lemma parse_unsigned_show_nat [simp]: "parse_unsigned (show_nat n) = Some (of_nat n)"
  by (simp add: parse_unsigned_def parse_exponent_def Let_def del: dropWhile_eq_Nil_conv)

lemma js_Number_show_int: "js_Number (show_int n) = Some (of_int n)"
proof (cases "n < 0")
  case True
  then show ?thesis
    using trim_show_int [of n] by (simp add: js_Number_def show_int_def)
next
  case False
  obtain c cs where c: "show_nat (nat n) = c # cs" "is_digit c"
    using show_nat_Cons by blast
  then have "parse_unsigned (c # cs) = Some (of_nat (nat n))"
    by (metis parse_unsigned_show_nat)
  with c False show ?thesis
    using trim_show_int [of n] by (simp add: js_Number_def show_int_def digit_not_special)
qed

text \<open>
  The switcher lets the user pick exactly the organizations \<open>/me\<close> listed: the choices it
  offers are the identifiers of those organizations and picking one makes it the current
  organization's identifier.
\<close>

theorem OrgSwitcher_offers:
  assumes "oc_me c = Some m"
  shows "(\<Union>n \<in> set (OrgSwitcher c). offers n) =
           (\<lambda>o1. PickOrg (Some (of_int (or_id o1)))) ` set (me_organizations m)
       \<and> (\<forall>o1. oc_orgId (fst (org_switch (PickOrg (Some (of_int (or_id o1)))) c)) = Some (or_id o1))"
proof -
  have items: "concat (map (item_values \<circ> (\<lambda>o1. El ''SelectItem'' [(''value'', AStr (show_int (or_id o1)))] [] (f o1))) os)
      = map (\<lambda>o1. show_int (or_id o1)) os" for f :: "OrgRole \<Rightarrow> org_act node list" and os
    by (induction os) auto
  show ?thesis
    using assms items
    by (auto simp: OrgSwitcher_def offers_def dialog_content_def org_switch_def setOrgId_def
        js_Number_show_int image_image)
qed

theorem OrgSwitcher_offers_witness:
  "(\<Union>n \<in> set (OrgSwitcher ((org_ctx_init True None)\<lparr>oc_me := Some me_ab\<rparr>)). offers n) =
      (\<lambda>o1. PickOrg (Some (of_int (or_id o1)))) ` set (me_organizations me_ab)
   \<and> (\<forall>o1. oc_orgId (fst (org_switch (PickOrg (Some (of_int (or_id o1))))
                ((org_ctx_init True None)\<lparr>oc_me := Some me_ab\<rparr>))) = Some (or_id o1))"
  by (rule OrgSwitcher_offers) simp

text \<open>
  The installer link carries the operating system, the architecture and the enrollment
  token exactly as given, whatever characters the token has: the three parameters read back, and
  nothing else is in the query.
\<close>

theorem buildInstallerUrl_query:
  "\<exists>q. buildInstallerUrl base os arch tok = base @ ''/api/v1/agent/installer?'' @ q
     \<and> parse_query q = [(''os'', os), (''arch'', arch), (''token'', tok)]"
  by (rule exI [of _ "search_params [(''os'', os), (''arch'', arch), (''token'', tok)]"])
     (simp add: buildInstallerUrl_def absoluteUrl_def api_path_def parse_search_params Let_def)

end
