(* ===== verification/DevicesPage.thy ===== *)
theory DevicesPage
  imports Listing Organizations
begin

text \<open>
  The fleet list, src/ui/app/(dashboard)/devices/page.tsx: filters, sorting, pagination,
  selection and the bulk delete.

  The state is the page's \<open>useState\<close> variables, the answer of the \<open>["devices"]\<close> query and the
  pending flag of the delete mutation.  Every event handler is an action; \<open>devices_handle\<close> is what
  it does.  \<open>localeCompare\<close> (its order is the locale's) and \<open>formatDistanceToNow\<close> of date-fns are
  parameters.  \<open>devices_step\<close> is the page as a user and the network drive it: an action the
  rendered page offers, the session's token, an answer or a failure of the query (a query without a
  token is disabled and not loading), the settling of the mutation, the timer of the copy button.
\<close>

subsection \<open>State\<close>

datatype SortKey = Hostname | ByState | LastHeartbeat

datatype SortDir = Asc | Desc

record devices_page =
  dp_token :: "string option"
  dp_devices :: "Device list option"
  dp_isLoading :: bool
  dp_search :: string
  dp_stateFilter :: "string list"
  dp_archFilter :: string
  dp_sortKey :: SortKey
  dp_sortDir :: SortDir
  dp_page :: int
  dp_pageSize :: int
  dp_selected :: "string list"
  dp_deleteConfirmOpen :: bool
  dp_enrollDialogOpen :: bool
  dp_copied :: bool
  dp_deleting :: bool

definition devices_init :: "string option \<Rightarrow> devices_page" where
  "devices_init token =
     \<lparr>dp_token = token, dp_devices = None, dp_isLoading = truthy token, dp_search = '''', dp_stateFilter = [],
      dp_archFilter = '''', dp_sortKey = Hostname, dp_sortDir = Asc, dp_page = 0, dp_pageSize = 10,
      dp_selected = [], dp_deleteConfirmOpen = False, dp_enrollDialogOpen = False, dp_copied = False,
      dp_deleting = False\<rparr>"

definition token_or_empty :: "string option \<Rightarrow> string" where
  "token_or_empty t = (case t of Some s \<Rightarrow> s | None \<Rightarrow> '''')"

subsection \<open>Derived values\<close>

definition dp_list :: "devices_page \<Rightarrow> Device list" where
  "dp_list s = (case dp_devices s of Some ds \<Rightarrow> ds | None \<Rightarrow> [])"

definition hasFilters :: "devices_page \<Rightarrow> bool" where
  "hasFilters s \<longleftrightarrow> dp_search s \<noteq> [] \<or> 0 < length (dp_stateFilter s) \<or> dp_archFilter s \<noteq> []"

definition opt_text :: "string option \<Rightarrow> string" where
  "opt_text x = (case x of Some s \<Rightarrow> s | None \<Rightarrow> '''')"

definition sort_cmp :: "(string \<Rightarrow> string \<Rightarrow> int) \<Rightarrow> SortKey \<Rightarrow> Device \<Rightarrow> Device \<Rightarrow> int" where
  "sort_cmp lc k a b =
     (case k of
        Hostname \<Rightarrow> lc (dv_hostname a) (dv_hostname b)
      | ByState \<Rightarrow> lc (dv_state a) (dv_state b)
      | LastHeartbeat \<Rightarrow> lc (opt_text (dv_lastHeartbeat a)) (opt_text (dv_lastHeartbeat b)))"

definition dir_cmp :: "(string \<Rightarrow> string \<Rightarrow> int) \<Rightarrow> SortKey \<Rightarrow> SortDir \<Rightarrow> Device \<Rightarrow> Device \<Rightarrow> int" where
  "dir_cmp lc k d a b = (let cmp = sort_cmp lc k a b in if d = Asc then cmp else - cmp)"

definition filtered :: "(string \<Rightarrow> string \<Rightarrow> int) \<Rightarrow> devices_page \<Rightarrow> Device list" where
  "filtered lc s =
     (let result = dp_list s;
          result = (if dp_search s \<noteq> []
                    then (let lower = toLowerCase (dp_search s)
                          in filter (\<lambda>d. str_includes (toLowerCase (dv_hostname d)) lower
                                       \<or> str_includes (toLowerCase (dv_deviceId d)) lower) result)
                    else result);
          result = (if 0 < length (dp_stateFilter s)
                    then filter (\<lambda>d. dv_state d \<in> set (dp_stateFilter s)) result else result);
          result = (if dp_archFilter s \<noteq> []
                    then filter (\<lambda>d. dv_architecture d = dp_archFilter s) result else result)
      in sort_by (dir_cmp lc (dp_sortKey s) (dp_sortDir s)) result)"

definition totalPages :: "(string \<Rightarrow> string \<Rightarrow> int) \<Rightarrow> devices_page \<Rightarrow> int" where
  "totalPages lc s = total_pages (length (filtered lc s)) (dp_pageSize s)"

definition paginated :: "(string \<Rightarrow> string \<Rightarrow> int) \<Rightarrow> devices_page \<Rightarrow> Device list" where
  "paginated lc s = js_slice (dp_page s * dp_pageSize s) ((dp_page s + 1) * dp_pageSize s) (filtered lc s)"

definition architectures :: "devices_page \<Rightarrow> string list" where
  "architectures s = sort_by code_unit_compare (set_of_array (map dv_architecture (dp_list s)))"

subsection \<open>Handlers\<close>

datatype devices_act =
    SetEnrollDialog bool | CopyCommand
  | SetSearch string | ToggleState string | SetArch string | ClearFilters
  | OpenDeleteConfirm | ToggleSelectAll | ToggleSort SortKey
  | OpenDevice string | ToggleSelect string | StopPropagation
  | SetPageSize string | PrevPage | NextPage
  | SetDeleteConfirm bool | ConfirmDelete

definition enroll_command :: string where
  "enroll_command = ''curl -sSL https://get.edgeguardian.io | sh -s -- --token YOUR_ENROLLMENT_TOKEN''"

definition toggleState :: "string \<Rightarrow> devices_page \<Rightarrow> devices_page" where
  "toggleState st s =
     s\<lparr>dp_stateFilter := (if st \<in> set (dp_stateFilter s) then filter (\<lambda>x. x \<noteq> st) (dp_stateFilter s)
                          else dp_stateFilter s @ [st]),
       dp_page := 0\<rparr>"

definition toggleSort :: "SortKey \<Rightarrow> devices_page \<Rightarrow> devices_page" where
  "toggleSort k s =
     (if dp_sortKey s = k then s\<lparr>dp_sortDir := (if dp_sortDir s = Asc then Desc else Asc)\<rparr>
      else s\<lparr>dp_sortKey := k, dp_sortDir := Asc\<rparr>)"

definition clearFilters :: "devices_page \<Rightarrow> devices_page" where
  "clearFilters s = s\<lparr>dp_search := '''', dp_stateFilter := [], dp_archFilter := '''', dp_page := 0\<rparr>"

definition toggleSelect :: "string \<Rightarrow> devices_page \<Rightarrow> devices_page" where
  "toggleSelect i s =
     s\<lparr>dp_selected := (if i \<in> set (dp_selected s) then set_delete i (dp_selected s)
                       else set_add i (dp_selected s))\<rparr>"

definition toggleSelectAll :: "(string \<Rightarrow> string \<Rightarrow> int) \<Rightarrow> devices_page \<Rightarrow> devices_page" where
  "toggleSelectAll lc s =
     (if length (dp_selected s) = length (paginated lc s) then s\<lparr>dp_selected := []\<rparr>
      else s\<lparr>dp_selected := set_of_array (map dv_deviceId (paginated lc s))\<rparr>)"

definition page_size_of :: "string \<Rightarrow> int" where
  "page_size_of v = (case js_Number v of Some r \<Rightarrow> \<lfloor>r\<rfloor> | None \<Rightarrow> 0)"

fun devices_handle ::
  "(string \<Rightarrow> string \<Rightarrow> int) \<Rightarrow> devices_act \<Rightarrow> devices_page \<Rightarrow> devices_page \<times> effect list" where
  "devices_handle lc (SetEnrollDialog v) s = (s\<lparr>dp_enrollDialogOpen := v\<rparr>, [])"
| "devices_handle lc CopyCommand s =
     (s\<lparr>dp_copied := True\<rparr>, [ClipboardWrite enroll_command, SetTimeout 2000 ''copied''])"
| "devices_handle lc (SetSearch v) s = (s\<lparr>dp_search := v, dp_page := 0\<rparr>, [])"
| "devices_handle lc (ToggleState st) s = (toggleState st s, [])"
| "devices_handle lc (SetArch v) s =
     (s\<lparr>dp_archFilter := (if v = ''all'' then '''' else v), dp_page := 0\<rparr>, [])"
| "devices_handle lc ClearFilters s = (clearFilters s, [])"
| "devices_handle lc OpenDeleteConfirm s = (s\<lparr>dp_deleteConfirmOpen := True\<rparr>, [])"
| "devices_handle lc ToggleSelectAll s = (toggleSelectAll lc s, [])"
| "devices_handle lc (ToggleSort k) s = (toggleSort k s, [])"
| "devices_handle lc (OpenDevice i) s = (s, [RouterPush (''/devices/'' @ i)])"
| "devices_handle lc (ToggleSelect i) s = (toggleSelect i s, [])"
| "devices_handle lc StopPropagation s = (s, [])"
| "devices_handle lc (SetPageSize v) s = (s\<lparr>dp_pageSize := page_size_of v, dp_page := 0\<rparr>, [])"
| "devices_handle lc PrevPage s = (s\<lparr>dp_page := dp_page s - 1\<rparr>, [])"
| "devices_handle lc NextPage s = (s\<lparr>dp_page := dp_page s + 1\<rparr>, [])"
| "devices_handle lc (SetDeleteConfirm v) s = (s\<lparr>dp_deleteConfirmOpen := v\<rparr>, [])"
| "devices_handle lc ConfirmDelete s =
     (s\<lparr>dp_deleting := True, dp_deleteConfirmOpen := False\<rparr>, [Mutate ''deleteDevice'' (dp_selected s)])"

text \<open>The delete mutation: sequential deletes that stop at the first failure, and its callbacks.\<close>

fun delete_devices :: "'w env \<Rightarrow> string \<Rightarrow> string list \<Rightarrow> 'w \<Rightarrow> 'w \<times> failure option" where
  "delete_devices e token [] w = (w, None)"
| "delete_devices e token (i # ids) w =
     (case deleteDevice e token i w of
        (w', Inl f) \<Rightarrow> (w', Some f)
      | (w', Inr _) \<Rightarrow> delete_devices e token ids w')"

definition delete_onSuccess :: "devices_page \<Rightarrow> devices_page \<times> effect list" where
  "delete_onSuccess s =
     (s\<lparr>dp_selected := []\<rparr>,
      [ToastSuccess (''Deleted '' @ show_int (int (length (dp_selected s))) @ '' device(s)''),
       InvalidateQueries [KStr ''devices'']])"

definition delete_onError :: "failure \<Rightarrow> devices_page \<Rightarrow> devices_page \<times> effect list" where
  "delete_onError f s = (s, [ToastError (''Failed to delete: '' @ err_message f)])"

subsection \<open>Rendering\<close>

definition SortHeader :: "string \<Rightarrow> SortKey \<Rightarrow> devices_act node" where
  "SortHeader label sortId =
     on_click ''button'' [] (ToggleSort sortId) [Text label, icon ''ArrowUpDown'']"

definition devices_header :: "devices_page \<Rightarrow> devices_act node" where
  "devices_header s =
     (let n = length (dp_list s)
      in PageHeader ''Devices''
           (Some (show_int (int n) @ '' device'' @ (if n \<noteq> 1 then ''s'' else '''') @ '' registered''))
           [El ''Dialog'' [(''open'', ABool (dp_enrollDialogOpen s))] [(''onOpenChange'', OnBool SetEnrollDialog)]
              [el ''DialogTrigger'' [el ''Button'' [icon ''Plus'', Text ''Add Device'']],
               el ''DialogContent''
                 [el ''DialogHeader''
                    [el ''DialogTitle'' [Text ''Add a Device''],
                     el ''DialogDescription'' [Text ''Run this command on your edge device to enroll it.'']],
                  el ''div'' [el ''code'' [Text enroll_command]],
                  on_click ''Button'' [(''variant'', AStr ''outline'')] CopyCommand
                    [icon (if dp_copied s then ''Check'' else ''Copy''),
                     Text (if dp_copied s then ''Copied!'' else ''Copy Command'')]]]])"

definition devices_filter_bar :: "devices_page \<Rightarrow> devices_act node" where
  "devices_filter_bar s =
     el ''div''
       ([el ''div''
           [icon ''Search'',
            El ''Input'' [(''placeholder'', AStr ''Search devices...''), (''value'', AStr (dp_search s))]
              [(''onChange'', OnText SetSearch)] []]]
        @ map (\<lambda>st. on_click ''Button''
                 [(''variant'', AStr (if st \<in> set (dp_stateFilter s) then ''default'' else ''outline'')),
                  (''size'', AStr ''sm'')] (ToggleState st) [Text st])
            [''ONLINE'', ''DEGRADED'', ''OFFLINE'']
        @ [El ''Select'' [(''value'', AStr (dp_archFilter s))] [(''onValueChange'', OnText SetArch)]
             [el ''SelectTrigger'' [El ''SelectValue'' [(''placeholder'', AStr ''Architecture'')] [] []],
              el ''SelectContent''
                (El ''SelectItem'' [(''value'', AStr ''all'')] [] [Text ''All Architectures'']
                 # map (\<lambda>a. El ''SelectItem'' [(''value'', AStr a)] [] [Text a]) (architectures s))]]
        @ shown (hasFilters s)
            (on_click ''Button'' [(''variant'', AStr ''ghost''), (''size'', AStr ''sm'')] ClearFilters
               [icon ''X'', Text ''Clear'']))"

definition devices_bulk_bar :: "devices_page \<Rightarrow> devices_act node list" where
  "devices_bulk_bar s =
     shown (0 < length (dp_selected s))
       (el ''div''
          [el ''span'' [Text (show_int (int (length (dp_selected s))) @ '' selected'')],
           on_click ''Button'' [(''variant'', AStr ''destructive''), (''size'', AStr ''sm'')] OpenDeleteConfirm
             [icon ''Trash2'', Text ''Delete'']])"

definition label_badges :: "(string \<times> string) list option \<Rightarrow> devices_act node list" where
  "label_badges ls =
     (let entries = (case ls of Some es \<Rightarrow> es | None \<Rightarrow> [])
      in map (\<lambda>(k, v). El ''Badge'' [(''variant'', AStr ''outline'')] [] [Text (k @ ''='' @ v)])
           (js_slice 0 2 entries)
         @ shown (length entries > 2)
             (El ''Badge'' [(''variant'', AStr ''outline'')] []
                [Text (''+'' @ show_int (int (length entries) - 2))]))"

definition device_row :: "(string \<Rightarrow> string) \<Rightarrow> devices_page \<Rightarrow> Device \<Rightarrow> devices_act node" where
  "device_row fdt s d =
     on_click ''TableRow'' [] (OpenDevice (dv_deviceId d))
       [on_click ''TableCell'' [] StopPropagation
          [El ''Checkbox'' [(''checked'', ABool (dv_deviceId d \<in> set (dp_selected s)))]
             [(''onCheckedChange'', Do (ToggleSelect (dv_deviceId d)))] []],
        el ''TableCell'' [Text (dv_hostname d)],
        el ''TableCell'' [StateBadge (dv_state d)],
        el ''TableCell''
          [El ''Badge'' [(''variant'', AStr ''secondary'')] [] [Text (dv_os d @ ''/'' @ dv_architecture d)]],
        el ''TableCell'' [el ''span'' [Text (dv_agentVersion d)]],
        el ''TableCell''
          [Text (if truthy (dv_lastHeartbeat d) then fdt (the (dv_lastHeartbeat d)) else ''Never'')],
        el ''TableCell'' [el ''div'' (label_badges (dv_labels d))]]"

definition devices_table ::
  "(string \<Rightarrow> string \<Rightarrow> int) \<Rightarrow> (string \<Rightarrow> string) \<Rightarrow> devices_page \<Rightarrow> devices_act node" where
  "devices_table lc fdt s =
     (let rows = paginated lc s
      in el ''div''
           [el ''Table''
              [el ''TableHeader''
                 [el ''TableRow''
                    [el ''TableHead''
                       [El ''Checkbox''
                          [(''checked'', ABool (length rows > 0 \<and> length (dp_selected s) = length rows))]
                          [(''onCheckedChange'', Do ToggleSelectAll)] []],
                     el ''TableHead'' [SortHeader ''Hostname'' Hostname],
                     el ''TableHead'' [SortHeader ''State'' ByState],
                     el ''TableHead'' [Text ''Architecture''],
                     el ''TableHead'' [Text ''Version''],
                     el ''TableHead'' [SortHeader ''Last Heartbeat'' LastHeartbeat],
                     el ''TableHead'' [Text ''Labels'']]],
               el ''TableBody''
                 (if dp_isLoading s then replicate 5 (TableRowSkeleton 7)
                  else if length rows = 0
                  then [el ''TableRow''
                          [El ''TableCell'' [(''colSpan'', AInt 7)] []
                             [EmptyState ''Inbox'' ''No devices found''
                                (Some ''Register your first device to see it here.'') []]]]
                  else map (device_row fdt s) rows)]])"

definition devices_pager :: "(string \<Rightarrow> string \<Rightarrow> int) \<Rightarrow> devices_page \<Rightarrow> devices_act node list" where
  "devices_pager lc s =
     shown (0 < length (filtered lc s))
       (el ''div''
          [el ''p'' [Text (showing_text (dp_page s) (dp_pageSize s) (length (filtered lc s)))],
           el ''div''
             [El ''Select'' [(''value'', AStr (show_int (dp_pageSize s)))] [(''onValueChange'', OnText SetPageSize)]
                [el ''SelectTrigger'' [El ''SelectValue'' [] [] []],
                 el ''SelectContent''
                   (map (\<lambda>n. El ''SelectItem'' [(''value'', AStr (show_int n))] [] [Text (show_int n)]) [10, 25, 50])],
              on_click ''Button'' [(''variant'', AStr ''outline''), (''disabled'', ABool (dp_page s = 0))] PrevPage
                [Text ''Previous''],
              on_click ''Button''
                [(''variant'', AStr ''outline''), (''disabled'', ABool (dp_page s \<ge> totalPages lc s - 1))] NextPage
                [Text ''Next'']]])"

definition devices_confirm :: "devices_page \<Rightarrow> devices_act node" where
  "devices_confirm s =
     ConfirmDialog (dp_deleteConfirmOpen s) SetDeleteConfirm ''Delete Devices''
       (''Are you sure you want to delete '' @ show_int (int (length (dp_selected s)))
        @ '' device(s)? This action cannot be undone.'')
       ''Delete'' ''destructive'' ConfirmDelete (dp_deleting s)"

definition DevicesPage_render ::
  "(string \<Rightarrow> string \<Rightarrow> int) \<Rightarrow> (string \<Rightarrow> string) \<Rightarrow> devices_page \<Rightarrow> devices_act node" where
  "DevicesPage_render lc fdt s =
     el ''div''
       ([devices_header s, devices_filter_bar s] @ devices_bulk_bar s @ [devices_table lc fdt s]
        @ devices_pager lc s @ [devices_confirm s])"

subsection \<open>Steps\<close>

inductive devices_step ::
  "(string \<Rightarrow> string \<Rightarrow> int) \<Rightarrow> (string \<Rightarrow> string) \<Rightarrow> devices_page \<Rightarrow> devices_page \<Rightarrow> bool"
  for lc fdt where
  user: "a \<in> offers (DevicesPage_render lc fdt s) \<Longrightarrow> devices_step lc fdt s (fst (devices_handle lc a s))"
| session: "devices_step lc fdt s (s\<lparr>dp_token := tok, dp_isLoading := truthy tok \<and> dp_devices s = None\<rparr>)"
| loaded: "truthy (dp_token s) \<Longrightarrow> devices_step lc fdt s (s\<lparr>dp_devices := Some ds, dp_isLoading := False\<rparr>)"
| load_failed: "devices_step lc fdt s (s\<lparr>dp_isLoading := False\<rparr>)"
| delete_ok: "dp_deleting s \<Longrightarrow> devices_step lc fdt s ((fst (delete_onSuccess s))\<lparr>dp_deleting := False\<rparr>)"
| delete_failed: "dp_deleting s \<Longrightarrow> devices_step lc fdt s ((fst (delete_onError f s))\<lparr>dp_deleting := False\<rparr>)"
| copied_off: "devices_step lc fdt s (s\<lparr>dp_copied := False\<rparr>)"

subsection \<open>What the page offers\<close>

lemma offers_devices_header:
  "offers_in h (devices_header s) =
     {SetEnrollDialog True, SetEnrollDialog False} \<union> (if dp_enrollDialogOpen s then {CopyCommand} else {})"
  by (auto simp: devices_header_def Let_def)

lemma concat_item_values:
  "concat (map (item_values \<circ> (\<lambda>a. El ''SelectItem'' [(''value'', AStr (f a))] [] (g a))) xs) = map f xs"
  by (induction xs) auto

lemma offers_devices_filter_bar:
  "offers_in h (devices_filter_bar s) =
     range SetSearch \<union> ToggleState ` {''ONLINE'', ''DEGRADED'', ''OFFLINE''}
     \<union> SetArch ` insert ''all'' (set (architectures s)) \<union> (if hasFilters s then {ClearFilters} else {})"
  by (auto simp: devices_filter_bar_def concat_item_values)

lemma offers_devices_bulk_bar:
  "(\<Union>c \<in> set (devices_bulk_bar s). offers_in h c) = (if dp_selected s \<noteq> [] then {OpenDeleteConfirm} else {})"
  by (auto simp: devices_bulk_bar_def)

lemma offers_label_badges: "c \<in> set (label_badges ls) \<Longrightarrow> offers_in h c = {}"
  by (auto simp: label_badges_def Let_def split: if_splits)

lemma offers_device_row:
  "offers_in h (device_row fdt s d) =
     {OpenDevice (dv_deviceId d), StopPropagation, ToggleSelect (dv_deviceId d)}"
  using offers_label_badges [of _ "dv_labels d"] by (auto simp: device_row_def)

lemma offers_devices_table:
  "offers_in h (devices_table lc fdt s) =
     {ToggleSelectAll, ToggleSort Hostname, ToggleSort ByState, ToggleSort LastHeartbeat}
     \<union> (if dp_isLoading s then {}
        else \<Union>d \<in> set (paginated lc s). {OpenDevice (dv_deviceId d), StopPropagation, ToggleSelect (dv_deviceId d)})"
  by (auto simp: devices_table_def SortHeader_def offers_device_row Let_def)

lemma offers_devices_pager:
  "(\<Union>c \<in> set (devices_pager lc s). offers_in h c) =
     (if filtered lc s = [] then {}
      else SetPageSize ` {show_int 10, show_int 25, show_int 50}
         \<union> (if dp_page s = 0 then {} else {PrevPage})
         \<union> (if totalPages lc s - 1 \<le> dp_page s then {} else {NextPage}))"
  by (auto simp: devices_pager_def concat_item_values)

lemma offers_DevicesPage:
  "offers (DevicesPage_render lc fdt s) =
     offers_in False (devices_header s) \<union> offers_in False (devices_filter_bar s)
     \<union> (\<Union>c \<in> set (devices_bulk_bar s). offers_in False c) \<union> offers_in False (devices_table lc fdt s)
     \<union> (\<Union>c \<in> set (devices_pager lc s). offers_in False c)
     \<union> ({SetDeleteConfirm True, SetDeleteConfirm False}
        \<union> (if dp_deleteConfirmOpen s \<and> \<not> dp_deleting s then {ConfirmDelete} else {}))"
  by (simp add: DevicesPage_render_def offers_def devices_confirm_def offers_in_ConfirmDialog Un_ac)

lemmas offers_devices = offers_DevicesPage offers_devices_header offers_devices_filter_bar
  offers_devices_bulk_bar offers_devices_table offers_devices_pager

subsection \<open>The filtered list\<close>

definition device_matches :: "devices_page \<Rightarrow> Device \<Rightarrow> bool" where
  "device_matches s d \<longleftrightarrow>
     (dp_search s = [] \<or> str_includes (toLowerCase (dv_hostname d)) (toLowerCase (dp_search s))
        \<or> str_includes (toLowerCase (dv_deviceId d)) (toLowerCase (dp_search s)))
     \<and> (dp_stateFilter s = [] \<or> dv_state d \<in> set (dp_stateFilter s))
     \<and> (dp_archFilter s = [] \<or> dv_architecture d = dp_archFilter s)"

lemma filtered_filter:
  "filtered lc s = sort_by (dir_cmp lc (dp_sortKey s) (dp_sortDir s)) (filter (device_matches s) (dp_list s))"
  by (auto simp: filtered_def device_matches_def Let_def conj_commute intro!: arg_cong [where f = "sort_by _"] filter_cong)

lemma filtered_frame [simp]:
  "filtered lc (s\<lparr>dp_page := p\<rparr>) = filtered lc s"
  "filtered lc (s\<lparr>dp_selected := sel\<rparr>) = filtered lc s"
  by (simp_all add: filtered_filter device_matches_def [abs_def] dp_list_def)

lemma dir_cmp_comparator: "comparator lc \<Longrightarrow> comparator (dir_cmp lc k d)"
proof -
  assume lc: "comparator lc"
  have key: "comparator (sort_cmp lc k)"
    using comparator.comparator_key [OF lc] by (cases k) (simp_all add: sort_cmp_def [abs_def])
  show ?thesis
    using key comparator.comparator_flip [OF key]
    by (cases d) (simp_all add: dir_cmp_def [abs_def] Let_def)
qed

definition dev_h :: "string \<Rightarrow> Device" where
  "dev_h h =
     \<lparr>dv_deviceId = h, dv_hostname = h, dv_architecture = ''arm64'', dv_os = ''linux'',
      dv_agentVersion = ''1'', dv_labels = None, dv_state = ''ONLINE'', dv_registeredAt = '''',
      dv_lastHeartbeat = None, dv_autoUpdate = None, dv_status = None\<rparr>"



subsection \<open>Reachable states and pagination\<close>

definition dp_inv :: "devices_page \<Rightarrow> bool" where
  "dp_inv s \<longleftrightarrow> 0 \<le> dp_page s \<and> dp_pageSize s \<in> {10, 25, 50} \<and> distinct (dp_selected s)"

lemma page_size_of_show [simp]: "page_size_of (show_int n) = n"
  by (simp add: page_size_of_def js_Number_show_int)

lemma devices_handle_inv:
  assumes "dp_inv s" and "a \<in> offers (DevicesPage_render lc fdt s)"
  shows "dp_inv (fst (devices_handle lc a s))"
proof (cases a)
  case (SetPageSize v)
  with assms(2) have "v \<in> {show_int 10, show_int 25, show_int 50}"
    by (auto simp: offers_devices split: if_splits)
  then have "page_size_of v \<in> {10, 25, 50}" by auto
  with assms(1) SetPageSize show ?thesis by (auto simp: dp_inv_def)
next
  case PrevPage
  with assms(2) have "dp_page s \<noteq> 0" by (auto simp: offers_devices split: if_splits)
  with assms(1) PrevPage show ?thesis by (auto simp: dp_inv_def)
qed (use assms(1) in \<open>auto simp: dp_inv_def toggleState_def clearFilters_def toggleSelectAll_def
       toggleSort_def toggleSelect_def\<close>)

lemma devices_step_inv: "dp_inv s \<Longrightarrow> devices_step lc fdt s t \<Longrightarrow> dp_inv t"
proof (erule devices_step.cases, goal_cases)
  case (1 a s')
  then show ?case using devices_handle_inv by blast
qed (auto simp: dp_inv_def delete_onSuccess_def delete_onError_def)

interpretation devices_machine:
  state_machine "\<lambda>s. \<exists>tok. s = devices_init tok" "devices_step lc fdt" dp_inv for lc fdt
proof
  show "\<exists>tok. s = devices_init tok \<Longrightarrow> dp_inv s" for s
    by (auto simp: dp_inv_def devices_init_def)
  show "dp_inv s \<Longrightarrow> devices_step lc fdt s t \<Longrightarrow> dp_inv t" for s t
    by (rule devices_step_inv)
qed

interpretation devices_pages: paged_list dp_inv "filtered lc" dp_page dp_pageSize "paginated lc" for lc
  by unfold_locales (auto simp: dp_inv_def paginated_def page_slice_def)

abbreviation devices_reach ::
  "(string \<Rightarrow> string \<Rightarrow> int) \<Rightarrow> (string \<Rightarrow> string) \<Rightarrow> devices_page \<Rightarrow> bool" where
  "devices_reach lc fdt \<equiv> reach (\<lambda>s. \<exists>tok. s = devices_init tok) (devices_step lc fdt)"

definition sample_device :: "nat \<Rightarrow> Device" where
  "sample_device i = (dev_h ''h'')\<lparr>dv_deviceId := show_nat i\<rparr>"

definition sample_loaded :: "nat \<Rightarrow> devices_page" where
  "sample_loaded n = (devices_init (Some ''t''))\<lparr>dp_devices := Some (map sample_device [0..<n]), dp_isLoading := False\<rparr>"

lemma sample_loaded_fields [simp]:
  "dp_token (sample_loaded n) = Some ''t''" "dp_devices (sample_loaded n) = Some (map sample_device [0..<n])"
  "dp_isLoading (sample_loaded n) = False" "dp_page (sample_loaded n) = 0" "dp_pageSize (sample_loaded n) = 10"
  "dp_selected (sample_loaded n) = []"
  by (simp_all add: sample_loaded_def devices_init_def)

lemma reach_sample_loaded: "devices_reach lc fdt (sample_loaded n)"
proof -
  have "devices_reach lc fdt (devices_init (Some ''t''))" by (rule reach_init) blast
  then show ?thesis unfolding sample_loaded_def by (rule reach_step) (rule devices_step.loaded, simp add: devices_init_def truthy_def)
qed




lemma filtered_sample: "filtered lc (sample_loaded n) = sort_by (dir_cmp lc Hostname Asc) (map sample_device [0..<n])"
  by (simp add: filtered_def sample_loaded_def devices_init_def dp_list_def)

lemma length_filtered_sample [simp]: "length (filtered lc (sample_loaded n)) = n"
  by (simp add: filtered_sample)


subsection \<open>The bulk delete\<close>

lemma delete_devices_log:
  "delete_devices (log_env base srv) token ids w =
     (let done_ids = takeWhile (\<lambda>i. call_ok (deleteDevice (log_env base srv) token i)) ids;
          sent = take (Suc (length done_ids)) ids
      in (w @ map (\<lambda>i. build_request base (endpoint_path (DevicesById i)) (options_method ''DELETE'' token)) sent,
          if done_ids = ids then None
          else call_failure (deleteDevice (log_env base srv) token (ids ! length done_ids))))"
proof (induction ids arbitrary: w)
  case (Cons i ids)
  show ?case
  proof (cases "call_ok (deleteDevice (log_env base srv) token i)")
    case True
    then obtain v where "deleteDevice (log_env base srv) token i w =
        (w @ [build_request base (endpoint_path (DevicesById i)) (options_method ''DELETE'' token)], Inr v)"
      unfolding deleteDevice_def by (rule apiFetch_log_ok)
    with Cons.IH True show ?thesis by (simp add: Let_def)
  next
    case False
    then obtain f where "deleteDevice (log_env base srv) token i w =
        (w @ [build_request base (endpoint_path (DevicesById i)) (options_method ''DELETE'' token)], Inl f)"
      "call_failure (deleteDevice (log_env base srv) token i) = Some f"
      unfolding deleteDevice_def by (rule apiFetch_log_failed)
    with False show ?thesis by simp
  qed
qed simp

text \<open>
  C13. The bulk delete sends one DELETE request per selected device, in the order of the
  selection and one after the other, up to and including the first that fails, and none after it;
  it succeeds exactly when none fails, and rejects with the failure of that request.
\<close>

theorem delete_devices_requests:
  "delete_devices (log_env base srv) token ids w =
     (let done_ids = takeWhile (\<lambda>i. call_ok (deleteDevice (log_env base srv) token i)) ids;
          sent = take (Suc (length done_ids)) ids
      in (w @ map (\<lambda>i. build_request base (endpoint_path (DevicesById i)) (options_method ''DELETE'' token)) sent,
          if done_ids = ids then None
          else call_failure (deleteDevice (log_env base srv) token (ids ! length done_ids))))"
  by (rule delete_devices_log)

subsection \<open>Two corners of the page\<close>

lemma sort_by_trivial: "(\<And>x y. x \<in> set xs \<Longrightarrow> y \<in> set xs \<Longrightarrow> cmp x y \<le> 0) \<Longrightarrow> sort_by cmp xs = xs"
proof (induction xs)
  case (Cons x xs)
  then have "sort_by cmp xs = xs" by simp
  moreover have "insert_by cmp x xs = x # xs" using Cons.prems by (cases xs) auto
  ultimately show ?case by (simp add: sort_by_def)
qed (simp add: sort_by_def)

lemma reach_user:
  "devices_reach lc fdt s \<Longrightarrow> a \<in> offers (DevicesPage_render lc fdt s) \<Longrightarrow>
     devices_reach lc fdt (fst (devices_handle lc a s))"
  by (rule reach_step, assumption) (rule devices_step.user)

lemma total_pages_ten: "total_pages 11 10 = 2" "total_pages 20 10 = 2"
  by (simp_all add: total_pages_def ceiling_eq_iff)

lemma reach_second_page:
  assumes "devices_reach lc fdt s" and "length (filtered lc s) \<in> {11, 20}"
    and "dp_page s = 0" and "dp_pageSize s = 10"
  shows "devices_reach lc fdt (s\<lparr>dp_page := 1\<rparr>)"
proof -
  have "NextPage \<in> offers (DevicesPage_render lc fdt s)"
    using assms(2-4) by (auto simp: offers_devices totalPages_def total_pages_ten)
  from reach_user [OF assms(1) this] show ?thesis using assms(3) by simp
qed

text \<open>
  The page number is not clamped when the list shrinks: after going to the second page of
  eleven devices and a refetch that returns one device, the page is empty and says that no device
  was found, while a device matches the filters.
\<close>

theorem devices_stranded_page:
  "\<exists>s. devices_reach lc fdt s \<and> filtered lc s \<noteq> [] \<and> paginated lc s = []
     \<and> ''No devices found'' \<in> set (texts (DevicesPage_render lc fdt s))"
proof -
  let ?s = "(sample_loaded 11)\<lparr>dp_page := 1\<rparr>"
  let ?t = "?s\<lparr>dp_devices := Some [dev_h ''h''], dp_isLoading := False\<rparr>"
  have "devices_reach lc fdt ?s"
    by (rule reach_second_page [OF reach_sample_loaded]) simp_all
  then have "devices_reach lc fdt ?t"
    by (rule reach_step) (rule devices_step.loaded, simp add: truthy_def)
  moreover have f: "filtered lc ?t = [dev_h ''h'']"
    by (simp add: filtered_def sample_loaded_def devices_init_def dp_list_def sort_by_def)
  moreover have p: "paginated lc ?t = []"
    by (simp add: paginated_def f js_slice_def rel_index_def)
  moreover have "''No devices found'' \<in> set (texts (DevicesPage_render lc fdt ?t))"
    by (simp add: DevicesPage_render_def devices_table_def p EmptyState_def Let_def)
  ultimately show ?thesis by (intro exI [of _ ?t]) simp
qed

lemma set_of_array_distinct: "distinct xs \<Longrightarrow> set_of_array xs = xs"
proof (induction xs)
  case (Cons x xs)
  then have "filter (\<lambda>y. y \<noteq> x) xs = xs" by (intro filter_True) auto
  with Cons show ?case by simp
qed simp

lemma show_nat_inj: "show_nat m = show_nat n \<longleftrightarrow> m = n"
  by (metis digits_val_show_nat)

lemma set_of_array_ids: "set_of_array (map show_nat [0..<n]) = map show_nat [0..<n]"
  by (rule set_of_array_distinct) (simp add: distinct_map inj_on_def show_nat_inj)

lemma filtered_sample_id: "filtered code_unit_compare (sample_loaded n) = map sample_device [0..<n]"
  unfolding filtered_sample
  by (rule sort_by_trivial) (auto simp: dir_cmp_def sort_cmp_def sample_device_def dev_h_def)

lemma reach_all_selected:
  "devices_reach code_unit_compare fdt ((sample_loaded 20)\<lparr>dp_selected := map show_nat [0..<10]\<rparr>)"
proof -
  let ?lc = code_unit_compare
  have "paginated ?lc (sample_loaded 20) = map sample_device [0..<10]"
    unfolding paginated_def filtered_sample_id
    by (simp add: js_slice_nonneg take_map)
  then have "fst (devices_handle ?lc ToggleSelectAll (sample_loaded 20)) =
      (sample_loaded 20)\<lparr>dp_selected := map show_nat [0..<10]\<rparr>"
    by (simp add: toggleSelectAll_def sample_device_def comp_def set_of_array_ids)
  moreover have "ToggleSelectAll \<in> offers (DevicesPage_render ?lc fdt (sample_loaded 20))"
    by (simp add: offers_devices)
  ultimately show ?thesis using reach_user [OF reach_sample_loaded] by metis
qed

text \<open>
  "Select all" compares sizes, not members: after selecting all ten devices of the first of
  two full pages and going to the second, the checkbox of the table head is checked although no
  device on screen is selected, and the next click deselects instead of selecting.
\<close>

theorem devices_select_all_by_size:
  "\<exists>s. devices_reach code_unit_compare fdt s \<and> paginated code_unit_compare s \<noteq> []
     \<and> length (dp_selected s) = length (paginated code_unit_compare s)
     \<and> (\<forall>d \<in> set (paginated code_unit_compare s). dv_deviceId d \<notin> set (dp_selected s))
     \<and> dp_selected (fst (devices_handle code_unit_compare ToggleSelectAll s)) = []"
proof -
  let ?lc = code_unit_compare
  let ?ids = "map show_nat [0..<10]"
  let ?s = "(sample_loaded 20)\<lparr>dp_selected := ?ids\<rparr>"
  let ?t = "?s\<lparr>dp_page := 1\<rparr>"
  have fs: "filtered ?lc ?s = map sample_device [0..<20]" "filtered ?lc ?t = map sample_device [0..<20]"
    by (simp_all add: filtered_sample_id)
  have "devices_reach ?lc fdt ?s" by (rule reach_all_selected)
  then have "devices_reach ?lc fdt ?t"
    by (rule reach_second_page) (simp_all add: fs)
  moreover have p: "paginated ?lc ?t = map sample_device [10..<20]"
    unfolding paginated_def fs
    by (simp add: js_slice_nonneg take_map drop_map)
  moreover have "\<forall>d \<in> set (paginated ?lc ?t). dv_deviceId d \<notin> set ?ids"
    unfolding p by (auto simp: sample_device_def show_nat_inj)
  ultimately show ?thesis
    by (intro exI [of _ ?t]) (simp add: toggleSelectAll_def)
qed

end
