(* ===== verification/Format.thy ===== *)
theory Format
  imports Widgets
begin

text \<open>
  Text the device pages compute from data: byte counts and uptimes
  (src/ui/app/(dashboard)/devices/[id]/page.tsx), ISO timestamps of a time range, the pretty-printed
  manifest, and the lines of a Loki answer with their colour (also devices/[id]/logs/page.tsx).
  A render that throws is \<open>None\<close>.
\<close>

subsection \<open>formatBytes and formatUptime\<close>

text \<open>\<open>Math.floor(Math.log(n) / Math.log(1024))\<close>, exactly.\<close>

fun log1024 :: "nat \<Rightarrow> nat" where
  "log1024 n = (if n < 1024 then 0 else Suc (log1024 (n div 1024)))"

declare log1024.simps [simp del]

definition byte_sizes :: "string list" where
  "byte_sizes = [''B'', ''KB'', ''MB'', ''GB'', ''TB'']"

text \<open>Reading past the end of \<open>sizes\<close> gives undefined; the logarithm of a negative number is NaN.\<close>

definition formatBytes :: "int \<Rightarrow> string" where
  "formatBytes bytes =
     (if bytes = 0 then ''0 B''
      else if bytes < 0 then ''NaN undefined''
      else let i = log1024 (nat bytes)
           in toFixed 1 (of_int bytes / 1024 ^ i) @ '' ''
              @ (if i < length byte_sizes then byte_sizes ! i else ''undefined''))"

text \<open>The remainder operator, whose sign is the dividend's.\<close>

definition js_rem :: "int \<Rightarrow> int \<Rightarrow> int" where
  "js_rem a b = (if a < 0 then - ((- a) mod b) else a mod b)"

definition formatUptime :: "int \<Rightarrow> string" where
  "formatUptime seconds =
     (let days = seconds div 86400;
          hours = js_rem seconds 86400 div 3600
      in if days > 0 then show_int days @ ''d '' @ show_int hours @ ''h''
         else let minutes = js_rem seconds 3600 div 60
              in show_int hours @ ''h '' @ show_int minutes @ ''m'')"

subsection \<open>Dates\<close>

text \<open>\<open>new Date(ms).toISOString()\<close> for the years 0 to 9999: the proleptic Gregorian calendar.\<close>

definition civil :: "int \<Rightarrow> int \<times> int \<times> int" where
  "civil days =
     (let z = days + 719468; era = z div 146097; doe = z mod 146097;
          yoe = (doe - doe div 1460 + doe div 36524 - doe div 146096) div 365;
          doy = doe - (365 * yoe + yoe div 4 - yoe div 100);
          mp = (5 * doy + 2) div 153;
          d = doy - (153 * mp + 2) div 5 + 1;
          m = (if mp < 10 then mp + 3 else mp - 9)
      in (yoe + era * 400 + (if m \<le> 2 then 1 else 0), m, d))"

definition pad_int :: "nat \<Rightarrow> int \<Rightarrow> string" where
  "pad_int k n = pad_zeros k (show_int n)"

definition toISOString :: "int \<Rightarrow> string" where
  "toISOString ms =
     (let (y, m, d) = civil (ms div 86400000); t = ms mod 86400000
      in pad_int 4 y @ ''-'' @ pad_int 2 m @ ''-'' @ pad_int 2 d @ ''T''
         @ pad_int 2 (t div 3600000) @ '':'' @ pad_int 2 (t div 60000 mod 60) @ '':''
         @ pad_int 2 (t div 1000 mod 60) @ ''.'' @ pad_int 3 (t mod 1000) @ ''Z'')"

definition TIME_RANGE_MS :: "(string \<times> int) list" where
  "TIME_RANGE_MS =
     [(''15m'', 15 * 60 * 1000), (''1h'', 60 * 60 * 1000), (''6h'', 6 * 60 * 60 * 1000),
      (''24h'', 24 * 60 * 60 * 1000), (''7d'', 7 * 24 * 60 * 60 * 1000), (''30d'', 30 * 24 * 60 * 60 * 1000)]"

text \<open>A range is always one of the items of a \<open>Select\<close>, none of which is an inherited property.\<close>

definition range_ms :: "(string \<times> int) list \<Rightarrow> string \<Rightarrow> int" where
  "range_ms tbl rng = (case map_of tbl rng of Some ms \<Rightarrow> ms | None \<Rightarrow> 60 * 60 * 1000)"

definition rangeStartIso :: "int \<Rightarrow> string \<Rightarrow> string" where
  "rangeStartIso now rng = toISOString (now - range_ms TIME_RANGE_MS rng)"

text \<open>Comparing with undefined is false.\<close>

definition telemetryBucket :: "string \<Rightarrow> TelemetryBucket" where
  "telemetryBucket rng =
     (case (map_of TIME_RANGE_MS rng, map_of TIME_RANGE_MS ''6h'') of
        (Some r, Some six) \<Rightarrow> if r > six then Hourly else Raw
      | _ \<Rightarrow> Raw)"

subsection \<open>JSON text\<close>

text \<open>
  \<open>String(x)\<close> of a number with at most twenty decimal places; the exponent notation of very large
  and very small numbers is not modelled.
\<close>

fun frac_digits :: "nat \<Rightarrow> rat \<Rightarrow> string" where
  "frac_digits 0 x = []"
| "frac_digits (Suc n) x =
     (if x = 0 then []
      else let d = \<lfloor>x * 10\<rfloor> in digit_char (nat d) # frac_digits n (x * 10 - of_int d))"

definition show_num :: "rat \<Rightarrow> string" where
  "show_num x =
     (let a = \<bar>x\<bar>; whole = \<lfloor>a\<rfloor>; frac = frac_digits 20 (a - of_int whole)
      in (if x < 0 then ''-'' else '''') @ show_int whole @ (if frac = [] then '''' else ''.'' @ frac))"

definition json_escape :: "char \<Rightarrow> string" where
  "json_escape c =
     (let n = (of_char c :: nat)
      in if n = 34 then [char_of (92 :: nat), c]
         else if n = 92 then [c, c]
         else if n = 8 then [char_of (92 :: nat), CHR ''b'']
         else if n = 9 then [char_of (92 :: nat), CHR ''t'']
         else if n = 10 then [char_of (92 :: nat), CHR ''n'']
         else if n = 12 then [char_of (92 :: nat), CHR ''f'']
         else if n = 13 then [char_of (92 :: nat), CHR ''r'']
         else if n < 32 then char_of (92 :: nat) # ''u00'' @ [digit_char (n div 16), toLowerCase [hex_digit (n mod 16)] ! 0]
         else [c])"

definition json_quote :: "string \<Rightarrow> string" where
  "json_quote s = [char_of (34 :: nat)] @ concat (map json_escape s) @ [char_of (34 :: nat)]"

definition newline :: string where
  "newline = [CHR 0x0A]"

text \<open>\<open>JSON.stringify(value, null, 2)\<close>, at indentation \<open>n\<close>.\<close>

fun json_pretty :: "nat \<Rightarrow> json \<Rightarrow> string" where
  "json_pretty n JNull = ''null''"
| "json_pretty n (JBool b) = (if b then ''true'' else ''false'')"
| "json_pretty n (JNum x) = show_num x"
| "json_pretty n (JStr s) = json_quote s"
| "json_pretty n (JArr xs) =
     (if xs = [] then ''[]''
      else ''['' @ newline
           @ join_str ('','' @ newline) (map (\<lambda>x. replicate (n + 2) (CHR '' '') @ json_pretty (n + 2) x) xs)
           @ newline @ replicate n (CHR '' '') @ '']'')"
| "json_pretty n (JObj ps) =
     (if ps = [] then ''{}''
      else ''{'' @ newline
           @ join_str ('','' @ newline)
               (map (\<lambda>p. replicate (n + 2) (CHR '' '') @ json_quote (fst p) @ '': '' @ json_pretty (n + 2) (snd p)) ps)
           @ newline @ replicate n (CHR '' '') @ ''}'')"

fun json_truthy :: "json \<Rightarrow> bool" where
  "json_truthy JNull = False"
| "json_truthy (JBool b) = b"
| "json_truthy (JNum x) = (x \<noteq> 0)"
| "json_truthy (JStr s) = (s \<noteq> [])"
| "json_truthy (JArr xs) = True"
| "json_truthy (JObj ps) = True"

definition initialYaml :: "json option \<Rightarrow> string" where
  "initialYaml manifest =
     (case manifest of
        Some (JStr s) \<Rightarrow> s
      | Some j \<Rightarrow> if json_truthy j then json_pretty 0 j else ''''
      | None \<Rightarrow> '''')"

subsection \<open>Log lines\<close>

text \<open>\<open>for (... of v)\<close>: arrays and strings iterate, other values throw.\<close>

fun js_iter :: "json \<Rightarrow> json list option" where
  "js_iter (JArr xs) = Some xs"
| "js_iter (JStr s) = Some (map (\<lambda>c. JStr [c]) s)"
| "js_iter _ = None"

text \<open>\<open>resp?.data?.result ?? []\<close> for an object or an array \<open>resp\<close>, then the iteration.\<close>

definition log_streams :: "json \<Rightarrow> json list option" where
  "log_streams resp =
     (case resp of
        JObj ps \<Rightarrow>
          (case map_of ps ''data'' of
             Some (JObj qs) \<Rightarrow>
               (case map_of qs ''result'' of None \<Rightarrow> Some [] | Some JNull \<Rightarrow> Some [] | Some r \<Rightarrow> js_iter r)
           | _ \<Rightarrow> Some [])
      | _ \<Rightarrow> Some [])"

text \<open>
  \<open>stream.values ?? []\<close>, then the iteration: null has no properties, and \<open>values\<close> of an array is a
  method, which is not iterable.
\<close>

definition stream_values :: "json \<Rightarrow> json list option" where
  "stream_values stream =
     (case stream of
        JNull \<Rightarrow> None
      | JArr _ \<Rightarrow> None
      | JObj ps \<Rightarrow>
          (case map_of ps ''values'' of None \<Rightarrow> Some [] | Some JNull \<Rightarrow> Some [] | Some v \<Rightarrow> js_iter v)
      | _ \<Rightarrow> Some [])"

definition nth_opt :: "'a list \<Rightarrow> nat \<Rightarrow> 'a option" where
  "nth_opt xs i = (if i < length xs then Some (xs ! i) else None)"

text \<open>\<open>const [ts, line] = v\<close>.\<close>

definition destruct_pair :: "json \<Rightarrow> (json option \<times> json option) option" where
  "destruct_pair v = map_option (\<lambda>xs. (nth_opt xs 0, nth_opt xs 1)) (js_iter v)"

definition logLines :: "json option \<Rightarrow> (json option \<times> json option) list option" where
  "logLines resp =
     (case resp of
        Some (JObj ps) \<Rightarrow>
          Option.bind (log_streams (JObj ps)) (\<lambda>streams.
            map_option concat (those (map (\<lambda>st.
              Option.bind (stream_values st) (\<lambda>vs. those (map destruct_pair vs))) streams)))
      | _ \<Rightarrow> Some [])"

text \<open>\<open>entry.line.match\<close> throws unless the line is a string.\<close>

definition line_strings :: "(json option \<times> json option) list \<Rightarrow> string list option" where
  "line_strings ls = those (map (\<lambda>l. case snd l of Some (JStr s) \<Rightarrow> Some s | _ \<Rightarrow> None) ls)"

definition is_word :: "char \<Rightarrow> bool" where
  "is_word c \<longleftrightarrow> is_alnum c \<or> c = CHR ''_''"

text \<open>The first match of \<open>/level=(\w+)/\<close>.\<close>

fun match_level :: "string \<Rightarrow> string option" where
  "match_level [] = None"
| "match_level (c # cs) =
     (if take 6 (c # cs) = ''level='' \<and> takeWhile is_word (drop 6 (c # cs)) \<noteq> []
      then Some (takeWhile is_word (drop 6 (c # cs)))
      else match_level cs)"

text \<open>What a template literal shows for a property inherited from \<open>Object.prototype\<close>.\<close>

definition inherited_text :: "string \<Rightarrow> string" where
  "inherited_text k =
     (if k = ''__proto__'' then ''[object Object]''
      else ''function '' @ (if k = ''constructor'' then ''Object'' else k) @ ''() { [native code] }'')"

definition line_color :: "(string \<times> string) list \<Rightarrow> string \<Rightarrow> string" where
  "line_color colors line =
     (let lineLevel = (case match_level line of Some w \<Rightarrow> w | None \<Rightarrow> '''')
      in case obj_get colors lineLevel of
           Own c \<Rightarrow> c
         | Inherited k \<Rightarrow> inherited_text k
         | Absent \<Rightarrow> ''text-foreground'')"

definition log_rows :: "(string \<times> string) list \<Rightarrow> string list \<Rightarrow> 'a node list" where
  "log_rows colors ls =
     map (\<lambda>line. El ''div'' [(''className'', AStr (line_color colors line @ '' hover:bg-muted rounded px-1''))] []
            [Text line]) ls"

definition LEVEL_COLORS :: "(string \<times> string) list" where
  "LEVEL_COLORS =
     [(''ERROR'', ''text-red-600 dark:text-red-400''), (''WARN'', ''text-yellow-600 dark:text-yellow-400''),
      (''INFO'', ''text-blue-600 dark:text-blue-400''), (''DEBUG'', ''text-gray-500'')]"

subsection \<open>Byte counts and uptimes are in range\<close>

lemma log1024_bounds: "0 < n \<Longrightarrow> 1024 ^ log1024 n \<le> n \<and> n < 1024 ^ Suc (log1024 n)"
proof (induction n rule: log1024.induct)
  case (1 n)
  show ?case
  proof (cases "n < 1024")
    case True
    then show ?thesis using "1.prems" by (simp add: log1024.simps [of n])
  next
    case False
    let ?m = "n div 1024"
    from False have "1024 ^ log1024 ?m \<le> ?m \<and> ?m < 1024 ^ Suc (log1024 ?m)"
      using "1.IH" by (simp add: div_greater_zero_iff)
    then have "1024 * 1024 ^ log1024 ?m \<le> n \<and> n < 1024 * 1024 ^ Suc (log1024 ?m)"
      using False by (simp add: less_mult_imp_div_less div_less_iff_less_mult mult.commute
          less_eq_div_iff_mult_less_eq)
    with False show ?thesis by (simp add: log1024.simps [of n])
  qed
qed

lemma log1024_less: "0 < n \<Longrightarrow> n < 1024 ^ k \<Longrightarrow> log1024 n < k"
  using log1024_bounds [of n] power_less_imp_less_exp [of "1024 :: nat" "log1024 n" k] by linarith

text \<open>
  A byte count below 1024 TB is shown with the largest unit that does not exceed it and one
  decimal; zero is "0 B".
\<close>

theorem formatBytes_unit:
  assumes "0 < bytes" and "bytes < 1024 ^ 5"
  shows "\<exists>i < 5. 1024 ^ i \<le> bytes \<and> bytes < 1024 ^ Suc i
           \<and> formatBytes bytes =
               toFixed 1 (of_int bytes / 1024 ^ i) @ '' '' @ [''B'', ''KB'', ''MB'', ''GB'', ''TB''] ! i"
proof -
  let ?i = "log1024 (nat bytes)"
  have "nat bytes < 1024 ^ 5" using assms by simp
  then have i: "?i < 5" using assms(1) by (intro log1024_less) simp_all
  have "1024 ^ ?i \<le> nat bytes" "nat bytes < 1024 ^ Suc ?i"
    using log1024_bounds [of "nat bytes"] assms(1) by simp_all
  then have "1024 ^ ?i \<le> bytes" "bytes < 1024 ^ Suc ?i"
    using assms(1) by (simp_all add: le_nat_iff nat_less_iff)
  moreover have "formatBytes bytes =
      toFixed 1 (of_int bytes / 1024 ^ ?i) @ '' '' @ [''B'', ''KB'', ''MB'', ''GB'', ''TB''] ! ?i"
    using assms i by (simp add: formatBytes_def Let_def byte_sizes_def)
  ultimately show ?thesis using i by blast
qed

theorem formatBytes_unit_witness:
  "\<exists>i < 5. 1024 ^ i \<le> (1536 :: int) \<and> (1536 :: int) < 1024 ^ Suc i
     \<and> formatBytes 1536 = toFixed 1 (of_int 1536 / 1024 ^ i) @ '' '' @ [''B'', ''KB'', ''MB'', ''GB'', ''TB''] ! i"
  using formatBytes_unit [of 1536] by simp

text \<open>
  An uptime is shown as whole days and hours, or as hours and minutes below one day, where
  the hours are below 24 and the minutes below 60 and together they are the largest such number
  not above the uptime.
\<close>

theorem formatUptime_spec:
  assumes "0 \<le> seconds"
  shows "\<exists>d h m. 0 \<le> d \<and> 0 \<le> h \<and> h < 24 \<and> 0 \<le> m \<and> m < 60
           \<and> d * 86400 + h * 3600 + m * 60 \<le> seconds \<and> seconds < d * 86400 + h * 3600 + m * 60 + 60
           \<and> formatUptime seconds =
               (if d > 0 then show_int d @ ''d '' @ show_int h @ ''h'' else show_int h @ ''h '' @ show_int m @ ''m'')"
proof (intro exI conjI)
  let ?d = "seconds div 86400" and ?h = "seconds mod 86400 div 3600" and ?m = "seconds mod 3600 div 60"
  show "formatUptime seconds = (if ?d > 0 then show_int ?d @ ''d '' @ show_int ?h @ ''h''
      else show_int ?h @ ''h '' @ show_int ?m @ ''m'')"
    using assms by (simp add: formatUptime_def js_rem_def Let_def)
  show "0 \<le> ?d" using assms by simp
  have "seconds mod 86400 mod 3600 = seconds mod 3600" by (simp add: mod_mod_cancel)
  then have "?d * 86400 + ?h * 3600 + ?m * 60 + seconds mod 3600 mod 60 = seconds"
    using div_mult_mod_eq [of seconds 86400] div_mult_mod_eq [of "seconds mod 86400" 3600]
      div_mult_mod_eq [of "seconds mod 3600" 60] by linarith
  moreover have "0 \<le> seconds mod 3600 mod 60" "seconds mod 3600 mod 60 < 60" by simp_all
  ultimately show "?d * 86400 + ?h * 3600 + ?m * 60 \<le> seconds"
    and "seconds < ?d * 86400 + ?h * 3600 + ?m * 60 + 60" by linarith+
  have bounds: "0 \<le> seconds mod 86400" "seconds mod 86400 < 86400" "0 \<le> seconds mod 3600" "seconds mod 3600 < 3600"
    by simp_all
  show "0 \<le> ?h" "?h < 24" "0 \<le> ?m" "?m < 60"
    using bounds by linarith+
qed

theorem formatUptime_spec_witness:
  "\<exists>d h m. 0 \<le> d \<and> 0 \<le> h \<and> h < 24 \<and> 0 \<le> m \<and> m < 60
     \<and> d * 86400 + h * 3600 + m * 60 \<le> (90061 :: int) \<and> 90061 < d * 86400 + h * 3600 + m * 60 + 60
     \<and> formatUptime 90061 =
         (if d > 0 then show_int d @ ''d '' @ show_int h @ ''h'' else show_int h @ ''h '' @ show_int m @ ''m'')"
  by (rule formatUptime_spec) simp

subsection \<open>The lines of a Loki answer\<close>

text \<open>An answer of the declared shape: streams of (timestamp, line) pairs.\<close>

definition loki_json :: "(string \<times> string) list list \<Rightarrow> json" where
  "loki_json streams =
     JObj [(''data'', JObj [(''result'',
       JArr (map (\<lambda>vs. JObj [(''values'', JArr (map (\<lambda>(t, l). JArr [JStr t, JStr l]) vs))]) streams))])]"

lemma those_map_Some [simp]: "those (map (\<lambda>x. Some (f x)) xs) = Some (map f xs)"
  by (induction xs) auto

lemma destruct_pair_JStr: "destruct_pair (JArr [JStr t, JStr l]) = Some (Some (JStr t), Some (JStr l))"
  by (simp add: destruct_pair_def nth_opt_def)

lemma logLines_strings:
  "Option.bind (logLines (Some (loki_json streams))) line_strings = Some (map snd (concat streams))"
proof -
  have "those (map destruct_pair (map (\<lambda>(t, l). JArr [JStr t, JStr l]) vs)) =
      Some (map (\<lambda>(t, l). (Some (JStr t), Some (JStr l))) vs)" for vs
    using those_map_Some [of "\<lambda>(t, l). (Some (JStr t), Some (JStr l))" vs]
    by (simp add: comp_def case_prod_beta destruct_pair_JStr)
  then have "logLines (Some (loki_json streams)) =
      Some (concat (map (map (\<lambda>(t, l). (Some (JStr t), Some (JStr l)))) streams))"
    by (simp add: logLines_def loki_json_def log_streams_def stream_values_def comp_def)
  then have "logLines (Some (loki_json streams)) =
      Some (map (\<lambda>(t, l). (Some (JStr t), Some (JStr l))) (concat streams))"
    by (simp add: map_concat)
  then show ?thesis
    by (simp add: line_strings_def comp_def case_prod_beta)
qed

text \<open>
  The log view shows every line of every stream of a well-formed Loki answer once, streams
  in the order of the answer and lines in the order of their stream, each coloured by its own level.
\<close>

theorem logLines_wellformed:
  "\<exists>ls. logLines (Some (loki_json streams)) = Some ls
     \<and> map_option (log_rows colors) (line_strings ls) =
         Some (map (\<lambda>line. El ''div''
                 [(''className'', AStr (line_color colors line @ '' hover:bg-muted rounded px-1''))] [] [Text line])
               (map snd (concat streams)))"
proof -
  obtain ls where "logLines (Some (loki_json streams)) = Some ls" "line_strings ls = Some (map snd (concat streams))"
    using logLines_strings [of streams] by (auto simp: bind_eq_Some_conv)
  then show ?thesis by (simp add: log_rows_def)
qed

text \<open>
  The colour of a log line is decided by the first \<open>level=\<close> that is followed by a word: its
  word is the longest one there, and no earlier position has such a match.
\<close>

theorem match_level_first:
  "match_level s =
     (let hits = filter (\<lambda>i. take 6 (drop i s) = ''level='' \<and> takeWhile is_word (drop (i + 6) s) \<noteq> []) [0..<length s]
      in case hits of [] \<Rightarrow> None | i # _ \<Rightarrow> Some (takeWhile is_word (drop (i + 6) s)))"
proof (induction s)
  case (Cons c cs)
  let ?hit = "\<lambda>s i. take 6 (drop i s) = ''level='' \<and> takeWhile is_word (drop (i + 6) s) \<noteq> []"
  have upt: "[0..<length (c # cs)] = 0 # map Suc [0..<length cs]"
    by (simp add: map_Suc_upt upt_conv_Cons del: upt_Suc)
  have word: "drop (Suc i + 6) (c # cs) = drop (i + 6) cs" for i
    using drop_Suc_Cons [of "i + 6" c cs] by (simp only: add_Suc)
  have hit: "?hit (c # cs) (Suc i) = ?hit cs i" for i
    by (simp only: word drop_Suc_Cons)
  show ?case
  proof (cases "?hit (c # cs) 0")
    case False
    then have "filter (?hit (c # cs)) [0..<length (c # cs)] = map Suc (filter (?hit cs) [0..<length cs])"
      unfolding upt by (simp only: filter.simps filter_map comp_def hit if_False)
    moreover have "match_level (c # cs) = match_level cs" using False by auto
    ultimately show ?thesis
      unfolding Cons.IH Let_def
      by (cases "filter (?hit cs) [0..<length cs]") (simp_all only: list.map list.case word)
  next
    case True
    then have "match_level (c # cs) = Some (takeWhile is_word (drop (0 + 6) (c # cs)))" by simp
    with True show ?thesis unfolding Let_def upt by (simp only: filter.simps simp_thms if_True list.case)
  qed
qed simp

end
