(* ===== verification/DeviceDetail.thy ===== *)
theory DeviceDetail
  imports Format Organizations
begin

text \<open>
  One device: src/ui/app/(dashboard)/devices/[id]/page.tsx with the polling history of
  src/ui/lib/hooks/use-polling-history.ts.

  The state holds the page's \<open>useState\<close> variables, the answers of its four queries, the pending
  flags of its three mutations and the history kept in a ref.  Two effects run after a render:
  the one that copies the labels of a device that changed, and the one that records the device's
  load.  The latter depends on the object returned by \<open>usePollingHistory\<close>, which is new in every
  render, so it runs after every render; the step \<open>rendered\<close> is a render caused by anything else.
\<close>

subsection \<open>use-polling-history.ts\<close>

definition MAX_POINTS :: nat where
  "MAX_POINTS = 30"

type_synonym poll_history = "(string \<times> rat list) list"

definition history_get :: "string \<Rightarrow> poll_history \<Rightarrow> rat list" where
  "history_get key h = (case map_of h key of Some arr \<Rightarrow> arr | None \<Rightarrow> [])"

text \<open>\<open>None\<close> is undefined, null or NaN.\<close>

definition history_push :: "nat \<Rightarrow> string \<Rightarrow> rat option \<Rightarrow> poll_history \<Rightarrow> poll_history" where
  "history_push maxPoints key value h =
     (case value of
        None \<Rightarrow> h
      | Some v \<Rightarrow>
          (let arr = history_get key h @ [v];
               arr = (if length arr > maxPoints then drop (length arr - maxPoints) arr else arr)
           in obj_set key arr h))"

subsection \<open>State\<close>

record device_detail =
  dd_id :: string
  dd_token :: string
  dd_role :: "string option"
  dd_device :: "Device option"
  dd_isLoading :: bool
  dd_history :: poll_history
  dd_deleteOpen :: bool
  dd_deleting :: bool
  dd_editingLabels :: bool
  dd_newLabelKey :: string
  dd_newLabelValue :: string
  dd_localLabels :: "(string \<times> string) list"
  dd_savingLabels :: bool
  dd_logSearch :: string
  dd_logLevel :: string
  dd_logTimeRange :: string
  dd_logs :: "json option"
  dd_logsLoading :: bool
  dd_telemetryRange :: string
  dd_telemetry :: "TelemetryDataPoint list"
  dd_manifest :: "json option"
  dd_manifestLoading :: bool
  dd_editorValue :: "string option"
  dd_savingManifest :: bool

definition query_enabled :: "device_detail \<Rightarrow> bool" where
  "query_enabled s \<longleftrightarrow> dd_token s \<noteq> [] \<and> dd_id s \<noteq> []"

definition detail_init :: "string \<Rightarrow> string \<Rightarrow> string option \<Rightarrow> device_detail" where
  "detail_init i token role =
     (let loading = (token \<noteq> [] \<and> i \<noteq> [])
      in \<lparr>dd_id = i, dd_token = token, dd_role = role, dd_device = None, dd_isLoading = loading,
          dd_history = [], dd_deleteOpen = False, dd_deleting = False, dd_editingLabels = False,
          dd_newLabelKey = '''', dd_newLabelValue = '''', dd_localLabels = [], dd_savingLabels = False,
          dd_logSearch = '''', dd_logLevel = '''', dd_logTimeRange = ''1h'', dd_logs = None,
          dd_logsLoading = loading, dd_telemetryRange = ''1h'', dd_telemetry = [], dd_manifest = None,
          dd_manifestLoading = loading, dd_editorValue = None, dd_savingManifest = False\<rparr>)"

subsection \<open>Derived values\<close>

definition canOpenShell :: "string option \<Rightarrow> bool" where
  "canOpenShell role \<longleftrightarrow>
     (case role of Some r \<Rightarrow> toLowerCase r | None \<Rightarrow> '''') \<in> set [''operator'', ''admin'', ''owner'']"

definition labels_or_empty :: "Device \<Rightarrow> (string \<times> string) list" where
  "labels_or_empty d = (case dv_labels d of Some ls \<Rightarrow> ls | None \<Rightarrow> [])"

definition percent_of :: "int \<Rightarrow> int \<Rightarrow> rat option" where
  "percent_of used tot = (if tot \<noteq> 0 then Some (of_int used / of_int tot * 100) else None)"

definition memPercent :: "DeviceStatus option \<Rightarrow> int" where
  "memPercent st =
     (case Option.bind st (\<lambda>x. percent_of (ds_memoryUsedBytes x) (ds_memoryTotalBytes x)) of
        Some p \<Rightarrow> math_round p | None \<Rightarrow> 0)"

definition diskPercent :: "DeviceStatus option \<Rightarrow> int" where
  "diskPercent st =
     (case Option.bind st (\<lambda>x. percent_of (ds_diskUsedBytes x) (ds_diskTotalBytes x)) of
        Some p \<Rightarrow> math_round p | None \<Rightarrow> 0)"

definition resourceChartData :: "TelemetryDataPoint list \<Rightarrow> DeviceResourcePoint list" where
  "resourceChartData telemetry =
     map (\<lambda>p. \<lparr>rp_time = tp_time p, rp_cpu = or_zero (tp_cpuUsagePercent p),
                rp_memory = or_zero (percent_of (tp_memoryUsedBytes p) (tp_memoryTotalBytes p))\<rparr>) telemetry"

definition currentValue :: "device_detail \<Rightarrow> string" where
  "currentValue s = (case dd_editorValue s of Some v \<Rightarrow> v | None \<Rightarrow> initialYaml (dd_manifest s))"

definition hasManifestChanges :: "device_detail \<Rightarrow> bool" where
  "hasManifestChanges s \<longleftrightarrow>
     dd_editorValue s \<noteq> None \<and> dd_editorValue s \<noteq> Some (initialYaml (dd_manifest s))"

definition uptime_text :: "DeviceStatus option \<Rightarrow> string" where
  "uptime_text st =
     (case st of Some x \<Rightarrow> if ds_uptimeSeconds x \<noteq> 0 then formatUptime (ds_uptimeSeconds x) else ''--''
      | None \<Rightarrow> ''--'')"

subsection \<open>Queries\<close>

definition detail_log_params :: "int \<Rightarrow> device_detail \<Rightarrow> log_params" where
  "detail_log_params now s =
     \<lparr>lp_start = Some (rangeStartIso now (dd_logTimeRange s)), lp_end = None, lp_limit = Some 200,
      lp_level = (if dd_logLevel s \<noteq> [] then Some (dd_logLevel s) else None),
      lp_search = (if dd_logSearch s \<noteq> [] then Some (dd_logSearch s) else None)\<rparr>"

definition detail_fetch_device :: "'w env \<Rightarrow> device_detail \<Rightarrow> 'w call" where
  "detail_fetch_device e s = getDevice e (dd_token s) (dd_id s)"

definition detail_fetch_logs :: "'w env \<Rightarrow> int \<Rightarrow> device_detail \<Rightarrow> 'w call" where
  "detail_fetch_logs e now s = getDeviceLogs e (dd_token s) (dd_id s) (Some (detail_log_params now s))"

definition detail_logs_key :: "device_detail \<Rightarrow> query_key" where
  "detail_logs_key s =
     [KStr ''device-logs'', KStr (dd_id s), KStr (dd_logLevel s), KStr (dd_logSearch s), KStr (dd_logTimeRange s)]"

definition detail_fetch_telemetry :: "'w env \<Rightarrow> int \<Rightarrow> device_detail \<Rightarrow> 'w call" where
  "detail_fetch_telemetry e now s =
     getDeviceTelemetry e (dd_token s) (dd_id s) (rangeStartIso now (dd_telemetryRange s)) (toISOString now)
       (Some (telemetryBucket (dd_telemetryRange s)))"

definition telemetry_interval :: "device_detail \<Rightarrow> int" where
  "telemetry_interval s = (if telemetryBucket (dd_telemetryRange s) = Raw then 30000 else 5 * 60000)"

definition detail_fetch_manifest :: "'w env \<Rightarrow> device_detail \<Rightarrow> 'w call" where
  "detail_fetch_manifest e s = getDeviceManifest e (dd_token s) (dd_id s)"

subsection \<open>Handlers\<close>

datatype detail_act =
    GoDevices | GoTerminal | EditLabels | OpenDelete | SetTelemetryRange string
  | RemoveLabel string | SetLabelKey string | SetLabelValue string | AddLabel | SaveLabels | CancelLabels
  | SetLogSearch string | SetLogLevel string | SetLogRange string
  | SaveManifest | EditManifest string | SetDelete bool | ConfirmDeleteDevice | SaveShortcut

definition flat_labels :: "(string \<times> string) list \<Rightarrow> string list" where
  "flat_labels ls = concat (map (\<lambda>(k, v). [k, v]) ls)"

fun detail_handle :: "detail_act \<Rightarrow> device_detail \<Rightarrow> device_detail \<times> effect list" where
  "detail_handle GoDevices s = (s, [RouterPush ''/devices''])"
| "detail_handle GoTerminal s = (s, [RouterPush (''/devices/'' @ dd_id s @ ''/terminal'')])"
| "detail_handle EditLabels s = (s\<lparr>dd_editingLabels := True\<rparr>, [])"
| "detail_handle OpenDelete s = (s\<lparr>dd_deleteOpen := True\<rparr>, [])"
| "detail_handle (SetTelemetryRange v) s = (s\<lparr>dd_telemetryRange := v\<rparr>, [])"
| "detail_handle (RemoveLabel k) s = (s\<lparr>dd_localLabels := obj_delete k (dd_localLabels s)\<rparr>, [])"
| "detail_handle (SetLabelKey v) s = (s\<lparr>dd_newLabelKey := v\<rparr>, [])"
| "detail_handle (SetLabelValue v) s = (s\<lparr>dd_newLabelValue := v\<rparr>, [])"
| "detail_handle AddLabel s =
     (s\<lparr>dd_localLabels := obj_set (dd_newLabelKey s) (dd_newLabelValue s) (dd_localLabels s),
        dd_newLabelKey := '''', dd_newLabelValue := ''''\<rparr>, [])"
| "detail_handle SaveLabels s =
     (s\<lparr>dd_savingLabels := True\<rparr>, [Mutate ''updateDeviceLabels'' (flat_labels (dd_localLabels s))])"
| "detail_handle CancelLabels s =
     (s\<lparr>dd_editingLabels := False,
        dd_localLabels := (case dd_device s of Some d \<Rightarrow> labels_or_empty d | None \<Rightarrow> [])\<rparr>, [])"
| "detail_handle (SetLogSearch v) s = (s\<lparr>dd_logSearch := v\<rparr>, [])"
| "detail_handle (SetLogLevel v) s = (s\<lparr>dd_logLevel := v\<rparr>, [])"
| "detail_handle (SetLogRange v) s = (s\<lparr>dd_logTimeRange := v\<rparr>, [])"
| "detail_handle SaveManifest s =
     (s\<lparr>dd_savingManifest := True\<rparr>, [Mutate ''updateDeviceManifest'' [currentValue s]])"
| "detail_handle (EditManifest v) s = (s\<lparr>dd_editorValue := Some v\<rparr>, [])"
| "detail_handle (SetDelete v) s = (s\<lparr>dd_deleteOpen := v\<rparr>, [])"
| "detail_handle ConfirmDeleteDevice s = (s\<lparr>dd_deleting := True\<rparr>, [Mutate ''deleteDevice'' [dd_id s]])"
| "detail_handle SaveShortcut s =
     (if hasManifestChanges s \<and> currentValue s \<noteq> []
      then (s\<lparr>dd_savingManifest := True\<rparr>, [Mutate ''updateDeviceManifest'' [currentValue s]])
      else (s, []))"

definition deleteDevice_onSuccess :: "device_detail \<Rightarrow> device_detail \<times> effect list" where
  "deleteDevice_onSuccess s = (s, [ToastSuccess ''Device deleted'', RouterPush ''/devices''])"

definition labels_onSuccess :: "device_detail \<Rightarrow> device_detail \<times> effect list" where
  "labels_onSuccess s =
     (s\<lparr>dd_editingLabels := False\<rparr>,
      [ToastSuccess ''Labels updated'', InvalidateQueries [KStr ''device'', KStr (dd_id s)]])"

definition manifest_onSuccess :: "device_detail \<Rightarrow> device_detail \<times> effect list" where
  "manifest_onSuccess s =
     (s\<lparr>dd_editorValue := None\<rparr>,
      [ToastSuccess ''Manifest saved'', InvalidateQueries [KStr ''device-manifest'', KStr (dd_id s)]])"

definition detail_onError :: "failure \<Rightarrow> device_detail \<Rightarrow> device_detail \<times> effect list" where
  "detail_onError f s = (s, [ToastError (err_message f)])"

subsection \<open>Effects after a render\<close>

definition history_effect :: "device_detail \<Rightarrow> device_detail" where
  "history_effect s =
     (case Option.bind (dd_device s) dv_status of
        None \<Rightarrow> s
      | Some st \<Rightarrow>
          (let h = history_push MAX_POINTS ''cpu'' (ds_cpuUsagePercent st) (dd_history s);
               memPct = percent_of (ds_memoryUsedBytes st) (ds_memoryTotalBytes st)
           in s\<lparr>dd_history := history_push MAX_POINTS ''memory'' memPct h\<rparr>))"

definition labels_effect :: "device_detail \<Rightarrow> device_detail" where
  "labels_effect s =
     (case dd_device s of Some d \<Rightarrow> s\<lparr>dd_localLabels := labels_or_empty d\<rparr> | None \<Rightarrow> s)"

subsection \<open>Rendering\<close>

definition select_items :: "(string \<times> string) list \<Rightarrow> 'a node" where
  "select_items items =
     el ''SelectContent'' (map (\<lambda>(v, t). El ''SelectItem'' [(''value'', AStr v)] [] [Text t]) items)"

definition detail_heading :: "device_detail \<Rightarrow> Device \<Rightarrow> detail_act node" where
  "detail_heading s d =
     el ''div''
       ([on_click ''Button'' [(''variant'', AStr ''ghost'')] GoDevices [icon ''ArrowLeft''],
         el ''div''
           [el ''div''
              [el ''h1'' [Text (if dv_hostname d \<noteq> [] then dv_hostname d else dv_deviceId d)],
               StateBadge (dv_state d)],
            el ''p'' [Text (dv_deviceId d)]]]
        @ shown (canOpenShell (dd_role s))
            (on_click ''Button'' [(''variant'', AStr ''outline'')] GoTerminal
               [icon ''SquareTerminal'', Text ''Terminal''])
        @ [el ''DropdownMenu''
             [el ''DropdownMenuTrigger'' [el ''Button'' [icon ''MoreVertical'']],
              el ''DropdownMenuContent''
                [on_click ''DropdownMenuItem'' [] EditLabels [icon ''Tag'', Text ''Edit Labels''],
                 icon ''DropdownMenuSeparator'',
                 on_click ''DropdownMenuItem'' [] OpenDelete [icon ''Trash2'', Text ''Delete Device'']]]])"

definition detail_metrics :: "(string \<Rightarrow> string) \<Rightarrow> device_detail \<Rightarrow> Device \<Rightarrow> detail_act node" where
  "detail_metrics fdt s d =
     (let st = dv_status d
      in el ''div''
           [MetricCard ((metric ''CPU Usage''
               ((case Option.bind st ds_cpuUsagePercent of Some p \<Rightarrow> toFixed 1 p | None \<Rightarrow> ''--'') @ ''%'')
               ''Current utilization'' ''Cpu'')
               \<lparr>mc_iconColor := Some ''text-blue-500'',
                mc_chart := Some (el ''Sparkline'' [Sparkline (history_get ''cpu'' (dd_history s)) ''#3b82f6''])\<rparr>),
            MetricCard ((metric ''Memory'' (show_int (memPercent st) @ ''%'')
               (case st of Some x \<Rightarrow> formatBytes (ds_memoryUsedBytes x) @ '' / '' @ formatBytes (ds_memoryTotalBytes x)
                | None \<Rightarrow> ''--'') ''MemoryStick'')
               \<lparr>mc_iconColor := Some ''text-purple-500'',
                mc_chart := Some (el ''Sparkline'' [Sparkline (history_get ''memory'' (dd_history s)) ''#a855f7''])\<rparr>),
            MetricCard ((metric ''Disk'' (show_int (diskPercent st) @ ''%'')
               (case st of Some x \<Rightarrow> formatBytes (ds_diskUsedBytes x) @ '' / '' @ formatBytes (ds_diskTotalBytes x)
                | None \<Rightarrow> ''--'') ''HardDrive'')
               \<lparr>mc_iconColor := Some ''text-orange-500''\<rparr>),
            MetricCard ((metric ''Uptime'' (uptime_text st)
               (if truthy (dv_lastHeartbeat d) then ''Last seen '' @ fdt (the (dv_lastHeartbeat d)) else ''Never seen'')
               ''Clock'')
               \<lparr>mc_iconColor := Some ''text-green-500''\<rparr>)])"

definition detail_resources :: "device_detail \<Rightarrow> detail_act node" where
  "detail_resources s =
     (let points = resourceChartData (dd_telemetry s)
      in el ''Card''
           [el ''CardHeader''
              [el ''CardTitle'' [Text ''Resource Usage''],
               El ''Select'' [(''value'', AStr (dd_telemetryRange s))] [(''onValueChange'', OnText SetTelemetryRange)]
                 [el ''SelectTrigger'' [icon ''SelectValue''],
                  select_items [(''15m'', ''Last 15 min''), (''1h'', ''Last 1 hour''), (''6h'', ''Last 6 hours''),
                    (''24h'', ''Last 24 hours''), (''7d'', ''Last 7 days''), (''30d'', ''Last 30 days'')]]],
            el ''CardContent''
              [if 0 < length points
               then el ''DeviceResourceChart''
                      [DeviceResourceChart points
                         (if telemetryBucket (dd_telemetryRange s) = Hourly then ''day'' else ''hour'')]
               else el ''div'' [Text ''No telemetry in selected range'']]])"

definition detail_information :: "(string \<Rightarrow> string) \<Rightarrow> Device \<Rightarrow> detail_act node" where
  "detail_information fdt d =
     (let st = dv_status d
      in el ''Card''
           [el ''CardHeader'' [el ''CardTitle'' [Text ''Device Information'']],
            el ''CardContent''
              [el ''dl''
                 [el ''dt'' [Text ''OS / Arch''], el ''dd'' [Text (dv_os d @ ''/'' @ dv_architecture d)],
                  el ''dt'' [Text ''Agent Version''], el ''dd'' [Text (dv_agentVersion d)],
                  el ''dt'' [Text ''Uptime''], el ''dd'' [Text (uptime_text st)],
                  el ''dt'' [Text ''Last Heartbeat''],
                  el ''dd'' [Text (if truthy (dv_lastHeartbeat d) then fdt (the (dv_lastHeartbeat d)) else ''Never'')],
                  el ''dt'' [Text ''Registered''], el ''dd'' [Text (fdt (dv_registeredAt d))],
                  el ''dt'' [Text ''Reconcile Status''],
                  el ''dd'' [el ''Badge'' [Text (case st of Some x \<Rightarrow> ds_reconcileStatus x | None \<Rightarrow> ''unknown'')]],
                  el ''dt'' [Text ''Auto-update''],
                  el ''dd'' [el ''Badge'' [Text (if dv_autoUpdate d = Some True then ''on'' else ''off'')]]]]])"

definition detail_label_editor :: "device_detail \<Rightarrow> detail_act node" where
  "detail_label_editor s =
     el ''div''
       [el ''div''
          (map (\<lambda>(k, v). el ''Badge''
                 [Text (k @ ''='' @ v), on_click ''button'' [] (RemoveLabel k) [icon ''X'']]) (dd_localLabels s)),
        el ''div''
          [El ''Input'' [(''placeholder'', AStr ''key''), (''value'', AStr (dd_newLabelKey s))]
             [(''onChange'', OnText SetLabelKey)] [],
           El ''Input'' [(''placeholder'', AStr ''value''), (''value'', AStr (dd_newLabelValue s))]
             [(''onChange'', OnText SetLabelValue)] [],
           on_click ''Button'' [(''disabled'', ABool (dd_newLabelKey s = []))] AddLabel [icon ''Plus'']],
        el ''div''
          [on_click ''Button'' [(''disabled'', ABool (dd_savingLabels s))] SaveLabels
             [Text (if dd_savingLabels s then ''Saving...'' else ''Save Labels'')],
           on_click ''Button'' [(''variant'', AStr ''outline'')] CancelLabels [Text ''Cancel'']]]"

definition detail_labels :: "device_detail \<Rightarrow> Device \<Rightarrow> detail_act node" where
  "detail_labels s d =
     el ''Card''
       [el ''CardHeader''
          (el ''CardTitle'' [Text ''Labels'']
           # shown (\<not> dd_editingLabels s)
               (on_click ''Button'' [(''variant'', AStr ''outline'')] EditLabels [icon ''Tag'', Text ''Edit''])),
        el ''CardContent''
          [if dd_editingLabels s then detail_label_editor s
           else if 0 < length (labels_or_empty d)
           then el ''div'' (map (\<lambda>(k, v). el ''Badge'' [Text (k @ ''='' @ v)]) (labels_or_empty d))
           else el ''p'' [Text ''No labels assigned to this device.'']]]"

text \<open>The rows of the log panel are computed only when it is not loading and not empty.\<close>

definition log_body ::
  "(string \<times> string) list \<Rightarrow> string \<Rightarrow> bool \<Rightarrow> (json option \<times> json option) list \<Rightarrow> 'a node option" where
  "log_body colors none_text loading ls =
     (if loading then Some (el ''div'' (replicate 10 skeleton))
      else if ls = [] then Some (el ''p'' [Text none_text])
      else map_option (\<lambda>ss. el ''ScrollArea'' [el ''pre'' (log_rows colors ss)]) (line_strings ls))"

definition level_items :: "(string \<times> string) list" where
  "level_items = [(''all'', ''All Levels''), (''ERROR'', ''ERROR''), (''WARN'', ''WARN''), (''INFO'', ''INFO''), (''DEBUG'', ''DEBUG'')]"

definition range_items :: "(string \<times> string) list" where
  "range_items = [(''15m'', ''15 min''), (''1h'', ''1 hour''), (''6h'', ''6 hours''), (''24h'', ''24 hours''), (''7d'', ''7 days'')]"

definition detail_logs :: "device_detail \<Rightarrow> detail_act node option" where
  "detail_logs s =
     Option.bind (logLines (dd_logs s)) (\<lambda>ls.
       map_option (\<lambda>body.
         El ''TabsContent'' [(''value'', AStr ''logs'')] []
           [el ''div''
              [el ''div''
                 [icon ''Search'',
                  El ''Input'' [(''placeholder'', AStr ''Search logs...''), (''value'', AStr (dd_logSearch s))]
                    [(''onChange'', OnText SetLogSearch)] []],
               El ''Select'' [(''value'', AStr (dd_logLevel s))] [(''onValueChange'', OnText SetLogLevel)]
                 [el ''SelectTrigger'' [icon ''SelectValue''], select_items level_items],
               El ''Select'' [(''value'', AStr (dd_logTimeRange s))] [(''onValueChange'', OnText SetLogRange)]
                 [el ''SelectTrigger'' [icon ''SelectValue''], select_items range_items],
               el ''Badge'' [Text (show_int (int (length ls)) @ '' lines'')]],
            el ''Card'' [el ''CardContent'' [body]]])
         (log_body LEVEL_COLORS ''No log entries found.'' (dd_logsLoading s) ls))"

definition detail_manifest :: "device_detail \<Rightarrow> detail_act node" where
  "detail_manifest s =
     El ''TabsContent'' [(''value'', AStr ''manifest'')] []
       [el ''div''
          [el ''p'' [Text ''Edit the YAML manifest for this device. Press Ctrl+S to save.''],
           on_click ''Button'' [(''disabled'', ABool (\<not> hasManifestChanges s \<or> dd_savingManifest s))] SaveManifest
             [Text (if dd_savingManifest s then ''Saving...'' else ''Save Manifest'')]],
        el ''Card''
          [el ''CardContent''
             [if dd_manifestLoading s then skeleton
              else El ''Editor'' [(''defaultValue'', AStr (initialYaml (dd_manifest s)))]
                     [(''onChange'', OnText EditManifest)] []]]]"

definition detail_ota :: "detail_act node" where
  "detail_ota =
     El ''TabsContent'' [(''value'', AStr ''ota'')] []
       [el ''Card'' [el ''CardContent'' [el ''p''
          [Text ''OTA deployment history for this device will appear here once deployments target it.'']]]]"

definition detail_confirm :: "device_detail \<Rightarrow> Device \<Rightarrow> detail_act node" where
  "detail_confirm s d =
     ConfirmDialog (dd_deleteOpen s) SetDelete ''Delete Device''
       (''Are you sure you want to delete '' @ dv_hostname d @ ''? This action cannot be undone.'')
       ''Delete'' ''destructive'' ConfirmDeleteDevice (dd_deleting s)"

definition DeviceDetail_render :: "(string \<Rightarrow> string) \<Rightarrow> device_detail \<Rightarrow> detail_act node option" where
  "DeviceDetail_render fdt s =
     (case dd_device s of
        None \<Rightarrow> map_option (\<lambda>_. DeviceDetailSkeleton) (logLines (dd_logs s))
      | Some d \<Rightarrow>
          if dd_isLoading s then map_option (\<lambda>_. DeviceDetailSkeleton) (logLines (dd_logs s))
          else map_option (\<lambda>logs.
            el ''div''
              [detail_heading s d, detail_metrics fdt s d,
               El ''Tabs'' [(''defaultValue'', AStr ''overview'')] []
                 [el ''TabsList''
                    (map (\<lambda>(v, t). El ''TabsTrigger'' [(''value'', AStr v)] [] [Text t])
                       [(''overview'', ''Overview''), (''logs'', ''Logs''), (''manifest'', ''Manifest''), (''ota'', ''OTA History'')]),
                  El ''TabsContent'' [(''value'', AStr ''overview'')] []
                    [el ''div'' [detail_resources s, detail_information fdt d], detail_labels s d],
                  logs, detail_manifest s,
                  detail_ota],
               detail_confirm s d])
            (detail_logs s))"

text \<open>What the user can do: nothing on a page that threw.\<close>

definition detail_offers :: "(string \<Rightarrow> string) \<Rightarrow> device_detail \<Rightarrow> detail_act set" where
  "detail_offers fdt s = (case DeviceDetail_render fdt s of Some n \<Rightarrow> offers n | None \<Rightarrow> {})"

subsection \<open>Steps\<close>

text \<open>
  A handler that changes the state causes a render and so the history effect.  A device answer is
  a changed device when it is not equal to the previous one (the query keeps the old object for an
  equal answer).  The shortcut is a listener on the window and needs no element.
\<close>

definition after_render :: "device_detail \<Rightarrow> device_detail \<Rightarrow> device_detail" where
  "after_render s t = (if t = s then s else history_effect t)"

inductive detail_step :: "(string \<Rightarrow> string) \<Rightarrow> device_detail \<Rightarrow> device_detail \<Rightarrow> bool" for fdt where
  user: "a \<in> detail_offers fdt s \<Longrightarrow> detail_step fdt s (after_render s (fst (detail_handle a s)))"
| shortcut: "detail_step fdt s (after_render s (fst (detail_handle SaveShortcut s)))"
| rendered: "detail_step fdt s (history_effect s)"
| device_loaded: "query_enabled s \<Longrightarrow> t = s\<lparr>dd_device := Some d, dd_isLoading := False\<rparr> \<Longrightarrow>
    detail_step fdt s (history_effect (if dd_device s = Some d then t else labels_effect t))"
| logs_loaded: "query_enabled s \<Longrightarrow> detail_step fdt s (history_effect (s\<lparr>dd_logs := l, dd_logsLoading := False\<rparr>))"
| logs_pending: "detail_step fdt s (history_effect (s\<lparr>dd_logs := None, dd_logsLoading := query_enabled s\<rparr>))"
| telemetry_loaded: "query_enabled s \<Longrightarrow> detail_step fdt s (history_effect (s\<lparr>dd_telemetry := ps\<rparr>))"
| manifest_loaded: "query_enabled s \<Longrightarrow>
    detail_step fdt s (history_effect (s\<lparr>dd_manifest := m, dd_manifestLoading := False\<rparr>))"
| delete_done: "dd_deleting s \<Longrightarrow> detail_step fdt s (history_effect ((fst (deleteDevice_onSuccess s))\<lparr>dd_deleting := False\<rparr>))"
| labels_done: "dd_savingLabels s \<Longrightarrow> detail_step fdt s (history_effect ((fst (labels_onSuccess s))\<lparr>dd_savingLabels := False\<rparr>))"
| manifest_done: "dd_savingManifest s \<Longrightarrow>
    detail_step fdt s (history_effect ((fst (manifest_onSuccess s))\<lparr>dd_savingManifest := another\<rparr>))"
| failed: "t \<in> {s\<lparr>dd_deleting := False\<rparr>, s\<lparr>dd_savingLabels := False\<rparr>, s\<lparr>dd_savingManifest := False\<rparr>} \<Longrightarrow>
    detail_step fdt s (history_effect (fst (detail_onError f t)))"


abbreviation detail_reach :: "(string \<Rightarrow> string) \<Rightarrow> device_detail \<Rightarrow> bool" where
  "detail_reach fdt \<equiv> reach (\<lambda>s. \<exists>i token role. s = detail_init i token role) (detail_step fdt)"

subsection \<open>The polling history\<close>

lemma history_get_push:
  "history_get k (history_push n key v h) =
     (case v of Some x \<Rightarrow> if k = key then drop (Suc (length (history_get k h)) - n) (history_get k h @ [x]) else history_get k h
      | None \<Rightarrow> history_get k h)"
  by (auto simp: history_push_def history_get_def Let_def split: option.splits)

lemma drop_window:
  "drop (Suc (length (drop (length xs - n) xs)) - n) (drop (length xs - n) xs @ [x]) =
     drop (length (xs @ [x]) - n) (xs @ [x])"
proof -
  have "drop (length xs - n) xs @ [x] = drop (length xs - n) (xs @ [x])" by simp
  moreover have "Suc (length (drop (length xs - n) xs)) - n + (length xs - n) = length (xs @ [x]) - n"
    by simp
  ultimately show ?thesis by (simp only: drop_drop)
qed

definition values_for :: "string \<Rightarrow> (string \<times> rat option) list \<Rightarrow> rat list" where
  "values_for key ps = List.map_filter (\<lambda>(k, v). if k = key then v else None) ps"

text \<open>
  C18. The polling history is a window: after any sequence of pushes, \<open>get(key)\<close> returns the last
  \<open>maxPoints\<close> of the valid numbers pushed for that key, oldest first, and pushes for other keys and
  missing values do not change it.
\<close>

theorem polling_history_window:
  "history_get key (fold (\<lambda>(k, v). history_push n k v) ps []) =
     drop (length (values_for key ps) - n) (values_for key ps)"
proof (induction ps rule: rev_induct)
  case Nil
  then show ?case by (simp add: history_get_def values_for_def List.map_filter_def)
next
  case (snoc p ps)
  obtain k v where p: "p = (k, v)" by fastforce
  show ?case
  proof (cases "k = key \<and> v \<noteq> None")
    case True
    then obtain x where "v = Some x" "values_for key (ps @ [p]) = values_for key ps @ [x]"
      by (auto simp: p values_for_def List.map_filter_def)
    with True snoc.IH show ?thesis
      by (simp only: p history_get_push drop_window fold_append fold.simps comp_apply id_apply prod.case
          option.case simp_thms if_True)
  next
    case False
    then have "values_for key (ps @ [p]) = values_for key ps"
      by (auto simp: p values_for_def List.map_filter_def)
    with False snoc.IH show ?thesis by (auto simp: p history_get_push split: option.splits)
  qed
qed

subsection \<open>What the page offers\<close>

lemma offers_in_DeviceDetailSkeleton [simp]: "offers_in h DeviceDetailSkeleton = {}"
  by (simp add: DeviceDetailSkeleton_def MetricCardSkeleton_def skeleton_def)

lemma offers_in_select_items [simp]: "offers_in h (select_items items) = {}"
  by (auto simp: select_items_def)

lemma item_values_select_items [simp]: "item_values (select_items items) = map fst items"
  by (induction items) (auto simp: select_items_def)

lemma offers_in_log_rows: "c \<in> set (log_rows colors ls) \<Longrightarrow> offers_in h c = {}"
  by (auto simp: log_rows_def)

lemma offers_in_log_body: "log_body colors t l ls = Some n \<Longrightarrow> offers_in h n = {}"
  by (auto simp: log_body_def skeleton_def offers_in_log_rows split: if_splits)

lemma offers_in_detail_heading:
  "offers_in h (detail_heading s d) =
     {GoDevices, EditLabels, OpenDelete} \<union> (if canOpenShell (dd_role s) then {GoTerminal} else {})"
  by (auto simp: detail_heading_def)

lemma offers_in_detail_metrics: "offers_in h (detail_metrics fdt s d) = {}"
  by (simp add: detail_metrics_def offers_in_MetricCard metric_def Let_def)

lemma offers_in_detail_resources:
  "offers_in h (detail_resources s) =
     SetTelemetryRange ` {''15m'', ''1h'', ''6h'', ''24h'', ''7d'', ''30d''}"
  by (auto simp: detail_resources_def Let_def)

lemma offers_in_detail_information: "offers_in h (detail_information fdt d) = {}"
  by (simp add: detail_information_def Let_def)

lemma offers_in_detail_labels:
  "offers_in h (detail_labels s d) =
     (if dd_editingLabels s
      then RemoveLabel ` fst ` set (dd_localLabels s) \<union> range SetLabelKey \<union> range SetLabelValue
         \<union> (if dd_newLabelKey s = [] then {} else {AddLabel})
         \<union> (if dd_savingLabels s then {} else {SaveLabels}) \<union> {CancelLabels}
      else {EditLabels})"
  by (auto simp: detail_labels_def detail_label_editor_def case_prod_beta image_image split: if_splits)

lemma offers_in_detail_logs:
  "detail_logs s = Some n \<Longrightarrow>
     offers_in h n = range SetLogSearch \<union> SetLogLevel ` {''all'', ''ERROR'', ''WARN'', ''INFO'', ''DEBUG''}
       \<union> SetLogRange ` {''15m'', ''1h'', ''6h'', ''24h'', ''7d''}"
  by (auto simp: detail_logs_def offers_in_log_body bind_eq_Some_conv level_items_def range_items_def)

lemma offers_in_detail_manifest:
  "offers_in h (detail_manifest s) =
     (if hasManifestChanges s \<and> \<not> dd_savingManifest s then {SaveManifest} else {})
     \<union> (if dd_manifestLoading s then {} else range EditManifest)"
  by (auto simp: detail_manifest_def skeleton_def)

lemma detail_offers_eq:
  "detail_offers fdt s =
     (case (dd_device s, detail_logs s) of
        (Some d, Some n) \<Rightarrow>
          if dd_isLoading s then {}
          else offers_in False (detail_heading s d) \<union> offers_in False (detail_resources s)
             \<union> offers_in False (detail_labels s d) \<union> offers_in False n \<union> offers_in False (detail_manifest s)
             \<union> ({SetDelete True, SetDelete False} \<union> (if dd_deleteOpen s \<and> \<not> dd_deleting s then {ConfirmDeleteDevice} else {}))
      | _ \<Rightarrow> {})"
  by (simp add: detail_offers_def DeviceDetail_render_def detail_ota_def detail_confirm_def offers_def offers_in_detail_metrics
      offers_in_detail_information offers_in_ConfirmDialog Un_ac split: option.splits prod.splits)

lemmas detail_panels = offers_in_detail_heading offers_in_detail_resources offers_in_detail_labels
  offers_in_detail_logs offers_in_detail_manifest

subsection \<open>Reachable states\<close>

definition dd_inv :: "device_detail \<Rightarrow> bool" where
  "dd_inv s \<longleftrightarrow>
     (\<forall>k. length (history_get k (dd_history s)) \<le> MAX_POINTS)
     \<and> dd_telemetryRange s \<in> {''15m'', ''1h'', ''6h'', ''24h'', ''7d'', ''30d''}
     \<and> dd_logTimeRange s \<in> {''15m'', ''1h'', ''6h'', ''24h'', ''7d''}
     \<and> dd_logLevel s \<in> {'''', ''all'', ''ERROR'', ''WARN'', ''INFO'', ''DEBUG''}"

lemma history_effect_fields [simp]:
  "dd_telemetryRange (history_effect s) = dd_telemetryRange s" "dd_logTimeRange (history_effect s) = dd_logTimeRange s"
  "dd_logLevel (history_effect s) = dd_logLevel s" "dd_localLabels (history_effect s) = dd_localLabels s"
  "dd_editingLabels (history_effect s) = dd_editingLabels s" "dd_device (history_effect s) = dd_device s"
  "dd_token (history_effect s) = dd_token s" "dd_id (history_effect s) = dd_id s" "dd_logs (history_effect s) = dd_logs s"
  "dd_isLoading (history_effect s) = dd_isLoading s" "dd_newLabelKey (history_effect s) = dd_newLabelKey s"
  "dd_newLabelValue (history_effect s) = dd_newLabelValue s" "dd_logSearch (history_effect s) = dd_logSearch s" "dd_logsLoading (history_effect s) = dd_logsLoading s"
  by (simp_all add: history_effect_def Let_def split: option.splits)

lemma labels_effect_fields [simp]:
  "dd_telemetryRange (labels_effect s) = dd_telemetryRange s" "dd_logTimeRange (labels_effect s) = dd_logTimeRange s"
  "dd_logLevel (labels_effect s) = dd_logLevel s" "dd_history (labels_effect s) = dd_history s"
  by (simp_all add: labels_effect_def split: option.splits)

lemma history_push_bounded:
  "\<forall>k. length (history_get k h) \<le> n \<Longrightarrow> length (history_get k (history_push n key v h)) \<le> n"
  by (auto simp: history_get_push split: option.splits)

lemma history_effect_inv: "dd_inv s \<Longrightarrow> dd_inv (history_effect s)"
  by (auto simp: dd_inv_def history_effect_def Let_def history_push_bounded split: option.splits)

lemma detail_handle_inv:
  assumes "dd_inv s" and "a \<in> insert SaveShortcut (detail_offers fdt s)"
  shows "dd_inv (fst (detail_handle a s))"
proof (cases a)
  case (SetTelemetryRange v)
  with assms show ?thesis
    by (auto simp: dd_inv_def detail_offers_eq detail_panels split: option.splits if_splits)
next
  case (SetLogLevel v)
  with assms show ?thesis
    by (auto simp: dd_inv_def detail_offers_eq detail_panels split: option.splits if_splits)
next
  case (SetLogRange v)
  with assms show ?thesis
    by (auto simp: dd_inv_def detail_offers_eq detail_panels split: option.splits if_splits)
qed (use assms(1) in \<open>auto simp: dd_inv_def\<close>)

lemma after_render_inv: "dd_inv s \<Longrightarrow> dd_inv t \<Longrightarrow> dd_inv (after_render s t)"
  by (simp add: after_render_def history_effect_inv)

lemma dd_inv_frame:
  "dd_inv s \<Longrightarrow> dd_history t = dd_history s \<Longrightarrow> dd_telemetryRange t = dd_telemetryRange s \<Longrightarrow>
     dd_logTimeRange t = dd_logTimeRange s \<Longrightarrow> dd_logLevel t = dd_logLevel s \<Longrightarrow> dd_inv t"
  by (simp add: dd_inv_def)

lemmas detail_callbacks = deleteDevice_onSuccess_def labels_onSuccess_def manifest_onSuccess_def detail_onError_def

lemma detail_step_inv:
  assumes "detail_step fdt s t" and "dd_inv s"
  shows "dd_inv t"
  using assms
proof (induction rule: detail_step.induct)
  case (user a s)
  then show ?case using detail_handle_inv after_render_inv by blast
next
  case (shortcut s)
  then show ?case using detail_handle_inv [of s SaveShortcut] after_render_inv by blast
next
  case (rendered s)
  then show ?case by (rule history_effect_inv)
next
  case (device_loaded s t d)
  then show ?case by (intro history_effect_inv dd_inv_frame [OF device_loaded.prems]) simp_all
next
  case (failed t s f)
  then show ?case
    by (intro history_effect_inv dd_inv_frame [OF failed.prems]) (auto simp: detail_callbacks)
qed (rule history_effect_inv, erule dd_inv_frame; simp add: detail_callbacks)+

interpretation detail_machine:
  state_machine "\<lambda>s. \<exists>i token role. s = detail_init i token role" "detail_step fdt" dd_inv for fdt
proof
  show "\<exists>i token role. s = detail_init i token role \<Longrightarrow> dd_inv s" for s
    by (auto simp: dd_inv_def detail_init_def history_get_def Let_def)
qed (rule detail_step_inv)

definition dev_labelled :: "Device" where
  "dev_labelled =
     \<lparr>dv_deviceId = ''d1'', dv_hostname = ''h'', dv_architecture = ''arm64'', dv_os = ''linux'',
      dv_agentVersion = ''1'', dv_labels = None, dv_state = ''ONLINE'', dv_registeredAt = '''',
      dv_lastHeartbeat = None, dv_autoUpdate = None,
      dv_status = Some \<lparr>ds_cpuUsagePercent = Some 5, ds_memoryUsedBytes = 1, ds_memoryTotalBytes = 2,
        ds_diskUsedBytes = 1, ds_diskTotalBytes = 2, ds_uptimeSeconds = 60, ds_lastReconcile = None,
        ds_reconcileStatus = ''ok''\<rparr>\<rparr>"

definition detail_loaded :: device_detail where
  "detail_loaded =
     history_effect (labels_effect
       ((detail_init ''d1'' ''t'' None)\<lparr>dd_device := Some dev_labelled, dd_isLoading := False\<rparr>))"

lemma labels_effect_some: "dd_device s = Some d \<Longrightarrow> labels_effect s = s\<lparr>dd_localLabels := labels_or_empty d\<rparr>"
  by (simp add: labels_effect_def)

lemma reach_detail_loaded: "detail_reach fdt detail_loaded"
proof -
  let ?s = "detail_init ''d1'' ''t'' None"
  have "detail_reach fdt ?s" by (rule reach_init) blast
  moreover have "detail_step fdt ?s detail_loaded"
    using detail_step.device_loaded [of ?s _ dev_labelled fdt, OF _ refl]
    by (simp add: detail_loaded_def query_enabled_def detail_init_def Let_def)
  ultimately show ?thesis by (rule reach_step)
qed



text \<open>
  The Terminal button is on the page exactly for the roles operator, admin and owner, in any
  letter case, once the device is loaded (and its log answer renders).
\<close>

theorem detail_terminal_button:
  "GoTerminal \<in> detail_offers fdt s \<longleftrightarrow>
     dd_device s \<noteq> None \<and> \<not> dd_isLoading s \<and> detail_logs s \<noteq> None
     \<and> (\<exists>r. dd_role s = Some r \<and> toLowerCase r \<in> {''operator'', ''admin'', ''owner''})"
proof (cases "dd_device s = None \<or> detail_logs s = None \<or> dd_isLoading s")
  case False
  then obtain d n where "dd_device s = Some d" "detail_logs s = Some n" by auto
  with False show ?thesis
    by (auto simp: detail_offers_eq offers_in_detail_heading offers_in_detail_resources
        offers_in_detail_labels offers_in_detail_logs offers_in_detail_manifest canOpenShell_def
        split: option.splits)
qed (auto simp: detail_offers_eq split: option.splits)

text \<open>
  The manifest editor: Save can be clicked exactly when the text differs from the stored
  manifest and no save is running; the button and the shortcut send the text on screen; the
  shortcut does nothing without a change; and after a successful save there is no unsaved change
  and the editor falls back to the stored manifest.
\<close>

theorem detail_manifest_save:
  "(SaveManifest \<in> offers (detail_manifest s) \<longleftrightarrow> hasManifestChanges s \<and> \<not> dd_savingManifest s)
   \<and> snd (detail_handle SaveManifest s) = [Mutate ''updateDeviceManifest'' [currentValue s]]
   \<and> (if hasManifestChanges s \<and> currentValue s \<noteq> []
      then detail_handle SaveShortcut s = detail_handle SaveManifest s
      else detail_handle SaveShortcut s = (s, []))
   \<and> currentValue (fst (detail_handle (EditManifest v) s)) = v
   \<and> \<not> hasManifestChanges (fst (manifest_onSuccess s))
   \<and> currentValue (fst (manifest_onSuccess s)) = initialYaml (dd_manifest s)"
  by (auto simp: offers_def offers_in_detail_manifest currentValue_def hasManifestChanges_def manifest_onSuccess_def)

text \<open>
  Editing labels: adding sets exactly the new key, removing drops exactly that key,
  cancelling restores the device's labels, and saving sends the labels on screen.
\<close>

theorem detail_label_edits:
  "map_of (dd_localLabels (fst (detail_handle AddLabel s))) =
     (map_of (dd_localLabels s))(dd_newLabelKey s \<mapsto> dd_newLabelValue s)
   \<and> map_of (dd_localLabels (fst (detail_handle (RemoveLabel k) s))) = (map_of (dd_localLabels s))(k := None)
   \<and> (dd_device s = Some d \<longrightarrow> dd_localLabels (fst (detail_handle CancelLabels s)) = labels_or_empty d)
   \<and> snd (detail_handle SaveLabels s) = [Mutate ''updateDeviceLabels'' (flat_labels (dd_localLabels s))]"
  by simp

theorem detail_label_edits_witness:
  "dd_localLabels (fst (detail_handle CancelLabels (labels_effect detail_loaded\<lparr>dd_device := Some dev_labelled\<rparr>))) = []"
  using detail_label_edits [of "labels_effect detail_loaded\<lparr>dd_device := Some dev_labelled\<rparr>" undefined dev_labelled]
  by (simp add: labels_or_empty_def dev_labelled_def)

subsection \<open>Three defects of the page\<close>

lemma detail_loaded_fields [simp]:
  "dd_token detail_loaded = ''t''" "dd_id detail_loaded = ''d1''" "dd_device detail_loaded = Some dev_labelled"
  "dd_isLoading detail_loaded = False" "dd_logs detail_loaded = None" "dd_localLabels detail_loaded = []"
  "dd_editingLabels detail_loaded = False" "dd_logSearch detail_loaded = ''''" "dd_newLabelKey detail_loaded = ''''" "dd_logsLoading detail_loaded = True"
  by (simp_all add: detail_loaded_def labels_effect_some detail_init_def Let_def labels_or_empty_def dev_labelled_def)

lemma history_get_Nil: "history_get k [] = []"
  by (simp add: history_get_def)

lemma cpu_history_effect:
  "dd_device s = Some d \<Longrightarrow> dv_status d = Some st \<Longrightarrow>
     history_get ''cpu'' (dd_history (history_effect s)) =
       history_get ''cpu'' (history_push MAX_POINTS ''cpu'' (ds_cpuUsagePercent st) (dd_history s))"
  by (simp add: history_effect_def Let_def history_get_push split: option.splits)

lemma logLines_None [simp]: "logLines None = Some []"
  by (simp add: logLines_def)

lemma detail_logs_loading: "dd_logs s = None \<Longrightarrow> detail_logs s \<noteq> None"
  by (simp add: detail_logs_def log_body_def)

lemma reach_detail_user:
  "detail_reach fdt s \<Longrightarrow> a \<in> detail_offers fdt s \<Longrightarrow>
     detail_reach fdt (after_render s (fst (detail_handle a s)))"
  by (rule reach_step, assumption) (rule detail_step.user)

text \<open>
  The recorded load is not one point per poll: a keystroke in the log search renders the page
  and appends the last polled CPU value to the history again.
\<close>

theorem detail_history_counts_renders:
  "\<exists>s t. detail_reach fdt s \<and> detail_step fdt s t \<and> dd_device t = dd_device s
     \<and> t = after_render s (fst (detail_handle (SetLogSearch ''x'') s))
     \<and> history_get ''cpu'' (dd_history s) = [5] \<and> history_get ''cpu'' (dd_history t) = [5, 5]"
proof -
  let ?t = "after_render detail_loaded (fst (detail_handle (SetLogSearch ''x'') detail_loaded))"
  obtain n where "detail_logs detail_loaded = Some n"
    using detail_logs_loading [of detail_loaded] by auto
  then have "SetLogSearch ''x'' \<in> detail_offers fdt detail_loaded"
    by (simp add: detail_offers_eq offers_in_detail_logs)
  then have "detail_step fdt detail_loaded ?t" by (rule detail_step.user)
  moreover have h: "history_get ''cpu'' (dd_history detail_loaded) = [5]"
    by (simp add: detail_loaded_def cpu_history_effect labels_effect_some detail_init_def Let_def dev_labelled_def
        history_get_push MAX_POINTS_def history_get_Nil)
  moreover have "history_get ''cpu'' (dd_history ?t) = [5, 5]"
  proof -
    have "fst (detail_handle (SetLogSearch ''x'') detail_loaded) \<noteq> detail_loaded"
    proof
      assume "fst (detail_handle (SetLogSearch ''x'') detail_loaded) = detail_loaded"
      from arg_cong [OF this, of dd_logSearch] show False by simp
    qed
    then show ?thesis
      using h by (simp add: after_render_def cpu_history_effect dev_labelled_def history_get_push MAX_POINTS_def)
  qed
  moreover have "dd_device ?t = dd_device detail_loaded" by (simp add: after_render_def)
  ultimately show ?thesis using reach_detail_loaded by blast
qed

lemma history_effect_upd: "\<exists>h. history_effect t = t\<lparr>dd_history := h\<rparr>"
proof (cases "Option.bind (dd_device t) dv_status")
  case None
  then have "history_effect t = t\<lparr>dd_history := dd_history t\<rparr>" by (simp add: history_effect_def)
  then show ?thesis by blast
qed (auto simp: history_effect_def Let_def)

lemma reach_detail_act:
  assumes "detail_reach fdt s" and "a \<in> detail_offers fdt s"
  obtains h where "detail_reach fdt ((fst (detail_handle a s))\<lparr>dd_history := h\<rparr>)"
proof -
  let ?t = "fst (detail_handle a s)"
  have "\<exists>h. after_render s ?t = ?t\<lparr>dd_history := h\<rparr>"
  proof (cases "?t = s")
    case True
    then have "after_render s ?t = ?t\<lparr>dd_history := dd_history s\<rparr>" by (simp add: after_render_def)
    then show ?thesis by blast
  qed (simp add: after_render_def history_effect_upd)
  with reach_detail_user [OF assms] that show ?thesis by auto
qed

text \<open>
  Unsaved label edits are lost: while the user is editing labels, a poll that returns a changed
  device (a new uptime is enough) overwrites them with the device's labels, and the editor stays open.
\<close>

theorem detail_labels_lost_on_poll:
  "\<exists>s t. detail_reach fdt s \<and> detail_step fdt s t \<and> dd_editingLabels s \<and> dd_editingLabels t
     \<and> map_of (dd_localLabels s) ''k'' = Some '''' \<and> map_of (dd_localLabels t) ''k'' = None"
proof -
  have logs: "\<exists>n. detail_logs s = Some n" if "dd_logs s = None" for s
    using detail_logs_loading [OF that] by auto
  obtain n where "detail_logs detail_loaded = Some n" using logs [of detail_loaded] by auto
  then have "EditLabels \<in> detail_offers fdt detail_loaded"
    by (simp add: detail_offers_eq offers_in_detail_labels)
  from reach_detail_act [OF reach_detail_loaded this] obtain h1
    where r1: "detail_reach fdt (detail_loaded\<lparr>dd_editingLabels := True, dd_history := h1\<rparr>)" (is "detail_reach fdt ?s1")
    by auto
  obtain n1 where "detail_logs ?s1 = Some n1" using logs [of ?s1] by auto
  then have "SetLabelKey ''k'' \<in> detail_offers fdt ?s1"
    by (simp add: detail_offers_eq offers_in_detail_labels)
  from reach_detail_act [OF r1 this] obtain h2
    where r2: "detail_reach fdt (?s1\<lparr>dd_newLabelKey := ''k'', dd_history := h2\<rparr>)" (is "detail_reach fdt ?s2")
    by auto
  obtain n2 where "detail_logs ?s2 = Some n2" using logs [of ?s2] by auto
  then have "AddLabel \<in> detail_offers fdt ?s2"
    by (simp add: detail_offers_eq offers_in_detail_labels)
  from reach_detail_act [OF r2 this] obtain h3
    where r3: "detail_reach fdt ((fst (detail_handle AddLabel ?s2))\<lparr>dd_history := h3\<rparr>)" (is "detail_reach fdt ?s3")
    by blast
  let ?d = "dev_labelled\<lparr>dv_lastHeartbeat := Some ''now''\<rparr>"
  let ?u = "?s3\<lparr>dd_device := Some ?d, dd_isLoading := False\<rparr>"
  have "?d \<noteq> dev_labelled" by (simp add: dev_labelled_def)
  then have "dd_device ?s3 \<noteq> Some ?d" by simp
  then have "detail_step fdt ?s3 (history_effect (labels_effect ?u))"
    using detail_step.device_loaded [of ?s3 ?u ?d fdt] by (simp add: query_enabled_def)
  moreover have "labels_effect ?u = ?u\<lparr>dd_localLabels := []\<rparr>"
    by (simp add: labels_effect_some labels_or_empty_def dev_labelled_def)
  moreover have "dd_editingLabels ?s3" "map_of (dd_localLabels ?s3) ''k'' = Some ''''"
    by (simp_all add: detail_loaded_def detail_init_def labels_effect_some Let_def)
  ultimately show ?thesis using r3
    by (intro exI [of _ ?s3] exI [of _ "history_effect (labels_effect ?u)"]) simp
qed

text \<open>
  "All Levels" is not the absence of a filter: choosing it sends \<open>level=all\<close> to the
  controller, while the page opens with no level parameter at all.
\<close>

theorem detail_all_levels_is_sent:
  "(''level'', ''all'') \<in> set (parse_query (search_params (log_query (Some (detail_log_params now
      (fst (detail_handle (SetLogLevel ''all'') s)))))))
   \<and> ''level'' \<notin> fst ` set (parse_query (search_params (log_query (Some (detail_log_params now (detail_init i token role))))))
   \<and> (detail_logs s = Some n \<longrightarrow> SetLogLevel ''all'' \<in> offers n)"
  by (auto simp: parse_search_params log_query_def set_if_def detail_log_params_def detail_init_def Let_def
      offers_def offers_in_detail_logs)

theorem detail_all_levels_is_sent_witness:
  "\<exists>n. detail_logs detail_loaded = Some n \<and> SetLogLevel ''all'' \<in> offers n"
  using detail_all_levels_is_sent [of _ detail_loaded] detail_logs_loading [of detail_loaded] by auto

end
