(* ===== verification/Terminal.thy ===== *)
theory Terminal
  imports DeviceDetail
begin

text \<open>
  The web terminal, src/ui/app/(dashboard)/devices/[id]/terminal/page.tsx.

  The effect of the page is asynchronous: it imports the terminal library, creates a shell session
  with the controller, opens a WebSocket with the one-time ticket, and can be cleaned up (its
  \<open>disposed\<close> flag set) between any two of these.  Each run of the effect is a record of its local
  variables; the page keeps all runs, since a cleaned-up run goes on until its next check.
  \<open>terminal_step\<close> interleaves the continuations and socket events of all runs with the changes of the
  effect's dependencies.  Fitting the terminal to its container only changes the layout and is left
  out; the resize it causes is an event.
\<close>

subsection \<open>Access\<close>

definition ROLE_RANK :: "(string \<times> int) list" where
  "ROLE_RANK = [(''viewer'', 0), (''operator'', 1), (''admin'', 2), (''owner'', 3)]"

text \<open>An inherited property is a function or an object; comparing it with a number is false (NaN).\<close>

definition terminal_allowed :: "string option \<Rightarrow> bool" where
  "terminal_allowed orgRole =
     (let role = (case orgRole of Some r \<Rightarrow> toLowerCase r | None \<Rightarrow> '''')
      in case obj_get ROLE_RANK role of
           Own n \<Rightarrow> n \<ge> 1
         | Inherited _ \<Rightarrow> False
         | Absent \<Rightarrow> (- 1 :: int) \<ge> 1)"

subsection \<open>State\<close>

datatype ConnectionStatus = Connecting | Opened | Closed | Errored

datatype ws_state = NoWs | WsConnecting | WsOpen | WsClosing | WsClosed

datatype term_state = NoTerm | LiveTerm | DisposedTerm

datatype run_phase = Importing | Creating | Socket | Finished

datatype term_write = FailedToOpen string | SessionClosed | Bytes string

datatype frame = Input string | Resize int int

record shell_run =
  sr_token :: string
  sr_id :: string
  sr_allowed :: bool
  sr_disposed :: bool
  sr_phase :: run_phase
  sr_term :: term_state
  sr_ws :: ws_state
  sr_url :: "string option"
  sr_observing :: bool
  sr_screen :: "term_write list"
  sr_sent :: "frame list"

record terminal_page =
  tm_token :: string
  tm_id :: string
  tm_role :: "string option"
  tm_orgLoading :: bool
  tm_mounted :: bool
  tm_status :: ConnectionStatus
  tm_attempt :: int
  tm_runs :: "shell_run list"

definition terminal_init :: terminal_page where
  "terminal_init =
     \<lparr>tm_token = '''', tm_id = '''', tm_role = None, tm_orgLoading = True, tm_mounted = True,
      tm_status = Connecting, tm_attempt = 0, tm_runs = []\<rparr>"

text \<open>The container of the terminal is in the tree exactly when the last branch is rendered.\<close>

definition has_container :: "terminal_page \<Rightarrow> bool" where
  "has_container s \<longleftrightarrow> tm_mounted s \<and> \<not> tm_orgLoading s \<and> terminal_allowed (tm_role s)"

subsection \<open>The effect\<close>

definition run_start :: "string \<Rightarrow> string \<Rightarrow> bool \<Rightarrow> shell_run" where
  "run_start token i allowed =
     \<lparr>sr_token = token, sr_id = i, sr_allowed = allowed, sr_disposed = False, sr_phase = Importing,
      sr_term = NoTerm, sr_ws = NoWs, sr_url = None, sr_observing = False, sr_screen = [], sr_sent = []\<rparr>"

definition ws_close :: "ws_state \<Rightarrow> ws_state" where
  "ws_close w = (if w \<in> {WsConnecting, WsOpen} then WsClosing else w)"

definition run_cleanup :: "shell_run \<Rightarrow> shell_run" where
  "run_cleanup r =
     (if sr_disposed r then r
      else r\<lparr>sr_disposed := True, sr_observing := False, sr_ws := ws_close (sr_ws r),
             sr_term := (if sr_term r = LiveTerm then DisposedTerm else sr_term r)\<rparr>)"

definition terminal_effect :: "terminal_page \<Rightarrow> terminal_page" where
  "terminal_effect s =
     (let runs = map run_cleanup (tm_runs s)
      in if tm_token s = [] \<or> tm_id s = [] \<or> \<not> terminal_allowed (tm_role s) \<or> \<not> has_container s
         then s\<lparr>tm_runs := runs\<rparr>
         else s\<lparr>tm_runs := runs @ [run_start (tm_token s) (tm_id s) (terminal_allowed (tm_role s))]\<rparr>)"

definition effect_deps :: "terminal_page \<Rightarrow> string \<times> string \<times> bool \<times> int" where
  "effect_deps s = (tm_token s, tm_id s, terminal_allowed (tm_role s), tm_attempt s)"

text \<open>React runs the effect after a render whose dependencies differ from the previous ones.\<close>

definition after_commit :: "terminal_page \<Rightarrow> terminal_page \<Rightarrow> terminal_page" where
  "after_commit s t = (if effect_deps t = effect_deps s then t else terminal_effect t)"

definition upd_run :: "nat \<Rightarrow> (shell_run \<Rightarrow> shell_run) \<Rightarrow> terminal_page \<Rightarrow> terminal_page" where
  "upd_run k f s = s\<lparr>tm_runs := (tm_runs s)[k := f (tm_runs s ! k)]\<rparr>"

text \<open>The continuation after the two imports, up to the call of \<open>createShellSession\<close>.\<close>

definition run_imported :: "nat \<Rightarrow> terminal_page \<Rightarrow> terminal_page" where
  "run_imported k s =
     (if sr_disposed (tm_runs s ! k) \<or> \<not> has_container s
      then upd_run k (\<lambda>r. r\<lparr>sr_phase := Finished\<rparr>) s
      else (upd_run k (\<lambda>r. r\<lparr>sr_term := LiveTerm, sr_phase := Creating\<rparr>) s)\<lparr>tm_status := Connecting\<rparr>)"

definition run_session_call :: "'w env \<Rightarrow> shell_run \<Rightarrow> int \<Rightarrow> int \<Rightarrow> 'w call" where
  "run_session_call e r rows cols = createShellSession e (sr_token r) (sr_id r) rows cols"

definition run_session_failed :: "nat \<Rightarrow> failure \<Rightarrow> terminal_page \<Rightarrow> terminal_page" where
  "run_session_failed k f s =
     (if \<not> sr_disposed (tm_runs s ! k)
      then (upd_run k (\<lambda>r. r\<lparr>sr_phase := Finished, sr_screen := sr_screen r @ [FailedToOpen (err_message f)]\<rparr>) s)
             \<lparr>tm_status := Errored\<rparr>
      else upd_run k (\<lambda>r. r\<lparr>sr_phase := Finished\<rparr>) s)"

definition run_session_ok :: "string \<Rightarrow> string \<Rightarrow> nat \<Rightarrow> string \<Rightarrow> terminal_page \<Rightarrow> terminal_page" where
  "run_session_ok base origin k ticket s =
     (if sr_disposed (tm_runs s ! k) then upd_run k (\<lambda>r. r\<lparr>sr_phase := Finished\<rparr>) s
      else upd_run k (\<lambda>r. r\<lparr>sr_phase := Socket, sr_ws := WsConnecting, sr_observing := True,
                            sr_url := Some (shellWebSocketUrl base (Some origin) ticket)\<rparr>) s)"

definition send_if_open :: "frame \<Rightarrow> shell_run \<Rightarrow> shell_run" where
  "send_if_open f r = (if sr_ws r = WsOpen then r\<lparr>sr_sent := sr_sent r @ [f]\<rparr> else r)"

definition run_onopen :: "nat \<Rightarrow> int \<Rightarrow> int \<Rightarrow> terminal_page \<Rightarrow> terminal_page" where
  "run_onopen k rows cols s =
     (let s1 = upd_run k (\<lambda>r. r\<lparr>sr_ws := WsOpen\<rparr>) s
      in if sr_disposed (tm_runs s ! k) then s1
         else (upd_run k (send_if_open (Resize rows cols)) s1)\<lparr>tm_status := Opened\<rparr>)"

definition run_onmessage :: "nat \<Rightarrow> string + string \<Rightarrow> terminal_page \<Rightarrow> terminal_page" where
  "run_onmessage k msg s =
     (case msg of
        Inl text \<Rightarrow> s
      | Inr bytes \<Rightarrow> upd_run k (\<lambda>r. r\<lparr>sr_screen := sr_screen r @ [Bytes bytes]\<rparr>) s)"

definition run_onclose :: "nat \<Rightarrow> terminal_page \<Rightarrow> terminal_page" where
  "run_onclose k s =
     (let s1 = upd_run k (\<lambda>r. r\<lparr>sr_ws := WsClosed\<rparr>) s
      in if sr_disposed (tm_runs s ! k) then s1
         else (upd_run k (\<lambda>r. r\<lparr>sr_screen := sr_screen r @ [SessionClosed]\<rparr>) s1)\<lparr>tm_status := Closed\<rparr>)"

definition run_onerror :: "nat \<Rightarrow> terminal_page \<Rightarrow> terminal_page" where
  "run_onerror k s = (if \<not> sr_disposed (tm_runs s ! k) then s\<lparr>tm_status := Errored\<rparr> else s)"

subsection \<open>Rendering\<close>

datatype terminal_act = BackToDevice | Reconnect

definition STATUS_LABEL :: "ConnectionStatus \<Rightarrow> string" where
  "STATUS_LABEL st =
     (case st of Connecting \<Rightarrow> ''Connecting...'' | Opened \<Rightarrow> ''Connected'' | Closed \<Rightarrow> ''Disconnected'' | Errored \<Rightarrow> ''Error'')"

definition STATUS_VARIANT :: "ConnectionStatus \<Rightarrow> string" where
  "STATUS_VARIANT st =
     (case st of Connecting \<Rightarrow> ''secondary'' | Opened \<Rightarrow> ''default'' | Closed \<Rightarrow> ''secondary'' | Errored \<Rightarrow> ''destructive'')"

fun terminal_handle :: "terminal_act \<Rightarrow> terminal_page \<Rightarrow> terminal_page \<times> effect list" where
  "terminal_handle BackToDevice s = (s, [RouterPush (''/devices/'' @ tm_id s)])"
| "terminal_handle Reconnect s = (s\<lparr>tm_attempt := tm_attempt s + 1\<rparr>, [])"

definition Terminal_render :: "terminal_page \<Rightarrow> terminal_act node" where
  "Terminal_render s =
     (let allowed = terminal_allowed (tm_role s)
      in el ''div''
           [el ''div''
              [on_click ''Button'' [(''variant'', AStr ''ghost'')] BackToDevice [icon ''ArrowLeft''],
               PageHeader ''Terminal'' (Some (tm_id s)) [],
               el ''div''
                 (shown allowed
                    (El ''Badge'' [(''variant'', AStr (STATUS_VARIANT (tm_status s)))] [] [Text (STATUS_LABEL (tm_status s))])
                  @ shown (allowed \<and> (tm_status s = Closed \<or> tm_status s = Errored))
                      (on_click ''Button'' [(''variant'', AStr ''outline'')] Reconnect [icon ''RotateCw'', Text ''Reconnect'']))],
            if tm_orgLoading s then skeleton
            else if \<not> allowed
            then el ''Card''
                   [el ''CardContent''
                      [icon ''ShieldAlert'',
                       el ''p'' [Text ''You need the '', el ''span'' [Text ''Operator''],
                                 Text '' role or higher to open a terminal on this device.'']]]
            else el ''Card'' [el ''CardContent'' [el ''div'' [icon ''div'']]]])"

subsection \<open>Steps\<close>

definition run_at :: "terminal_page \<Rightarrow> nat \<Rightarrow> run_phase \<Rightarrow> bool" where
  "run_at s k p \<longleftrightarrow> k < length (tm_runs s) \<and> sr_phase (tm_runs s ! k) = p"

definition ws_at :: "terminal_page \<Rightarrow> nat \<Rightarrow> ws_state set \<Rightarrow> bool" where
  "ws_at s k ws \<longleftrightarrow> k < length (tm_runs s) \<and> sr_ws (tm_runs s ! k) \<in> ws"

inductive terminal_step :: "string \<Rightarrow> string \<Rightarrow> terminal_page \<Rightarrow> terminal_page \<Rightarrow> bool"
  for base origin where
  user: "a \<in> offers (Terminal_render s) \<Longrightarrow> tm_mounted s \<Longrightarrow>
    terminal_step base origin s (after_commit s (fst (terminal_handle a s)))"
| context_changed: "tm_mounted s \<Longrightarrow>
    terminal_step base origin s
      (after_commit s (s\<lparr>tm_token := token, tm_id := i, tm_role := role, tm_orgLoading := loading\<rparr>))"
| unmounted: "terminal_step base origin s (s\<lparr>tm_mounted := False, tm_runs := map run_cleanup (tm_runs s)\<rparr>)"
| imported: "run_at s k Importing \<Longrightarrow> terminal_step base origin s (run_imported k s)"
| session_failed: "run_at s k Creating \<Longrightarrow> terminal_step base origin s (run_session_failed k f s)"
| session_ok: "run_at s k Creating \<Longrightarrow> terminal_step base origin s (run_session_ok base origin k ticket s)"
| opened: "ws_at s k {WsConnecting} \<Longrightarrow> terminal_step base origin s (run_onopen k rows cols s)"
| message: "ws_at s k {WsOpen, WsClosing} \<Longrightarrow> terminal_step base origin s (run_onmessage k msg s)"
| errored: "ws_at s k {WsConnecting, WsOpen, WsClosing} \<Longrightarrow> terminal_step base origin s (run_onerror k s)"
| closed_ws: "ws_at s k {WsConnecting, WsOpen, WsClosing} \<Longrightarrow> terminal_step base origin s (run_onclose k s)"
| typed: "k < length (tm_runs s) \<Longrightarrow> sr_term (tm_runs s ! k) = LiveTerm \<Longrightarrow>
    terminal_step base origin s (upd_run k (send_if_open (Input keys)) s)"
| resized: "k < length (tm_runs s) \<Longrightarrow> sr_term (tm_runs s ! k) = LiveTerm \<Longrightarrow>
    terminal_step base origin s (upd_run k (send_if_open (Resize rows cols)) s)"

abbreviation terminal_reach :: "string \<Rightarrow> string \<Rightarrow> terminal_page \<Rightarrow> bool" where
  "terminal_reach base origin \<equiv> reach (\<lambda>s. s = terminal_init) (terminal_step base origin)"

subsection \<open>The invariant of the runs\<close>

definition run_ok :: "string \<Rightarrow> string \<Rightarrow> shell_run \<Rightarrow> bool" where
  "run_ok base origin r \<longleftrightarrow>
     (sr_disposed r \<longrightarrow> sr_term r \<noteq> LiveTerm \<and> sr_ws r \<notin> {WsConnecting, WsOpen} \<and> \<not> sr_observing r)
     \<and> sr_allowed r \<and> sr_token r \<noteq> [] \<and> sr_id r \<noteq> []
     \<and> (sr_ws r \<noteq> NoWs \<longrightarrow> sr_phase r = Socket \<and> (\<exists>ticket. sr_url r = Some (shellWebSocketUrl base (Some origin) ticket)))
     \<and> (\<not> sr_disposed r \<longrightarrow> sr_ws r \<noteq> WsClosing)"

definition track :: "ConnectionStatus \<Rightarrow> shell_run \<Rightarrow> bool" where
  "track st r \<longleftrightarrow>
     (sr_phase r = Creating \<longrightarrow> st = Connecting)
     \<and> (sr_ws r = WsConnecting \<longrightarrow> st \<in> {Connecting, Errored})
     \<and> (sr_ws r = WsOpen \<longrightarrow> st \<in> {Opened, Errored})
     \<and> (sr_ws r = WsClosed \<longrightarrow> st = Closed)"

definition terminal_inv :: "string \<Rightarrow> string \<Rightarrow> terminal_page \<Rightarrow> bool" where
  "terminal_inv base origin s \<longleftrightarrow>
     (\<forall>k < length (tm_runs s).
        run_ok base origin (tm_runs s ! k)
        \<and> (\<not> sr_disposed (tm_runs s ! k) \<longrightarrow>
             Suc k = length (tm_runs s) \<and> tm_mounted s \<and> track (tm_status s) (tm_runs s ! k)))"

lemma terminal_inv_run:
  assumes "terminal_inv base origin s" and "k < length (tm_runs s)"
  shows "run_ok base origin (tm_runs s ! k)"
    and "\<not> sr_disposed (tm_runs s ! k) \<Longrightarrow> Suc k = length (tm_runs s)"
    and "\<not> sr_disposed (tm_runs s ! k) \<Longrightarrow> tm_mounted s"
    and "\<not> sr_disposed (tm_runs s ! k) \<Longrightarrow> track (tm_status s) (tm_runs s ! k)"
  using assms by (auto simp: terminal_inv_def)

text \<open>One run takes a step: the others are untouched, and only a live run changes the status.\<close>

lemma terminal_inv_update:
  assumes inv: "terminal_inv base origin s" and k: "k < length (tm_runs s)"
    and runs: "tm_runs t = (tm_runs s)[k := r]" "tm_mounted t = tm_mounted s"
    and r: "run_ok base origin r" "sr_disposed r = sr_disposed (tm_runs s ! k)"
      "\<not> sr_disposed r \<Longrightarrow> track (tm_status t) r"
    and st: "sr_disposed (tm_runs s ! k) \<Longrightarrow> tm_status t = tm_status s"
  shows "terminal_inv base origin t"
  unfolding terminal_inv_def
proof (intro allI impI conjI)
  fix j assume j: "j < length (tm_runs t)"
  then have js: "j < length (tm_runs s)" using runs by simp
  show "run_ok base origin (tm_runs t ! j)"
    using terminal_inv_run(1) [OF inv js] r(1) runs js by (cases "j = k") simp_all
  assume live: "\<not> sr_disposed (tm_runs t ! j)"
  have "sr_disposed (tm_runs t ! j) = sr_disposed (tm_runs s ! j)"
    using runs r(2) js by (cases "j = k") simp_all
  with live have lives: "\<not> sr_disposed (tm_runs s ! j)" by simp
  show "Suc j = length (tm_runs t)" "tm_mounted t"
    using terminal_inv_run(2,3) [OF inv js lives] runs by simp_all
  show "track (tm_status t) (tm_runs t ! j)"
  proof (cases "j = k")
    case True
    with r runs live js show ?thesis by simp
  next
    case False
    have "sr_disposed (tm_runs s ! k)"
      using terminal_inv_run(2) [OF inv js lives] terminal_inv_run(2) [OF inv k] False by auto
    with st terminal_inv_run(4) [OF inv js lives] runs False show ?thesis by simp
  qed
qed

lemma run_cleanup_disposed [simp]: "sr_disposed (run_cleanup r)"
  by (simp add: run_cleanup_def)

lemma run_cleanup_ok: "run_ok base origin r \<Longrightarrow> run_ok base origin (run_cleanup r)"
  by (auto simp: run_ok_def run_cleanup_def ws_close_def split: if_splits)

lemma terminal_inv_cleanup:
  assumes "terminal_inv base origin s" and "tm_runs t = map run_cleanup (tm_runs s)"
  shows "terminal_inv base origin t"
  using assms by (simp add: terminal_inv_def run_cleanup_ok)

lemma terminal_inv_effect:
  assumes "terminal_inv base origin s" and "tm_mounted s"
  shows "terminal_inv base origin (terminal_effect s)"
proof -
  let ?runs = "map run_cleanup (tm_runs s)"
  have old: "run_ok base origin (?runs ! k)" "sr_disposed (?runs ! k)" if "k < length (tm_runs s)" for k
    using run_cleanup_ok terminal_inv_run(1) [OF assms(1) that] that by auto
  show ?thesis
  proof (cases "tm_token s = [] \<or> tm_id s = [] \<or> \<not> terminal_allowed (tm_role s) \<or> \<not> has_container s")
    case True
    then show ?thesis
      using terminal_inv_cleanup [OF assms(1), of "terminal_effect s"] by (simp add: terminal_effect_def Let_def)
  next
    case False
    let ?r = "run_start (tm_token s) (tm_id s) True"
    have runs: "tm_runs (terminal_effect s) = ?runs @ [?r]" "tm_mounted (terminal_effect s)"
      using False assms(2) by (simp_all add: terminal_effect_def Let_def)
    have "run_ok base origin ?r" "track (tm_status (terminal_effect s)) ?r"
      using False by (simp_all add: run_ok_def run_start_def track_def)
    then show ?thesis using old runs(2) unfolding terminal_inv_def runs(1)
      by (auto simp: nth_append less_Suc_eq)
  qed
qed

lemma terminal_inv_frame:
  "terminal_inv base origin s \<Longrightarrow> tm_runs t = tm_runs s \<Longrightarrow> tm_status t = tm_status s \<Longrightarrow>
     tm_mounted t = tm_mounted s \<Longrightarrow> terminal_inv base origin t"
  by (simp add: terminal_inv_def)

lemma terminal_inv_commit:
  "terminal_inv base origin t \<Longrightarrow> tm_mounted t \<Longrightarrow> terminal_inv base origin (after_commit s t)"
  by (simp add: after_commit_def terminal_inv_effect)

lemma run_imported_inv:
  assumes inv: "terminal_inv base origin s" and at: "run_at s k Importing"
  shows "terminal_inv base origin (run_imported k s)"
proof -
  have k: "k < length (tm_runs s)" and p: "sr_phase (tm_runs s ! k) = Importing"
    using at by (simp_all add: run_at_def)
  have ok: "run_ok base origin (tm_runs s ! k)" by (rule terminal_inv_run(1) [OF inv k])
  show ?thesis
  proof (cases "sr_disposed (tm_runs s ! k) \<or> \<not> has_container s")
    case True
    then show ?thesis using ok p
      by (intro terminal_inv_update [OF inv k, where r = "(tm_runs s ! k)\<lparr>sr_phase := Finished\<rparr>"])
        (auto simp: run_imported_def upd_run_def run_ok_def track_def)
  next
    case False
    then show ?thesis using ok p
      by (intro terminal_inv_update [OF inv k, where r = "(tm_runs s ! k)\<lparr>sr_term := LiveTerm, sr_phase := Creating\<rparr>"])
        (auto simp: run_imported_def upd_run_def run_ok_def track_def)
  qed
qed

lemma run_session_failed_inv:
  assumes inv: "terminal_inv base origin s" and at: "run_at s k Creating"
  shows "terminal_inv base origin (run_session_failed k f s)"
proof -
  have k: "k < length (tm_runs s)" and p: "sr_phase (tm_runs s ! k) = Creating"
    using at by (simp_all add: run_at_def)
  have ok: "run_ok base origin (tm_runs s ! k)" by (rule terminal_inv_run(1) [OF inv k])
  let ?r = "if sr_disposed (tm_runs s ! k) then (tm_runs s ! k)\<lparr>sr_phase := Finished\<rparr>
    else (tm_runs s ! k)\<lparr>sr_phase := Finished, sr_screen := sr_screen (tm_runs s ! k) @ [FailedToOpen (err_message f)]\<rparr>"
  show ?thesis using ok p
    by (intro terminal_inv_update [OF inv k, where r = ?r])
      (auto simp: run_session_failed_def upd_run_def run_ok_def track_def)
qed

lemma run_session_ok_inv:
  assumes inv: "terminal_inv base origin s" and at: "run_at s k Creating"
  shows "terminal_inv base origin (run_session_ok base origin k ticket s)"
proof -
  have k: "k < length (tm_runs s)" and p: "sr_phase (tm_runs s ! k) = Creating"
    using at by (simp_all add: run_at_def)
  have ok: "run_ok base origin (tm_runs s ! k)" by (rule terminal_inv_run(1) [OF inv k])
  let ?r = "if sr_disposed (tm_runs s ! k) then (tm_runs s ! k)\<lparr>sr_phase := Finished\<rparr>
    else (tm_runs s ! k)\<lparr>sr_phase := Socket, sr_ws := WsConnecting, sr_observing := True,
                         sr_url := Some (shellWebSocketUrl base (Some origin) ticket)\<rparr>"
  show ?thesis using ok p terminal_inv_run(4) [OF inv k]
    by (intro terminal_inv_update [OF inv k, where r = ?r])
      (auto simp: run_session_ok_def upd_run_def run_ok_def track_def)
qed

lemma run_onopen_inv:
  assumes inv: "terminal_inv base origin s" and at: "ws_at s k {WsConnecting}"
  shows "terminal_inv base origin (run_onopen k rows cols s)"
proof -
  have k: "k < length (tm_runs s)" and w: "sr_ws (tm_runs s ! k) = WsConnecting"
    using at by (simp_all add: ws_at_def)
  have ok: "run_ok base origin (tm_runs s ! k)" by (rule terminal_inv_run(1) [OF inv k])
  let ?r = "(tm_runs s ! k)\<lparr>sr_ws := WsOpen, sr_sent := sr_sent (tm_runs s ! k) @ [Resize rows cols]\<rparr>"
  show ?thesis using ok w k
    by (intro terminal_inv_update [OF inv k, where r = ?r])
      (auto simp: run_onopen_def upd_run_def send_if_open_def run_ok_def track_def Let_def)
qed

lemma run_onclose_inv:
  assumes inv: "terminal_inv base origin s" and at: "ws_at s k {WsConnecting, WsOpen, WsClosing}"
  shows "terminal_inv base origin (run_onclose k s)"
proof -
  have k: "k < length (tm_runs s)" and w: "sr_ws (tm_runs s ! k) \<noteq> NoWs"
    using at by (auto simp: ws_at_def)
  have ok: "run_ok base origin (tm_runs s ! k)" by (rule terminal_inv_run(1) [OF inv k])
  let ?r = "if sr_disposed (tm_runs s ! k) then (tm_runs s ! k)\<lparr>sr_ws := WsClosed\<rparr>
    else (tm_runs s ! k)\<lparr>sr_ws := WsClosed, sr_screen := sr_screen (tm_runs s ! k) @ [SessionClosed]\<rparr>"
  show ?thesis using ok w k
    by (intro terminal_inv_update [OF inv k, where r = ?r])
      (auto simp: run_onclose_def upd_run_def run_ok_def track_def Let_def)
qed

lemma run_onerror_inv:
  assumes inv: "terminal_inv base origin s" and at: "ws_at s k {WsConnecting, WsOpen, WsClosing}"
  shows "terminal_inv base origin (run_onerror k s)"
proof -
  have k: "k < length (tm_runs s)" and w: "sr_ws (tm_runs s ! k) \<in> {WsConnecting, WsOpen, WsClosing}"
    using at by (auto simp: ws_at_def)
  have ok: "run_ok base origin (tm_runs s ! k)" by (rule terminal_inv_run(1) [OF inv k])
  show ?thesis using ok w terminal_inv_run(4) [OF inv k]
    by (intro terminal_inv_update [OF inv k, where r = "tm_runs s ! k"])
      (auto simp: run_onerror_def run_ok_def track_def)
qed

lemma send_inv:
  assumes inv: "terminal_inv base origin s" and k: "k < length (tm_runs s)"
  shows "terminal_inv base origin (upd_run k (send_if_open f) s)"
  using terminal_inv_run(1,4) [OF inv k]
  by (intro terminal_inv_update [OF inv k, where r = "send_if_open f (tm_runs s ! k)"])
    (auto simp: upd_run_def send_if_open_def run_ok_def track_def)

lemma run_onmessage_inv:
  assumes inv: "terminal_inv base origin s" and k: "k < length (tm_runs s)"
  shows "terminal_inv base origin (run_onmessage k msg s)"
proof (cases msg)
  case (Inr b)
  then show ?thesis using terminal_inv_run(1,4) [OF inv k]
    by (intro terminal_inv_update [OF inv k, where
          r = "(tm_runs s ! k)\<lparr>sr_screen := sr_screen (tm_runs s ! k) @ [Bytes b]\<rparr>"])
      (auto simp: run_onmessage_def upd_run_def run_ok_def track_def)
qed (simp add: run_onmessage_def inv)

lemma terminal_handle_frame:
  "tm_runs (fst (terminal_handle a s)) = tm_runs s" "tm_status (fst (terminal_handle a s)) = tm_status s"
  "tm_mounted (fst (terminal_handle a s)) = tm_mounted s"
  by (cases a; simp)+

lemma terminal_step_inv:
  assumes "terminal_step base origin s t" and "terminal_inv base origin s"
  shows "terminal_inv base origin t"
  using assms
proof (induction rule: terminal_step.induct)
  case (user a s)
  then show ?case
    by (intro terminal_inv_commit terminal_inv_frame [OF user.prems]) (simp_all add: terminal_handle_frame)
next
  case (context_changed s token i role loading)
  then show ?case
    by (intro terminal_inv_commit terminal_inv_frame [OF context_changed.prems]) simp_all
next
  case (unmounted s)
  then show ?case by (rule terminal_inv_cleanup) simp
qed (auto simp: ws_at_def intro: run_imported_inv run_session_failed_inv run_session_ok_inv run_onopen_inv
    run_onclose_inv run_onerror_inv run_onmessage_inv send_inv)

interpretation terminal_machine:
  state_machine "\<lambda>s. s = terminal_init" "terminal_step base origin" "terminal_inv base origin" for base origin
proof
  show "s = terminal_init \<Longrightarrow> terminal_inv base origin s" for s
    by (simp add: terminal_inv_def terminal_init_def)
qed (rule terminal_step_inv)


subsection \<open>Properties of the terminal\<close>

lemma lower_role_not_inherited: "r \<in> {''operator'', ''admin'', ''owner'', ''viewer''} \<Longrightarrow> r \<notin> set object_prototype_keys"
  by (auto simp: object_prototype_keys_def)

text \<open>
  C9. The terminal page and the device page agree on who may open a shell: the rank test of the
  one and the role list of the other hold for the same roles, for any role text whatsoever (also a
  missing one, and one that names an inherited property of the rank table).
\<close>

theorem terminal_allowed_iff_button: "terminal_allowed role = canOpenShell role"
proof -
  let ?r = "case role of Some r \<Rightarrow> toLowerCase r | None \<Rightarrow> ''''"
  have "terminal_allowed role \<longleftrightarrow> (\<exists>n. obj_get ROLE_RANK ?r = Own n \<and> n \<ge> 1)"
    by (simp add: terminal_allowed_def Let_def split: slot.split)
  also have "\<dots> \<longleftrightarrow> ?r \<in> {''operator'', ''admin'', ''owner''}"
    by (auto simp: obj_get_def ROLE_RANK_def split: if_splits)
  finally show ?thesis by (simp add: canOpenShell_def)
qed

text \<open>
  C1. No leak: in every reachable state, whatever the interleaving of re-renders, clean-ups, imports,
  controller answers and socket events, at most the newest run of the effect is live, and a run that
  was cleaned up holds no live terminal, no connecting or open socket and no resize observer.
\<close>

theorem terminal_no_leak:
  assumes "terminal_reach base origin s" and "k < length (tm_runs s)"
  shows "(sr_disposed (tm_runs s ! k) \<longrightarrow>
            sr_term (tm_runs s ! k) \<noteq> LiveTerm \<and> sr_ws (tm_runs s ! k) \<notin> {WsConnecting, WsOpen}
            \<and> \<not> sr_observing (tm_runs s ! k))
       \<and> (\<not> sr_disposed (tm_runs s ! k) \<longrightarrow> Suc k = length (tm_runs s) \<and> tm_mounted s)"
proof -
  have inv: "terminal_inv base origin s" using assms(1) by (rule terminal_machine.reach_inv)
  show ?thesis using terminal_inv_run [OF inv assms(2)] by (auto simp: run_ok_def)
qed


text \<open>
  C7. The status badge follows the socket of the live run: connecting or error while it connects,
  connected or error while it is open, and disconnected once it is closed, after an error too.
\<close>

theorem terminal_status_follows_socket:
  assumes "terminal_reach base origin s" and "r \<in> set (tm_runs s)" and "\<not> sr_disposed r"
  shows "(sr_ws r = WsConnecting \<longrightarrow> tm_status s \<in> {Connecting, Errored})
       \<and> (sr_ws r = WsOpen \<longrightarrow> tm_status s \<in> {Opened, Errored})
       \<and> (sr_ws r = WsClosed \<longrightarrow> tm_status s = Closed) \<and> sr_ws r \<noteq> WsClosing"
proof -
  have inv: "terminal_inv base origin s" using assms(1) by (rule terminal_machine.reach_inv)
  obtain k where "k < length (tm_runs s)" "r = tm_runs s ! k" using assms(2) by (auto simp: in_set_conv_nth)
  then show ?thesis using terminal_inv_run(1,4) [OF inv] assms(3) by (auto simp: run_ok_def track_def)
qed

text \<open>A connected terminal, reached by the shortest path.\<close>

definition terminal_ready :: terminal_page where
  "terminal_ready = terminal_init\<lparr>tm_token := ''t'', tm_id := ''d'', tm_role := Some ''OPERATOR'', tm_orgLoading := False\<rparr>"

definition run_open :: "string \<Rightarrow> string \<Rightarrow> string \<Rightarrow> string \<Rightarrow> shell_run" where
  "run_open base origin token i =
     (run_start token i True)\<lparr>sr_phase := Socket, sr_term := LiveTerm, sr_ws := WsOpen, sr_observing := True,
        sr_url := Some (shellWebSocketUrl base (Some origin) ''k''), sr_sent := [Resize 24 80]\<rparr>"

lemma allowed_operator [simp]: "terminal_allowed (Some ''OPERATOR'')"
  by code_simp

lemma terminal_connects:
  assumes runs: "tm_runs s = rs @ [run_start token i True]" and c: "has_container s"
  shows "(terminal_step base origin)\<^sup>*\<^sup>* s (s\<lparr>tm_status := Opened, tm_runs := rs @ [run_open base origin token i]\<rparr>)"
proof -
  let ?k = "length rs"
  let ?r0 = "run_start token i True"
  let ?r1 = "?r0\<lparr>sr_term := LiveTerm, sr_phase := Creating\<rparr>"
  let ?r2 = "?r1\<lparr>sr_phase := Socket, sr_ws := WsConnecting, sr_observing := True,
               sr_url := Some (shellWebSocketUrl base (Some origin) ''k'')\<rparr>"
  let ?s1 = "s\<lparr>tm_status := Connecting, tm_runs := rs @ [?r1]\<rparr>"
  let ?s2 = "?s1\<lparr>tm_runs := rs @ [?r2]\<rparr>"
  have "run_imported ?k s = ?s1"
    using c runs by (simp add: run_imported_def upd_run_def run_start_def)
  then have "terminal_step base origin s ?s1"
    using terminal_step.imported [of s ?k base origin] runs by (simp add: run_at_def run_start_def)
  moreover have "run_session_ok base origin ?k ''k'' ?s1 = ?s2"
    by (simp add: run_session_ok_def upd_run_def run_start_def)
  then have "terminal_step base origin ?s1 ?s2"
    using terminal_step.session_ok [of ?s1 ?k base origin "''k''"] by (simp add: run_at_def)
  moreover have "run_onopen ?k 24 80 ?s2 = s\<lparr>tm_status := Opened, tm_runs := rs @ [run_open base origin token i]\<rparr>"
    by (simp add: run_onopen_def upd_run_def run_start_def run_open_def send_if_open_def Let_def)
  then have "terminal_step base origin ?s2 (s\<lparr>tm_status := Opened, tm_runs := rs @ [run_open base origin token i]\<rparr>)"
    using terminal_step.opened [of ?s2 ?k base origin 24 80] by (simp add: ws_at_def)
  ultimately show ?thesis by (meson converse_rtranclp_into_rtranclp rtranclp.rtrancl_refl)
qed

lemma offers_Terminal:
  "offers (Terminal_render s) =
     {BackToDevice} \<union> (if terminal_allowed (tm_role s) \<and> tm_status s \<in> {Closed, Errored} then {Reconnect} else {})"
  by (auto simp: offers_def Terminal_render_def skeleton_def Let_def)



lemma reach_terminal_open:
  "terminal_reach base origin (terminal_ready\<lparr>tm_status := Opened, tm_runs := [run_open base origin ''t'' ''d'']\<rparr>)"
proof -
  let ?s = "terminal_ready\<lparr>tm_runs := [run_start ''t'' ''d'' True]\<rparr>"
  have "\<not> terminal_allowed None" by code_simp
  then have "after_commit terminal_init terminal_ready = ?s"
    by (simp add: after_commit_def effect_deps_def terminal_effect_def has_container_def terminal_ready_def
        terminal_init_def Let_def)
  then have "terminal_step base origin terminal_init ?s"
    using terminal_step.context_changed [where s = terminal_init and token = "''t''" and i = "''d''"
        and role = "Some ''OPERATOR''" and loading = False and base = base and origin = origin]
    by (simp add: terminal_ready_def terminal_init_def)
  moreover have "terminal_reach base origin terminal_init" by (rule reach_init) simp
  ultimately have s: "terminal_reach base origin ?s" by (rule reach_step [rotated])
  have "(terminal_step base origin)\<^sup>*\<^sup>* ?s (?s\<lparr>tm_status := Opened, tm_runs := [] @ [run_open base origin ''t'' ''d'']\<rparr>)"
    by (rule terminal_connects) (simp_all add: has_container_def terminal_ready_def terminal_init_def)
  then have "terminal_reach base origin (?s\<lparr>tm_status := Opened, tm_runs := [] @ [run_open base origin ''t'' ''d'']\<rparr>)"
    by (induction rule: rtranclp_induct) (use s in \<open>auto intro: reach_step\<close>)
  then show ?thesis by simp
qed

theorem terminal_no_leak_witness:
  "tm_mounted (terminal_ready\<lparr>tm_status := Opened, tm_runs := [run_open '''' ''http://h'' ''t'' ''d'']\<rparr>)"
  using terminal_no_leak [OF reach_terminal_open [of "''''" "''http://h''"], of 0]
  by (simp add: run_open_def run_start_def)


theorem terminal_status_follows_socket_witness:
  "tm_status (terminal_ready\<lparr>tm_status := Opened, tm_runs := [run_open '''' ''http://h'' ''t'' ''d'']\<rparr>) \<in> {Opened, Errored}"
  using terminal_status_follows_socket [OF reach_terminal_open [of "''''" "''http://h''"], of "run_open '''' ''http://h'' ''t'' ''d''"]
  by (simp add: run_open_def run_start_def)

text \<open>
  A refreshed access token ends the shell: the token is a dependency of the effect, so when the
  session hands the page a new one, the open socket is closed and a new session is started, although
  the ticket of the running one needs no token.
\<close>

theorem terminal_token_refresh_drops_shell:
  assumes "tm_mounted s" and "k < length (tm_runs s)" and "\<not> sr_disposed (tm_runs s ! k)"
    and "sr_ws (tm_runs s ! k) = WsOpen" and "token \<noteq> tm_token s"
  shows "\<exists>t. terminal_step base origin s t \<and> tm_token t = token \<and> tm_id t = tm_id s \<and> tm_role t = tm_role s
           \<and> sr_ws (tm_runs t ! k) = WsClosing \<and> sr_disposed (tm_runs t ! k)"
proof -
  let ?u = "s\<lparr>tm_token := token, tm_id := tm_id s, tm_role := tm_role s, tm_orgLoading := tm_orgLoading s\<rparr>"
  have "terminal_step base origin s (after_commit s ?u)" using assms(1) by (rule terminal_step.context_changed)
  moreover have "after_commit s ?u = terminal_effect ?u"
    using assms(5) by (simp add: after_commit_def effect_deps_def)
  moreover have "tm_runs (terminal_effect ?u) ! k = run_cleanup (tm_runs s ! k)"
    using assms(2) by (simp add: terminal_effect_def Let_def nth_append)
  moreover have "sr_ws (run_cleanup (tm_runs s ! k)) = WsClosing"
    using assms by (simp add: run_cleanup_def ws_close_def)
  moreover have "tm_token (terminal_effect ?u) = token" "tm_id (terminal_effect ?u) = tm_id s" "tm_role (terminal_effect ?u) = tm_role s"
    by (simp_all add: terminal_effect_def Let_def)
  ultimately show ?thesis by (metis run_cleanup_disposed)
qed

theorem terminal_token_refresh_drops_shell_witness:
  "\<exists>t. terminal_step '''' ''http://h'' (terminal_ready\<lparr>tm_status := Opened, tm_runs := [run_open '''' ''http://h'' ''t'' ''d'']\<rparr>) t
     \<and> tm_token t = ''t2'' \<and> sr_ws (tm_runs t ! 0) = WsClosing"
  using terminal_token_refresh_drops_shell [of "terminal_ready\<lparr>tm_status := Opened, tm_runs := [run_open '''' ''http://h'' ''t'' ''d'']\<rparr>"
      0 "''t2''" "''''" "''http://h''"]
  by (force simp: run_open_def run_start_def terminal_ready_def terminal_init_def)

end
