(* ===== verification/DeviceTools.thy ===== *)
theory DeviceTools
  imports DeviceDetail
begin

text \<open>
  The two full-page tools of a device: the log viewer
  (src/ui/app/(dashboard)/devices/[id]/logs/page.tsx) and the manifest editor
  (src/ui/app/(dashboard)/devices/[id]/manifest/page.tsx).
\<close>

subsection \<open>Log viewer\<close>

record logs_page =
  lg_id :: string
  lg_token :: "string option"
  lg_search :: string
  lg_level :: string
  lg_timeRange :: string
  lg_response :: "json option"
  lg_isLoading :: bool

definition LOGS_LEVEL_COLORS :: "(string \<times> string) list" where
  "LOGS_LEVEL_COLORS =
     [(''ERROR'', ''text-red-500 dark:text-red-400''), (''WARN'', ''text-amber-500 dark:text-amber-400''),
      (''INFO'', ''text-cyan-500 dark:text-cyan-400''), (''DEBUG'', ''text-zinc-500 dark:text-zinc-500'')]"

definition getStart_map :: "(string \<times> int) list" where
  "getStart_map =
     [(''15m'', 15 * 60 * 1000), (''1h'', 60 * 60 * 1000), (''6h'', 6 * 60 * 60 * 1000),
      (''24h'', 24 * 60 * 60 * 1000), (''7d'', 7 * 24 * 60 * 60 * 1000)]"

definition getStart :: "int \<Rightarrow> logs_page \<Rightarrow> string" where
  "getStart now s = toISOString (now - range_ms getStart_map (lg_timeRange s))"

definition logs_init :: "string \<Rightarrow> string option \<Rightarrow> logs_page" where
  "logs_init i token =
     \<lparr>lg_id = i, lg_token = token, lg_search = '''', lg_level = '''', lg_timeRange = ''1h'',
      lg_response = None, lg_isLoading = (truthy token \<and> i \<noteq> [])\<rparr>"

definition logs_params :: "int \<Rightarrow> logs_page \<Rightarrow> log_params" where
  "logs_params now s =
     \<lparr>lp_start = Some (getStart now s), lp_end = None, lp_limit = Some 200,
      lp_level = (if lg_level s \<noteq> [] then Some (lg_level s) else None),
      lp_search = (if lg_search s \<noteq> [] then Some (lg_search s) else None)\<rparr>"

definition logs_fetch :: "'w env \<Rightarrow> int \<Rightarrow> logs_page \<Rightarrow> 'w call" where
  "logs_fetch e now s =
     getDeviceLogs e (case lg_token s of Some t \<Rightarrow> t | None \<Rightarrow> '''') (lg_id s) (Some (logs_params now s))"

definition logs_key :: "logs_page \<Rightarrow> query_key" where
  "logs_key s =
     [KStr ''device-logs'', KStr (lg_id s), KStr (lg_level s), KStr (lg_search s), KStr (lg_timeRange s)]"

text \<open>A rendered page with lines has string lines (otherwise it threw), so joining concatenates them.\<close>

definition logs_lines :: "logs_page \<Rightarrow> string list option" where
  "logs_lines s = Option.bind (logLines (lg_response s)) line_strings"

datatype logs_act =
    LogsBack | LogsSearch string | LogsLevel string | LogsRange string | LogsRefetch | DownloadLogs

definition downloadLogs :: "logs_page \<Rightarrow> effect list" where
  "downloadLogs s =
     (case logs_lines s of
        Some ls \<Rightarrow> [Download (lg_id s @ ''-logs.txt'') ''text/plain'' (join_str newline ls)]
      | None \<Rightarrow> [])"

fun logs_handle :: "logs_act \<Rightarrow> logs_page \<Rightarrow> logs_page \<times> effect list" where
  "logs_handle LogsBack s = (s, [RouterPush (''/devices/'' @ lg_id s)])"
| "logs_handle (LogsSearch v) s = (s\<lparr>lg_search := v\<rparr>, [])"
| "logs_handle (LogsLevel v) s = (s\<lparr>lg_level := v\<rparr>, [])"
| "logs_handle (LogsRange v) s = (s\<lparr>lg_timeRange := v\<rparr>, [])"
| "logs_handle LogsRefetch s = (s, [Refetch (logs_key s)])"
| "logs_handle DownloadLogs s = (s, downloadLogs s)"

definition Logs_render :: "logs_page \<Rightarrow> logs_act node option" where
  "Logs_render s =
     Option.bind (logLines (lg_response s)) (\<lambda>ls.
       map_option (\<lambda>body.
         el ''div''
           [el ''div''
              [on_click ''Button'' [(''variant'', AStr ''ghost'')] LogsBack [icon ''ArrowLeft''],
               PageHeader ''Device Logs'' (Some (lg_id s)) []],
            el ''div''
              [el ''div''
                 [icon ''Search'',
                  El ''Input'' [(''placeholder'', AStr ''Search logs...''), (''value'', AStr (lg_search s))]
                    [(''onChange'', OnText LogsSearch)] []],
               El ''Select'' [(''value'', AStr (lg_level s))] [(''onValueChange'', OnText LogsLevel)]
                 [el ''SelectTrigger'' [icon ''SelectValue''], select_items level_items],
               El ''Select'' [(''value'', AStr (lg_timeRange s))] [(''onValueChange'', OnText LogsRange)]
                 [el ''SelectTrigger'' [icon ''SelectValue''], select_items range_items],
               on_click ''Button'' [(''variant'', AStr ''outline'')] LogsRefetch [icon ''RefreshCw''],
               on_click ''Button'' [(''variant'', AStr ''outline''), (''disabled'', ABool (length ls = 0))] DownloadLogs
                 [icon ''Download'', Text ''Download''],
               el ''Badge'' [Text (show_int (int (length ls)) @ '' lines'')]],
            el ''Card'' [el ''CardContent'' [body]]])
         (log_body LOGS_LEVEL_COLORS
            ''No log entries found. Logs will appear once the device starts forwarding them.''
            (lg_isLoading s) ls))"

subsection \<open>Manifest editor\<close>

record manifest_page =
  mf_id :: string
  mf_token :: "string option"
  mf_resolvedTheme :: "string option"
  mf_manifest :: "json option"
  mf_isLoading :: bool
  mf_editorValue :: "string option"
  mf_isPending :: bool

definition mf_currentValue :: "manifest_page \<Rightarrow> string" where
  "mf_currentValue s = (case mf_editorValue s of Some v \<Rightarrow> v | None \<Rightarrow> initialYaml (mf_manifest s))"

definition mf_hasChanges :: "manifest_page \<Rightarrow> bool" where
  "mf_hasChanges s \<longleftrightarrow> mf_editorValue s \<noteq> None \<and> mf_editorValue s \<noteq> Some (initialYaml (mf_manifest s))"

definition mf_save :: "'w env \<Rightarrow> string \<Rightarrow> manifest_page \<Rightarrow> 'w call" where
  "mf_save e yamlContent s =
     updateDeviceManifest e (case mf_token s of Some t \<Rightarrow> t | None \<Rightarrow> '''') (mf_id s) yamlContent"

definition mf_onSuccess :: "manifest_page \<Rightarrow> manifest_page \<times> effect list" where
  "mf_onSuccess s =
     (s\<lparr>mf_editorValue := None\<rparr>,
      [ToastSuccess ''Manifest saved. Changes will be applied on next reconciliation.'',
       InvalidateQueries [KStr ''device-manifest'', KStr (mf_id s)]])"

definition mf_onError :: "failure \<Rightarrow> manifest_page \<Rightarrow> manifest_page \<times> effect list" where
  "mf_onError f s = (s, [ToastError (''Failed to save: '' @ err_message f)])"

definition handleSave :: "manifest_page \<Rightarrow> manifest_page \<times> effect list" where
  "handleSave s =
     (if mf_currentValue s \<noteq> []
      then (s\<lparr>mf_isPending := True\<rparr>, [Mutate ''updateDeviceManifest'' [mf_currentValue s]])
      else (s, []))"

datatype manifest_act = ManifestBack | ManifestSave | ManifestEdit string

fun manifest_handle :: "manifest_act \<Rightarrow> manifest_page \<Rightarrow> manifest_page \<times> effect list" where
  "manifest_handle ManifestBack s = (s, [RouterPush (''/devices/'' @ mf_id s)])"
| "manifest_handle ManifestSave s = handleSave s"
| "manifest_handle (ManifestEdit v) s = (s\<lparr>mf_editorValue := Some v\<rparr>, [])"

text \<open>The key listener on the window.\<close>

definition manifest_keydown :: "bool \<Rightarrow> bool \<Rightarrow> string \<Rightarrow> manifest_page \<Rightarrow> manifest_page \<times> effect list" where
  "manifest_keydown ctrlKey metaKey key s =
     (if (ctrlKey \<or> metaKey) \<and> key = ''s'' then handleSave s else (s, []))"

definition Manifest_render :: "manifest_page \<Rightarrow> manifest_act node" where
  "Manifest_render s =
     el ''div''
       [el ''div''
          [el ''div''
             [on_click ''Button'' [(''variant'', AStr ''ghost'')] ManifestBack [icon ''ArrowLeft''],
              PageHeader ''Manifest Editor'' (Some (mf_id s @ '' | Ctrl+S to save'')) []],
           on_click ''Button'' [(''disabled'', ABool (\<not> mf_hasChanges s \<or> mf_isPending s))] ManifestSave
             [icon ''Save'', Text (if mf_isPending s then ''Saving...'' else ''Save Manifest'')]],
        el ''Card''
          [el ''CardContent''
             [if mf_isLoading s then skeleton
              else El ''Editor'' [(''defaultValue'', AStr (initialYaml (mf_manifest s))),
                                  (''theme'', AStr (if mf_resolvedTheme s = Some ''dark'' then ''vs-dark'' else ''vs''))]
                     [(''onChange'', OnText ManifestEdit)] []]]]"

subsection \<open>Properties\<close>

lemma offers_Manifest:
  "offers (Manifest_render s) =
     {ManifestBack} \<union> (if mf_hasChanges s \<and> \<not> mf_isPending s then {ManifestSave} else {})
     \<union> (if mf_isLoading s then {} else range ManifestEdit)"
  by (auto simp: offers_def Manifest_render_def skeleton_def)

lemma offers_Logs:
  "Logs_render s = Some n \<Longrightarrow>
     offers n = {LogsBack, LogsRefetch} \<union> range LogsSearch \<union> LogsLevel ` {''all'', ''ERROR'', ''WARN'', ''INFO'', ''DEBUG''}
       \<union> LogsRange ` {''15m'', ''1h'', ''6h'', ''24h'', ''7d''}
       \<union> (if logLines (lg_response s) = Some [] then {} else {DownloadLogs})"
  by (auto simp: Logs_render_def offers_def offers_in_log_body bind_eq_Some_conv level_items_def range_items_def)

lemma offers_detail_manifest:
  "SaveManifest \<in> offers (detail_manifest s) \<longleftrightarrow> hasManifestChanges s \<and> \<not> dd_savingManifest s"
  by (auto simp: offers_def offers_in_detail_manifest)

lemma log_body_some: "line_strings ls = Some ss \<Longrightarrow> \<exists>body. log_body colors t l ls = Some body"
  by (simp add: log_body_def)



text \<open>
  The two editors of a manifest differ on an empty text: here the Save button is enabled after
  everything is deleted, but a click sends nothing, while the same click on the device page sends the
  empty manifest.
\<close>

theorem manifest_clear_not_saved:
  assumes "initialYaml m \<noteq> []" and "mf_manifest s = m" and "\<not> mf_isPending s" and "mf_editorValue s = Some ''''"
    and "dd_manifest s2 = m" and "dd_editorValue s2 = Some ''''" and "\<not> dd_savingManifest s2"
  shows "ManifestSave \<in> offers (Manifest_render s) \<and> manifest_handle ManifestSave s = (s, [])
       \<and> SaveManifest \<in> offers (detail_manifest s2)
       \<and> snd (detail_handle SaveManifest s2) = [Mutate ''updateDeviceManifest'' ['''']]"
  using assms by (simp add: offers_Manifest mf_hasChanges_def handleSave_def mf_currentValue_def
      offers_detail_manifest hasManifestChanges_def currentValue_def)

definition mf_cleared :: manifest_page where
  "mf_cleared =
     \<lparr>mf_id = ''d'', mf_token = None, mf_resolvedTheme = None, mf_manifest = Some (JStr ''a''), mf_isLoading = False,
      mf_editorValue = Some '''', mf_isPending = False\<rparr>"

theorem manifest_clear_not_saved_witness:
  "manifest_handle ManifestSave mf_cleared = (mf_cleared, [])
   \<and> ManifestSave \<in> offers (Manifest_render mf_cleared)"
  using manifest_clear_not_saved [of "Some (JStr ''a'')" mf_cleared
      "(detail_init ''d'' '''' None)\<lparr>dd_manifest := Some (JStr ''a''), dd_editorValue := Some ''''\<rparr>"]
  by (simp add: mf_cleared_def initialYaml_def detail_init_def Let_def)

text \<open>
  The save shortcut of the manifest page is not guarded like its button: with an unchanged
  manifest, or while a save is running, the button is disabled and the shortcut still sends one.
\<close>

theorem manifest_shortcut_unguarded:
  assumes "mf_currentValue s \<noteq> []" and "\<not> mf_hasChanges s \<or> mf_isPending s"
  shows "ManifestSave \<notin> offers (Manifest_render s)
       \<and> snd (manifest_keydown True False ''s'' s) = [Mutate ''updateDeviceManifest'' [mf_currentValue s]]"
  using assms by (auto simp: offers_Manifest manifest_keydown_def handleSave_def)

theorem manifest_shortcut_unguarded_witness:
  "snd (manifest_keydown True False ''s'' (mf_cleared\<lparr>mf_editorValue := None\<rparr>)) =
     [Mutate ''updateDeviceManifest'' [''a'']]"
  using manifest_shortcut_unguarded [of "mf_cleared\<lparr>mf_editorValue := None\<rparr>"]
  by (simp add: mf_cleared_def mf_currentValue_def mf_hasChanges_def initialYaml_def)

end
