(* ===== verification/Certificates.thy ===== *)
theory Certificates
  imports Listing Organizations
begin

text \<open>
  The certificate page, src/ui/app/(dashboard)/certificates/page.tsx: the queue of certificate
  requests with approve and reject, the issued certificates with revoke, and the download of the CA
  certificate.  \<open>localeDate\<close> is \<open>toLocaleDateString\<close>, \<open>ms\<close> the parsed time of an ISO string and
  \<open>now\<close> the clock.
\<close>

subsection \<open>Badges and dates\<close>

definition statusBadge :: "string \<Rightarrow> 'a node" where
  "statusBadge status =
     (if status = ''valid'' then El ''Badge'' [(''className'', AStr ''bg-emerald-500/10 text-emerald-500 border-emerald-500/20'')] [] [Text ''Valid'']
      else if status = ''expiring'' then El ''Badge'' [(''className'', AStr ''bg-amber-500/10 text-amber-500 border-amber-500/20'')] [] [Text ''Expiring Soon'']
      else if status = ''expired'' then El ''Badge'' [(''className'', AStr ''bg-red-500/10 text-red-500 border-red-500/20'')] [] [Text ''Expired'']
      else if status = ''revoked'' then El ''Badge'' [(''className'', AStr ''bg-zinc-500/10 text-zinc-500 border-zinc-500/20'')] [] [Text ''Revoked'']
      else El ''Badge'' [(''variant'', AStr ''outline'')] [] [Text status])"

definition requestStateBadge :: "string \<Rightarrow> 'a node" where
  "requestStateBadge state =
     (if state = ''pending'' then El ''Badge'' [(''className'', AStr ''bg-amber-500/10 text-amber-500 border-amber-500/20'')] [] [Text ''Pending'']
      else if state = ''approved'' then El ''Badge'' [(''className'', AStr ''bg-emerald-500/10 text-emerald-500 border-emerald-500/20'')] [] [Text ''Approved'']
      else if state = ''rejected'' then El ''Badge'' [(''className'', AStr ''bg-red-500/10 text-red-500 border-red-500/20'')] [] [Text ''Rejected'']
      else if state = ''revoked'' then El ''Badge'' [(''className'', AStr ''bg-zinc-500/10 text-zinc-500 border-zinc-500/20'')] [] [Text ''Revoked'']
      else if state = ''blocked'' then El ''Badge'' [(''className'', AStr ''bg-red-600/20 text-red-400 border-red-600/30'')] [] [Text ''Blocked - Compromise'']
      else El ''Badge'' [(''variant'', AStr ''outline'')] [] [Text state])"

definition timeUntil :: "(string \<Rightarrow> int) \<Rightarrow> int \<Rightarrow> string \<Rightarrow> string" where
  "timeUntil ms now t =
     (let diff = ms t - now; days = diff div (1000 * 60 * 60 * 24)
      in if days < 0 then show_int \<bar>days\<bar> @ ''d ago''
         else if days = 0 then ''today''
         else ''in '' @ show_int days @ ''d'')"

subsection \<open>State\<close>

record certs_page =
  cp_token :: string
  cp_orgId :: "int option"
  cp_requests :: "CertificateRequest list option"
  cp_reqLoading :: bool
  cp_certs :: "Certificate list option"
  cp_certsLoading :: bool
  cp_revokeTarget :: "Certificate option"
  cp_rejectTarget :: "CertificateRequest option"
  cp_showResolved :: bool
  cp_reqPage :: int
  cp_certPage :: int
  cp_approving :: bool
  cp_rejecting :: bool
  cp_revoking :: bool

definition certs_enabled :: "string \<Rightarrow> int option \<Rightarrow> bool" where
  "certs_enabled token orgId \<longleftrightarrow> token \<noteq> [] \<and> \<not> falsy_id orgId"

definition certs_init :: "string \<Rightarrow> int option \<Rightarrow> certs_page" where
  "certs_init token orgId =
     \<lparr>cp_token = token, cp_orgId = orgId, cp_requests = None, cp_reqLoading = certs_enabled token orgId,
      cp_certs = None, cp_certsLoading = certs_enabled token orgId, cp_revokeTarget = None,
      cp_rejectTarget = None, cp_showResolved = False, cp_reqPage = 0, cp_certPage = 0,
      cp_approving = False, cp_rejecting = False, cp_revoking = False\<rparr>"

definition requests_key :: "certs_page \<Rightarrow> query_key" where
  "requests_key s = [KStr ''cert-requests'', opt_key (cp_orgId s)]"

definition certs_key :: "certs_page \<Rightarrow> query_key" where
  "certs_key s = [KStr ''certificates'', opt_key (cp_orgId s)]"

definition requests_fetch :: "'w env \<Rightarrow> certs_page \<Rightarrow> 'w call" where
  "requests_fetch e s = listCertificateRequests e (cp_token s)"

definition certs_fetch :: "'w env \<Rightarrow> certs_page \<Rightarrow> 'w call" where
  "certs_fetch e s = listCertificates e (cp_token s)"

subsection \<open>Derived values\<close>

definition request_list :: "certs_page \<Rightarrow> CertificateRequest list" where
  "request_list s = (case cp_requests s of Some rs \<Rightarrow> rs | None \<Rightarrow> [])"

definition certList :: "certs_page \<Rightarrow> Certificate list" where
  "certList s = (case cp_certs s of Some cs \<Rightarrow> cs | None \<Rightarrow> [])"

definition cert_key :: "string \<Rightarrow> string \<Rightarrow> string" where
  "cert_key deviceId name = deviceId @ ''|'' @ name"

definition certsByDeviceName :: "Certificate list \<Rightarrow> (string \<times> Certificate list) list" where
  "certsByDeviceName certs =
     fold (\<lambda>c m. let key = cert_key (ce_deviceId c) (ce_name c);
                     l = (case map_of m key of Some l \<Rightarrow> l | None \<Rightarrow> [])
                 in obj_set key (l @ [c]) m) certs []"

definition requestEffectiveState :: "Certificate list \<Rightarrow> CertificateRequest \<Rightarrow> string" where
  "requestEffectiveState certs req =
     (if cr_state req \<noteq> ''approved'' then cr_state req
      else let matches = (case map_of (certsByDeviceName certs) (cert_key (cr_deviceId req) (cr_name req)) of
                            Some l \<Rightarrow> l | None \<Rightarrow> [])
           in if length matches = 0 then cr_state req
              else let hasActive = list_ex (\<lambda>c. \<not> ce_revoked c) matches;
                       hasRevoked = list_ex ce_revoked matches
                   in if \<not> hasActive \<and> hasRevoked then ''revoked'' else cr_state req)"

definition pendingCount :: "certs_page \<Rightarrow> int" where
  "pendingCount s = int (length (filter (\<lambda>r. cr_state r = ''pending'') (request_list s)))"

definition isActionable :: "CertificateRequest \<Rightarrow> bool" where
  "isActionable r \<longleftrightarrow> cr_state r = ''pending'' \<or> cr_state r = ''blocked''"

definition resolvedCount :: "certs_page \<Rightarrow> int" where
  "resolvedCount s = int (length (filter (\<lambda>r. \<not> isActionable r) (request_list s)))"

definition visibleRequests :: "certs_page \<Rightarrow> CertificateRequest list" where
  "visibleRequests s = filter (\<lambda>r. cp_showResolved s \<or> isActionable r) (request_list s)"

definition certs_pageSize :: int where
  "certs_pageSize = 20"

definition reqTotalPages :: "certs_page \<Rightarrow> int" where
  "reqTotalPages s = max 1 (total_pages (length (visibleRequests s)) certs_pageSize)"

definition reqPageSafe :: "certs_page \<Rightarrow> int" where
  "reqPageSafe s = min (cp_reqPage s) (reqTotalPages s - 1)"

definition pagedRequests :: "certs_page \<Rightarrow> CertificateRequest list" where
  "pagedRequests s =
     js_slice (reqPageSafe s * certs_pageSize) ((reqPageSafe s + 1) * certs_pageSize) (visibleRequests s)"

definition certTotalPages :: "certs_page \<Rightarrow> int" where
  "certTotalPages s = max 1 (total_pages (length (certList s)) certs_pageSize)"

definition certPageSafe :: "certs_page \<Rightarrow> int" where
  "certPageSafe s = min (cp_certPage s) (certTotalPages s - 1)"

definition pagedCerts :: "certs_page \<Rightarrow> Certificate list" where
  "pagedCerts s =
     js_slice (certPageSafe s * certs_pageSize) ((certPageSafe s + 1) * certs_pageSize) (certList s)"

subsection \<open>Handlers\<close>

datatype certs_act =
    DownloadCa | ToggleResolved | Approve int | AskReject CertificateRequest | ReqPrev | ReqNext
  | AskRevoke Certificate | CertPrev | CertNext
  | RejectDialog bool | ConfirmReject | RevokeDialog bool | ConfirmRevoke

text \<open>The asynchronous body of the download button.\<close>

definition downloadCaCert :: "'w env \<Rightarrow> certs_page \<Rightarrow> 'w \<Rightarrow> 'w \<times> effect list" where
  "downloadCaCert e s w =
     (if cp_token s = [] \<or> falsy_id (cp_orgId s) then (w, [])
      else case getCaCert e (cp_token s) w of
             (w', Inr pem) \<Rightarrow> (w', [Download ''edgeguardian-ca.crt'' ''application/x-pem-file'' pem])
           | (w', Inl _) \<Rightarrow> (w', [ToastError ''Failed to download CA certificate'']))"

fun certs_handle :: "certs_act \<Rightarrow> certs_page \<Rightarrow> certs_page \<times> effect list" where
  "certs_handle DownloadCa s = (s, [Mutate ''downloadCaCert'' []])"
| "certs_handle ToggleResolved s = (s\<lparr>cp_showResolved := \<not> cp_showResolved s, cp_reqPage := 0\<rparr>, [])"
| "certs_handle (Approve i) s = (s\<lparr>cp_approving := True\<rparr>, [Mutate ''approveCertRequest'' [show_int i]])"
| "certs_handle (AskReject r) s = (s\<lparr>cp_rejectTarget := Some r\<rparr>, [])"
| "certs_handle ReqPrev s = (s\<lparr>cp_reqPage := cp_reqPage s - 1\<rparr>, [])"
| "certs_handle ReqNext s = (s\<lparr>cp_reqPage := cp_reqPage s + 1\<rparr>, [])"
| "certs_handle (AskRevoke c) s = (s\<lparr>cp_revokeTarget := Some c\<rparr>, [])"
| "certs_handle CertPrev s = (s\<lparr>cp_certPage := cp_certPage s - 1\<rparr>, [])"
| "certs_handle CertNext s = (s\<lparr>cp_certPage := cp_certPage s + 1\<rparr>, [])"
| "certs_handle (RejectDialog v) s = (if v then s else s\<lparr>cp_rejectTarget := None\<rparr>, [])"
| "certs_handle ConfirmReject s =
     (case cp_rejectTarget s of
        Some r \<Rightarrow> (s\<lparr>cp_rejecting := True\<rparr>, [Mutate ''rejectCertRequest'' [show_int (cr_id r)]])
      | None \<Rightarrow> (s, []))"
| "certs_handle (RevokeDialog v) s = (if v then s else s\<lparr>cp_revokeTarget := None\<rparr>, [])"
| "certs_handle ConfirmRevoke s =
     (case cp_revokeTarget s of
        Some c \<Rightarrow> (s\<lparr>cp_revoking := True\<rparr>, [Mutate ''revokeCertificate'' [show_int (ce_id c)]])
      | None \<Rightarrow> (s, []))"

definition approve_onSuccess :: "certs_page \<Rightarrow> certs_page \<times> effect list" where
  "approve_onSuccess s =
     (s, [InvalidateQueries (requests_key s), InvalidateQueries (certs_key s),
          ToastSuccess ''Certificate approved and issued''])"

definition reject_onSuccess :: "certs_page \<Rightarrow> certs_page \<times> effect list" where
  "reject_onSuccess s =
     (s\<lparr>cp_rejectTarget := None\<rparr>,
      [InvalidateQueries (requests_key s), ToastSuccess ''Certificate request rejected''])"

definition revoke_onSuccess :: "certs_page \<Rightarrow> certs_page \<times> effect list" where
  "revoke_onSuccess s =
     (s\<lparr>cp_revokeTarget := None\<rparr>,
      [InvalidateQueries (certs_key s), ToastSuccess ''Certificate revoked''])"

definition approve_onError :: "effect list" where
  "approve_onError = [ToastError ''Failed to approve certificate'']"

definition reject_onError :: "effect list" where
  "reject_onError = [ToastError ''Failed to reject request'']"

definition revoke_onError :: "effect list" where
  "revoke_onError = [ToastError ''Failed to revoke certificate'']"

subsection \<open>Rendering\<close>

definition certs_pager :: "nat \<Rightarrow> int \<Rightarrow> int \<Rightarrow> certs_act \<Rightarrow> certs_act \<Rightarrow> certs_act node list" where
  "certs_pager n page total_n prev nxt =
     shown (int n > certs_pageSize)
       (el ''div''
          [el ''p'' [Text (showing_text page certs_pageSize n)],
           el ''div''
             [on_click ''Button'' [(''disabled'', ABool (page = 0))] prev [Text ''Previous''],
              on_click ''Button'' [(''disabled'', ABool (page \<ge> total_n - 1))] nxt [Text ''Next'']]])"

definition request_row :: "(string \<Rightarrow> string) \<Rightarrow> certs_page \<Rightarrow> CertificateRequest \<Rightarrow> certs_act node" where
  "request_row localeDate s req =
     El ''TableRow'' [(''className'', AStr (if cr_state req = ''blocked'' then ''bg-red-500/5'' else ''''))] []
       [el ''TableCell'' [Text (cr_deviceId req)], el ''TableCell'' [Text (cr_name req)],
        el ''TableCell'' [Text (cr_commonName req)], el ''TableCell'' [el ''Badge'' [Text (cr_type req)]],
        el ''TableCell'' [requestStateBadge (requestEffectiveState (certList s) req)],
        el ''TableCell'' [Text (localeDate (cr_createdAt req))],
        el ''TableCell''
          (shown (cr_state req = ''pending'')
             (el ''div''
                [on_click ''Button'' [(''disabled'', ABool (cp_approving s))] (Approve (cr_id req)) [icon ''Check''],
                 on_click ''Button'' [] (AskReject req) [icon ''X'']])
           @ shown (cr_state req = ''blocked'') (icon ''ShieldAlert''))]"

definition requests_empty :: "certs_page \<Rightarrow> certs_act node" where
  "requests_empty s =
     el ''TableRow''
       [El ''TableCell'' [(''colSpan'', AInt 7)] []
          [EmptyState ''ShieldCheck''
             (if resolvedCount s > 0 then ''No pending requests'' else ''No certificate requests'')
             (Some (if resolvedCount s > 0
                    then ''All requests are resolved. Use '' @ [CHR 0x22] @ ''Show resolved'' @ [CHR 0x22] @ '' to view ''
                         @ show_int (resolvedCount s) @ '' past request''
                         @ (if resolvedCount s = 1 then '''' else ''s'') @ ''.''
                    else ''Certificate requests from devices will appear here.'')) []]]"

definition requests_panel :: "(string \<Rightarrow> string) \<Rightarrow> certs_page \<Rightarrow> certs_act node" where
  "requests_panel localeDate s =
     El ''TabsContent'' [(''value'', AStr ''requests'')] []
       (shown (resolvedCount s > 0)
          (el ''div''
             [on_click ''Button'' [(''variant'', AStr ''ghost'')] ToggleResolved
                [Text (if cp_showResolved s then ''Hide resolved''
                       else ''Show resolved ('' @ show_int (resolvedCount s) @ '')'')]])
        @ [el ''Table''
             [el ''TableHeader''
                [el ''TableRow''
                   (map (\<lambda>t. el ''TableHead'' [Text t])
                      [''Device'', ''Name'', ''Common Name'', ''Type'', ''State'', ''Requested'', ''''])],
              el ''TableBody''
                (if cp_reqLoading s then replicate 3 (TableRowSkeleton 7)
                 else if length (visibleRequests s) = 0 then [requests_empty s]
                 else map (request_row localeDate s) (pagedRequests s))]]
        @ certs_pager (length (visibleRequests s)) (reqPageSafe s) (reqTotalPages s) ReqPrev ReqNext)"

definition cert_row :: "(string \<Rightarrow> string) \<Rightarrow> (string \<Rightarrow> int) \<Rightarrow> int \<Rightarrow> Certificate \<Rightarrow> certs_act node" where
  "cert_row localeDate ms now cert =
     el ''TableRow''
       [el ''TableCell'' [Text (ce_deviceId cert)], el ''TableCell'' [Text (ce_name cert)],
        el ''TableCell'' [Text (ce_commonName cert)],
        el ''TableCell'' [Text (take 16 (ce_serialNumber cert) @ ''...'')],
        el ''TableCell'' [statusBadge (ce_status cert)],
        el ''TableCell'' [Text (localeDate (ce_notAfter cert) @ '' ('' @ timeUntil ms now (ce_notAfter cert) @ '')'')],
        el ''TableCell''
          (shown (\<not> ce_revoked cert)
             (on_click ''Button'' [(''variant'', AStr ''outline'')] (AskRevoke cert) [icon ''Ban'', Text '' Revoke'']))]"

definition certs_panel :: "(string \<Rightarrow> string) \<Rightarrow> (string \<Rightarrow> int) \<Rightarrow> int \<Rightarrow> certs_page \<Rightarrow> certs_act node" where
  "certs_panel localeDate ms now s =
     El ''TabsContent'' [(''value'', AStr ''certificates'')] []
       ([el ''Table''
           [el ''TableHeader''
              [el ''TableRow''
                 (map (\<lambda>t. el ''TableHead'' [Text t])
                    [''Device'', ''Name'', ''Common Name'', ''Serial'', ''Status'', ''Expires'', ''''])],
            el ''TableBody''
              (if cp_certsLoading s then replicate 3 (TableRowSkeleton 7)
               else if length (certList s) = 0
               then [el ''TableRow''
                       [El ''TableCell'' [(''colSpan'', AInt 7)] []
                          [EmptyState ''ShieldCheck'' ''No certificates issued''
                             (Some ''Approved certificates will appear here.'') []]]]
               else map (cert_row localeDate ms now) (pagedCerts s))]]
        @ certs_pager (length (certList s)) (certPageSafe s) (certTotalPages s) CertPrev CertNext)"

definition opt_show :: "string option \<Rightarrow> string" where
  "opt_show x = (case x of Some t \<Rightarrow> t | None \<Rightarrow> ''undefined'')"

definition reject_dialog :: "certs_page \<Rightarrow> certs_act node" where
  "reject_dialog s =
     ConfirmDialog (cp_rejectTarget s \<noteq> None) RejectDialog ''Reject Certificate Request''
       (''Reject the certificate request '' @ [CHR 0x22] @ opt_show (map_option cr_name (cp_rejectTarget s)) @ [CHR 0x22]
        @ '' from device '' @ opt_show (map_option cr_deviceId (cp_rejectTarget s)) @ ''?'')
       ''Reject'' ''destructive'' ConfirmReject (cp_rejecting s)"

definition revoke_dialog :: "certs_page \<Rightarrow> certs_act node" where
  "revoke_dialog s =
     ConfirmDialog (cp_revokeTarget s \<noteq> None) RevokeDialog ''Revoke Certificate''
       (''Revoke certificate '' @ [CHR 0x22] @ opt_show (map_option ce_name (cp_revokeTarget s)) @ [CHR 0x22]
        @ '' (serial '' @ opt_show (map_option (\<lambda>c. take 16 (ce_serialNumber c)) (cp_revokeTarget s))
        @ ''...) for device '' @ opt_show (map_option ce_deviceId (cp_revokeTarget s)) @ ''? This cannot be undone.'')
       ''Revoke'' ''destructive'' ConfirmRevoke (cp_revoking s)"

definition Certificates_render ::
  "(string \<Rightarrow> string) \<Rightarrow> (string \<Rightarrow> int) \<Rightarrow> int \<Rightarrow> certs_page \<Rightarrow> certs_act node" where
  "Certificates_render localeDate ms now s =
     el ''div''
       [PageHeader ''Certificates'' (Some ''Manage X.509 certificates for your devices'')
          [on_click ''Button'' [(''variant'', AStr ''outline'')] DownloadCa [icon ''Download'', Text '' Download CA Cert'']],
        El ''Tabs'' [(''defaultValue'', AStr ''requests'')] []
          [el ''TabsList''
             [El ''TabsTrigger'' [(''value'', AStr ''requests'')] []
                (Text ''Requests '' # shown (pendingCount s > 0) (el ''span'' [Text (show_int (pendingCount s))])),
              El ''TabsTrigger'' [(''value'', AStr ''certificates'')] [] [Text ''Issued Certificates'']],
           requests_panel localeDate s, certs_panel localeDate ms now s],
        reject_dialog s, revoke_dialog s]"

subsection \<open>Steps\<close>

inductive certs_step ::
  "(string \<Rightarrow> string) \<Rightarrow> (string \<Rightarrow> int) \<Rightarrow> int \<Rightarrow> certs_page \<Rightarrow> certs_page \<Rightarrow> bool" for localeDate ms now where
  user: "a \<in> offers (Certificates_render localeDate ms now s) \<Longrightarrow>
    certs_step localeDate ms now s (fst (certs_handle a s))"
| requests_loaded: "certs_enabled (cp_token s) (cp_orgId s) \<Longrightarrow>
    certs_step localeDate ms now s (s\<lparr>cp_requests := Some rs, cp_reqLoading := False\<rparr>)"
| certs_loaded: "certs_enabled (cp_token s) (cp_orgId s) \<Longrightarrow>
    certs_step localeDate ms now s (s\<lparr>cp_certs := Some cs, cp_certsLoading := False\<rparr>)"
| load_failed: "certs_step localeDate ms now s (s\<lparr>cp_reqLoading := False, cp_certsLoading := False\<rparr>)"
| context_changed: "certs_step localeDate ms now s
    (s\<lparr>cp_token := token, cp_orgId := orgId, cp_requests := rs, cp_certs := cs,
       cp_reqLoading := certs_enabled token orgId \<and> rs = None,
       cp_certsLoading := certs_enabled token orgId \<and> cs = None\<rparr>)"
| approved: "cp_approving s \<Longrightarrow> certs_step localeDate ms now s ((fst (approve_onSuccess s))\<lparr>cp_approving := False\<rparr>)"
| rejected: "cp_rejecting s \<Longrightarrow> certs_step localeDate ms now s ((fst (reject_onSuccess s))\<lparr>cp_rejecting := False\<rparr>)"
| revoked: "cp_revoking s \<Longrightarrow> certs_step localeDate ms now s ((fst (revoke_onSuccess s))\<lparr>cp_revoking := False\<rparr>)"
| approve_failed: "certs_step localeDate ms now s (s\<lparr>cp_approving := False\<rparr>)"
| reject_failed: "certs_step localeDate ms now s (s\<lparr>cp_rejecting := False\<rparr>)"
| revoke_failed: "certs_step localeDate ms now s (s\<lparr>cp_revoking := False\<rparr>)"

abbreviation certs_reach ::
  "(string \<Rightarrow> string) \<Rightarrow> (string \<Rightarrow> int) \<Rightarrow> int \<Rightarrow> certs_page \<Rightarrow> bool" where
  "certs_reach localeDate ms now \<equiv>
     reach (\<lambda>s. \<exists>token orgId. s = certs_init token orgId) (certs_step localeDate ms now)"

subsection \<open>The effective state of a request\<close>

lemma map_of_certsByDeviceName:
  "map_of (certsByDeviceName certs) key =
     (let l = filter (\<lambda>c. cert_key (ce_deviceId c) (ce_name c) = key) certs in if l = [] then None else Some l)"
proof (induction certs rule: rev_induct)
  case (snoc c certs)
  then show ?case by (auto simp: certsByDeviceName_def Let_def)
qed (simp add: certsByDeviceName_def)

lemma cert_key_inj:
  "CHR ''|'' \<notin> set d \<Longrightarrow> CHR ''|'' \<notin> set d' \<Longrightarrow> cert_key d n = cert_key d' n' \<longleftrightarrow> d = d' \<and> n = n'"
proof (induction d arbitrary: d')
  case Nil
  then show ?case by (cases d') (auto simp: cert_key_def)
next
  case (Cons x d)
  then show ?case by (cases d') (auto simp: cert_key_def)
qed

lemma effective_state_key:
  "requestEffectiveState certs req =
     (let ms = filter (\<lambda>c. cert_key (ce_deviceId c) (ce_name c) = cert_key (cr_deviceId req) (cr_name req)) certs
      in if cr_state req = ''approved'' \<and> ms \<noteq> [] \<and> (\<forall>c \<in> set ms. ce_revoked c) then ''revoked'' else cr_state req)"
  by (auto simp: requestEffectiveState_def map_of_certsByDeviceName list_ex_iff Let_def filter_empty_conv)


definition sample_request :: "string \<Rightarrow> string \<Rightarrow> CertificateRequest" where
  "sample_request d n =
     \<lparr>cr_id = 1, cr_deviceId = d, cr_name = n, cr_commonName = '''', cr_sans = [], cr_type = ''initial'',
      cr_state = ''approved'', cr_rejectReason = None, cr_reviewedAt = None, cr_createdAt = ''''\<rparr>"

definition sample_cert :: "string \<Rightarrow> string \<Rightarrow> bool \<Rightarrow> Certificate" where
  "sample_cert d n rv =
     \<lparr>ce_id = 1, ce_deviceId = d, ce_name = n, ce_commonName = '''', ce_serialNumber = '''', ce_status = ''valid'',
      ce_notBefore = '''', ce_notAfter = '''', ce_revoked = rv, ce_revokeReason = None, ce_createdAt = ''''\<rparr>"


text \<open>
  The lookup key does not separate its parts: with a vertical bar in the names, the revoked
  certificate of one device makes the approved request of another device read "revoked".
\<close>

theorem requestEffectiveState_collision:
  "ce_deviceId (sample_cert ''a'' ''b|c'' True) \<noteq> cr_deviceId (sample_request ''a|b'' ''c'')
   \<and> requestEffectiveState [sample_cert ''a'' ''b|c'' True] (sample_request ''a|b'' ''c'') = ''revoked''"
  by (simp add: effective_state_key sample_cert_def sample_request_def cert_key_def)

subsection \<open>What the page offers\<close>

lemma offers_badges [simp]: "offers_in h (statusBadge x) = {}" "offers_in h (requestStateBadge x) = {}"
  by (simp_all add: statusBadge_def requestStateBadge_def)

lemma offers_certs_pager:
  "(\<Union>c \<in> set (certs_pager n page tot prev nxt). offers_in h c) =
     (if int n > certs_pageSize then (if page = 0 then {} else {prev}) \<union> (if page \<ge> tot - 1 then {} else {nxt}) else {})"
  by (auto simp: certs_pager_def)

lemma offers_request_row:
  "offers_in h (request_row localeDate s req) =
     (if cr_state req = ''pending''
      then insert (AskReject req) (if cp_approving s then {} else {Approve (cr_id req)}) else {})"
  by (auto simp: request_row_def)

lemma offers_cert_row:
  "offers_in h (cert_row localeDate ms now c) = (if ce_revoked c then {} else {AskRevoke c})"
  by (simp add: cert_row_def)

lemma offers_requests_panel:
  "offers_in h (requests_panel localeDate s) =
     (if resolvedCount s > 0 then {ToggleResolved} else {})
     \<union> (if cp_reqLoading s \<or> visibleRequests s = [] then {}
        else \<Union>r \<in> set (pagedRequests s). offers_in False (request_row localeDate s r))
     \<union> (\<Union>c \<in> set (certs_pager (length (visibleRequests s)) (reqPageSafe s) (reqTotalPages s) ReqPrev ReqNext). offers_in False c)"
  by (simp add: requests_panel_def requests_empty_def Un_ac)

lemma offers_certs_panel:
  "offers_in h (certs_panel localeDate ms now s) =
     (if cp_certsLoading s \<or> certList s = [] then {}
      else \<Union>c \<in> set (pagedCerts s). offers_in False (cert_row localeDate ms now c))
     \<union> (\<Union>c \<in> set (certs_pager (length (certList s)) (certPageSafe s) (certTotalPages s) CertPrev CertNext). offers_in False c)"
  by (simp add: certs_panel_def Un_ac)

lemma offers_Certificates:
  "offers (Certificates_render localeDate ms now s) =
     {DownloadCa} \<union> offers_in False (requests_panel localeDate s) \<union> offers_in False (certs_panel localeDate ms now s)
     \<union> ({RejectDialog True, RejectDialog False} \<union> (if cp_rejectTarget s \<noteq> None \<and> \<not> cp_rejecting s then {ConfirmReject} else {}))
     \<union> ({RevokeDialog True, RevokeDialog False} \<union> (if cp_revokeTarget s \<noteq> None \<and> \<not> cp_revoking s then {ConfirmRevoke} else {}))"
  by (auto simp: Certificates_render_def offers_def reject_dialog_def revoke_dialog_def offers_in_ConfirmDialog)

lemmas offers_certs = offers_Certificates offers_requests_panel offers_certs_panel offers_certs_pager
  offers_request_row offers_cert_row

subsection \<open>Reachable states\<close>

definition certs_inv :: "certs_page \<Rightarrow> bool" where
  "certs_inv s \<longleftrightarrow>
     0 \<le> cp_reqPage s \<and> 0 \<le> cp_certPage s
     \<and> (\<forall>r. cp_rejectTarget s = Some r \<longrightarrow> cr_state r = ''pending'')
     \<and> (\<forall>c. cp_revokeTarget s = Some c \<longrightarrow> \<not> ce_revoked c)"

lemma certs_offered:
  "AskReject r \<in> offers (Certificates_render localeDate ms now s) \<Longrightarrow> cr_state r = ''pending''"
  "AskRevoke c \<in> offers (Certificates_render localeDate ms now s) \<Longrightarrow> \<not> ce_revoked c"
  "ReqPrev \<in> offers (Certificates_render localeDate ms now s) \<Longrightarrow> reqPageSafe s \<noteq> 0"
  "CertPrev \<in> offers (Certificates_render localeDate ms now s) \<Longrightarrow> certPageSafe s \<noteq> 0"
  by (simp_all add: offers_certs mem_if)

lemma certs_handle_inv:
  assumes "certs_inv s" and "a \<in> offers (Certificates_render localeDate ms now s)"
  shows "certs_inv (fst (certs_handle a s))"
proof (cases a)
  case (AskReject r)
  with assms certs_offered(1,2) show ?thesis by (auto simp: certs_inv_def)
next
  case (AskRevoke c)
  with assms certs_offered(1,2) show ?thesis by (auto simp: certs_inv_def)
next
  case ReqPrev
  with assms(2) have "reqPageSafe s \<noteq> 0" using certs_offered(3) by blast
  with assms(1) have "cp_reqPage s \<noteq> 0" by (auto simp: reqPageSafe_def reqTotalPages_def)
  with assms(1) ReqPrev show ?thesis by (auto simp: certs_inv_def)
next
  case CertPrev
  with assms(2) have "certPageSafe s \<noteq> 0" using certs_offered(4) by blast
  with assms(1) have "cp_certPage s \<noteq> 0" by (auto simp: certPageSafe_def certTotalPages_def)
  with assms(1) CertPrev show ?thesis by (auto simp: certs_inv_def)
qed (use assms(1) in \<open>auto simp: certs_inv_def split: option.splits\<close>)

lemma certs_step_inv:
  assumes "certs_step localeDate ms now s t" and "certs_inv s"
  shows "certs_inv t"
  using assms
proof (induction rule: certs_step.induct)
  case (user a s)
  then show ?case using certs_handle_inv by blast
qed (simp_all add: certs_inv_def approve_onSuccess_def reject_onSuccess_def revoke_onSuccess_def)

interpretation certs_machine:
  state_machine "\<lambda>s. \<exists>token orgId. s = certs_init token orgId" "certs_step localeDate ms now" certs_inv
  for localeDate ms now
proof
  show "\<exists>token orgId. s = certs_init token orgId \<Longrightarrow> certs_inv s" for s
    by (auto simp: certs_inv_def certs_init_def)
qed (rule certs_step_inv)

interpretation request_pages:
  paged_list certs_inv visibleRequests reqPageSafe "\<lambda>_. certs_pageSize" pagedRequests
  by unfold_locales
    (simp_all add: certs_inv_def certs_pageSize_def pagedRequests_def page_slice_def reqPageSafe_def reqTotalPages_def)

interpretation cert_pages:
  paged_list certs_inv certList certPageSafe "\<lambda>_. certs_pageSize" pagedCerts
  by unfold_locales
    (simp_all add: certs_inv_def certs_pageSize_def pagedCerts_def page_slice_def certPageSafe_def certTotalPages_def)

lemma total_pages_pos: "0 < ps \<Longrightarrow> 0 < total_pages n ps \<longleftrightarrow> 0 < n"
  using less_total_pages [of ps 0 n] by simp


lemma reach_certs_init: "certs_reach localeDate ms now (certs_init token orgId)"
  by (rule reach_init) blast


text \<open>
  C23. Decisions are offered only where they make sense: in every reachable state Approve is offered
  for exactly the pending requests on screen (when no approval is running), the request that
  Reject would send was pending when the dialog was opened, and the certificate that Revoke would
  send was not revoked; the default view hides no pending or blocked request.
\<close>

theorem certs_decisions:
  assumes "certs_reach localeDate ms now s"
  shows "(\<forall>i. Approve i \<in> offers (Certificates_render localeDate ms now s) \<longleftrightarrow>
            \<not> cp_approving s \<and> \<not> cp_reqLoading s
            \<and> (\<exists>r \<in> set (pagedRequests s). cr_id r = i \<and> cr_state r = ''pending''))
       \<and> (\<forall>i. snd (certs_handle ConfirmReject s) = [Mutate ''rejectCertRequest'' [show_int i]] \<longrightarrow>
            (\<exists>r. cp_rejectTarget s = Some r \<and> cr_id r = i \<and> cr_state r = ''pending''))
       \<and> (\<forall>i. snd (certs_handle ConfirmRevoke s) = [Mutate ''revokeCertificate'' [show_int i]] \<longrightarrow>
            (\<exists>c. cp_revokeTarget s = Some c \<and> ce_id c = i \<and> \<not> ce_revoked c))
       \<and> (\<forall>r \<in> set (request_list s). cr_state r \<in> {''pending'', ''blocked''} \<longrightarrow> r \<in> set (visibleRequests s))"
proof -
  have inv: "certs_inv s" using assms by (rule certs_machine.reach_inv)
  have "visibleRequests s = [] \<Longrightarrow> pagedRequests s = []"
    using request_pages.visible_subset [OF inv] by auto
  then have "Approve i \<in> offers (Certificates_render localeDate ms now s) \<longleftrightarrow>
      \<not> cp_approving s \<and> \<not> cp_reqLoading s
      \<and> (\<exists>r \<in> set (pagedRequests s). cr_id r = i \<and> cr_state r = ''pending'')" for i
    by (simp add: offers_certs mem_if) auto
  then show ?thesis
    using inv by (auto simp: certs_inv_def visibleRequests_def isActionable_def show_int_inj split: option.splits)
qed

theorem certs_decisions_witness:
  "Approve 1 \<notin> offers (Certificates_render id (\<lambda>_. 0) 0 (certs_init ''t'' (Some 1)))"
  using certs_decisions [OF reach_certs_init [of id "\<lambda>_. 0" 0 "''t''" "Some 1"]]
  by (auto simp: certs_init_def certs_enabled_def falsy_id_def)

end
