(* ===== verification/AuditPage.thy ===== *)
theory AuditPage
  imports Listing Organizations
begin

text \<open>
  The audit log, src/ui/app/(dashboard)/audit/page.tsx: a client-side search and two filters over
  the entries of the organization, shown twenty to a page.  \<open>formatDistanceToNow\<close> and \<open>format\<close> of
  date-fns are the parameters \<open>fdt\<close> and \<open>fmt\<close>.
\<close>

subsection \<open>State\<close>

record audit_page =
  au_token :: string
  au_orgId :: "int option"
  au_entries :: "AuditLogEntry list option"
  au_isLoading :: bool
  au_search :: string
  au_actionFilter :: string
  au_resourceFilter :: string
  au_page :: int

definition audit_enabled :: "string \<Rightarrow> int option \<Rightarrow> bool" where
  "audit_enabled token orgId \<longleftrightarrow> token \<noteq> [] \<and> \<not> falsy_id orgId"

definition audit_init :: "string \<Rightarrow> int option \<Rightarrow> audit_page" where
  "audit_init token orgId =
     \<lparr>au_token = token, au_orgId = orgId, au_entries = None, au_isLoading = audit_enabled token orgId,
      au_search = '''', au_actionFilter = '''', au_resourceFilter = '''', au_page = 0\<rparr>"

definition audit_pageSize :: int where
  "audit_pageSize = 20"

definition audit_key :: "int option \<Rightarrow> query_key" where
  "audit_key orgId = [KStr ''audit-log'', opt_key orgId]"

definition audit_fetch :: "'w env \<Rightarrow> string \<Rightarrow> 'w call" where
  "audit_fetch e token = listAuditLog e token None"

subsection \<open>Derived values\<close>

definition audit_list :: "audit_page \<Rightarrow> AuditLogEntry list" where
  "audit_list s = (case au_entries s of Some es \<Rightarrow> es | None \<Rightarrow> [])"

definition resourceTypes :: "audit_page \<Rightarrow> string list" where
  "resourceTypes s = sort_by code_unit_compare (set_of_array (map al_resourceType (audit_list s)))"

definition audit_filtered :: "audit_page \<Rightarrow> AuditLogEntry list" where
  "audit_filtered s =
     (let result = audit_list s;
          result = (if au_search s \<noteq> []
                    then (let lower = toLowerCase (au_search s)
                          in filter (\<lambda>e. str_includes (toLowerCase (al_action e)) lower
                                       \<or> str_includes (toLowerCase (al_resourceType e)) lower
                                       \<or> (case al_userEmail e of
                                            Some m \<Rightarrow> str_includes (toLowerCase m) lower | None \<Rightarrow> False)) result)
                    else result);
          result = (if au_actionFilter s \<noteq> []
                    then filter (\<lambda>e. toUpperCase (al_action e) = au_actionFilter s) result else result)
      in if au_resourceFilter s \<noteq> []
         then filter (\<lambda>e. al_resourceType e = au_resourceFilter s) result else result)"

definition audit_totalPages :: "audit_page \<Rightarrow> int" where
  "audit_totalPages s = total_pages (length (audit_filtered s)) audit_pageSize"

definition audit_paginated :: "audit_page \<Rightarrow> AuditLogEntry list" where
  "audit_paginated s =
     js_slice (au_page s * audit_pageSize) ((au_page s + 1) * audit_pageSize) (audit_filtered s)"

subsection \<open>Handlers\<close>

datatype audit_act =
    AuditSearch string | AuditAction string | AuditResource string | AuditPrev | AuditNext

fun audit_handle :: "audit_act \<Rightarrow> audit_page \<Rightarrow> audit_page" where
  "audit_handle (AuditSearch v) s = s\<lparr>au_search := v, au_page := 0\<rparr>"
| "audit_handle (AuditAction v) s = s\<lparr>au_actionFilter := (if v = ''all'' then '''' else v), au_page := 0\<rparr>"
| "audit_handle (AuditResource v) s = s\<lparr>au_resourceFilter := (if v = ''all'' then '''' else v), au_page := 0\<rparr>"
| "audit_handle AuditPrev s = s\<lparr>au_page := au_page s - 1\<rparr>"
| "audit_handle AuditNext s = s\<lparr>au_page := au_page s + 1\<rparr>"

subsection \<open>Rendering\<close>

definition ACTION_COLORS :: "(string \<times> string) list" where
  "ACTION_COLORS =
     [(''CREATE'', ''border-emerald-500/30 bg-emerald-500/10 text-emerald-600 dark:border-emerald-400/30 dark:bg-emerald-400/10 dark:text-emerald-400''),
      (''UPDATE'', ''border-blue-500/30 bg-blue-500/10 text-blue-600 dark:border-blue-400/30 dark:bg-blue-400/10 dark:text-blue-400''),
      (''DELETE'', ''border-red-500/30 bg-red-500/10 text-red-600 dark:border-red-400/30 dark:bg-red-400/10 dark:text-red-400'')]"

text \<open>The key is upper case and so never an inherited property.\<close>

definition action_color :: "string \<Rightarrow> string" where
  "action_color action = (case obj_get ACTION_COLORS (toUpperCase action) of Own c \<Rightarrow> c | _ \<Rightarrow> '''')"

definition audit_filters :: "audit_page \<Rightarrow> audit_act node" where
  "audit_filters s =
     el ''div''
       ([el ''div''
           [icon ''Search'',
            El ''Input'' [(''placeholder'', AStr ''Filter by action, resource, or user...''), (''value'', AStr (au_search s))]
              [(''onChange'', OnText AuditSearch)] []],
         El ''Select'' [(''value'', AStr (au_actionFilter s))] [(''onValueChange'', OnText AuditAction)]
           [el ''SelectTrigger'' [icon ''SelectValue''],
            el ''SelectContent''
              (map (\<lambda>(v, t). El ''SelectItem'' [(''value'', AStr v)] [] [Text t])
                 [(''all'', ''All Actions''), (''CREATE'', ''CREATE''), (''UPDATE'', ''UPDATE''), (''DELETE'', ''DELETE'')])],
         El ''Select'' [(''value'', AStr (au_resourceFilter s))] [(''onValueChange'', OnText AuditResource)]
           [el ''SelectTrigger'' [icon ''SelectValue''],
            el ''SelectContent''
              (El ''SelectItem'' [(''value'', AStr ''all'')] [] [Text ''All Resources'']
               # map (\<lambda>rt. El ''SelectItem'' [(''value'', AStr rt)] [] [Text rt]) (resourceTypes s))]]
        @ shown (au_entries s \<noteq> None)
            (el ''Badge'' [Text (show_int (int (length (audit_filtered s))) @ '' events'')]))"

definition audit_entry ::
  "(string \<Rightarrow> string) \<Rightarrow> (string \<Rightarrow> string \<Rightarrow> string) \<Rightarrow> AuditLogEntry \<Rightarrow> audit_act node" where
  "audit_entry fdt fmt e =
     (let initials = (if truthy (al_userEmail e) then toUpperCase (take 1 (the (al_userEmail e))) else ''S'')
      in el ''div''
           [el ''Avatar'' [el ''AvatarFallback'' [Text initials]],
            el ''div''
              [el ''div''
                 ([El ''Badge'' [(''className'', AStr (action_color (al_action e)))] [] [Text (al_action e)],
                   el ''Badge'' [Text (al_resourceType e)]]
                  @ shown (al_resourceId e \<noteq> []) (el ''span'' [Text (al_resourceId e)])),
               el ''div''
                 [el ''span'' [Text (case al_userEmail e of Some m \<Rightarrow> m | None \<Rightarrow> ''system'')],
                  icon ''span'',
                  El ''span'' [(''title'', AStr (fmt (al_createdAt e) ''yyyy-MM-dd HH:mm:ss''))] []
                    [Text (fdt (al_createdAt e))]]]])"

definition audit_timeline ::
  "(string \<Rightarrow> string) \<Rightarrow> (string \<Rightarrow> string \<Rightarrow> string) \<Rightarrow> audit_page \<Rightarrow> audit_act node" where
  "audit_timeline fdt fmt s =
     el ''Card''
       [el ''CardHeader'' [el ''CardTitle'' [icon ''FileText'', Text ''Activity Timeline'']],
        el ''CardContent''
          [if au_isLoading s
           then el ''div'' (replicate 5 (el ''div'' [skeleton, el ''div'' [skeleton, skeleton]]))
           else if length (audit_paginated s) = 0
           then EmptyState ''Inbox'' ''No audit entries'' (Some ''Actions performed in the system will appear here.'') []
           else el ''div'' (map (audit_entry fdt fmt) (audit_paginated s))]]"

definition audit_pager :: "audit_page \<Rightarrow> audit_act node list" where
  "audit_pager s =
     shown (int (length (audit_filtered s)) > audit_pageSize)
       (el ''div''
          [el ''p'' [Text (showing_text (au_page s) audit_pageSize (length (audit_filtered s)))],
           el ''div''
             [on_click ''Button'' [(''disabled'', ABool (au_page s = 0))] AuditPrev [Text ''Previous''],
              on_click ''Button'' [(''disabled'', ABool (au_page s \<ge> audit_totalPages s - 1))] AuditNext [Text ''Next'']]])"

definition Audit_render ::
  "(string \<Rightarrow> string) \<Rightarrow> (string \<Rightarrow> string \<Rightarrow> string) \<Rightarrow> audit_page \<Rightarrow> audit_act node" where
  "Audit_render fdt fmt s =
     el ''div''
       ([PageHeader ''Audit Log'' (Some ''Track all actions in your organization'') [],
         audit_filters s, audit_timeline fdt fmt s] @ audit_pager s)"

subsection \<open>Steps\<close>

inductive audit_step ::
  "(string \<Rightarrow> string) \<Rightarrow> (string \<Rightarrow> string \<Rightarrow> string) \<Rightarrow> audit_page \<Rightarrow> audit_page \<Rightarrow> bool" for fdt fmt where
  user: "a \<in> offers (Audit_render fdt fmt s) \<Longrightarrow> audit_step fdt fmt s (audit_handle a s)"
| loaded: "audit_enabled (au_token s) (au_orgId s) \<Longrightarrow>
    audit_step fdt fmt s (s\<lparr>au_entries := Some es, au_isLoading := False\<rparr>)"
| load_failed: "audit_step fdt fmt s (s\<lparr>au_isLoading := False\<rparr>)"
| context_changed: "audit_step fdt fmt s
    (s\<lparr>au_token := token, au_orgId := orgId, au_entries := cached,
       au_isLoading := audit_enabled token orgId \<and> cached = None\<rparr>)"

abbreviation audit_reach :: "(string \<Rightarrow> string) \<Rightarrow> (string \<Rightarrow> string \<Rightarrow> string) \<Rightarrow> audit_page \<Rightarrow> bool" where
  "audit_reach fdt fmt \<equiv> reach (\<lambda>s. \<exists>token orgId. s = audit_init token orgId) (audit_step fdt fmt)"

subsection \<open>What the page shows and offers\<close>

definition audit_matches :: "audit_page \<Rightarrow> AuditLogEntry \<Rightarrow> bool" where
  "audit_matches s e \<longleftrightarrow>
     (au_search s = []
      \<or> (\<exists>field \<in> {Some (al_action e), Some (al_resourceType e), al_userEmail e}.
           \<exists>text. field = Some text \<and> str_includes (toLowerCase text) (toLowerCase (au_search s))))
     \<and> (au_actionFilter s = [] \<or> toUpperCase (al_action e) = au_actionFilter s)
     \<and> (au_resourceFilter s = [] \<or> al_resourceType e = au_resourceFilter s)"

text \<open>
  The audit log shows, in the server's order, exactly the entries that pass the search (a
  case-insensitive match on action, resource type or the user's email) and both filters.
\<close>

theorem audit_filtered_exact: "audit_filtered s = filter (audit_matches s) (audit_list s)"
  by (auto simp: audit_filtered_def audit_matches_def Let_def conj_commute split: option.splits intro!: filter_cong)

lemma audit_items: "concat (map (item_values \<circ> (\<lambda>a. El ''SelectItem'' [(''value'', AStr (f a))] [] (g a))) xs) = map f xs"
  by (induction xs) auto

lemma offers_audit_filters:
  "offers_in h (audit_filters s) =
     range AuditSearch \<union> AuditAction ` {''all'', ''CREATE'', ''UPDATE'', ''DELETE''}
     \<union> AuditResource ` insert ''all'' (set (resourceTypes s))"
  by (auto simp: audit_filters_def audit_items)

lemma offers_audit_entry: "offers_in h (audit_entry fdt fmt e) = {}"
  by (simp add: audit_entry_def Let_def)

lemma offers_audit_timeline: "offers_in h (audit_timeline fdt fmt s) = {}"
  by (simp add: audit_timeline_def skeleton_def offers_audit_entry)

lemma offers_Audit:
  "offers (Audit_render fdt fmt s) =
     range AuditSearch \<union> AuditAction ` {''all'', ''CREATE'', ''UPDATE'', ''DELETE''}
     \<union> AuditResource ` insert ''all'' (set (resourceTypes s))
     \<union> (if int (length (audit_filtered s)) > audit_pageSize
        then (if au_page s = 0 then {} else {AuditPrev})
           \<union> (if au_page s \<ge> audit_totalPages s - 1 then {} else {AuditNext}) else {})"
  by (auto simp: Audit_render_def offers_def offers_audit_filters offers_audit_timeline audit_pager_def)

definition audit_inv :: "audit_page \<Rightarrow> bool" where
  "audit_inv s \<longleftrightarrow> 0 \<le> au_page s \<and> au_actionFilter s \<in> {'''', ''CREATE'', ''UPDATE'', ''DELETE''}"

lemma audit_step_inv:
  assumes "audit_step fdt fmt s t" and "audit_inv s"
  shows "audit_inv t"
  using assms
proof (induction rule: audit_step.induct)
  case (user a s)
  then show ?case by (cases a) (auto simp: audit_inv_def offers_Audit split: if_splits)
qed (simp_all add: audit_inv_def)

interpretation audit_machine:
  state_machine "\<lambda>s. \<exists>token orgId. s = audit_init token orgId" "audit_step fdt fmt" audit_inv for fdt fmt
proof
  show "\<exists>token orgId. s = audit_init token orgId \<Longrightarrow> audit_inv s" for s
    by (auto simp: audit_inv_def audit_init_def)
qed (rule audit_step_inv)

interpretation audit_pages:
  paged_list audit_inv audit_filtered au_page "\<lambda>_. audit_pageSize" audit_paginated
  by unfold_locales (simp_all add: audit_inv_def audit_pageSize_def audit_paginated_def page_slice_def)

lemma audit_filtered_page [simp]: "audit_filtered (s\<lparr>au_page := p\<rparr>) = audit_filtered s"
  by (simp add: audit_filtered_def audit_list_def Let_def)



end
