(* ===== verification/Dashboard.thy ===== *)
theory Dashboard
  imports AuditPage
begin

text \<open>
  The fleet overview, src/ui/app/(dashboard)/dashboard/page.tsx: counts by state, the average CPU
  load, the devices that need attention and the recent activity.  The page has links but no handlers.
\<close>

subsection \<open>State and queries\<close>

record dashboard_page =
  db_token :: string
  db_orgId :: "int option"
  db_devices :: "Device list option"
  db_devicesLoading :: bool
  db_auditLog :: "AuditLogEntry list option"

definition dashboard_audit_key :: "int option \<Rightarrow> query_key" where
  "dashboard_audit_key orgId = [KStr ''audit-log'', opt_key orgId]"

definition dashboard_audit_fetch :: "'w env \<Rightarrow> string \<Rightarrow> 'w call" where
  "dashboard_audit_fetch e token =
     listAuditLog e token (Some \<lparr>ap_page = None, ap_size = Some 10, ap_action = None, ap_resourceType = None\<rparr>)"

definition dashboard_devices_fetch :: "'w env \<Rightarrow> dashboard_page \<Rightarrow> 'w call" where
  "dashboard_devices_fetch e s = listDevices e (db_token s)"

subsection \<open>Derived values\<close>

definition db_list :: "dashboard_page \<Rightarrow> Device list" where
  "db_list s = (case db_devices s of Some ds \<Rightarrow> ds | None \<Rightarrow> [])"

definition total_count :: "dashboard_page \<Rightarrow> int" where
  "total_count s = int (length (db_list s))"

definition state_count :: "string \<Rightarrow> dashboard_page \<Rightarrow> int" where
  "state_count st s = int (length (filter (\<lambda>d. dv_state d = st) (db_list s)))"

text \<open>Dividing zero by zero is NaN, which \<open>|| 0\<close> replaces; a zero sum over a positive count stays zero.\<close>

definition avgCpu :: "dashboard_page \<Rightarrow> int" where
  "avgCpu s =
     (if db_devices s \<noteq> None \<and> length (db_list s) > 0
      then let n = length (filter (\<lambda>d. dev_cpu d \<noteq> None) (db_list s));
               total_cpu = fold (\<lambda>d acc. acc + or_zero (dev_cpu d)) (db_list s) 0
           in math_round (if n = 0 then 0 else total_cpu / of_nat n)
      else 0)"

definition mem_percent :: "Device \<Rightarrow> rat" where
  "mem_percent d =
     (case dv_status d of
        Some st \<Rightarrow> if ds_memoryTotalBytes st \<noteq> 0
                   then of_int (ds_memoryUsedBytes st) / of_int (ds_memoryTotalBytes st) * 100 else 0
      | None \<Rightarrow> 0)"

definition needsAttention :: "dashboard_page \<Rightarrow> Device list" where
  "needsAttention s =
     filter (\<lambda>d. dv_state d = ''DEGRADED'' \<or> or_zero (dev_cpu d) > 80 \<or> mem_percent d > 80) (db_list s)"

subsection \<open>Rendering\<close>

definition dashboard_cards :: "dashboard_page \<Rightarrow> 'a node" where
  "dashboard_cards s =
     el ''div''
       (if db_devicesLoading s then replicate 4 MetricCardSkeleton
        else
          [MetricCard ((metric ''Total Devices'' (show_int (total_count s)) ''Across all sites'' ''Cpu'')\<lparr>mc_href := Some ''/devices''\<rparr>),
           MetricCard ((metric ''Online'' (show_int (state_count ''ONLINE'' s) @ '' / '' @ show_int (total_count s))
               ''Reporting heartbeat'' ''Wifi'')
             \<lparr>mc_iconColor := Some ''text-emerald-500'', mc_href := Some ''/devices'',
              mc_chart := (if total_count s > 0 then Some (el ''MiniRingChart'' [MiniRingChart (state_count ''ONLINE'' s) (total_count s)]) else None)\<rparr>),
           MetricCard ((metric ''Needs Attention'' (show_int (int (length (needsAttention s)))) ''Degraded or high load'' ''AlertTriangle'')
             \<lparr>mc_iconColor := Some ''text-yellow-500'', mc_href := Some ''/devices''\<rparr>),
           MetricCard ((metric ''Avg CPU Usage'' (show_int (avgCpu s) @ ''%'') ''Fleet average'' ''Activity'')
             \<lparr>mc_iconColor := Some ''text-violet-500''\<rparr>)])"

definition dashboard_state_card :: "dashboard_page \<Rightarrow> 'a node" where
  "dashboard_state_card s =
     el ''Card''
       [el ''CardHeader''
          [el ''CardTitle'' [Text ''Fleet State''], El ''Link'' [(''href'', AStr ''/devices'')] [] [Text ''View all'']],
        el ''CardContent''
          [el ''div''
             (map (\<lambda>(label, st, variant).
                    el ''div'' [el ''span'' [Text label],
                                El ''Badge'' [(''variant'', AStr variant)] [] [Text (show_int (state_count st s))]])
                [(''Online'', ''ONLINE'', ''default''), (''Degraded'', ''DEGRADED'', ''secondary''), (''Offline'', ''OFFLINE'', ''destructive'')])]]"

definition attention_row :: "Device \<Rightarrow> 'a node" where
  "attention_row d =
     el ''TableRow''
       [el ''TableCell'' [El ''Link'' [(''href'', AStr (''/devices/'' @ dv_deviceId d))] [] [Text (dv_hostname d)]],
        el ''TableCell'' [StateBadge (dv_state d)],
        el ''TableCell'' [Text ((case dev_cpu d of Some p \<Rightarrow> toFixed 0 p | None \<Rightarrow> ''--'') @ ''%'')],
        el ''TableCell''
          [Text ((case dv_status d of
                    Some st \<Rightarrow> if ds_memoryTotalBytes st \<noteq> 0 then show_int (math_round (mem_percent d)) else ''--''
                  | None \<Rightarrow> ''--'') @ ''%'')]]"

definition dashboard_attention :: "dashboard_page \<Rightarrow> 'a node" where
  "dashboard_attention s =
     el ''Card''
       [el ''CardHeader'' [el ''CardTitle'' [icon ''AlertTriangle'', Text ''Devices Needing Attention'']],
        el ''CardContent''
          [if length (needsAttention s) > 0
           then el ''Table''
                  [el ''TableHeader''
                     [el ''TableRow'' (map (\<lambda>t. el ''TableHead'' [Text t]) [''Hostname'', ''State'', ''CPU'', ''Memory''])],
                   el ''TableBody'' (map attention_row (js_slice 0 5 (needsAttention s)))]
           else el ''p'' [Text ''All devices are healthy'']]]"

definition dashboard_activity :: "(string \<Rightarrow> string) \<Rightarrow> dashboard_page \<Rightarrow> 'a node" where
  "dashboard_activity fdt s =
     el ''Card''
       [el ''CardHeader''
          [el ''CardTitle'' [Text ''Recent Activity''], El ''Link'' [(''href'', AStr ''/audit'')] [] [Text ''View all'']],
        el ''CardContent''
          [case db_auditLog s of
             Some (e # es) \<Rightarrow>
               el ''div''
                 (map (\<lambda>e. el ''div''
                        [el ''div''
                           [el ''p'' [Text (al_action e)],
                            el ''p'' [Text (al_resourceType e @ '' '' @ al_resourceId e @ '' by ''
                                            @ (case al_userEmail e of Some m \<Rightarrow> m | None \<Rightarrow> ''''))]],
                         el ''span'' [Text (fdt (al_createdAt e))]]) (e # es))
           | _ \<Rightarrow> el ''p'' [Text ''No recent activity to display'']]]"

definition Dashboard_render :: "(string \<Rightarrow> string) \<Rightarrow> dashboard_page \<Rightarrow> 'a node" where
  "Dashboard_render fdt s =
     el ''div''
       [PageHeader ''Fleet Overview'' (Some ''Monitor your IoT fleet at a glance'') [],
        dashboard_cards s,
        el ''Card''
          [el ''CardHeader'' [el ''CardTitle'' [Text ''Fleet Health'']],
           el ''CardContent''
             [el ''FleetHealthChart''
                [FleetHealthChart (state_count ''ONLINE'' s) (state_count ''DEGRADED'' s) (state_count ''OFFLINE'' s)]]],
        el ''div''
          [el ''Card''
             [el ''CardHeader'' [el ''CardTitle'' [Text ''Top Resource Consumers'']],
              el ''CardContent''
                [case db_devices s of
                   Some ds \<Rightarrow> el ''ResourceUtilizationChart'' [ResourceUtilizationChart ds]
                 | None \<Rightarrow> el ''div'' [Text ''Loading...'']]],
           dashboard_state_card s],
        el ''div'' [dashboard_attention s, dashboard_activity fdt s]]"

subsection \<open>Properties\<close>

lemma fold_cpu: "fold (\<lambda>d acc. acc + or_zero (dev_cpu d)) ds a = a + sum_list (List.map_filter dev_cpu ds)"
proof (induction ds arbitrary: a)
  case (Cons d ds)
  then show ?case by (cases "dev_cpu d") (simp_all add: or_zero_def List.map_filter_def)
qed (simp add: List.map_filter_def)

lemma length_reporting: "length (filter (\<lambda>d. dev_cpu d \<noteq> None) ds) = length (List.map_filter dev_cpu ds)"
  by (induction ds) (auto simp: List.map_filter_def)

lemma sum_list_bounds:
  fixes xs :: "rat list"
  assumes "\<And>x. x \<in> set xs \<Longrightarrow> lo \<le> x \<and> x \<le> hi"
  shows "of_nat (length xs) * lo \<le> sum_list xs \<and> sum_list xs \<le> of_nat (length xs) * hi"
  using assms
proof (induction xs)
  case (Cons x xs)
  then have "of_nat (length xs) * lo \<le> sum_list xs \<and> sum_list xs \<le> of_nat (length xs) * hi" "lo \<le> x \<and> x \<le> hi"
    by simp_all
  then show ?case by (simp add: algebra_simps)
qed simp

lemma math_round_mono_int: "of_int lo \<le> x \<Longrightarrow> x \<le> of_int hi \<Longrightarrow> lo \<le> math_round x \<and> math_round x \<le> hi"
  unfolding math_round_def by (simp add: le_floor_iff floor_le_iff)

lemma math_round_zero: "math_round 0 = 0"
  by (simp add: math_round_def floor_eq_iff)

text \<open>
  The average CPU of the fleet is the rounded mean of the devices that report a load, zero when
  none does, and lies between any whole bounds that hold for every reported load (so between 0 and
  100 for percentages).
\<close>

theorem avgCpu_is_mean:
  "(let vs = List.map_filter dev_cpu (db_list s)
    in avgCpu s = (if vs = [] then 0 else math_round (sum_list vs / of_nat (length vs)))
       \<and> (vs \<noteq> [] \<longrightarrow> (\<forall>v \<in> set vs. of_int lo \<le> v \<and> v \<le> of_int hi) \<longrightarrow> lo \<le> avgCpu s \<and> avgCpu s \<le> hi))"
proof -
  let ?vs = "List.map_filter dev_cpu (db_list s)"
  have nil: "db_list s = [] \<Longrightarrow> ?vs = []" by (simp add: List.map_filter_def)
  have none: "db_devices s = None \<Longrightarrow> db_list s = []" by (simp add: db_list_def)
  have avg: "avgCpu s = (if ?vs = [] then 0 else math_round (sum_list ?vs / of_nat (length ?vs)))"
    using nil none unfolding avgCpu_def fold_cpu length_reporting
    by (auto simp: Let_def math_round_zero)
  have "lo \<le> avgCpu s \<and> avgCpu s \<le> hi" if ne: "?vs \<noteq> []" and "\<forall>v \<in> set ?vs. of_int lo \<le> v \<and> v \<le> of_int hi"
  proof -
    have "of_nat (length ?vs) * of_int lo \<le> sum_list ?vs \<and> sum_list ?vs \<le> of_nat (length ?vs) * of_int hi"
      using that(2) by (intro sum_list_bounds) blast
    then have "of_int lo \<le> sum_list ?vs / of_nat (length ?vs) \<and> sum_list ?vs / of_nat (length ?vs) \<le> of_int hi"
      using ne by (simp add: field_simps)
    then have "lo \<le> math_round (sum_list ?vs / of_nat (length ?vs)) \<and> math_round (sum_list ?vs / of_nat (length ?vs)) \<le> hi"
      by (intro math_round_mono_int) blast+
    with ne show ?thesis unfolding avg by simp
  qed
  with avg show ?thesis by (simp add: Let_def)
qed

definition dev_cpu_at :: "rat \<Rightarrow> Device" where
  "dev_cpu_at p =
     \<lparr>dv_deviceId = ''d'', dv_hostname = ''h'', dv_architecture = ''arm64'', dv_os = ''linux'', dv_agentVersion = ''1'',
      dv_labels = None, dv_state = ''ONLINE'', dv_registeredAt = '''', dv_lastHeartbeat = None, dv_autoUpdate = None,
      dv_status = Some \<lparr>ds_cpuUsagePercent = Some p, ds_memoryUsedBytes = 1, ds_memoryTotalBytes = 2,
        ds_diskUsedBytes = 1, ds_diskTotalBytes = 2, ds_uptimeSeconds = 60, ds_lastReconcile = None, ds_reconcileStatus = ''ok''\<rparr>\<rparr>"

definition sample_dashboard :: dashboard_page where
  "sample_dashboard =
     \<lparr>db_token = ''t'', db_orgId = Some 1, db_devices = Some [dev_cpu_at 10, dev_cpu_at 20], db_devicesLoading = False,
      db_auditLog = None\<rparr>"

theorem avgCpu_is_mean_witness: "0 \<le> avgCpu sample_dashboard \<and> avgCpu sample_dashboard \<le> 100"
  using avgCpu_is_mean [of sample_dashboard 0 100]
  by (simp add: sample_dashboard_def db_list_def List.map_filter_def dev_cpu_at_def dev_cpu_def)

text \<open>
  The counts of the overview add up: online, degraded and offline never exceed the number of
  devices, and they make it up exactly when every device is in one of the three states, so a pending
  or updating device is counted in the total only.
\<close>

theorem dashboard_counts:
  "state_count ''ONLINE'' s + state_count ''DEGRADED'' s + state_count ''OFFLINE'' s \<le> total_count s
   \<and> (state_count ''ONLINE'' s + state_count ''DEGRADED'' s + state_count ''OFFLINE'' s = total_count s \<longleftrightarrow>
        set (map dv_state (db_list s)) \<subseteq> {''ONLINE'', ''DEGRADED'', ''OFFLINE''})"
proof -
  have "length (filter (\<lambda>d. dv_state d = ''ONLINE'') ds) + length (filter (\<lambda>d. dv_state d = ''DEGRADED'') ds)
        + length (filter (\<lambda>d. dv_state d = ''OFFLINE'') ds) \<le> length ds
      \<and> (length (filter (\<lambda>d. dv_state d = ''ONLINE'') ds) + length (filter (\<lambda>d. dv_state d = ''DEGRADED'') ds)
        + length (filter (\<lambda>d. dv_state d = ''OFFLINE'') ds) = length ds \<longleftrightarrow>
        set (map dv_state ds) \<subseteq> {''ONLINE'', ''DEGRADED'', ''OFFLINE''})" for ds
    by (induction ds) auto
  from this [of "db_list s"] show ?thesis
    unfolding state_count_def total_count_def of_nat_add [symmetric] of_nat_le_iff of_nat_eq_iff .
qed

text \<open>
  The load chart shows the five busiest devices: its rows are the first five of the reporting
  devices in an order of non-increasing load, every device that is left out has at most the load of
  every device shown, and equally busy devices keep the server's order.
\<close>

theorem resource_chart_top_five:
  "\<exists>ds. mset ds = mset (filter (\<lambda>d. dev_cpu d \<noteq> None) devices)
     \<and> ResourceUtilization_data devices = map (\<lambda>d. (dv_hostname d, math_round (or_zero (dev_cpu d)))) (take 5 ds)
     \<and> (\<forall>d \<in> set (take 5 ds). \<forall>d' \<in> set (drop 5 ds). or_zero (dev_cpu d') \<le> or_zero (dev_cpu d))
     \<and> (\<forall>d. filter (\<lambda>x. or_zero (dev_cpu x) = or_zero (dev_cpu d)) ds
          = filter (\<lambda>x. or_zero (dev_cpu x) = or_zero (dev_cpu d)) (filter (\<lambda>d. dev_cpu d \<noteq> None) devices))"
proof -
  let ?cmp = "\<lambda>a b :: Device. num_compare (or_zero (dev_cpu b)) (or_zero (dev_cpu a))"
  let ?ds = "sort_by ?cmp (filter (\<lambda>d. dev_cpu d \<noteq> None) devices)"
  have le: "?cmp a b \<le> 0 \<longleftrightarrow> or_zero (dev_cpu b) \<le> or_zero (dev_cpu a)" for a b
    by (auto simp: num_compare_def)
  have eq: "?cmp a b = 0 \<longleftrightarrow> or_zero (dev_cpu b) = or_zero (dev_cpu a)" for a b
    by (auto simp: num_compare_def)
  have "sorted_wrt (\<lambda>a b. ?cmp a b \<le> 0) ?ds" by (rule num_cmp_desc.sorted_sort_by)
  then have "sorted_wrt (\<lambda>a b. ?cmp a b \<le> 0) (take 5 ?ds @ drop 5 ?ds)" by simp
  then have "\<forall>d \<in> set (take 5 ?ds). \<forall>d' \<in> set (drop 5 ?ds). or_zero (dev_cpu d') \<le> or_zero (dev_cpu d)"
    by (simp only: sorted_wrt_append le) blast
  moreover have "filter (\<lambda>x. or_zero (dev_cpu x) = or_zero (dev_cpu d)) ?ds
      = filter (\<lambda>x. or_zero (dev_cpu x) = or_zero (dev_cpu d)) (filter (\<lambda>d. dev_cpu d \<noteq> None) devices)" for d
    using num_cmp_desc.filter_sort_by [of d "filter (\<lambda>d. dev_cpu d \<noteq> None) devices"] by (simp only: eq)
  moreover have "ResourceUtilization_data devices = map (\<lambda>d. (dv_hostname d, math_round (or_zero (dev_cpu d)))) (take 5 ?ds)"
    by (simp add: ResourceUtilization_data_def Let_def js_slice_nonneg)
  ultimately show ?thesis by (intro exI [of _ ?ds]) simp
qed

lemma apiFetch_log_sent: "fst (apiFetch (log_env base srv) path o1 []) = [build_request base path o1]"
  by (subst apiFetch_log) simp

lemma audit_size_query:
  "search_params (audit_query (Some \<lparr>ap_page = None, ap_size = Some 10, ap_action = None, ap_resourceType = None\<rparr>)) = ''size=10''"
  by code_simp

lemma audit_none_query: "search_params (audit_query None) = ''''"
  by code_simp

text \<open>
  The overview and the audit log share one cache entry for two different requests: both use the
  key of the organization's audit log, one asks the controller for ten entries and the other for all,
  so either page can be shown the answer of the other.
\<close>

theorem audit_cache_shared:
  "dashboard_audit_key orgId = audit_key orgId
   \<and> fst (dashboard_audit_fetch (log_env base srv) token []) \<noteq> fst (audit_fetch (log_env base srv) token [])"
proof -
  have "fst (dashboard_audit_fetch (log_env base srv) token []) =
      [build_request base (endpoint_path OrganizationAuditLog @ ''?size=10'') (options_get token)]"
    by (simp add: dashboard_audit_fetch_def listAuditLog_def audit_size_query Let_def apiFetch_log_sent)
  moreover have "fst (audit_fetch (log_env base srv) token []) =
      [build_request base (endpoint_path OrganizationAuditLog) (options_get token)]"
    by (simp add: audit_fetch_def listAuditLog_def audit_none_query Let_def apiFetch_log_sent)
  ultimately show ?thesis
    by (simp add: dashboard_audit_key_def audit_key_def build_request_def absoluteUrl_def)
qed

end
