(* ===== verification/Settings.thy ===== *)
theory Settings
  imports Organizations Widgets
begin

text \<open>
  The settings page, src/ui/app/(dashboard)/settings/page.tsx: the organization form with its
  optimistic update, members and invitations, enrollment tokens, API keys.

  Each tab has a record of its \<open>useState\<close> variables, query answers and pending flags.  The query
  cache entry \<open>["organization", orgId]\<close>, which the form reads and the optimistic update writes, is a
  function of the organization.  The dashes of the labels are written as hyphens.  \<open>fdt\<close> is
  \<open>formatDistanceToNow\<close> and \<open>base\<close> the base URL.
\<close>

subsection \<open>State\<close>

record general_tab =
  gn_orgName :: "string option"
  gn_orgDesc :: "string option"
  gn_orgDirty :: bool
  gn_saving :: bool
  gn_previous :: "Organization option"

record members_tab =
  mt_members :: "OrgMember list option"
  mt_loading :: bool
  mt_invitations :: "Invitation list option"
  mt_inviteOpen :: bool
  mt_inviteEmail :: string
  mt_inviteRole :: string
  mt_removeTarget :: "OrgMember option"
  mt_inviting :: bool
  mt_removing :: bool
  mt_revoking :: bool

record tokens_tab =
  tt_tokens :: "EnrollmentToken list option"
  tt_loading :: bool
  tt_open :: bool
  tt_desc :: string
  tt_maxUses :: string
  tt_deleteTarget :: "EnrollmentToken option"
  tt_created :: "string option"
  tt_creating :: bool
  tt_deleting :: bool

record keys_tab =
  kt_keys :: "ApiKeyEntry list option"
  kt_loading :: bool
  kt_open :: bool
  kt_name :: string
  kt_created :: "string option"
  kt_deleteTarget :: "ApiKeyEntry option"
  kt_copied :: bool
  kt_usageCopied :: bool
  kt_origin :: string
  kt_creating :: bool
  kt_deleting :: bool

record settings_page =
  st_token :: string
  st_orgId :: "int option"
  st_role :: "string option"
  st_orgCache :: "int option \<Rightarrow> Organization option"
  st_general :: general_tab
  st_members :: members_tab
  st_tokens :: tokens_tab
  st_keys :: keys_tab

definition settings_enabled :: "settings_page \<Rightarrow> bool" where
  "settings_enabled s \<longleftrightarrow> st_token s \<noteq> [] \<and> \<not> falsy_id (st_orgId s)"

definition general_init :: general_tab where
  "general_init = \<lparr>gn_orgName = None, gn_orgDesc = None, gn_orgDirty = False, gn_saving = False, gn_previous = None\<rparr>"

definition members_init :: "bool \<Rightarrow> members_tab" where
  "members_init loading =
     \<lparr>mt_members = None, mt_loading = loading, mt_invitations = None, mt_inviteOpen = False, mt_inviteEmail = '''',
      mt_inviteRole = ''VIEWER'', mt_removeTarget = None, mt_inviting = False, mt_removing = False, mt_revoking = False\<rparr>"

definition tokens_init :: "bool \<Rightarrow> tokens_tab" where
  "tokens_init loading =
     \<lparr>tt_tokens = None, tt_loading = loading, tt_open = False, tt_desc = '''', tt_maxUses = ''100'', tt_deleteTarget = None,
      tt_created = None, tt_creating = False, tt_deleting = False\<rparr>"

definition keys_init :: "bool \<Rightarrow> string \<Rightarrow> keys_tab" where
  "keys_init loading origin =
     \<lparr>kt_keys = None, kt_loading = loading, kt_open = False, kt_name = '''', kt_created = None, kt_deleteTarget = None,
      kt_copied = False, kt_usageCopied = False, kt_origin = origin, kt_creating = False, kt_deleting = False\<rparr>"

definition settings_init :: "string \<Rightarrow> int option \<Rightarrow> string option \<Rightarrow> string \<Rightarrow> settings_page" where
  "settings_init token orgId role origin =
     (let loading = (token \<noteq> [] \<and> \<not> falsy_id orgId)
      in \<lparr>st_token = token, st_orgId = orgId, st_role = role, st_orgCache = (\<lambda>_. None), st_general = general_init,
          st_members = members_init loading, st_tokens = tokens_init loading, st_keys = keys_init loading origin\<rparr>)"

subsection \<open>Actions\<close>

datatype settings_act =
    TabChange string | SetOrgName string | SetOrgDesc string | SaveOrg
  | OpenInvite bool | SetInviteEmail string | SetInviteRole string | Invite
  | AskRemove OrgMember | RemoveDialog bool | ConfirmRemove | RevokeInvite int
  | ShowTokenDialog | TokenDialog bool | CancelToken | SetTokenDesc string | SetTokenMax string | CreateToken
  | CopyToken string | DoneToken | AskDeleteToken EnrollmentToken | DeleteTokenDialog bool | ConfirmDeleteToken
  | ShowKeyDialog | KeyDialog bool | CancelKey | SetKeyName string | CreateKey | CopyKey string | CopyUsage
  | AskDeleteKey ApiKeyEntry | DeleteKeyDialog bool | ConfirmDeleteKey

subsection \<open>General tab\<close>

definition st_org :: "settings_page \<Rightarrow> Organization option" where
  "st_org s = st_orgCache s (st_orgId s)"

text \<open>\<open>orgName ?? org?.name ?? ""\<close> and \<open>orgDesc ?? org?.description ?? ""\<close>.\<close>

definition name_field :: "settings_page \<Rightarrow> string" where
  "name_field s =
     (case gn_orgName (st_general s) of
        Some n \<Rightarrow> n
      | None \<Rightarrow> (case st_org s of Some o1 \<Rightarrow> og_name o1 | None \<Rightarrow> ''''))"

definition desc_field :: "settings_page \<Rightarrow> string" where
  "desc_field s =
     (case gn_orgDesc (st_general s) of
        Some d \<Rightarrow> d
      | None \<Rightarrow> (case Option.bind (st_org s) og_description of Some d \<Rightarrow> d | None \<Rightarrow> ''''))"

definition initOrgForm :: "settings_page \<Rightarrow> settings_page" where
  "initOrgForm s =
     (case st_org s of
        Some o1 \<Rightarrow>
          s\<lparr>st_general := (st_general s)\<lparr>gn_orgName := Some (og_name o1),
             gn_orgDesc := Some (case og_description o1 of Some d \<Rightarrow> d | None \<Rightarrow> ''''), gn_orgDirty := False\<rparr>\<rparr>
      | None \<Rightarrow> s)"

definition updateOrg_call :: "'w env \<Rightarrow> settings_page \<Rightarrow> 'w call" where
  "updateOrg_call e s = updateOrganization e (st_token s) (Some (name_field s)) (Some (desc_field s))"

definition updateOrg_onMutate :: "settings_page \<Rightarrow> settings_page" where
  "updateOrg_onMutate s =
     (let previous = st_orgCache s (st_orgId s);
          optimistic = map_option (\<lambda>old. old
            \<lparr>og_name := (case gn_orgName (st_general s) of Some n \<Rightarrow> n | None \<Rightarrow> og_name old),
             og_description := (case gn_orgDesc (st_general s) of Some d \<Rightarrow> Some d | None \<Rightarrow> og_description old)\<rparr>) previous
      in s\<lparr>st_orgCache := (st_orgCache s)(st_orgId s := optimistic),
           st_general := (st_general s)\<lparr>gn_previous := previous\<rparr>\<rparr>)"

definition updateOrg_onSuccess :: "settings_page \<Rightarrow> settings_page \<times> effect list" where
  "updateOrg_onSuccess s =
     (s\<lparr>st_general := (st_general s)\<lparr>gn_orgName := None, gn_orgDesc := None, gn_orgDirty := False\<rparr>\<rparr>,
      [ToastSuccess ''Organization updated'', InvalidateQueries [KStr ''me'']])"

definition updateOrg_onError :: "failure \<Rightarrow> settings_page \<Rightarrow> settings_page \<times> effect list" where
  "updateOrg_onError f s =
     (case gn_previous (st_general s) of
        Some o1 \<Rightarrow> s\<lparr>st_orgCache := (st_orgCache s)(st_orgId s := Some o1)\<rparr>
      | None \<Rightarrow> s,
      [ToastError (err_message f)])"

fun general_handle :: "settings_act \<Rightarrow> settings_page \<Rightarrow> settings_page \<times> effect list" where
  "general_handle (TabChange v) s = (if v = ''general'' then initOrgForm s else s, [])"
| "general_handle (SetOrgName v) s = (s\<lparr>st_general := (st_general s)\<lparr>gn_orgName := Some v, gn_orgDirty := True\<rparr>\<rparr>, [])"
| "general_handle (SetOrgDesc v) s = (s\<lparr>st_general := (st_general s)\<lparr>gn_orgDesc := Some v, gn_orgDirty := True\<rparr>\<rparr>, [])"
| "general_handle SaveOrg s =
     (updateOrg_onMutate (s\<lparr>st_general := (st_general s)\<lparr>gn_saving := True\<rparr>\<rparr>),
      [Mutate ''updateOrganization'' [name_field s, desc_field s]])"
| "general_handle _ s = (s, [])"

definition general_panel :: "settings_page \<Rightarrow> settings_act node" where
  "general_panel s =
     El ''TabsContent'' [(''value'', AStr ''general'')] []
       [el ''Card''
          [el ''CardHeader''
             [el ''CardTitle'' [Text ''Organization''], el ''CardDescription'' [Text ''Update your organization details.'']],
           el ''CardContent''
             [el ''div'' [el ''Label'' [Text ''Name''],
                El ''Input'' [(''value'', AStr (name_field s))] [(''onChange'', OnText SetOrgName)] []],
              el ''div'' [el ''Label'' [Text ''Description''],
                El ''Textarea'' [(''value'', AStr (desc_field s))] [(''onChange'', OnText SetOrgDesc)] []],
              el ''div'' [el ''Label'' [Text ''Slug''],
                El ''Input'' [(''value'', AStr (case st_org s of Some o1 \<Rightarrow> og_slug o1 | None \<Rightarrow> '''')), (''disabled'', ABool True)] [] []],
              el ''div'' [el ''Label'' [Text ''Your Role''],
                el ''div'' [el ''Badge'' [Text (case st_role s of Some r \<Rightarrow> r | None \<Rightarrow> ''--'')]]],
              on_click ''Button'' [(''disabled'', ABool (\<not> gn_orgDirty (st_general s) \<or> gn_saving (st_general s)))] SaveOrg
                [Text (if gn_saving (st_general s) then ''Saving...'' else ''Save Changes'')]]]]"

subsection \<open>Members tab\<close>

definition email_name :: "OrgMember \<Rightarrow> string \<Rightarrow> string" where
  "email_name m fallback =
     (case om_displayName m of
        Some n \<Rightarrow> n
      | None \<Rightarrow> (case om_email m of Some e \<Rightarrow> hd (split_char (CHR ''@'') e) | None \<Rightarrow> fallback))"

definition initials :: "string \<Rightarrow> string" where
  "initials name = toUpperCase (js_slice 0 2 (concat (map (take 1) (split_char (CHR '' '') name))))"

definition invite_call :: "'w env \<Rightarrow> settings_page \<Rightarrow> 'w call" where
  "invite_call e s = inviteMember e (st_token s) (mt_inviteEmail (st_members s)) (mt_inviteRole (st_members s))"

definition members_key :: "settings_page \<Rightarrow> query_key" where
  "members_key s = [KStr ''org-members'', opt_key (st_orgId s)]"

definition invitations_key :: "settings_page \<Rightarrow> query_key" where
  "invitations_key s = [KStr ''org-invitations'', opt_key (st_orgId s)]"

definition invalidateMembership :: "settings_page \<Rightarrow> effect list" where
  "invalidateMembership s = [InvalidateQueries (members_key s), InvalidateQueries (invitations_key s)]"

definition invite_onSuccess :: "InviteResult \<Rightarrow> settings_page \<Rightarrow> settings_page \<times> effect list" where
  "invite_onSuccess result s =
     (s\<lparr>st_members := (st_members s)\<lparr>mt_inviteOpen := False, mt_inviteEmail := '''', mt_inviteRole := ''VIEWER''\<rparr>\<rparr>,
      ToastSuccess (if ir_status result = Added then ''Member added to the organization''
                    else ''Invitation sent - they'' @ [CHR 0x27] @ ''ll join when they first sign in'')
      # invalidateMembership s)"

definition remove_onSuccess :: "settings_page \<Rightarrow> settings_page \<times> effect list" where
  "remove_onSuccess s =
     (s\<lparr>st_members := (st_members s)\<lparr>mt_removeTarget := None\<rparr>\<rparr>,
      [ToastSuccess ''Member removed'', InvalidateQueries (members_key s)])"

definition revokeInvitation_onSuccess :: "settings_page \<Rightarrow> settings_page \<times> effect list" where
  "revokeInvitation_onSuccess s = (s, [ToastSuccess ''Invitation revoked'', InvalidateQueries (invitations_key s)])"

definition settings_onError :: "failure \<Rightarrow> effect list" where
  "settings_onError f = [ToastError (err_message f)]"

fun members_handle :: "settings_act \<Rightarrow> members_tab \<Rightarrow> members_tab \<times> effect list" where
  "members_handle (OpenInvite v) m = (m\<lparr>mt_inviteOpen := v\<rparr>, [])"
| "members_handle (SetInviteEmail v) m = (m\<lparr>mt_inviteEmail := v\<rparr>, [])"
| "members_handle (SetInviteRole v) m = (m\<lparr>mt_inviteRole := v\<rparr>, [])"
| "members_handle Invite m = (m\<lparr>mt_inviting := True\<rparr>, [Mutate ''inviteMember'' [mt_inviteEmail m, mt_inviteRole m]])"
| "members_handle (AskRemove x) m = (m\<lparr>mt_removeTarget := Some x\<rparr>, [])"
| "members_handle (RemoveDialog v) m = (if v then m else m\<lparr>mt_removeTarget := None\<rparr>, [])"
| "members_handle ConfirmRemove m =
     (case mt_removeTarget m of
        Some x \<Rightarrow> (m\<lparr>mt_removing := True\<rparr>, [Mutate ''removeMember'' [show_int (om_id x)]])
      | None \<Rightarrow> (m, []))"
| "members_handle (RevokeInvite i) m = (m\<lparr>mt_revoking := True\<rparr>, [Mutate ''revokeInvitation'' [show_int i]])"
| "members_handle _ m = (m, [])"

definition member_row :: "(string \<Rightarrow> string) \<Rightarrow> OrgMember \<Rightarrow> settings_act node" where
  "member_row fdt m =
     el ''TableRow''
       [el ''TableCell''
          [el ''div''
             [el ''Avatar'' [el ''AvatarFallback'' [Text (initials (email_name m ''?''))]],
              el ''div'' [el ''p'' [Text (email_name m ''Unknown'')],
                          el ''p'' [Text (case om_email m of Some e \<Rightarrow> e | None \<Rightarrow> '''')]]]],
        el ''TableCell''
          [El ''Badge'' [(''variant'', AStr (if om_role m = ''OWNER'' then ''default'' else ''secondary''))] [] [Text (om_role m)]],
        el ''TableCell'' [Text (fdt (om_joinedAt m))],
        el ''TableCell''
          (shown (om_role m \<noteq> ''OWNER'') (on_click ''Button'' [(''variant'', AStr ''ghost'')] (AskRemove m) [icon ''Trash2'']))]"

definition skeleton_rows :: "nat \<Rightarrow> nat \<Rightarrow> 'a node list" where
  "skeleton_rows rows columns = replicate rows (el ''TableRow'' (replicate columns (el ''TableCell'' [skeleton])))"

definition table_head :: "string list \<Rightarrow> 'a node" where
  "table_head ts = el ''TableHeader'' [el ''TableRow'' (map (\<lambda>t. el ''TableHead'' [Text t]) ts @ [icon ''TableHead''])]"

definition empty_row :: "int \<Rightarrow> string \<Rightarrow> string \<Rightarrow> 'a node" where
  "empty_row n title description =
     el ''TableRow'' [El ''TableCell'' [(''colSpan'', AInt n)] [] [EmptyState ''Inbox'' title (Some description) []]]"

definition list_or_nil :: "'x list option \<Rightarrow> 'x list" where
  "list_or_nil x = (case x of Some xs \<Rightarrow> xs | None \<Rightarrow> [])"

definition invitations_card :: "(string \<Rightarrow> string) \<Rightarrow> members_tab \<Rightarrow> settings_act node list" where
  "invitations_card fdt m =
     shown (0 < length (list_or_nil (mt_invitations m)))
       (el ''Card''
          [el ''CardHeader''
             [el ''CardTitle'' [icon ''Mail'', Text ''Pending Invitations''],
              el ''CardDescription'' [Text ''These people will join automatically the first time they sign in.'']],
           el ''CardContent''
             [el ''div''
                [el ''Table''
                   [table_head [''Email'', ''Role'', ''Invited''],
                    el ''TableBody''
                      (map (\<lambda>inv. el ''TableRow''
                         [el ''TableCell'' [Text (iv_email inv)], el ''TableCell'' [el ''Badge'' [Text (iv_role inv)]],
                          el ''TableCell'' [Text (fdt (iv_createdAt inv))],
                          el ''TableCell''
                            [on_click ''Button'' [(''disabled'', ABool (mt_revoking m))] (RevokeInvite (iv_id inv)) [icon ''Trash2'']]])
                         (list_or_nil (mt_invitations m)))]]]])"

definition members_panel :: "(string \<Rightarrow> string) \<Rightarrow> members_tab \<Rightarrow> settings_act node" where
  "members_panel fdt m =
     El ''TabsContent'' [(''value'', AStr ''members'')] []
       (el ''Card''
          [el ''CardHeader''
             [el ''div'' [el ''CardTitle'' [icon ''Users'', Text ''Members''],
                          el ''CardDescription'' [Text ''Manage team access to your organization.'']],
              on_click ''Button'' [] (OpenInvite True) [icon ''Plus'', Text ''Invite'']],
           el ''CardContent''
             [el ''div''
                [el ''Table''
                   [table_head [''User'', ''Role'', ''Joined''],
                    el ''TableBody''
                      (if mt_loading m then skeleton_rows 3 4
                       else if length (list_or_nil (mt_members m)) = 0 then [empty_row 4 ''No members'' ''Invite team members.'']
                       else map (member_row fdt) (list_or_nil (mt_members m)))]]]]
        # invitations_card fdt m)"

definition invite_dialog :: "members_tab \<Rightarrow> settings_act node" where
  "invite_dialog m =
     El ''Dialog'' [(''open'', ABool (mt_inviteOpen m))] [(''onOpenChange'', OnBool OpenInvite)]
       [el ''DialogContent''
          [el ''DialogHeader''
             [el ''DialogTitle'' [Text ''Invite Member''],
              el ''DialogDescription'' [Text ''Add a new member to your organization.'']],
           el ''div''
             [el ''div'' [el ''Label'' [Text ''Email''],
                El ''Input'' [(''type'', AStr ''email''), (''value'', AStr (mt_inviteEmail m))] [(''onChange'', OnText SetInviteEmail)] []],
              el ''div'' [el ''Label'' [Text ''Role''],
                El ''Select'' [(''value'', AStr (mt_inviteRole m))] [(''onValueChange'', OnText SetInviteRole)]
                  [el ''SelectTrigger'' [icon ''SelectValue''],
                   el ''SelectContent''
                     [El ''SelectItem'' [(''value'', AStr ''ADMIN'')] [] [Text ''Admin - manage org, members, devices''],
                      El ''SelectItem'' [(''value'', AStr ''OPERATOR'')] [] [Text ''Operator - operate devices, open terminals''],
                      El ''SelectItem'' [(''value'', AStr ''VIEWER'')] [] [Text ''Viewer - read-only access'']]]]],
           el ''DialogFooter''
             [on_click ''Button'' [(''variant'', AStr ''outline'')] (OpenInvite False) [Text ''Cancel''],
              on_click ''Button'' [(''disabled'', ABool (mt_inviteEmail m = [] \<or> mt_inviting m))] Invite
                [Text (if mt_inviting m then ''Inviting...'' else ''Invite'')]]]]"

definition remove_dialog :: "members_tab \<Rightarrow> settings_act node" where
  "remove_dialog m =
     ConfirmDialog (mt_removeTarget m \<noteq> None) RemoveDialog ''Remove Member''
       (''Remove '' @ (case mt_removeTarget m of Some x \<Rightarrow> email_name x ''this member'' | None \<Rightarrow> ''this member'')
        @ '' from the organization?'')
       ''Remove'' ''destructive'' ConfirmRemove (mt_removing m)"

subsection \<open>Enrollment tokens tab\<close>

definition createToken_call :: "'w env \<Rightarrow> settings_page \<Rightarrow> 'w call" where
  "createToken_call e s =
     createEnrollmentToken e (st_token s) (tt_desc (st_tokens s)) (js_Number (tt_maxUses (st_tokens s)))"

definition tokens_key :: "settings_page \<Rightarrow> query_key" where
  "tokens_key s = [KStr ''enrollment-tokens'', opt_key (st_orgId s)]"

definition createToken_onSuccess :: "string \<Rightarrow> settings_page \<Rightarrow> settings_page \<times> effect list" where
  "createToken_onSuccess secret s =
     (s\<lparr>st_tokens := (st_tokens s)\<lparr>tt_created := Some secret, tt_desc := ''''\<rparr>\<rparr>, [InvalidateQueries (tokens_key s)])"

definition deleteToken_onSuccess :: "settings_page \<Rightarrow> settings_page \<times> effect list" where
  "deleteToken_onSuccess s =
     (s\<lparr>st_tokens := (st_tokens s)\<lparr>tt_deleteTarget := None\<rparr>\<rparr>,
      [ToastSuccess ''Token revoked'', InvalidateQueries (tokens_key s)])"

fun tokens_handle :: "settings_act \<Rightarrow> tokens_tab \<Rightarrow> tokens_tab \<times> effect list" where
  "tokens_handle ShowTokenDialog t = (t\<lparr>tt_open := True\<rparr>, [])"
| "tokens_handle (TokenDialog v) t = ((if v then t\<lparr>tt_open := v\<rparr> else t\<lparr>tt_open := v, tt_created := None\<rparr>), [])"
| "tokens_handle CancelToken t = (t\<lparr>tt_open := False\<rparr>, [])"
| "tokens_handle (SetTokenDesc v) t = (t\<lparr>tt_desc := v\<rparr>, [])"
| "tokens_handle (SetTokenMax v) t = (t\<lparr>tt_maxUses := v\<rparr>, [])"
| "tokens_handle CreateToken t = (t\<lparr>tt_creating := True\<rparr>, [Mutate ''createEnrollmentToken'' [tt_desc t, tt_maxUses t]])"
| "tokens_handle (CopyToken secret) t = (t, [ClipboardWrite secret, ToastSuccess ''Copied!''])"
| "tokens_handle DoneToken t = (t\<lparr>tt_open := False, tt_created := None\<rparr>, [])"
| "tokens_handle (AskDeleteToken x) t = (t\<lparr>tt_deleteTarget := Some x\<rparr>, [])"
| "tokens_handle (DeleteTokenDialog v) t = (if v then t else t\<lparr>tt_deleteTarget := None\<rparr>, [])"
| "tokens_handle ConfirmDeleteToken t =
     (case tt_deleteTarget t of
        Some x \<Rightarrow> (t\<lparr>tt_deleting := True\<rparr>, [Mutate ''deleteEnrollmentToken'' [show_int (et_id x)]])
      | None \<Rightarrow> (t, []))"
| "tokens_handle _ t = (t, [])"

definition installer_link :: "string \<Rightarrow> string \<Rightarrow> string \<Rightarrow> string \<Rightarrow> string \<Rightarrow> 'a node" where
  "installer_link base os arch secret label =
     el ''Button'' [El ''a'' [(''href'', AStr (buildInstallerUrl base os arch secret)), (''download'', ABool True)] []
                      [icon ''Download'', Text label]]"

definition token_row :: "string \<Rightarrow> (string \<Rightarrow> string) \<Rightarrow> EnrollmentToken \<Rightarrow> settings_act node" where
  "token_row base fdt t =
     el ''TableRow''
       [el ''TableCell'' [Text (js_slice 0 16 (et_token t) @ ''...'')],
        el ''TableCell'' [Text (et_name t)],
        el ''TableCell'' [Text (show_int (et_useCount t) @ '' / '' @ show_int (et_maxUses t))],
        el ''TableCell'' [Text (if truthy (et_expiresAt t) then fdt (the (et_expiresAt t)) else ''Never'')],
        el ''TableCell''
          [el ''div''
             [installer_link base ''windows'' ''amd64'' (et_token t) '' Windows'',
              installer_link base ''linux'' ''amd64'' (et_token t) '' Linux x64'',
              installer_link base ''linux'' ''arm64'' (et_token t) '' Linux arm64'',
              installer_link base ''darwin'' ''amd64'' (et_token t) '' macOS Intel'',
              installer_link base ''darwin'' ''arm64'' (et_token t) '' macOS Apple Silicon'',
              on_click ''Button'' [(''variant'', AStr ''ghost'')] (AskDeleteToken t) [icon ''Trash2'']]]]"

definition tokens_panel :: "string \<Rightarrow> (string \<Rightarrow> string) \<Rightarrow> tokens_tab \<Rightarrow> settings_act node" where
  "tokens_panel base fdt t =
     El ''TabsContent'' [(''value'', AStr ''tokens'')] []
       [el ''Card''
          [el ''CardHeader''
             [el ''div'' [el ''CardTitle'' [icon ''Key'', Text ''Enrollment Tokens''],
                          el ''CardDescription'' [Text ''Tokens used by devices to register with the fleet.'']],
              on_click ''Button'' [] ShowTokenDialog [icon ''Plus'', Text ''Create Token'']],
           el ''CardContent''
             [el ''div''
                [el ''Table''
                   [table_head [''Token'', ''Description'', ''Usage'', ''Expires''],
                    el ''TableBody''
                      (if tt_loading t then skeleton_rows 2 5
                       else if length (list_or_nil (tt_tokens t)) = 0
                       then [empty_row 5 ''No tokens'' ''Create a token to enroll devices.'']
                       else map (token_row base fdt) (list_or_nil (tt_tokens t)))]]]]]"

definition token_dialog :: "tokens_tab \<Rightarrow> settings_act node" where
  "token_dialog t =
     El ''Dialog'' [(''open'', ABool (tt_open t))] [(''onOpenChange'', OnBool TokenDialog)]
       [el ''DialogContent''
          (el ''DialogHeader''
             [el ''DialogTitle'' [Text ''Create Enrollment Token''],
              el ''DialogDescription'' [Text ''Create a token devices will use to register.'']]
           # (if truthy (tt_created t)
              then [el ''div''
                      [el ''div''
                         [el ''p'' [Text (''Token created! Copy it now - it won'' @ [CHR 0x27] @ ''t be shown again.'')],
                          el ''div''
                            [el ''code'' [Text (the (tt_created t))],
                             on_click ''Button'' [(''variant'', AStr ''outline'')] (CopyToken (the (tt_created t))) [Text ''Copy'']]],
                       el ''DialogFooter'' [on_click ''Button'' [] DoneToken [Text ''Done'']]]]
              else [el ''div''
                      [el ''div'' [el ''Label'' [Text ''Name''],
                         El ''Input'' [(''value'', AStr (tt_desc t))] [(''onChange'', OnText SetTokenDesc)] []],
                       el ''div'' [el ''Label'' [Text ''Max Uses''],
                         El ''Input'' [(''type'', AStr ''number''), (''value'', AStr (tt_maxUses t))] [(''onChange'', OnText SetTokenMax)] []]],
                    el ''DialogFooter''
                      [on_click ''Button'' [(''variant'', AStr ''outline'')] CancelToken [Text ''Cancel''],
                       on_click ''Button'' [(''disabled'', ABool (tt_desc t = [] \<or> tt_creating t))] CreateToken
                         [Text (if tt_creating t then ''Creating...'' else ''Create'')]]]))]"

definition deleteToken_dialog :: "tokens_tab \<Rightarrow> settings_act node" where
  "deleteToken_dialog t =
     ConfirmDialog (tt_deleteTarget t \<noteq> None) DeleteTokenDialog ''Revoke Token''
       ''Devices using this token will no longer be able to enroll.''
       ''Revoke'' ''destructive'' ConfirmDeleteToken (tt_deleting t)"

subsection \<open>API keys tab\<close>

definition createKey_call :: "'w env \<Rightarrow> settings_page \<Rightarrow> 'w call" where
  "createKey_call e s = createApiKey e (st_token s) (kt_name (st_keys s))"

definition keys_key :: "settings_page \<Rightarrow> query_key" where
  "keys_key s = [KStr ''api-keys'', opt_key (st_orgId s)]"

definition apiKeyUsageExample :: "keys_tab \<Rightarrow> string" where
  "apiKeyUsageExample k =
     ''curl -H '' @ [CHR 0x22] @ ''X-API-Key: YOUR_API_KEY'' @ [CHR 0x22] @ '' '' @ [CHR 0x5C, CHR 0x0A] @ ''  ''
     @ kt_origin k @ ''/api/v1/devices''"

definition createKey_onSuccess :: "string \<Rightarrow> settings_page \<Rightarrow> settings_page \<times> effect list" where
  "createKey_onSuccess rawKey s =
     (s\<lparr>st_keys := (st_keys s)\<lparr>kt_name := '''', kt_created := Some rawKey\<rparr>\<rparr>,
      [ToastSuccess ''API key created'', InvalidateQueries (keys_key s)])"

definition deleteKey_onSuccess :: "settings_page \<Rightarrow> settings_page \<times> effect list" where
  "deleteKey_onSuccess s =
     (s\<lparr>st_keys := (st_keys s)\<lparr>kt_deleteTarget := None\<rparr>\<rparr>,
      [ToastSuccess ''API key revoked'', InvalidateQueries (keys_key s)])"

fun keys_handle :: "settings_act \<Rightarrow> keys_tab \<Rightarrow> keys_tab \<times> effect list" where
  "keys_handle ShowKeyDialog k = (k\<lparr>kt_open := True\<rparr>, [])"
| "keys_handle (KeyDialog v) k = ((if v then k\<lparr>kt_open := v\<rparr> else k\<lparr>kt_open := v, kt_created := None\<rparr>), [])"
| "keys_handle CancelKey k = (k\<lparr>kt_open := False\<rparr>, [])"
| "keys_handle (SetKeyName v) k = (k\<lparr>kt_name := v\<rparr>, [])"
| "keys_handle CreateKey k = (k\<lparr>kt_creating := True\<rparr>, [Mutate ''createApiKey'' [kt_name k]])"
| "keys_handle (CopyKey secret) k = (k\<lparr>kt_copied := True\<rparr>, [ClipboardWrite secret, SetTimeout 2000 ''copied''])"
| "keys_handle CopyUsage k =
     (k\<lparr>kt_usageCopied := True\<rparr>, [ClipboardWrite (apiKeyUsageExample k), SetTimeout 2000 ''usageCopied''])"
| "keys_handle (AskDeleteKey x) k = (k\<lparr>kt_deleteTarget := Some x\<rparr>, [])"
| "keys_handle (DeleteKeyDialog v) k = (if v then k else k\<lparr>kt_deleteTarget := None\<rparr>, [])"
| "keys_handle ConfirmDeleteKey k =
     (case kt_deleteTarget k of
        Some x \<Rightarrow> (k\<lparr>kt_deleting := True\<rparr>, [Mutate ''deleteApiKey'' [show_int (ak_id x)]])
      | None \<Rightarrow> (k, []))"
| "keys_handle _ k = (k, [])"

definition created_key_box :: "keys_tab \<Rightarrow> settings_act node list" where
  "created_key_box k =
     shown (truthy (kt_created k))
       (el ''div''
          [el ''p'' [Text (''API Key created! Copy it now - it won'' @ [CHR 0x27] @ ''t be shown again.'')],
           el ''div''
             [el ''code'' [Text (the (kt_created k))],
              on_click ''Button'' [(''variant'', AStr ''ghost'')] (CopyKey (the (kt_created k)))
                [icon (if kt_copied k then ''Check'' else ''Copy'')]]])"

definition key_row :: "(string \<Rightarrow> string) \<Rightarrow> ApiKeyEntry \<Rightarrow> settings_act node" where
  "key_row fdt k =
     el ''TableRow''
       [el ''TableCell'' [Text (ak_name k)], el ''TableCell'' [Text (ak_prefix k @ ''...'')],
        el ''TableCell'' [Text (if truthy (ak_lastUsedAt k) then fdt (the (ak_lastUsedAt k)) else ''Never'')],
        el ''TableCell'' [Text (fdt (ak_createdAt k))],
        el ''TableCell'' [on_click ''Button'' [(''variant'', AStr ''ghost'')] (AskDeleteKey k) [icon ''Trash2'']]]"

definition keys_panel :: "(string \<Rightarrow> string) \<Rightarrow> keys_tab \<Rightarrow> settings_act node" where
  "keys_panel fdt k =
     El ''TabsContent'' [(''value'', AStr ''api-keys'')] []
       [el ''Card''
          [el ''CardHeader''
             [el ''div'' [el ''CardTitle'' [icon ''KeyRound'', Text ''API Keys''],
                          el ''CardDescription'' [Text ''Keys for programmatic access to the EdgeGuardian API.'']],
              on_click ''Button'' [] ShowKeyDialog [icon ''Plus'', Text ''Create Key'']],
           el ''CardContent''
             (created_key_box k
              @ [el ''div''
                   [el ''Table''
                      [table_head [''Name'', ''Prefix'', ''Last Used'', ''Created''],
                       el ''TableBody''
                         (if kt_loading k then skeleton_rows 2 5
                          else if length (list_or_nil (kt_keys k)) = 0
                          then [empty_row 5 ''No API keys'' ''Create a key for programmatic access.'']
                          else map (key_row fdt) (list_or_nil (kt_keys k)))]],
                 el ''div''
                   [el ''div''
                      [el ''p'' [Text ''Usage''],
                       on_click ''Button'' [(''variant'', AStr ''ghost'')] CopyUsage
                         [icon (if kt_usageCopied k then ''Check'' else ''Copy'')]],
                    el ''pre'' [Text (apiKeyUsageExample k)],
                    el ''p'' [Text ''Send the key in the '', el ''code'' [Text ''X-API-Key''],
                              Text '' header. Keys act at OPERATOR level, scoped to this organization.'']]])]]"

definition key_dialog :: "keys_tab \<Rightarrow> settings_act node" where
  "key_dialog k =
     El ''Dialog'' [(''open'', ABool (kt_open k))] [(''onOpenChange'', OnBool KeyDialog)]
       [el ''DialogContent''
          [el ''DialogHeader''
             [el ''DialogTitle'' [Text ''Create API Key''],
              el ''DialogDescription'' [Text ''Create a key for programmatic API access.'']],
           el ''div'' [el ''div'' [el ''Label'' [Text ''Name''],
             El ''Input'' [(''value'', AStr (kt_name k))] [(''onChange'', OnText SetKeyName)] []]],
           el ''DialogFooter''
             [on_click ''Button'' [(''variant'', AStr ''outline'')] CancelKey [Text ''Cancel''],
              on_click ''Button'' [(''disabled'', ABool (kt_name k = [] \<or> kt_creating k))] CreateKey
                [Text (if kt_creating k then ''Creating...'' else ''Create'')]]]]"

definition deleteKey_dialog :: "keys_tab \<Rightarrow> settings_act node" where
  "deleteKey_dialog k =
     ConfirmDialog (kt_deleteTarget k \<noteq> None) DeleteKeyDialog ''Revoke API Key''
       (''Revoke '' @ [CHR 0x22] @ (case kt_deleteTarget k of Some x \<Rightarrow> ak_name x | None \<Rightarrow> ''undefined'') @ [CHR 0x22]
        @ ''? Any integrations using this key will stop working.'')
       ''Revoke'' ''destructive'' ConfirmDeleteKey (kt_deleting k)"

subsection \<open>The page\<close>

definition settings_handle :: "settings_act \<Rightarrow> settings_page \<Rightarrow> settings_page \<times> effect list" where
  "settings_handle a s =
     (let (s1, e1) = general_handle a s;
          (m, e2) = members_handle a (st_members s1);
          (t, e3) = tokens_handle a (st_tokens s1);
          (k, e4) = keys_handle a (st_keys s1)
      in (s1\<lparr>st_members := m, st_tokens := t, st_keys := k\<rparr>, e1 @ e2 @ e3 @ e4))"

definition Settings_render :: "string \<Rightarrow> (string \<Rightarrow> string) \<Rightarrow> settings_page \<Rightarrow> settings_act node" where
  "Settings_render base fdt s =
     el ''div''
       [PageHeader ''Settings'' (Some ''Manage your organization'') [],
        El ''Tabs'' [(''defaultValue'', AStr ''general'')] [(''onValueChange'', OnText TabChange)]
          [el ''TabsList''
             (map (\<lambda>(v, t). El ''TabsTrigger'' [(''value'', AStr v)] [] [Text t])
                [(''general'', ''General''), (''members'', ''Members''), (''tokens'', ''Tokens''), (''api-keys'', ''API Keys'')]),
           general_panel s, members_panel fdt (st_members s), tokens_panel base fdt (st_tokens s), keys_panel fdt (st_keys s)],
        invite_dialog (st_members s), token_dialog (st_tokens s), key_dialog (st_keys s),
        remove_dialog (st_members s), deleteToken_dialog (st_tokens s), deleteKey_dialog (st_keys s)]"

subsection \<open>Steps\<close>

definition upd_members :: "(members_tab \<Rightarrow> members_tab) \<Rightarrow> settings_page \<Rightarrow> settings_page" where
  "upd_members f s = s\<lparr>st_members := f (st_members s)\<rparr>"

definition upd_tokens :: "(tokens_tab \<Rightarrow> tokens_tab) \<Rightarrow> settings_page \<Rightarrow> settings_page" where
  "upd_tokens f s = s\<lparr>st_tokens := f (st_tokens s)\<rparr>"

definition upd_keys :: "(keys_tab \<Rightarrow> keys_tab) \<Rightarrow> settings_page \<Rightarrow> settings_page" where
  "upd_keys f s = s\<lparr>st_keys := f (st_keys s)\<rparr>"

definition upd_general :: "(general_tab \<Rightarrow> general_tab) \<Rightarrow> settings_page \<Rightarrow> settings_page" where
  "upd_general f s = s\<lparr>st_general := f (st_general s)\<rparr>"

inductive settings_step :: "string \<Rightarrow> (string \<Rightarrow> string) \<Rightarrow> settings_page \<Rightarrow> settings_page \<Rightarrow> bool" for base fdt where
  user: "a \<in> offers (Settings_render base fdt s) \<Longrightarrow> settings_step base fdt s (fst (settings_handle a s))"
| context_changed: "settings_step base fdt s (s\<lparr>st_token := token, st_orgId := orgId, st_role := role\<rparr>)"
| org_loaded: "settings_enabled s \<Longrightarrow>
    settings_step base fdt s (s\<lparr>st_orgCache := (st_orgCache s)(st_orgId s := Some o1)\<rparr>)"
| members_loaded: "settings_step base fdt s (upd_members (\<lambda>m. m\<lparr>mt_members := ms, mt_loading := ld, mt_invitations := is\<rparr>) s)"
| tokens_loaded: "settings_step base fdt s (upd_tokens (\<lambda>t. t\<lparr>tt_tokens := ts, tt_loading := ld\<rparr>) s)"
| keys_loaded: "settings_step base fdt s (upd_keys (\<lambda>k. k\<lparr>kt_keys := ks, kt_loading := ld\<rparr>) s)"
| org_saved: "gn_saving (st_general s) \<Longrightarrow>
    settings_step base fdt s (upd_general (\<lambda>g. g\<lparr>gn_saving := False\<rparr>) (fst (updateOrg_onSuccess s)))"
| org_save_failed: "gn_saving (st_general s) \<Longrightarrow>
    settings_step base fdt s (upd_general (\<lambda>g. g\<lparr>gn_saving := False\<rparr>) (fst (updateOrg_onError f s)))"
| invited: "mt_inviting (st_members s) \<Longrightarrow>
    settings_step base fdt s (upd_members (\<lambda>m. m\<lparr>mt_inviting := False\<rparr>) (fst (invite_onSuccess r s)))"
| removed: "mt_removing (st_members s) \<Longrightarrow>
    settings_step base fdt s (upd_members (\<lambda>m. m\<lparr>mt_removing := False\<rparr>) (fst (remove_onSuccess s)))"
| invitation_revoked: "mt_revoking (st_members s) \<Longrightarrow>
    settings_step base fdt s (upd_members (\<lambda>m. m\<lparr>mt_revoking := False\<rparr>) (fst (revokeInvitation_onSuccess s)))"
| members_failed: "settings_step base fdt s
    (upd_members (\<lambda>m. m\<lparr>mt_inviting := i \<and> mt_inviting m, mt_removing := r \<and> mt_removing m, mt_revoking := v \<and> mt_revoking m\<rparr>) s)"
| token_created: "tt_creating (st_tokens s) \<Longrightarrow>
    settings_step base fdt s (upd_tokens (\<lambda>t. t\<lparr>tt_creating := False\<rparr>) (fst (createToken_onSuccess secret s)))"
| token_deleted: "tt_deleting (st_tokens s) \<Longrightarrow>
    settings_step base fdt s (upd_tokens (\<lambda>t. t\<lparr>tt_deleting := False\<rparr>) (fst (deleteToken_onSuccess s)))"
| tokens_failed: "settings_step base fdt s
    (upd_tokens (\<lambda>t. t\<lparr>tt_creating := c \<and> tt_creating t, tt_deleting := d \<and> tt_deleting t\<rparr>) s)"
| key_created: "kt_creating (st_keys s) \<Longrightarrow>
    settings_step base fdt s (upd_keys (\<lambda>k. k\<lparr>kt_creating := False\<rparr>) (fst (createKey_onSuccess secret s)))"
| key_deleted: "kt_deleting (st_keys s) \<Longrightarrow>
    settings_step base fdt s (upd_keys (\<lambda>k. k\<lparr>kt_deleting := False\<rparr>) (fst (deleteKey_onSuccess s)))"
| keys_failed: "settings_step base fdt s
    (upd_keys (\<lambda>k. k\<lparr>kt_creating := c \<and> kt_creating k, kt_deleting := d \<and> kt_deleting k\<rparr>) s)"
| timers: "settings_step base fdt s
    (upd_keys (\<lambda>k. k\<lparr>kt_copied := c \<and> kt_copied k, kt_usageCopied := u \<and> kt_usageCopied k\<rparr>) s)"

abbreviation settings_reach :: "string \<Rightarrow> (string \<Rightarrow> string) \<Rightarrow> settings_page \<Rightarrow> bool" where
  "settings_reach base fdt \<equiv>
     reach (\<lambda>s. \<exists>token orgId role origin. s = settings_init token orgId role origin) (settings_step base fdt)"

subsection \<open>What the page offers\<close>

lemma offers_settings_rows [simp]:
  "c \<in> set (skeleton_rows m n) \<Longrightarrow> offers_in h c = {}" "offers_in h (empty_row i t d) = {}" "offers_in h (table_head ts) = {}"
  "offers_in h (installer_link base os arch secret label) = {}"
  by (auto simp: skeleton_rows_def skeleton_def empty_row_def table_head_def installer_link_def)

lemma offers_general_panel:
  "offers_in h (general_panel s) =
     range SetOrgName \<union> range SetOrgDesc
     \<union> (if gn_orgDirty (st_general s) \<and> \<not> gn_saving (st_general s) then {SaveOrg} else {})"
  by (auto simp: general_panel_def)

lemma offers_member_row: "offers_in h (member_row fdt m) = (if om_role m = ''OWNER'' then {} else {AskRemove m})"
  by (simp add: member_row_def)

lemma offers_invitations_card:
  "(\<Union>c \<in> set (invitations_card fdt m). offers_in h c) \<subseteq> range RevokeInvite"
  by (auto simp: invitations_card_def split: if_splits)

lemma offers_members_panel:
  "offers_in h (members_panel fdt m) \<subseteq>
     {OpenInvite True} \<union> AskRemove ` {x. om_role x \<noteq> ''OWNER''} \<union> range RevokeInvite"
  using offers_invitations_card [where fdt = fdt and m = m and h = False]
  by (auto simp: members_panel_def offers_member_row split: if_splits)

lemma offers_invite_dialog:
  "offers_in h (invite_dialog m) \<subseteq>
     range OpenInvite \<union> range SetInviteEmail \<union> SetInviteRole ` {''ADMIN'', ''OPERATOR'', ''VIEWER''} \<union> {Invite}"
  by (auto simp: invite_dialog_def split: if_splits)

lemma offers_tokens_panel: "offers_in h (tokens_panel base fdt t) \<subseteq> {ShowTokenDialog} \<union> range AskDeleteToken"
  by (auto simp: tokens_panel_def token_row_def split: if_splits)

lemma offers_token_dialog:
  "offers_in h (token_dialog t) \<subseteq>
     range TokenDialog \<union> {CancelToken, CreateToken, DoneToken} \<union> range SetTokenDesc \<union> range SetTokenMax \<union> range CopyToken"
  by (auto simp: token_dialog_def split: if_splits)

lemma offers_keys_panel:
  "offers_in h (keys_panel fdt k) =
     {ShowKeyDialog, CopyUsage} \<union> (if truthy (kt_created k) then {CopyKey (the (kt_created k))} else {})
     \<union> (if kt_loading k then {} else AskDeleteKey ` set (list_or_nil (kt_keys k)))"
  by (auto simp: keys_panel_def created_key_box_def key_row_def)

lemma offers_key_dialog:
  "offers_in h (key_dialog k) =
     {KeyDialog True, KeyDialog False}
     \<union> (if kt_open k then {CancelKey} \<union> range SetKeyName \<union> (if kt_name k = [] \<or> kt_creating k then {} else {CreateKey}) else {})"
  by (auto simp: key_dialog_def)

lemma offers_Settings:
  "offers (Settings_render base fdt s) =
     range TabChange \<union> offers_in False (general_panel s) \<union> offers_in False (members_panel fdt (st_members s))
     \<union> offers_in False (tokens_panel base fdt (st_tokens s)) \<union> offers_in False (keys_panel fdt (st_keys s))
     \<union> offers_in False (invite_dialog (st_members s)) \<union> offers_in False (token_dialog (st_tokens s))
     \<union> offers_in False (key_dialog (st_keys s)) \<union> offers_in False (remove_dialog (st_members s))
     \<union> offers_in False (deleteToken_dialog (st_tokens s)) \<union> offers_in False (deleteKey_dialog (st_keys s))"
  by (auto simp: Settings_render_def offers_def)

subsection \<open>Who can be invited and removed\<close>

definition settings_inv :: "settings_page \<Rightarrow> bool" where
  "settings_inv s \<longleftrightarrow>
     mt_inviteRole (st_members s) \<in> {''ADMIN'', ''OPERATOR'', ''VIEWER''}
     \<and> (\<forall>x. mt_removeTarget (st_members s) = Some x \<longrightarrow> om_role x \<noteq> ''OWNER'')"

lemma st_members_handle [simp]:
  "st_members (fst (settings_handle a s)) = fst (members_handle a (st_members s))"
proof -
  have "st_members (fst (general_handle a s)) = st_members s"
    by (cases a) (auto simp: initOrgForm_def updateOrg_onMutate_def Let_def split: option.splits)
  then show ?thesis by (simp add: settings_handle_def case_prod_beta Let_def)
qed

lemma settings_offered:
  "AskRemove x \<in> offers (Settings_render base fdt s) \<Longrightarrow> om_role x \<noteq> ''OWNER''"
  "SetInviteRole v \<in> offers (Settings_render base fdt s) \<Longrightarrow> v \<in> {''ADMIN'', ''OPERATOR'', ''VIEWER''}"
  using offers_members_panel [of False fdt "st_members s"] offers_invite_dialog [of False "st_members s"]
    offers_tokens_panel [of False base fdt "st_tokens s"] offers_token_dialog [of False "st_tokens s"]
  by (simp_all add: offers_Settings offers_general_panel offers_keys_panel offers_key_dialog remove_dialog_def
      deleteToken_dialog_def deleteKey_dialog_def offers_in_ConfirmDialog mem_if image_iff) blast+

lemma settings_handle_inv:
  assumes "settings_inv s" and "a \<in> offers (Settings_render base fdt s)"
  shows "settings_inv (fst (settings_handle a s))"
proof (cases a)
  case (AskRemove x)
  with assms settings_offered(1) show ?thesis by (simp add: settings_inv_def)
next
  case (SetInviteRole v)
  with assms settings_offered(2) [of v base fdt s] show ?thesis by (simp add: settings_inv_def)
qed (use assms(1) in \<open>auto simp: settings_inv_def split: option.splits\<close>)

lemmas settings_upds = upd_members_def upd_tokens_def upd_keys_def upd_general_def

lemma settings_step_inv:
  assumes "settings_step base fdt s t" and "settings_inv s"
  shows "settings_inv t"
  using assms
proof (induction rule: settings_step.induct)
  case (user a s)
  then show ?case using settings_handle_inv by blast
next
  case (org_save_failed s f)
  then show ?case by (simp add: settings_inv_def settings_upds updateOrg_onError_def split: option.splits)
qed (simp_all add: settings_inv_def settings_upds updateOrg_onSuccess_def invite_onSuccess_def remove_onSuccess_def
    revokeInvitation_onSuccess_def createToken_onSuccess_def deleteToken_onSuccess_def createKey_onSuccess_def
    deleteKey_onSuccess_def)

interpretation settings_machine:
  state_machine "\<lambda>s. \<exists>token orgId role origin. s = settings_init token orgId role origin"
    "settings_step base fdt" settings_inv for base fdt
proof
  show "\<exists>token orgId role origin. s = settings_init token orgId role origin \<Longrightarrow> settings_inv s" for s
    by (auto simp: settings_inv_def settings_init_def members_init_def Let_def)
qed (rule settings_step_inv)

text \<open>
  C21. In every reachable state an invitation is sent with one of the roles admin, operator and viewer,
  never with the owner role, and the member that Remove would send is not an owner.
\<close>

theorem settings_member_roles:
  assumes "settings_reach base fdt s"
  shows "snd (members_handle Invite (st_members s)) =
           [Mutate ''inviteMember'' [mt_inviteEmail (st_members s), mt_inviteRole (st_members s)]]
       \<and> mt_inviteRole (st_members s) \<in> {''ADMIN'', ''OPERATOR'', ''VIEWER''}
       \<and> (\<forall>i. snd (members_handle ConfirmRemove (st_members s)) = [Mutate ''removeMember'' [show_int i]] \<longrightarrow>
            (\<exists>x. mt_removeTarget (st_members s) = Some x \<and> om_id x = i \<and> om_role x \<noteq> ''OWNER''))"
proof -
  have "settings_inv s" using assms by (rule settings_machine.reach_inv)
  then show ?thesis by (auto simp: settings_inv_def show_int_inj split: option.splits)
qed

theorem settings_member_roles_witness:
  "mt_inviteRole (st_members (settings_init ''t'' (Some 1) None ''o'')) \<in> {''ADMIN'', ''OPERATOR'', ''VIEWER''}"
proof -
  have "settings_reach '''' id (settings_init ''t'' (Some 1) None ''o'')" by (rule reach_init) blast
  from settings_member_roles [OF this] show ?thesis by blast
qed

subsection \<open>The optimistic update of the organization\<close>

lemma settings_save:
  "fst (settings_handle SaveOrg s) = updateOrg_onMutate (s\<lparr>st_general := (st_general s)\<lparr>gn_saving := True\<rparr>\<rparr>)"
  "snd (settings_handle SaveOrg s) = [Mutate ''updateOrganization'' [name_field s, desc_field s]]"
  by (simp_all add: settings_handle_def updateOrg_onMutate_def Let_def)

lemmas org_update_defs = updateOrg_onMutate_def updateOrg_onError_def updateOrg_onSuccess_def name_field_def
  desc_field_def st_org_def


definition sample_org :: "int \<Rightarrow> string \<Rightarrow> Organization" where
  "sample_org i n = \<lparr>og_id = i, og_name = n, og_slug = n, og_description = None, og_createdAt = ''''\<rparr>"

definition sample_settings :: settings_page where
  "sample_settings = (settings_init ''t'' (Some 1) None ''o'')
     \<lparr>st_orgCache := (\<lambda>i. if i = Some 1 then Some (sample_org 1 ''A'') else if i = Some 2 then Some (sample_org 2 ''B'') else None)\<rparr>"


subsection \<open>Three defects of the page\<close>

text \<open>
  The form is not reset when the organization is switched: after the General tab was opened for
  one organization, switching to another and editing only the description sends, and optimistically
  shows, the first organization's name as the name of the second.
\<close>

theorem settings_form_survives_org_switch:
  fixes s :: settings_page and d :: string
  assumes "st_org s = Some o1" and "st_orgCache s (Some j) = Some o2" and "\<not> gn_saving (st_general s)"
  defines "s1 \<equiv> fst (settings_handle (TabChange ''general'') s)"
  defines "s2 \<equiv> s1\<lparr>st_orgId := Some j\<rparr>"
  defines "s3 \<equiv> fst (settings_handle (SetOrgDesc d) s2)"
  shows "SaveOrg \<in> offers (Settings_render base fdt s3)
       \<and> snd (settings_handle SaveOrg s3) = [Mutate ''updateOrganization'' [og_name o1, d]]
       \<and> map_option og_name (st_orgCache (fst (settings_handle SaveOrg s3)) (Some j)) = Some (og_name o1)"
proof -
  have s1: "s1 = initOrgForm s" by (simp add: s1_def settings_handle_def Let_def)
  have g: "gn_orgName (st_general s3) = Some (og_name o1)" "gn_orgDesc (st_general s3) = Some d"
    "gn_orgDirty (st_general s3)" "\<not> gn_saving (st_general s3)" "st_orgId s3 = Some j" "st_orgCache s3 = st_orgCache s"
    using assms(1,3) by (simp_all add: s3_def s2_def s1 settings_handle_def initOrgForm_def Let_def)
  have "SaveOrg \<in> offers (Settings_render base fdt s3)"
    using g by (simp add: offers_Settings offers_general_panel)
  then show ?thesis
    using g assms(2) unfolding settings_save by (simp add: org_update_defs Let_def)
qed

theorem settings_form_survives_org_switch_witness:
  "snd (settings_handle SaveOrg (fst (settings_handle (SetOrgDesc ''d'')
      ((fst (settings_handle (TabChange ''general'') sample_settings))\<lparr>st_orgId := Some 2\<rparr>)))) =
     [Mutate ''updateOrganization'' [''A'', ''d'']]"
  using settings_form_survives_org_switch [where s = sample_settings and d = "''d''" and j = 2
      and ?o1.0 = "sample_org 1 ''A''" and ?o2.0 = "sample_org 2 ''B''" and base = "''''" and fdt = id]
  by (simp add: st_org_def sample_settings_def settings_init_def general_init_def sample_org_def Let_def)

text \<open>
  A new API key can be lost before it was ever copied: the key appears on the page behind the
  still open dialog, and closing the dialog by its own close control (not its Cancel button) erases
  it, after which no copy is offered.
\<close>

theorem settings_created_key_lost:
  assumes "kt_open (st_keys s)" and "secret \<noteq> []"
  defines "t \<equiv> fst (createKey_onSuccess secret s)"
  shows "kt_open (st_keys t)
       \<and> KeyDialog False \<in> offers (Settings_render base fdt t)
       \<and> CopyKey k \<notin> offers_in False (keys_panel fdt (fst (keys_handle (KeyDialog False) (st_keys t))))
       \<and> CopyKey secret \<in> offers_in False (keys_panel fdt (fst (keys_handle CancelKey (st_keys t))))"
  using assms(1,2) by (auto simp: t_def createKey_onSuccess_def offers_keys_panel truthy_def offers_Settings offers_key_dialog)

theorem settings_created_key_lost_witness:
  "CopyKey ''k'' \<notin> offers_in False (keys_panel id (fst (keys_handle (KeyDialog False)
      (st_keys (fst (createKey_onSuccess ''k'' (upd_keys (\<lambda>k. k\<lparr>kt_open := True\<rparr>) sample_settings)))))))"
  using settings_created_key_lost [where s = "upd_keys (\<lambda>k. k\<lparr>kt_open := True\<rparr>) sample_settings"
      and secret = "''k''" and base = "''''" and fdt = id and k = "''k''"]
  by (simp add: upd_keys_def)

text \<open>
  An emptied "Max Uses" field is sent as zero uses: the number of an empty text is zero, and the
  Create button only checks the name.
\<close>

theorem settings_empty_max_uses_is_zero:
  assumes "tt_maxUses (st_tokens s) = ''''"
  shows "createToken_call e s = createEnrollmentToken e (st_token s) (tt_desc (st_tokens s)) (Some 0)"
  using assms by (simp add: createToken_call_def js_Number_def trim_def)

theorem settings_empty_max_uses_is_zero_witness:
  "createToken_call (log_env '''' (\<lambda>_. Inl ''down'')) (upd_tokens (\<lambda>t. t\<lparr>tt_maxUses := ''''\<rparr>) sample_settings) =
     createEnrollmentToken (log_env '''' (\<lambda>_. Inl ''down'')) ''t'' '''' (Some 0)"
  using settings_empty_max_uses_is_zero [of "upd_tokens (\<lambda>t. t\<lparr>tt_maxUses := ''''\<rparr>) sample_settings" "log_env '''' (\<lambda>_. Inl ''down'')"]
  by (simp add: upd_tokens_def sample_settings_def settings_init_def tokens_init_def Let_def)

end
