(* ===== verification/Navigation.thy ===== *)
theory Navigation
  imports Auth Organizations Widgets
begin

text \<open>
  The frame around the pages: the sidebar (src/ui/components/sidebar.tsx), the breadcrumbs, the
  command palette, the user menu, the dashboard layout that composes them with the error boundary,
  the login page and the providers.

  The path is what \<open>usePathname\<close> returns (percent-encoded), the theme and the session are arguments
  held in the components' states, and local storage is the field \<open>sb_stored\<close> (the one key the
  sidebar uses).  A component that throws while rendering is \<open>None\<close>.
\<close>

subsection \<open>Common parts\<close>

record nav_user =
  nu_name :: "string option"
  nu_email :: "string option"

text \<open>A nullable child: React renders nothing for \<open>null\<close> and \<open>undefined\<close>.\<close>

definition text_of :: "string option \<Rightarrow> 'a node list" where
  "text_of s = (case s of Some t \<Rightarrow> [Text t] | None \<Rightarrow> [])"

definition user_initials :: "nav_user option \<Rightarrow> string" where
  "user_initials u =
     (case u of
        Some v \<Rightarrow>
          (case nu_name v of
             Some name \<Rightarrow> toUpperCase (js_slice 0 2 (concat (map (take 1) (split_char (CHR '' '') name))))
           | None \<Rightarrow> ''?'')
      | None \<Rightarrow> ''?'')"

definition other_theme :: "string option \<Rightarrow> string" where
  "other_theme theme = (if theme = Some ''dark'' then ''light'' else ''dark'')"

definition theme_icon :: "string option \<Rightarrow> 'a node" where
  "theme_icon theme = icon (if theme = Some ''dark'' then ''Moon'' else ''Sun'')"

definition avatar :: "nav_user option \<Rightarrow> 'a node" where
  "avatar u = el ''Avatar'' [el ''AvatarFallback'' [Text (user_initials u)]]"

text \<open>\<open><Link href=...>\<close>.\<close>

definition link_to :: "string \<Rightarrow> 'a node list \<Rightarrow> 'a node" where
  "link_to href cs = El ''Link'' [(''href'', AStr href)] [] cs"

subsection \<open>sidebar.tsx\<close>

record nav_item =
  ni_name :: string
  ni_href :: string
  ni_icon :: string

definition navigation :: "nav_item list" where
  "navigation =
     [\<lparr>ni_name = ''Dashboard'', ni_href = ''/dashboard'', ni_icon = ''LayoutDashboard''\<rparr>,
      \<lparr>ni_name = ''Devices'', ni_href = ''/devices'', ni_icon = ''Cpu''\<rparr>,
      \<lparr>ni_name = ''Certificates'', ni_href = ''/certificates'', ni_icon = ''ShieldCheck''\<rparr>,
      \<lparr>ni_name = ''Settings'', ni_href = ''/settings'', ni_icon = ''Settings''\<rparr>,
      \<lparr>ni_name = ''Audit Log'', ni_href = ''/audit'', ni_icon = ''FileText''\<rparr>]"

record sidebar =
  sb_pathname :: string
  sb_theme :: "string option"
  sb_user :: "nav_user option"
  sb_collapsed :: bool
  sb_mounted :: bool
  sb_stored :: "string option"

definition sidebar_init :: "string \<Rightarrow> string option \<Rightarrow> nav_user option \<Rightarrow> string option \<Rightarrow> sidebar" where
  "sidebar_init path theme u stored =
     \<lparr>sb_pathname = path, sb_theme = theme, sb_user = u, sb_collapsed = False, sb_mounted = False,
      sb_stored = stored\<rparr>"

definition sidebar_mount :: "sidebar \<Rightarrow> sidebar" where
  "sidebar_mount s =
     (let s1 = s\<lparr>sb_mounted := True\<rparr>
      in if sb_stored s = Some ''true'' then s1\<lparr>sb_collapsed := True\<rparr> else s1)"

definition toggleCollapsed :: "sidebar \<Rightarrow> sidebar \<times> effect list" where
  "toggleCollapsed s =
     (let next1 = (\<not> sb_collapsed s); txt1 = (if next1 then ''true'' else ''false'')
      in (s\<lparr>sb_collapsed := next1, sb_stored := Some txt1\<rparr>, [StorageSet ''sidebar-collapsed'' txt1]))"

definition isActive :: "string \<Rightarrow> string \<Rightarrow> bool" where
  "isActive pathname href \<longleftrightarrow> pathname = href \<or> prefix (href @ ''/'') pathname"

datatype sidebar_act = ToggleCollapsed | SetDark bool | ToggleTheme | OrgAct org_act

definition sidebar_handle ::
  "sidebar_act \<Rightarrow> sidebar \<times> org_ctx \<Rightarrow> (sidebar \<times> org_ctx) \<times> effect list" where
  "sidebar_handle a sc =
     (case sc of (s, c) \<Rightarrow>
        (case a of
           ToggleCollapsed \<Rightarrow> (case toggleCollapsed s of (s1, ef) \<Rightarrow> ((s1, c), ef))
         | SetDark checked \<Rightarrow> ((s, c), [SetTheme (if checked then ''dark'' else ''light'')])
         | ToggleTheme \<Rightarrow> ((s, c), [SetTheme (other_theme (sb_theme s))])
         | OrgAct b \<Rightarrow> (case org_switch b c of (c1, ef) \<Rightarrow> ((s, c1), ef))))"

definition sidebar_logo :: "sidebar \<Rightarrow> sidebar_act node" where
  "sidebar_logo s =
     El ''div'' [(''className'', AClasses [''flex h-16 items-center border-b border-sidebar-border'',
                    if sb_collapsed s then ''justify-center'' else ''px-4''])] []
       (if sb_collapsed s
        then [el ''Tooltip''
                [el ''TooltipTrigger'' [link_to ''/dashboard'' [El ''LogoIcon'' [(''size'', AInt 28)] [] []]],
                 el ''TooltipContent'' [Text ''Dashboard'']]]
        else [link_to ''/dashboard''
                [El ''LogoIcon'' [(''size'', AInt 34)] [] [],
                 el ''span'' [Text ''Edge'', el ''span'' [Text ''Guardian'']]],
              on_click ''Button'' [] ToggleCollapsed [icon ''PanelLeftClose'']])"

definition sidebar_item :: "sidebar \<Rightarrow> nav_item \<Rightarrow> sidebar_act node" where
  "sidebar_item s item =
     (let active = isActive (sb_pathname s) (ni_href item);
          link =
            El ''Link''
              [(''href'', AStr (ni_href item)),
               (''className'', AClasses ([''group relative flex items-center gap-3 rounded-lg px-3 py-2 text-sm font-medium transition-all duration-200'']
                  @ (if sb_collapsed s then [''justify-center px-0''] else [])
                  @ [if active then ''bg-primary/10 text-primary''
                     else ''text-muted-foreground hover:bg-accent hover:text-foreground'']))] []
              (shown active (el ''div'' [])
               @ [El (ni_icon item)
                    [(''className'', AClasses ([''h-4 w-4 shrink-0 transition-colors'']
                        @ (if active then [''text-primary''] else [])))] [] []]
               @ (if sb_collapsed s then [] else [Text (ni_name item)]))
      in if sb_collapsed s
         then el ''Tooltip'' [el ''TooltipTrigger'' [link], el ''TooltipContent'' [Text (ni_name item)]]
         else link)"

definition sidebar_bottom :: "sidebar \<Rightarrow> sidebar_act node" where
  "sidebar_bottom s =
     el ''div''
       (shown (\<not> sb_collapsed s \<and> sb_mounted s)
          (el ''div''
             [el ''div'' [theme_icon (sb_theme s), el ''span'' [Text ''Dark mode'']],
              El ''Switch'' [(''checked'', ABool (sb_theme s = Some ''dark''))]
                [(''onCheckedChange'', OnBool SetDark)] []])
        @ (case sb_user s of
             Some u \<Rightarrow>
               shown (\<not> sb_collapsed s)
                 (el ''div''
                    [avatar (sb_user s),
                     el ''div'' [el ''p'' (text_of (nu_name u)), el ''p'' (text_of (nu_email u))]])
           | None \<Rightarrow> [])
        @ shown (sb_collapsed s \<and> sb_mounted s)
            (el ''Tooltip''
               [el ''TooltipTrigger'' [on_click ''button'' [] ToggleTheme [theme_icon (sb_theme s)]],
                el ''TooltipContent'' [Text ''Toggle theme'']])
        @ (case sb_user s of
             Some u \<Rightarrow>
               shown (sb_collapsed s)
                 (el ''Tooltip''
                    [el ''TooltipTrigger'' [el ''div'' [avatar (sb_user s)]],
                     el ''TooltipContent'' (text_of (nu_name u))])
           | None \<Rightarrow> []))"

definition Sidebar_render :: "sidebar \<Rightarrow> org_ctx \<Rightarrow> sidebar_act node" where
  "Sidebar_render s c =
     El ''div'' [(''className'', AClasses [''group/sidebar relative z-10 flex h-full flex-col border-r border-sidebar-border bg-sidebar-background/50 backdrop-blur-xl transition-all duration-300 ease-out overflow-visible'',
                    if sb_collapsed s then ''w-16'' else ''w-64''])] []
       (shown (sb_collapsed s)
          (el ''Tooltip''
             [el ''TooltipTrigger'' [on_click ''button'' [] ToggleCollapsed [icon ''PanelLeftOpen'']],
              el ''TooltipContent'' [Text ''Expand sidebar'']])
        @ [sidebar_logo s]
        @ shown (\<not> sb_collapsed s)
            (el ''div'' [el ''Suspense'' [el ''OrgSwitcher'' (map (map_node OrgAct) (OrgSwitcher c))]])
        @ [el ''nav'' (map (sidebar_item s) navigation), sidebar_bottom s])"

text \<open>One sidebar on one browser: the mount effect runs before the first event.\<close>

inductive sidebar_step :: "sidebar \<Rightarrow> sidebar \<Rightarrow> bool" where
  mount: "\<not> sb_mounted s \<Longrightarrow> sidebar_step s (sidebar_mount s)"
| toggle: "sb_mounted s \<Longrightarrow> sidebar_step s (fst (toggleCollapsed s))"
| navigate: "sidebar_step s (s\<lparr>sb_pathname := path\<rparr>)"
| retheme: "sidebar_step s (s\<lparr>sb_theme := theme\<rparr>)"
| sign_in: "sidebar_step s (s\<lparr>sb_user := u\<rparr>)"

abbreviation sidebar_reach :: "sidebar \<Rightarrow> bool" where
  "sidebar_reach \<equiv> reach (\<lambda>s. \<exists>path theme u stored. s = sidebar_init path theme u stored) sidebar_step"

subsection \<open>breadcrumbs.tsx\<close>

definition labelMap :: "(string \<times> string) list" where
  "labelMap =
     [(''dashboard'', ''Dashboard''), (''devices'', ''Devices''), (''audit'', ''Audit Log''),
      (''settings'', ''Settings''), (''logs'', ''Logs''), (''manifest'', ''Manifest'')]"

definition path_segments :: "string \<Rightarrow> string list" where
  "path_segments pathname = filter (\<lambda>w. w \<noteq> []) (split_char (CHR ''/'') pathname)"

text \<open>
  \<open>labelMap[segment] ?? decodeURIComponent(segment)\<close> as children.  An inherited function renders
  nothing, the prototype object is not a valid child and throws, and so does a malformed escape.
\<close>

definition crumb_label :: "string \<Rightarrow> 'a node list option" where
  "crumb_label segment =
     (case obj_get labelMap segment of
        Own s \<Rightarrow> Some [Text s]
      | Inherited k \<Rightarrow> if k = ''__proto__'' then None else Some []
      | Absent \<Rightarrow> map_option (\<lambda>s. [Text s]) (decodeURIComponent segment))"

definition crumb_href :: "string list \<Rightarrow> nat \<Rightarrow> string" where
  "crumb_href segments i = ''/'' @ join_char (CHR ''/'') (take (i + 1) segments)"

definition crumb :: "string list \<Rightarrow> nat \<Rightarrow> 'a node option" where
  "crumb segments i =
     (case crumb_label (segments ! i) of
        None \<Rightarrow> None
      | Some label \<Rightarrow>
          Some (el ''Fragment''
            [icon ''ChevronRight'',
             if i = length segments - 1 then el ''span'' label
             else link_to (crumb_href segments i) label]))"

definition Breadcrumbs :: "string \<Rightarrow> 'a node option" where
  "Breadcrumbs pathname =
     (let segments = path_segments pathname
      in if segments = [] \<or> segments = [''dashboard'']
         then Some (el ''nav'' [el ''span'' [Text ''Dashboard'']])
         else
           (let cs = map (crumb segments) [0..<length segments]
            in if None \<in> set cs then None
               else Some (el ''nav'' (link_to ''/dashboard'' [Text ''Dashboard''] # map the cs))))"

subsection \<open>command-palette.tsx\<close>

definition pages :: "nav_item list" where
  "pages =
     [\<lparr>ni_name = ''Dashboard'', ni_href = ''/'', ni_icon = ''LayoutDashboard''\<rparr>,
      \<lparr>ni_name = ''Devices'', ni_href = ''/devices'', ni_icon = ''Cpu''\<rparr>,
      \<lparr>ni_name = ''Audit Log'', ni_href = ''/audit'', ni_icon = ''FileText''\<rparr>,
      \<lparr>ni_name = ''Settings'', ni_href = ''/settings'', ni_icon = ''Settings''\<rparr>]"

record palette =
  cm_open :: bool
  cm_theme :: "string option"
  cm_token :: "string option"
  cm_devices :: "Device list option"

definition palette_key :: query_key where
  "palette_key = [KStr ''devices'']"

definition palette_enabled :: "palette \<Rightarrow> bool" where
  "palette_enabled s = truthy (cm_token s)"

definition palette_fetch :: "'w env \<Rightarrow> palette \<Rightarrow> 'w \<Rightarrow> 'w \<times> (failure + json option)" where
  "palette_fetch e s = listDevices e (case cm_token s of Some t \<Rightarrow> t | None \<Rightarrow> '''')"

text \<open>The second component says whether the browser's default is prevented.\<close>

definition palette_keydown :: "string \<Rightarrow> bool \<Rightarrow> bool \<Rightarrow> palette \<Rightarrow> palette \<times> bool" where
  "palette_keydown key metaKey ctrlKey s =
     (if key = ''k'' \<and> (metaKey \<or> ctrlKey) then (s\<lparr>cm_open := \<not> cm_open s\<rparr>, True) else (s, False))"

datatype palette_act = PaletteOpen bool | PaletteGo string | PaletteTheme

definition runCommand :: "effect \<Rightarrow> palette \<Rightarrow> palette \<times> effect list" where
  "runCommand cmd s = (s\<lparr>cm_open := False\<rparr>, [cmd])"

definition palette_handle :: "palette_act \<Rightarrow> palette \<Rightarrow> palette \<times> effect list" where
  "palette_handle a s =
     (case a of
        PaletteOpen b \<Rightarrow> (s\<lparr>cm_open := b\<rparr>, [])
      | PaletteGo href \<Rightarrow> runCommand (RouterPush href) s
      | PaletteTheme \<Rightarrow> runCommand (SetTheme (other_theme (cm_theme s))) s)"

definition palette_item :: "palette_act \<Rightarrow> palette_act node list \<Rightarrow> palette_act node" where
  "palette_item a cs = El ''CommandItem'' [] [(''onSelect'', Do a)] cs"

definition device_href :: "Device \<Rightarrow> string" where
  "device_href d = ''/devices/'' @ dv_deviceId d"

definition palette_devices :: "Device list \<Rightarrow> palette_act node list" where
  "palette_devices ds =
     [icon ''CommandSeparator'',
      El ''CommandGroup'' [(''heading'', AStr ''Devices'')] []
        (map (\<lambda>d. palette_item (PaletteGo (device_href d))
                    [icon ''Cpu'', Text (dv_hostname d), el ''span'' [Text (dv_state d)]])
           (js_slice 0 10 ds))]"

definition CommandPalette_render :: "palette \<Rightarrow> palette_act node" where
  "CommandPalette_render s =
     el ''Fragment''
       [on_click ''button'' [] (PaletteOpen True)
          [icon ''Search'', el ''span'' [Text ''Search...''], el ''kbd'' [el ''span'' [Text ''Ctrl''], Text ''K'']],
        El ''CommandDialog'' [(''open'', ABool (cm_open s))] [(''onOpenChange'', OnBool PaletteOpen)]
          [El ''CommandInput'' [(''placeholder'', AStr ''Type a command or search...'')] [] [],
           el ''CommandList''
             ([el ''CommandEmpty'' [Text ''No results found.''],
               El ''CommandGroup'' [(''heading'', AStr ''Pages'')] []
                 (map (\<lambda>p. palette_item (PaletteGo (ni_href p)) [icon (ni_icon p), Text (ni_name p)]) pages)]
              @ (case cm_devices s of
                   Some ds \<Rightarrow> if ds \<noteq> [] then palette_devices ds else []
                 | None \<Rightarrow> [])
              @ [icon ''CommandSeparator'',
                 El ''CommandGroup'' [(''heading'', AStr ''Theme'')] []
                   [palette_item PaletteTheme
                      [icon (if cm_theme s = Some ''dark'' then ''Sun'' else ''Moon''),
                       Text (''Toggle '' @ (if cm_theme s = Some ''dark'' then ''Light'' else ''Dark'') @ '' Mode'')]]])]]"

subsection \<open>user-menu.tsx\<close>

record user_menu =
  um_user :: "nav_user option"
  um_logoutUrl :: "string option"
  um_theme :: "string option"

datatype menu_act = MenuDark bool | MenuSignOut

text \<open>
  \<open>await signOut({ redirect: false })\<close> and then the assignment of \<open>window.location.href\<close>; \<open>ok\<close> says
  whether the promise of \<open>signOut\<close> is fulfilled.
\<close>

definition menu_signOut :: "bool \<Rightarrow> user_menu \<Rightarrow> effect list" where
  "menu_signOut ok s =
     SignOut # (if ok then [LocationHref (case um_logoutUrl s of Some u \<Rightarrow> u | None \<Rightarrow> ''/auth/login'')] else [])"

definition menu_handle :: "bool \<Rightarrow> menu_act \<Rightarrow> user_menu \<Rightarrow> effect list" where
  "menu_handle ok a s =
     (case a of
        MenuDark checked \<Rightarrow> [SetTheme (if checked then ''dark'' else ''light'')]
      | MenuSignOut \<Rightarrow> menu_signOut ok s)"

definition UserMenu_render :: "user_menu \<Rightarrow> menu_act node list" where
  "UserMenu_render s =
     (case um_user s of
        None \<Rightarrow> []
      | Some u \<Rightarrow>
          [el ''DropdownMenu''
             [el ''DropdownMenuTrigger'' [avatar (um_user s)],
              el ''DropdownMenuContent''
                [el ''DropdownMenuLabel''
                   [el ''div'' [el ''span'' (text_of (nu_name u)), el ''span'' (text_of (nu_email u))]],
                 icon ''DropdownMenuSeparator'',
                 el ''DropdownMenuItem'' [link_to ''/settings'' [icon ''Settings'', Text ''Org Settings'']],
                 icon ''DropdownMenuSeparator'',
                 el ''div''
                   [el ''div'' [theme_icon (um_theme s), Text ''Dark mode''],
                    El ''Switch'' [(''checked'', ABool (um_theme s = Some ''dark''))]
                      [(''onCheckedChange'', OnBool MenuDark)] []],
                 icon ''DropdownMenuSeparator'',
                 on_click ''DropdownMenuItem'' [] MenuSignOut [icon ''LogOut'', Text ''Sign out'']]]])"

subsection \<open>app/auth/login/page.tsx\<close>

record login_page =
  lo_mounted :: bool
  lo_resolvedTheme :: "string option"

definition login_init :: "string option \<Rightarrow> login_page" where
  "login_init theme = \<lparr>lo_mounted = False, lo_resolvedTheme = theme\<rparr>"

definition login_mount :: "login_page \<Rightarrow> login_page" where
  "login_mount s = s\<lparr>lo_mounted := True\<rparr>"

datatype login_act = LoginTheme | LoginSignIn

definition doSignIn :: "effect list" where
  "doSignIn = [SignInTo ''keycloak'' ''/dashboard'']"

definition login_handle :: "login_act \<Rightarrow> login_page \<Rightarrow> effect list" where
  "login_handle a s =
     (case a of
        LoginTheme \<Rightarrow> [SetTheme (other_theme (lo_resolvedTheme s))]
      | LoginSignIn \<Rightarrow> doSignIn)"

definition Login_render :: "login_page \<Rightarrow> login_act node" where
  "Login_render s =
     el ''div''
       (shown (lo_mounted s)
          (on_click ''button'' [] LoginTheme
             [icon (if lo_resolvedTheme s = Some ''dark'' then ''Sun'' else ''Moon'')])
        @ [el ''div''
             [el ''div''
                [el ''div'' [el ''div'' [], El ''LogoIcon'' [(''size'', AInt 56)] [] []],
                 el ''h1'' [Text ''Edge'', el ''span'' [Text ''Guardian'']],
                 el ''p'' [Text ''Sign in to manage your fleet''],
                 on_click ''Button'' [] LoginSignIn [icon ''LogIn'', Text ''Sign in'']]]])"

subsection \<open>providers.tsx\<close>

definition ThemeCookieSync_effect :: "string option \<Rightarrow> effect list" where
  "ThemeCookieSync_effect resolvedTheme =
     (if truthy resolvedTheme
      then [SetCookie (''eg-theme='' @ the resolvedTheme @ '';path=/;max-age=31536000;SameSite=Lax'')]
      else [])"

definition Providers_render :: "'a node list \<Rightarrow> 'a node" where
  "Providers_render children =
     El ''ThemeProvider'' [(''attribute'', AStr ''class''), (''defaultTheme'', AStr ''dark''), (''enableSystem'', ABool True)] []
       [El ''SessionProvider'' [(''refetchInterval'', AInt (4 * 60)), (''refetchOnWindowFocus'', ABool True)] []
          [El ''QueryClientProvider'' [(''staleTime'', AInt (30 * 1000)), (''retry'', AInt 1)] []
             [el ''TooltipProvider''
                [el ''OrganizationProvider'' (children @ [icon ''Toaster''])]]]]"

subsection \<open>app/(dashboard)/layout.tsx\<close>

record layout =
  ly_desktop :: sidebar
  ly_sheetOpen :: bool
  ly_mobile :: sidebar
  ly_org :: org_ctx
  ly_palette :: palette
  ly_menu :: user_menu
  ly_boundary :: boundary

datatype 'a layout_act =
    Desktop sidebar_act | SheetOpen bool | Mobile sidebar_act | Palette palette_act | Menu menu_act
  | Main "'a boundary_act"

definition MobileSidebar_render :: "layout \<Rightarrow> 'a layout_act node" where
  "MobileSidebar_render s =
     el ''Suspense''
       [El ''Sheet'' [(''open'', ABool (ly_sheetOpen s))] [(''onOpenChange'', OnBool SheetOpen)]
          [el ''SheetTrigger'' [el ''Button'' [icon ''Menu'']],
           El ''SheetContent'' [(''side'', AStr ''left'')] []
             [el ''SheetTitle'' [Text ''Navigation''],
              map_node Mobile (Sidebar_render (ly_mobile s) (ly_org s))]]]"

text \<open>\<open>RefreshErrorGuard\<close> renders nothing; \<open>children\<close> is the page, inside the error boundary.\<close>

definition DashboardLayout_render :: "'a node list \<Rightarrow> layout \<Rightarrow> 'a layout_act node option" where
  "DashboardLayout_render children s =
     map_option
       (\<lambda>trail.
          el ''div''
            [el ''div'' [map_node Desktop (Sidebar_render (ly_desktop s) (ly_org s))],
             el ''div''
               [el ''header''
                  [MobileSidebar_render s, trail, el ''div'' [],
                   el ''Suspense'' [el ''CommandPalette'' [map_node Palette (CommandPalette_render (ly_palette s))]],
                   el ''Suspense'' [el ''UserMenu'' (map (map_node Menu) (UserMenu_render (ly_menu s)))]],
                el ''main''
                  (map (map_node Main)
                     (ErrorBoundary_render (ly_boundary s) None (map (map_node Inner) children)))]])
       (Breadcrumbs (sb_pathname (ly_desktop s)))"

text \<open>
  The handlers of the layout's parts; \<open>page_error\<close> is the page throwing while it renders.  Actions of
  the page itself are the page's.
\<close>

definition layout_handle :: "'a layout_act \<Rightarrow> layout \<Rightarrow> layout \<times> effect list" where
  "layout_handle a s =
     (case a of
        Desktop b \<Rightarrow>
          (case sidebar_handle b (ly_desktop s, ly_org s) of
             ((d, c), ef) \<Rightarrow> (s\<lparr>ly_desktop := d, ly_org := c\<rparr>, ef))
      | SheetOpen b \<Rightarrow> (s\<lparr>ly_sheetOpen := b\<rparr>, [])
      | Mobile b \<Rightarrow>
          (case sidebar_handle b (ly_mobile s, ly_org s) of
             ((d, c), ef) \<Rightarrow> (s\<lparr>ly_mobile := d, ly_org := c\<rparr>, ef))
      | Palette b \<Rightarrow>
          (case palette_handle b (ly_palette s) of (p, ef) \<Rightarrow> (s\<lparr>ly_palette := p\<rparr>, ef))
      | Menu b \<Rightarrow> (s, menu_handle True b (ly_menu s))
      | Main TryAgain \<Rightarrow> (s\<lparr>ly_boundary := boundary_retry (ly_boundary s)\<rparr>, [])
      | Main (Inner b) \<Rightarrow> (s, []))"

definition page_error :: "string \<Rightarrow> layout \<Rightarrow> layout" where
  "page_error msg s = s\<lparr>ly_boundary := getDerivedStateFromError msg\<rparr>"


subsection \<open>Links of a tree, and trees of an embedded component\<close>

fun hrefs :: "'a node \<Rightarrow> string list" where
  "hrefs (Text s) = []"
| "hrefs (El t as hs cs) =
     (if t = ''Link'' then (case attr_of ''href'' as of AStr h \<Rightarrow> [h] | _ \<Rightarrow> []) else [])
     @ concat (map hrefs cs)"

lemma hrefs_el [simp]: "t \<noteq> ''Link'' \<Longrightarrow> hrefs (el t cs) = concat (map hrefs cs)"
  by (simp add: el_def)

lemma hrefs_icon [simp]: "t \<noteq> ''Link'' \<Longrightarrow> hrefs (icon t) = []"
  by (simp add: icon_def)

lemma hrefs_on_click [simp]: "t \<noteq> ''Link'' \<Longrightarrow> hrefs (on_click t as a cs) = concat (map hrefs cs)"
  by (simp add: on_click_def)

lemma hrefs_link_to [simp]: "hrefs (link_to h cs) = h # concat (map hrefs cs)"
  by (simp add: link_to_def)

lemma hrefs_text_of [simp]: "concat (map hrefs (text_of s)) = []"
  by (cases s) (simp_all add: text_of_def)

lemma hrefs_avatar [simp]: "hrefs (avatar u) = []"
  by (simp add: avatar_def)

lemma hrefs_theme_icon [simp]: "hrefs (theme_icon t) = []"
  by (simp add: theme_icon_def icon_def)

lemma hrefs_map_node [simp]: "hrefs (map_node f n) = hrefs n"
proof (induction n)
  case (El t as hs cs)
  then have eq: "map (hrefs \<circ> map_node f) cs = map hrefs cs" by simp
  show ?case by (simp only: node.map hrefs.simps map_map eq)
qed simp

lemma item_values_map_node [simp]: "item_values (map_node f n) = item_values n"
proof (induction n)
  case (El t as hs cs)
  then have eq: "map (item_values \<circ> map_node f) cs = map item_values cs" by simp
  show ?case by (simp only: node.map item_values.simps map_map eq)
qed simp

lemma handler_actions_map_node:
  "handler_actions t (map (map_node f) cs) (map_handler f h) = f ` handler_actions t cs h"
proof (cases h)
  case (OnText g)
  have "map (item_values \<circ> map_node f) cs = map item_values cs" by simp
  with OnText show ?thesis by (auto simp: image_image comp_def)
qed auto

lemma offers_in_map_node [simp]: "offers_in hid (map_node f n) = f ` offers_in hid n"
proof (induction n arbitrary: hid)
  case (El t as hs cs)
  then show ?case
    by (simp add: image_UN image_Un handler_actions_map_node image_image)
qed simp

lemma offers_in_link_to [simp]: "offers_in hid (link_to h cs) = (\<Union>c \<in> set cs. offers_in False c)"
  by (simp add: link_to_def)

lemma offers_in_text_of [simp]: "(\<Union>c \<in> set (text_of s). offers_in hid c) = {}"
  by (cases s) (simp_all add: text_of_def)

lemma offers_in_avatar [simp]: "offers_in hid (avatar u) = {}"
  by (simp add: avatar_def)

lemma offers_in_theme_icon [simp]: "offers_in hid (theme_icon t) = {}"
  by (simp add: theme_icon_def)

subsection \<open>The sidebar\<close>

lemma OrgSwitcher_no_links: "n \<in> set (OrgSwitcher c) \<Longrightarrow> hrefs n = []"
  by (auto simp: OrgSwitcher_def comp_def split: option.splits if_splits)

lemma sidebar_item_plain:
  "hrefs (sidebar_item s i) = [ni_href i]"
  "offers_in hid (sidebar_item s i) = {}"
  by (simp_all add: sidebar_item_def Let_def shown_def)


lemma isActive_segment:
  "CHR ''/'' \<notin> set w \<Longrightarrow>
     isActive (''/'' @ rest) (''/'' @ w) \<longleftrightarrow> hd (split_char (CHR ''/'') rest) = w"
proof (induction rest arbitrary: w)
  case Nil
  then show ?case by (auto simp: isActive_def prefix_def)
next
  case (Cons x xs)
  show ?case
    using Cons.IH [of "tl w"] Cons.prems
    by (cases w) (auto simp: isActive_def split: list.splits)
qed

lemma navigation_segment: "i \<in> set navigation \<Longrightarrow> \<exists>w. ni_href i = ''/'' @ w \<and> CHR ''/'' \<notin> set w"
  by (auto simp: navigation_def)

lemma isActive_item:
  assumes "i \<in> set navigation"
  shows "isActive (''/'' @ rest) (ni_href i) \<longleftrightarrow> ni_href i = ''/'' @ hd (split_char (CHR ''/'') rest)"
proof -
  obtain w where w: "ni_href i = ''/'' @ w" "CHR ''/'' \<notin> set w"
    using navigation_segment [OF assms] by blast
  show ?thesis unfolding w(1) isActive_segment [OF w(2)] by auto
qed

lemma isActive_protected: "i \<in> set navigation \<Longrightarrow> isActive path (ni_href i) \<Longrightarrow> mw_matcher path"
  by (auto simp: navigation_def isActive_def mw_matcher_def prefix_def)

lemma filter_key_at_most_one: "distinct (map f xs) \<Longrightarrow> length (filter (\<lambda>x. f x = y) xs) \<le> 1"
proof (induction xs)
  case (Cons x xs)
  have "filter (\<lambda>z. f z = y) xs = []" if "f x = y"
    using Cons.prems that by (simp add: filter_empty_conv) (metis image_eqI)
  with Cons show ?case by simp
qed simp

text \<open>
  The sidebar highlights the section of the page: for every path the highlighted entry is the
  one whose address is the first segment of the path, so there is at most one, and a path that has
  one is guarded by the middleware.
\<close>

theorem sidebar_highlight:
  "filter (\<lambda>i. isActive (''/'' @ rest) (ni_href i)) navigation
     = filter (\<lambda>i. ni_href i = ''/'' @ hd (split_char (CHR ''/'') rest)) navigation
   \<and> length (filter (\<lambda>i. isActive (''/'' @ rest) (ni_href i)) navigation) \<le> 1
   \<and> (filter (\<lambda>i. isActive (''/'' @ rest) (ni_href i)) navigation = [] \<or> mw_matcher (''/'' @ rest))"
proof (intro conjI)
  show eq: "filter (\<lambda>i. isActive (''/'' @ rest) (ni_href i)) navigation
     = filter (\<lambda>i. ni_href i = ''/'' @ hd (split_char (CHR ''/'') rest)) navigation"
    by (rule filter_cong [OF refl isActive_item])
  show "length (filter (\<lambda>i. isActive (''/'' @ rest) (ni_href i)) navigation) \<le> 1"
    unfolding eq by (rule filter_key_at_most_one) (simp add: navigation_def)
  show "filter (\<lambda>i. isActive (''/'' @ rest) (ni_href i)) navigation = [] \<or> mw_matcher (''/'' @ rest)"
    using isActive_protected [of _ "''/'' @ rest"] by (auto simp: filter_empty_conv)
qed

definition sidebar_inv :: "sidebar \<Rightarrow> bool" where
  "sidebar_inv s \<longleftrightarrow>
     (if sb_mounted s then sb_collapsed s = (sb_stored s = Some ''true'') else \<not> sb_collapsed s)"

interpretation sb: state_machine
  "\<lambda>s. \<exists>path theme u stored. s = sidebar_init path theme u stored" sidebar_step sidebar_inv
proof
  show "sidebar_inv s" if "\<exists>path theme u stored. s = sidebar_init path theme u stored" for s
    using that by (auto simp: sidebar_inv_def sidebar_init_def)
  show "sidebar_inv t" if "sidebar_inv s" "sidebar_step s t" for s t
    using that(2,1)
    by cases (auto simp: sidebar_inv_def sidebar_mount_def toggleCollapsed_def Let_def)
qed

text \<open>
  The collapsed state of the sidebar survives a reload: after any sequence of toggles,
  navigations and theme changes, a fresh page that reads the local storage left behind comes up
  collapsed exactly when the sidebar was collapsed.
\<close>

theorem sidebar_collapse_persists:
  assumes "sidebar_reach s" and "sb_mounted s"
  shows "sb_collapsed (sidebar_mount (sidebar_init path theme u (sb_stored s))) = sb_collapsed s"
  using sb.reach_inv [OF assms(1)] assms(2)
  by (auto simp: sidebar_inv_def sidebar_mount_def sidebar_init_def Let_def)

definition sidebar_toggled :: sidebar where
  "sidebar_toggled = fst (toggleCollapsed (sidebar_mount (sidebar_init ''/devices'' None None None)))"

lemma reach_sidebar_toggled: "sidebar_reach sidebar_toggled"
proof -
  have "sidebar_reach (sidebar_init ''/devices'' None None None)" by (rule reach_init) blast
  then have "sidebar_reach (sidebar_mount (sidebar_init ''/devices'' None None None))"
    by (rule reach_step) (rule sidebar_step.mount, simp add: sidebar_init_def)
  then show ?thesis
    unfolding sidebar_toggled_def
    by (rule reach_step) (rule sidebar_step.toggle, simp add: sidebar_init_def sidebar_mount_def)
qed

theorem sidebar_collapse_persists_witness:
  "sb_collapsed (sidebar_mount (sidebar_init ''/audit'' None None (sb_stored sidebar_toggled)))"
  using sidebar_collapse_persists [OF reach_sidebar_toggled, of "''/audit''" None None]
  by (simp add: sidebar_toggled_def sidebar_mount_def sidebar_init_def toggleCollapsed_def Let_def)

lemma sidebar_logo_offers [simp]:
  "offers_in hid (sidebar_logo s) = (if sb_collapsed s then {} else {ToggleCollapsed})"
  by (simp add: sidebar_logo_def)

lemma sidebar_bottom_offers [simp]:
  "offers_in hid (sidebar_bottom s) =
     (if \<not> sb_mounted s then {} else if sb_collapsed s then {ToggleTheme} else {SetDark True, SetDark False})"
  by (cases "sb_user s") (simp_all add: sidebar_bottom_def)

lemma sidebar_part_links [simp]:
  "hrefs (sidebar_logo s) = [''/dashboard'']" "hrefs (sidebar_bottom s) = []"
  by (simp_all add: sidebar_logo_def) (cases "sb_user s"; simp add: sidebar_bottom_def shown_def)

lemma sidebar_links: "hrefs (Sidebar_render s c) = ''/dashboard'' # map ni_href navigation"
proof -
  have "concat (map (hrefs \<circ> map_node OrgAct) (OrgSwitcher c)) = []"
    using OrgSwitcher_no_links [of _ c] by simp
  then show ?thesis
    by (simp add: Sidebar_render_def shown_def sidebar_item_plain comp_def concat_map_singleton)
qed

lemma sidebar_offers:
  "offers_in hid (Sidebar_render s c) =
     {ToggleCollapsed}
     \<union> (if \<not> sb_mounted s then {} else if sb_collapsed s then {ToggleTheme} else {SetDark True, SetDark False})
     \<union> (if sb_collapsed s then {} else \<Union>n \<in> set (OrgSwitcher c). OrgAct ` offers n)"
  by (cases "sb_collapsed s") (simp_all add: Sidebar_render_def sidebar_item_plain offers_def Un_commute)

text \<open>
  What the sidebar offers: collapsing and expanding always, a theme control once the page is
  mounted, the organizations only while it is expanded; its links are the dashboard and the five
  sections, and the middleware guards all of them.
\<close>

theorem sidebar_controls:
  "offers (Sidebar_render s c) =
     {ToggleCollapsed}
     \<union> (if \<not> sb_mounted s then {} else if sb_collapsed s then {ToggleTheme} else {SetDark True, SetDark False})
     \<union> (if sb_collapsed s then {} else \<Union>n \<in> set (OrgSwitcher c). OrgAct ` offers n)
   \<and> hrefs (Sidebar_render s c) = ''/dashboard'' # map ni_href navigation
   \<and> list_all mw_matcher (hrefs (Sidebar_render s c))"
proof -
  have "list_all mw_matcher (''/dashboard'' # map ni_href navigation)"
    by (simp add: navigation_def mw_matcher_def)
  then show ?thesis unfolding sidebar_links offers_def [of "Sidebar_render s c"] sidebar_offers by simp
qed

subsection \<open>The breadcrumbs\<close>

lemma split_char_parts: "w \<in> set (split_char c s) \<Longrightarrow> c \<notin> set w"
proof (induction s arbitrary: w)
  case (Cons x xs)
  then show ?case by (auto split: if_splits list.splits)
qed simp

lemma path_segments_parts: "w \<in> set (path_segments p) \<Longrightarrow> w \<noteq> [] \<and> CHR ''/'' \<notin> set w"
  by (auto simp: path_segments_def dest: split_char_parts)

lemma path_segments_join:
  assumes "ws \<noteq> []" and "\<And>w. w \<in> set ws \<Longrightarrow> w \<noteq> [] \<and> CHR ''/'' \<notin> set w"
  shows "path_segments (''/'' @ join_char (CHR ''/'') ws) = ws"
  using assms by (simp add: path_segments_def split_join_char)

lemma path_segments_crumb:
  assumes "i < length segs" and "segs = path_segments p"
  shows "path_segments (crumb_href segs i) = take (i + 1) segs"
  unfolding crumb_href_def
  by (rule path_segments_join) (use assms in \<open>auto dest!: in_set_takeD path_segments_parts\<close>)

lemma known_labels_decode:
  "list_all (\<lambda>w. decodeURIComponent w \<noteq> None) (map fst labelMap @ object_prototype_keys)"
  by (simp add: labelMap_def object_prototype_keys_def)

lemma crumb_label_None:
  "crumb_label w = (None :: 'a node list option) \<longleftrightarrow> w = ''__proto__'' \<or> decodeURIComponent w = None"
proof (cases "w \<in> set (map fst labelMap @ object_prototype_keys)")
  case True
  then have "decodeURIComponent w \<noteq> None"
    using known_labels_decode by (auto simp: list_all_iff)
  with True show ?thesis
    by (auto simp: crumb_label_def obj_get_def labelMap_def object_prototype_keys_def)
next
  case False
  then have "obj_get labelMap w = Absent" "w \<noteq> ''__proto__''"
    by (auto simp: obj_get_def map_of_eq_None_iff [THEN iffD2] object_prototype_keys_def image_iff
        split: option.split dest: map_of_SomeD)
  then show ?thesis by (simp add: crumb_label_def)
qed

lemma crumb_None: "crumb segs i = (None :: 'a node option) \<longleftrightarrow> crumb_label (segs ! i) = (None :: 'a node list option)"
  by (simp add: crumb_def split: option.split)

lemma crumb_label_links: "crumb_label w = Some l \<Longrightarrow> concat (map hrefs l) = []"
  by (auto simp: crumb_label_def split: slot.splits if_splits)

lemma crumb_links:
  assumes "crumb segs i = Some n"
  shows "hrefs n = (if i = length segs - 1 then [] else [crumb_href segs i])"
  using assms crumb_label_links by (fastforce simp: crumb_def split: option.splits if_splits)

lemma concat_but_last: "concat (map (\<lambda>i. if i = n then [] else [f i]) [0..<Suc n]) = map f [0..<n]"
proof -
  have "map (\<lambda>i. if i = n then [] else [f i]) [0..<n] = map (\<lambda>i. [f i]) [0..<n]" by simp
  then show ?thesis by (simp only: upt_Suc_append map_append concat_append) (simp add: concat_map_singleton)
qed

lemma known_crumbs_fine: "w = ''dashboard'' \<Longrightarrow> w \<noteq> ''__proto__'' \<and> decodeURIComponent w \<noteq> None"
  by simp

text \<open>
  C37. When the breadcrumbs fail: rendering throws exactly when a segment of the path is a malformed
  percent escape or the word \<open>__proto__\<close>.  Since device links paste the identifier unescaped, the page
  of a device named \<open>50%\<close> is such a path, and the breadcrumbs stand outside the error boundary.
\<close>

theorem breadcrumbs_fail_iff:
  "(Breadcrumbs path = (None :: 'a node option) \<longleftrightarrow>
      (\<exists>w \<in> set (path_segments path). w = ''__proto__'' \<or> decodeURIComponent w = None))
   \<and> Breadcrumbs (device_href (d\<lparr>dv_deviceId := ''50%''\<rparr>)) = (None :: 'a node option)"
proof -
  have iff: "Breadcrumbs p = (None :: 'a node option) \<longleftrightarrow>
      (\<exists>w \<in> set (path_segments p). w = ''__proto__'' \<or> decodeURIComponent w = None)" for p
  proof (cases "path_segments p = [] \<or> path_segments p = [''dashboard'']")
    case True
    then show ?thesis by (auto simp: Breadcrumbs_def dest: known_crumbs_fine)
  next
    case False
    then have "Breadcrumbs p = (None :: 'a node option) \<longleftrightarrow>
        (\<exists>i < length (path_segments p). crumb (path_segments p) i = (None :: 'a node option))"
      by (auto simp: Breadcrumbs_def Let_def image_iff eq_commute [of None])
    then show ?thesis unfolding crumb_None crumb_label_None by (metis in_set_conv_nth)
  qed
  have "''50%'' \<in> set (path_segments (device_href (d\<lparr>dv_deviceId := ''50%''\<rparr>)))"
    by (simp add: path_segments_def device_href_def)
  then have "Breadcrumbs (device_href (d\<lparr>dv_deviceId := ''50%''\<rparr>)) = (None :: 'a node option)"
    unfolding iff by (rule bexI [rotated]) simp
  then show ?thesis using iff by blast
qed

text \<open>
  Following the trail: for a path with at least two segments the breadcrumbs link to the
  dashboard and to every proper ancestor of the page, outermost first, and following the i-th of
  those links leads to the path that has the first i segments of this one.
\<close>

theorem breadcrumbs_trail:
  fixes n :: "'a node"
  assumes "Breadcrumbs path = Some n" and "segs = path_segments path" and "2 \<le> length segs"
  shows "hrefs n = ''/dashboard'' # map (crumb_href segs) [0..<length segs - 1]
       \<and> map (\<lambda>i. path_segments (crumb_href segs i)) [0..<length segs - 1]
           = map (\<lambda>i. take (i + 1) segs) [0..<length segs - 1]"
proof -
  let ?cs = "map (crumb segs) [0..<length segs] :: 'a node option list"
  have ne: "segs \<noteq> []" "segs \<noteq> [''dashboard'']" using assms(3) by auto
  have ok: "None \<notin> set ?cs" and n: "n = el ''nav'' (link_to ''/dashboard'' [Text ''Dashboard''] # map the ?cs)"
    using assms(1) ne unfolding Breadcrumbs_def Let_def assms(2) [symmetric]
    by (simp_all split: if_splits)
  have each: "hrefs (the (crumb segs i :: 'a node option)) = (if i = length segs - 1 then [] else [crumb_href segs i])"
    if "i < length segs" for i
    proof -
    have "crumb segs i \<in> set ?cs" using that by simp
    with ok obtain m :: "'a node" where "crumb segs i = Some m" by (metis option.exhaust)
    then show ?thesis using crumb_links by fastforce
  qed
  have "concat (map (\<lambda>i. if i = length segs - 1 then [] else [crumb_href segs i]) [0..<length segs])
      = map (crumb_href segs) [0..<length segs - 1]"
  proof -
    have "Suc (length segs - 1) = length segs" using assms(3) by simp
    then show ?thesis using concat_but_last [of "length segs - 1" "crumb_href segs"] by (simp only:)
  qed
  moreover have "map (\<lambda>i. hrefs (the (crumb segs i :: 'a node option))) [0..<length segs]
      = map (\<lambda>i. if i = length segs - 1 then [] else [crumb_href segs i]) [0..<length segs]"
    by (rule map_cong) (simp_all add: each)
  ultimately have "concat (map (\<lambda>i. hrefs (the (crumb segs i :: 'a node option))) [0..<length segs])
      = map (crumb_href segs) [0..<length segs - 1]" by (simp only:)
  then have "hrefs n = ''/dashboard'' # map (crumb_href segs) [0..<length segs - 1]"
    by (simp add: n comp_def)
  then show ?thesis using path_segments_crumb [OF _ assms(2)] by (simp cong: map_cong)
qed

theorem breadcrumbs_trail_witness:
  "\<exists>n :: unit node. Breadcrumbs ''/devices/pi-1/logs'' = Some n
     \<and> hrefs n = [''/dashboard'', ''/devices'', ''/devices/pi-1'']"
proof -
  have segs: "path_segments ''/devices/pi-1/logs'' = [''devices'', ''pi-1'', ''logs'']"
    by (simp add: path_segments_def)
  obtain n :: "unit node" where n: "Breadcrumbs ''/devices/pi-1/logs'' = Some n"
    by (simp add: Breadcrumbs_def segs upt_rec crumb_def crumb_label_def obj_get_def labelMap_def
        object_prototype_keys_def Let_def)
  have "hrefs n = ''/dashboard'' # map (crumb_href [''devices'', ''pi-1'', ''logs'']) [0..<2]"
    using breadcrumbs_trail [OF n refl] by (simp add: segs upt_rec)
  with n show ?thesis by (simp add: upt_rec crumb_href_def)
qed


subsection \<open>The command palette and the user menu\<close>

lemma palette_offers:
  "offers_in hid (CommandPalette_render s) =
     {PaletteOpen True, PaletteOpen False}
     \<union> (if cm_open s
        then PaletteGo ` (ni_href ` set pages)
             \<union> (case cm_devices s of Some ds \<Rightarrow> (PaletteGo \<circ> device_href) ` set (take 10 ds) | None \<Rightarrow> {})
             \<union> {PaletteTheme}
        else {})"
proof (cases "cm_open s")
  case True
  have sl: "js_slice 0 10 ds = take 10 ds" for ds :: "Device list"
    by (simp add: js_slice_nonneg)
  show ?thesis
  proof (cases "cm_devices s")
    case None
    with True show ?thesis by (auto simp: CommandPalette_render_def palette_item_def)
  next
    case (Some ds)
    with True show ?thesis
      by (cases "ds = []") (auto simp: CommandPalette_render_def palette_item_def palette_devices_def sl)
  qed
next
  case False
  then show ?thesis by (auto simp: CommandPalette_render_def)
qed

text \<open>
  The command palette: while it is closed it can only be opened (by its button or by the
  shortcut, which toggles it); while it is open it offers the four pages, the pages of the first ten
  devices and the theme toggle, and every command it runs closes it and does one thing.
\<close>

theorem palette_commands:
  "offers (CommandPalette_render s) =
     {PaletteOpen True, PaletteOpen False}
     \<union> (if cm_open s
        then PaletteGo ` (ni_href ` set pages)
             \<union> (case cm_devices s of Some ds \<Rightarrow> (PaletteGo \<circ> device_href) ` set (take 10 ds) | None \<Rightarrow> {})
             \<union> {PaletteTheme}
        else {})
   \<and> palette_handle (PaletteGo h) s = (s\<lparr>cm_open := False\<rparr>, [RouterPush h])
   \<and> palette_handle PaletteTheme s =
       (s\<lparr>cm_open := False\<rparr>, [SetTheme (if cm_theme s = Some ''dark'' then ''light'' else ''dark'')])
   \<and> cm_open (fst (palette_keydown ''k'' True ctrl s)) = (\<not> cm_open s)
   \<and> cm_open (fst (palette_keydown ''k'' meta True s)) = (\<not> cm_open s)
   \<and> palette_keydown key False False s = (s, False)"
  unfolding offers_def palette_offers
  by (simp add: palette_handle_def runCommand_def palette_keydown_def other_theme_def)

text \<open>
  Signing out ends both sessions in order: the user menu first clears the session of the
  application and, only if that succeeded, leaves for Keycloak's logout address of this session,
  which identifies it by its id token when there is one; the menu is offered exactly to a user with
  a session.
\<close>

theorem sign_out_leaves_to_provider:
  "um_logoutUrl m = se_logoutUrl (session_callback e t s) \<Longrightarrow>
     (\<exists>q. menu_handle ok MenuSignOut m =
            (if ok then [SignOut, LocationHref (issuer e @ ''/protocol/openid-connect/logout?'' @ q)] else [SignOut])
        \<and> parse_query q = logout_params e t)
   \<and> (MenuSignOut \<in> (\<Union>n \<in> set (UserMenu_render m). offers n) \<longleftrightarrow> um_user m \<noteq> None)"
proof -
  assume url: "um_logoutUrl m = se_logoutUrl (session_callback e t s)"
  have "um_logoutUrl m = Some (issuer e @ ''/protocol/openid-connect/logout?'' @ search_params (logout_params e t))"
    unfolding url by (simp add: session_callback_def logoutUrl_def Let_def)
  then have "\<exists>q. menu_handle ok MenuSignOut m =
       (if ok then [SignOut, LocationHref (issuer e @ ''/protocol/openid-connect/logout?'' @ q)] else [SignOut])
     \<and> parse_query q = logout_params e t"
    by (intro exI [of _ "search_params (logout_params e t)"])
       (simp add: menu_handle_def menu_signOut_def parse_search_params)
  moreover have "MenuSignOut \<in> (\<Union>n \<in> set (UserMenu_render m). offers n) \<longleftrightarrow> um_user m \<noteq> None"
    by (cases "um_user m") (simp_all add: UserMenu_render_def offers_def)
  ultimately show ?thesis by blast
qed

theorem sign_out_leaves_to_provider_witness:
  "\<exists>q. menu_handle True MenuSignOut
          \<lparr>um_user = None, um_logoutUrl = se_logoutUrl (session_callback env_default jwt_fresh session_empty),
           um_theme = None\<rparr>
      = [SignOut, LocationHref (issuer env_default @ ''/protocol/openid-connect/logout?'' @ q)]
     \<and> parse_query q = logout_params env_default jwt_fresh"
  using sign_out_leaves_to_provider
    [of "\<lparr>um_user = None, um_logoutUrl = se_logoutUrl (session_callback env_default jwt_fresh session_empty),
          um_theme = None\<rparr>" env_default jwt_fresh session_empty True]
  by simp

subsection \<open>The layout\<close>

lemma boundary_offers:
  "(\<Union>n \<in> set (ErrorBoundary_render b None (map (map_node Inner) children)). offers_in False n) =
     (if eb_hasError b then {TryAgain} else Inner ` (\<Union>n \<in> set children. offers_in False n))"
  by (auto simp: ErrorBoundary_render_def)

lemma crumb_label_offers: "crumb_label w = Some l \<Longrightarrow> (\<Union>c \<in> set l. offers_in hid c) = {}"
  by (auto simp: crumb_label_def split: slot.splits if_splits)

lemma crumb_offers: "crumb segs i = Some n \<Longrightarrow> offers_in hid n = {}"
  using crumb_label_offers by (fastforce simp: crumb_def split: option.splits if_splits)

lemma breadcrumbs_offers:
  fixes n :: "'a node"
  assumes "Breadcrumbs p = Some n"
  shows "offers_in hid n = {}"
proof (cases "path_segments p = [] \<or> path_segments p = [''dashboard'']")
  case True
  with assms show ?thesis by (auto simp: Breadcrumbs_def)
next
  case False
  let ?cs = "map (crumb (path_segments p)) [0..<length (path_segments p)] :: 'a node option list"
  from False assms have ok: "None \<notin> set ?cs"
    and n: "n = el ''nav'' (link_to ''/dashboard'' [Text ''Dashboard''] # map the ?cs)"
    unfolding Breadcrumbs_def Let_def by (simp_all split: if_splits)
  have "offers_in False (the c) = {}" if "c \<in> set ?cs" for c :: "'a node option"
  proof -
    obtain i where i: "c = crumb (path_segments p) i" using \<open>c \<in> set ?cs\<close> by auto
    moreover have "c \<noteq> None" using ok \<open>c \<in> set ?cs\<close> by metis
    ultimately obtain m where "crumb (path_segments p) i = Some m" "c = Some m" by auto
    then show ?thesis by (simp add: crumb_offers)
  qed
  then show ?thesis by (simp add: n)
qed

lemma layout_offers:
  fixes children :: "'a node list"
  assumes "DashboardLayout_render children s = Some n"
  shows "offers n =
     Desktop ` offers (Sidebar_render (ly_desktop s) (ly_org s)) \<union> offers_in False (MobileSidebar_render s)
     \<union> Palette ` offers (CommandPalette_render (ly_palette s))
     \<union> Menu ` (\<Union>m \<in> set (UserMenu_render (ly_menu s)). offers m)
     \<union> Main ` (if eb_hasError (ly_boundary s) then {TryAgain}
               else Inner ` (\<Union>c \<in> set children. offers c))"
proof -
  obtain trail :: "'a layout_act node" where trail: "Breadcrumbs (sb_pathname (ly_desktop s)) = Some trail"
    using assms by (auto simp: DashboardLayout_render_def)
  have main: "(\<Union>n \<in> set (ErrorBoundary_render (ly_boundary s) None (map (map_node Inner) children)).
        Main ` offers_in False n)
      = Main ` (if eb_hasError (ly_boundary s) then {TryAgain} else Inner ` (\<Union>c \<in> set children. offers_in False c))"
    by (simp only: image_UN [symmetric] boundary_offers)
  have "n = the (DashboardLayout_render children s)" using assms by simp
  then show ?thesis
    unfolding DashboardLayout_render_def trail
    by (simp add: breadcrumbs_offers [OF trail] offers_def main image_UN Un_ac)
qed

lemma layout_links:
  "DashboardLayout_render children s = Some n \<Longrightarrow>
     set (hrefs (Sidebar_render (ly_desktop s) (ly_org s))) \<subseteq> set (hrefs n)"
  by (auto simp: DashboardLayout_render_def)

lemma layout_renders_iff:
  "(\<exists>n. DashboardLayout_render children s = Some n) \<longleftrightarrow>
     Breadcrumbs (sb_pathname (ly_desktop s)) \<noteq> (None :: 'a layout_act node option)"
  for children :: "'a node list"
  by (auto simp: DashboardLayout_render_def)

lemma layout_act_images [simp]:
  "Main a \<in> Main ` A \<longleftrightarrow> a \<in> A" "Main a \<notin> Desktop ` B" "Main a \<notin> Palette ` C" "Main a \<notin> Menu ` D"
  by auto

lemma mobile_offers_no_page: "Main a \<notin> offers_in False (MobileSidebar_render s)"
  by (auto simp: MobileSidebar_render_def)

lemma page_error_frame [simp]:
  "ly_desktop (page_error msg s) = ly_desktop s" "ly_org (page_error msg s) = ly_org s"
  "ly_palette (page_error msg s) = ly_palette s" "ly_menu (page_error msg s) = ly_menu s"
  "eb_hasError (ly_boundary (page_error msg s))"
  by (simp_all add: page_error_def getDerivedStateFromError_def)

lemma try_again_frame [simp]:
  "ly_desktop (fst (layout_handle (Main TryAgain) s)) = ly_desktop s"
  "\<not> eb_hasError (ly_boundary (fst (layout_handle (Main TryAgain) s)))"
  by (simp_all add: layout_handle_def boundary_retry_def)

text \<open>
  C33. An error of a page is contained: when the page throws, the layout is still rendered, nothing of
  the page can be triggered but "Try again", and every control and link of the desktop sidebar and
  every control of the palette is offered as before; trying again offers the page's controls again.
\<close>

theorem layout_contains_error:
  fixes children :: "'a node list"
  assumes "DashboardLayout_render children s = Some n"
  shows "\<exists>n1 n2. DashboardLayout_render children (page_error msg s) = Some n1
     \<and> DashboardLayout_render children (fst (layout_handle (Main TryAgain :: 'a layout_act) (page_error msg s))) = Some n2
     \<and> (\<forall>a. Main a \<in> offers n1 \<longleftrightarrow> a = TryAgain)
     \<and> Desktop ` offers (Sidebar_render (ly_desktop s) (ly_org s)) \<subseteq> offers n1
     \<and> Palette ` offers (CommandPalette_render (ly_palette s)) \<subseteq> offers n1
     \<and> set (hrefs (Sidebar_render (ly_desktop s) (ly_org s))) \<subseteq> set (hrefs n1)
     \<and> (\<forall>a. Main a \<in> offers n2 \<longleftrightarrow> a \<in> Inner ` (\<Union>c \<in> set children. offers c))"
proof -
  let ?e = "page_error msg s" and ?r = "fst (layout_handle (Main TryAgain :: 'a layout_act) (page_error msg s))"
  have "\<exists>n. DashboardLayout_render children s = Some n" using assms by blast
  then obtain n1 n2 where n1: "DashboardLayout_render children ?e = Some n1"
    and n2: "DashboardLayout_render children ?r = Some n2"
    using layout_renders_iff [of children] page_error_frame(1) try_again_frame(1) by metis
  have "Main a \<in> offers n1 \<longleftrightarrow> a = TryAgain" "Main a \<in> offers n2 \<longleftrightarrow> a \<in> Inner ` (\<Union>c \<in> set children. offers c)" for a
    using mobile_offers_no_page [of a] unfolding layout_offers [OF n1] layout_offers [OF n2]
    by (simp_all only: Un_iff layout_act_images page_error_frame try_again_frame if_True if_False) simp_all
  moreover have "Desktop ` offers (Sidebar_render (ly_desktop s) (ly_org s)) \<subseteq> offers n1"
    "Palette ` offers (CommandPalette_render (ly_palette s)) \<subseteq> offers n1"
    unfolding layout_offers [OF n1] by auto
  moreover have "set (hrefs (Sidebar_render (ly_desktop s) (ly_org s))) \<subseteq> set (hrefs n1)"
    using layout_links [OF n1] by simp
  ultimately show ?thesis using n1 n2 by blast
qed

definition layout_sample :: layout where
  "layout_sample =
     \<lparr>ly_desktop = sidebar_toggled, ly_sheetOpen = False, ly_mobile = sidebar_toggled,
      ly_org = org_ctx_init True None,
      ly_palette = \<lparr>cm_open = False, cm_theme = None, cm_token = None, cm_devices = None\<rparr>,
      ly_menu = \<lparr>um_user = None, um_logoutUrl = None, um_theme = None\<rparr>,
      ly_boundary = boundary_init\<rparr>"

lemma layout_sample_renders: "\<exists>n. DashboardLayout_render children layout_sample = Some n"
  for children :: "'a node list"
proof -
  have "path_segments ''/devices'' = [''devices'']" by (simp add: path_segments_def)
  then have "Breadcrumbs ''/devices'' \<noteq> (None :: 'a layout_act node option)"
    by (simp add: Breadcrumbs_def Let_def crumb_def crumb_label_def obj_get_def labelMap_def)
  moreover have "sb_pathname (ly_desktop layout_sample) = ''/devices''"
    by (simp add: layout_sample_def sidebar_toggled_def toggleCollapsed_def sidebar_mount_def
        sidebar_init_def Let_def)
  ultimately show ?thesis using layout_renders_iff [of children layout_sample] by auto
qed

theorem layout_contains_error_witness:
  "\<exists>n. DashboardLayout_render [on_click ''Button'' [] (7 :: int) []] (page_error ''boom'' layout_sample) = Some n
     \<and> (\<forall>a. Main a \<in> offers n \<longleftrightarrow> a = TryAgain)"
proof -
  obtain n where "DashboardLayout_render [on_click ''Button'' [] (7 :: int) []] layout_sample = Some n"
    using layout_sample_renders by blast
  from layout_contains_error [OF this, of "''boom''"] show ?thesis
    by (elim exE conjE) (rule exI, rule conjI, assumption, assumption)
qed


end
