(* ===== verification/Landing.thy ===== *)
theory Landing
  imports Navigation
begin

text \<open>
  The behaviour of the public landing page: the navigation bar and the sign-in button, the elements
  that appear when they are scrolled into view (src/ui/components/landing/scroll-reveal.tsx), the
  endless rows of platform names (marquee-section.tsx), the typed terminal session
  (terminal-section.tsx) and the data of the discovery picture (discovery-section.tsx).

  Times are milliseconds and positions pixels, both exact rationals; most of the trees are in
  \<open>HomePage\<close>.  An intersection observer is the list of the elements it observes, and its callback
  gets a list of entries, an element with its \<open>isIntersecting\<close> flag.
\<close>

subsection \<open>sign-in-button.tsx and navbar.tsx\<close>

definition SignInButton_click :: "effect list" where
  "SignInButton_click = [SignInTo ''keycloak'' ''/dashboard'']"

record navbar =
  nb_scrolled :: bool
  nb_mounted :: bool
  nb_resolvedTheme :: "string option"

definition navbar_init :: "string option \<Rightarrow> navbar" where
  "navbar_init theme = \<lparr>nb_scrolled = False, nb_mounted = False, nb_resolvedTheme = theme\<rparr>"

definition navbar_scroll :: "rat \<Rightarrow> navbar \<Rightarrow> navbar" where
  "navbar_scroll scrollY s = s\<lparr>nb_scrolled := (scrollY > 20)\<rparr>"

definition navbar_mount :: "rat \<Rightarrow> navbar \<Rightarrow> navbar" where
  "navbar_mount scrollY s = navbar_scroll scrollY (s\<lparr>nb_mounted := True\<rparr>)"

datatype navbar_act = NavTop | NavTheme | NavStart

definition navbar_handle :: "navbar_act \<Rightarrow> navbar \<Rightarrow> effect list" where
  "navbar_handle a s =
     (case a of
        NavTop \<Rightarrow> [ScrollToTop]
      | NavTheme \<Rightarrow> [SetTheme (other_theme (nb_resolvedTheme s))]
      | NavStart \<Rightarrow> [SignInTo ''keycloak'' ''/dashboard''])"

definition navbar_links :: "(string \<times> string) list" where
  "navbar_links = [(''Features'', ''features''), (''Discovery'', ''discovery''), (''Demo'', ''terminal'')]"

definition LandingNavbar_render :: "navbar \<Rightarrow> navbar_act node" where
  "LandingNavbar_render s =
     El ''nav''
       [(''className'', AStr (''fixed top-0 z-50 w-full transition-all duration-500 ''
           @ (if nb_scrolled s
              then ''backdrop-blur-xl bg-background/80 border-b border-border/50 shadow-sm''
              else ''bg-transparent border-b border-transparent'')))] []
       [el ''div''
          [el ''div''
             (map (\<lambda>(label, i). El ''a'' [(''href'', AStr (''#'' @ i))] [] [Text label]) navbar_links),
           el ''div'' [],
           on_click ''a'' [(''href'', AStr ''#'')] NavTop
             [El ''LogoIcon'' [(''size'', AInt 44)] [] [], el ''span'' [Text ''Edge'', el ''span'' [Text ''Guardian'']]],
           el ''div''
             (shown (nb_mounted s)
                (on_click ''button'' [] NavTheme
                   [icon (if nb_resolvedTheme s = Some ''dark'' then ''Sun'' else ''Moon'')])
              @ [on_click ''Button'' [] NavStart [Text ''Get Started'']])]]"

subsection \<open>scroll-reveal.tsx\<close>

record reveal_state =
  rv_observed :: "nat list"
  rv_revealed :: "nat list"

definition reveal_mount :: "nat list \<Rightarrow> reveal_state" where
  "reveal_mount els = \<lparr>rv_observed = els, rv_revealed = []\<rparr>"

definition reveal_entry :: "nat \<times> bool \<Rightarrow> reveal_state \<Rightarrow> reveal_state" where
  "reveal_entry e s =
     (case e of (target, isIntersecting) \<Rightarrow>
        if isIntersecting
        then \<lparr>rv_observed = set_delete target (rv_observed s), rv_revealed = set_add target (rv_revealed s)\<rparr>
        else s)"

definition reveal_callback :: "(nat \<times> bool) list \<Rightarrow> reveal_state \<Rightarrow> reveal_state" where
  "reveal_callback entries s = fold reveal_entry entries s"

subsection \<open>marquee-section.tsx\<close>

record PlatformItem =
  pi_name :: string
  pi_detail :: "string option"
  pi_icon :: string

definition OS_ITEMS :: "PlatformItem list" where
  "OS_ITEMS =
     map (\<lambda>(n, i). \<lparr>pi_name = n, pi_detail = None, pi_icon = i\<rparr>)
       [(''Linux'', ''linux''), (''Raspberry Pi'', ''raspberrypi''), (''Ubuntu'', ''ubuntu''),
        (''Debian'', ''debian''), (''Alpine Linux'', ''alpine''), (''NVIDIA Jetson'', ''nvidia''),
        (''Intel NUC'', ''intel''), (''ESP32'', ''espressif''), (''Android'', ''android'')]"

definition ARCH_ITEMS :: "PlatformItem list" where
  "ARCH_ITEMS =
     map (\<lambda>(n, d, i). \<lparr>pi_name = n, pi_detail = Some d, pi_icon = i\<rparr>)
       [(''ARM64'', ''aarch64'', ''arm''), (''ARMv7'', ''armhf'', ''arm''),
        (''x86_64'', ''amd64'', ''intel''), (''RISC-V'', ''riscv64'', ''riscv'')]"

text \<open>\<open>while (repeated.length < 24) repeated.push(...items)\<close>; not returning is \<open>None\<close>.\<close>

partial_function (option) repeat_items :: "'a list \<Rightarrow> 'a list \<Rightarrow> 'a list option" where
  "repeat_items items repeated =
     (if length repeated < 24 then repeat_items items (repeated @ items) else Some repeated)"

datatype marquee_dir = ToLeft | ToRight

text \<open>The refs of a row and the variables of its animation effect.\<close>

record marquee =
  mq_pos :: rat
  mq_speed :: rat
  mq_target :: rat
  mq_init :: bool
  mq_visible :: bool
  mq_last :: rat
  mq_translateX :: "rat option"

definition marquee_refs :: marquee where
  "marquee_refs =
     \<lparr>mq_pos = 0, mq_speed = 1, mq_target = 1, mq_init = False, mq_visible = True, mq_last = 0,
      mq_translateX = None\<rparr>"

definition marquee_start :: "marquee_dir \<Rightarrow> rat \<Rightarrow> rat \<Rightarrow> marquee \<Rightarrow> marquee" where
  "marquee_start direction half now s =
     (let s1 = s\<lparr>mq_last := now\<rparr>
      in if \<not> mq_init s1
         then (if direction = ToRight then s1\<lparr>mq_pos := - half\<rparr> else s1)\<lparr>mq_init := True\<rparr>
         else s1)"

definition marquee_tick :: "marquee_dir \<Rightarrow> rat \<Rightarrow> rat \<Rightarrow> rat \<Rightarrow> marquee \<Rightarrow> marquee" where
  "marquee_tick direction baseSpeed half now s =
     (if \<not> mq_visible s then s\<lparr>mq_last := now\<rparr>
      else
        (let dt = min ((now - mq_last s) / 1000) (1 / 10);
             speed = mq_speed s + (mq_target s - mq_speed s) * (4 / 100);
             move = baseSpeed * speed * dt;
             pos = (if direction = ToLeft
                    then (let p = mq_pos s - move in if p \<le> - half then p + half else p)
                    else (let p = mq_pos s + move in if 0 \<le> p then p - half else p))
         in s\<lparr>mq_last := now, mq_speed := speed, mq_pos := pos, mq_translateX := Some pos\<rparr>))"

definition marquee_onEnter :: "marquee \<Rightarrow> marquee" where
  "marquee_onEnter s = s\<lparr>mq_target := 2 / 10\<rparr>"

definition marquee_onLeave :: "marquee \<Rightarrow> marquee" where
  "marquee_onLeave s = s\<lparr>mq_target := 1\<rparr>"

definition marquee_observe :: "bool \<Rightarrow> marquee \<Rightarrow> marquee" where
  "marquee_observe isIntersecting s = s\<lparr>mq_visible := isIntersecting\<rparr>"

text \<open>Animation frames get non-decreasing times.\<close>

inductive marquee_step :: "marquee_dir \<Rightarrow> rat \<Rightarrow> rat \<Rightarrow> marquee \<Rightarrow> marquee \<Rightarrow> bool"
  for direction :: marquee_dir and baseSpeed :: rat and half :: rat where
  tick: "mq_last s \<le> now \<Longrightarrow> marquee_step direction baseSpeed half s (marquee_tick direction baseSpeed half now s)"
| enter: "marquee_step direction baseSpeed half s (marquee_onEnter s)"
| leave: "marquee_step direction baseSpeed half s (marquee_onLeave s)"
| observe: "marquee_step direction baseSpeed half s (marquee_observe b s)"

abbreviation marquee_reach :: "marquee_dir \<Rightarrow> rat \<Rightarrow> rat \<Rightarrow> marquee \<Rightarrow> bool" where
  "marquee_reach direction baseSpeed half \<equiv>
     reach (\<lambda>s. \<exists>now. s = marquee_start direction half now marquee_refs) (marquee_step direction baseSpeed half)"

subsection \<open>terminal-section.tsx\<close>

datatype line_type = CmdLine | OutLine | GapLine

text \<open>The text of a line as UTF-16 code units.\<close>

record term_line =
  tl_type :: line_type
  tl_text :: "nat list"
  tl_cls :: "string option"

definition units :: "string \<Rightarrow> nat list" where
  "units s = map of_char s"

definition cmd_line :: "string \<Rightarrow> term_line" where
  "cmd_line s = \<lparr>tl_type = CmdLine, tl_text = units s, tl_cls = None\<rparr>"

definition out_line :: "nat list \<Rightarrow> string option \<Rightarrow> term_line" where
  "out_line u cls = \<lparr>tl_type = OutLine, tl_text = u, tl_cls = cls\<rparr>"

definition gap_line :: term_line where
  "gap_line = \<lparr>tl_type = GapLine, tl_text = [], tl_cls = None\<rparr>"

definition TERMINAL_LINES :: "term_line list" where
  "TERMINAL_LINES =
     [cmd_line ''ssh edge@rpi-gateway-01'',
      out_line (units ''Connected to rpi-gateway-01 (192.168.1.42)'') (Some ''text-emerald-600 dark:text-emerald-400''),
      gap_line,
      cmd_line ''edgeguard status'',
      out_line (0x25CF # units '' EdgeGuardian Agent v2.4.1'') (Some ''font-semibold text-cyan-700 dark:text-cyan-300''),
      out_line (units ''  Status:     active (running)'') None,
      out_line (units ''  Uptime:     14d 6h 32m'') None,
      out_line (units ''  Fleet:      connected (1,847 devices)'') None,
      out_line (units ''  Last sync:  2s ago'') None,
      gap_line,
      cmd_line ''edgeguard deploy --rolling firmware-v2.5.0'',
      out_line (0x2713 # units '' Artifact signature verified (sha256:a3f8'' @ 0x2026 # units ''c291)'')
        (Some ''text-emerald-600 dark:text-emerald-400''),
      out_line (0x25B8 # units '' Rolling deployment to 847 devices'' @ [0x2026]) (Some ''text-cyan-700 dark:text-cyan-400''),
      out_line (units ''  '' @ replicate 16 0x2588 @ replicate 4 0x2591 @ units ''  78% complete'')
        (Some ''text-cyan-600 dark:text-cyan-300/80''),
      out_line (units ''  661 updated '' @ 0xB7 # units '' 183 pending '' @ 0xB7 # units '' 3 queued'') None]"

definition line_delay :: "term_line \<Rightarrow> int" where
  "line_delay line =
     (if tl_type line = CmdLine then 500 + int (length (tl_text line)) * 22
      else if tl_type line = GapLine then 150 else 90)"

text \<open>The timers set by \<open>forEach\<close>: the delay of each and the count its callback sets.\<close>

fun schedule :: "nat \<Rightarrow> int \<Rightarrow> term_line list \<Rightarrow> (int \<times> nat) list" where
  "schedule i cumulative [] = []"
| "schedule i cumulative (line # rest) =
     (let cumulative = cumulative + line_delay line
      in (cumulative, i + 1) # schedule (i + 1) cumulative rest)"

record typed_section =
  ty_mounted :: bool
  ty_active :: bool
  ty_observing :: bool
  ty_visibleCount :: nat
  ty_timers :: "(int \<times> nat) list"

definition typed_mount :: typed_section where
  "typed_mount = \<lparr>ty_mounted = True, ty_active = False, ty_observing = True, ty_visibleCount = 0, ty_timers = []\<rparr>"

text \<open>The first intersection activates the section, which runs the effect that sets the timers.\<close>

definition typed_callback :: "bool \<Rightarrow> typed_section \<Rightarrow> typed_section" where
  "typed_callback isIntersecting s =
     (if isIntersecting
      then s\<lparr>ty_active := True, ty_observing := False,
             ty_timers := (if ty_active s then ty_timers s else schedule 0 400 TERMINAL_LINES)\<rparr>
      else s)"

definition typed_fire :: "int \<times> nat \<Rightarrow> typed_section \<Rightarrow> typed_section" where
  "typed_fire tm s = s\<lparr>ty_visibleCount := snd tm, ty_timers := remove1 tm (ty_timers s)\<rparr>"

definition typed_unmount :: "typed_section \<Rightarrow> typed_section" where
  "typed_unmount s = s\<lparr>ty_mounted := False, ty_observing := False, ty_timers := []\<rparr>"

text \<open>The browser fires a timer that no pending timer precedes.\<close>

inductive typed_step :: "typed_section \<Rightarrow> typed_section \<Rightarrow> bool" where
  intersect: "ty_observing s \<Longrightarrow> typed_step s (typed_callback b s)"
| fire: "tm \<in> set (ty_timers s) \<Longrightarrow> (\<And>tm'. tm' \<in> set (ty_timers s) \<Longrightarrow> fst tm \<le> fst tm') \<Longrightarrow>
    typed_step s (typed_fire tm s)"
| unmount: "typed_step s (typed_unmount s)"

abbreviation typed_reach :: "typed_section \<Rightarrow> bool" where
  "typed_reach \<equiv> reach (\<lambda>s. s = typed_mount) typed_step"

datatype term_row = GapRow | LineRow string "string option" "nat list"

definition terminal_rows :: "nat \<Rightarrow> term_row list" where
  "terminal_rows visibleCount =
     map (\<lambda>(i, line).
            let visible = (i < visibleCount)
            in if tl_type line = GapLine then GapRow
               else LineRow
                 ((if visible
                   then (if truthy (tl_cls line) then the (tl_cls line) else ''text-slate-600 dark:text-zinc-400'')
                   else ''invisible'') @ '' ''
                  @ (if visible \<and> i + 1 = visibleCount then ''animate-[fadeIn_0.15s_ease-out]'' else ''''))
                 (if tl_type line = CmdLine
                  then Some (if visible then ''text-emerald-600 dark:text-emerald-400 select-none'' else ''select-none'')
                  else None)
                 (tl_text line))
       (zip [0..<length TERMINAL_LINES] TERMINAL_LINES)"

subsection \<open>discovery-section.tsx\<close>

record discovery_node =
  dn_x :: int
  dn_y :: int
  dn_name :: string
  dn_delay :: int
  dn_status :: string
  dn_color :: string

definition hub :: "int \<times> int" where
  "hub = (400, 250)"

definition discovery_nodes :: "discovery_node list" where
  "discovery_nodes =
     [\<lparr>dn_x = 140, dn_y = 70, dn_name = ''rpi-gateway-01'', dn_delay = 0, dn_status = ''Connected'', dn_color = ''#10b981''\<rparr>,
      \<lparr>dn_x = 675, dn_y = 75, dn_name = ''jetson-ai-07'', dn_delay = 300, dn_status = ''Syncing'', dn_color = ''#06b6d4''\<rparr>,
      \<lparr>dn_x = 670, dn_y = 300, dn_name = ''esp32-temp-04'', dn_delay = 600, dn_status = ''Connected'', dn_color = ''#10b981''\<rparr>,
      \<lparr>dn_x = 620, dn_y = 440, dn_name = ''nuc-edge-05'', dn_delay = 900, dn_status = ''Connected'', dn_color = ''#10b981''\<rparr>,
      \<lparr>dn_x = 170, dn_y = 435, dn_name = ''rpi-sensor-02'', dn_delay = 1200, dn_status = ''Discovered'', dn_color = ''#f59e0b''\<rparr>,
      \<lparr>dn_x = 135, dn_y = 295, dn_name = ''android-field'', dn_delay = 1500, dn_status = ''Syncing'', dn_color = ''#06b6d4''\<rparr>]"

text \<open>The label of a node: its x coordinate and text anchor.\<close>

definition node_label :: "discovery_node \<Rightarrow> int \<times> string" where
  "node_label n =
     (let isLeft = (dn_x n < fst hub)
      in (if isLeft then dn_x n - 18 else dn_x n + 18, if isLeft then ''end'' else ''start''))"


subsection \<open>Elements that appear once\<close>

lemma reveal_entry_sets:
  "set (rv_revealed (reveal_entry e s)) = set (rv_revealed s) \<union> {x. (x, True) = e}"
  "set (rv_observed (reveal_entry e s)) = set (rv_observed s) - {x. (x, True) = e}"
  by (cases e; auto simp: reveal_entry_def)+

lemma reveal_entries:
  "set (rv_revealed (fold reveal_entry es s)) = set (rv_revealed s) \<union> {e. (e, True) \<in> set es}"
  "set (rv_observed (fold reveal_entry es s)) = set (rv_observed s) - {e. (e, True) \<in> set es}"
  by (induction es arbitrary: s) (auto simp: reveal_entry_sets)

lemma reveal_callbacks:
  "fold reveal_callback batches s = fold reveal_entry (concat batches) s"
  by (induction batches arbitrary: s) (simp_all add: reveal_callback_def)

text \<open>
  An element of the landing page is shown exactly from the first time it was reported in view:
  after any sequence of observer callbacks the revealed elements are those that some entry reported as
  intersecting, and exactly the others are still observed, so scrolling away never hides one again.
\<close>

theorem reveal_exact:
  "set (rv_revealed (fold reveal_callback batches (reveal_mount els))) = {e. (e, True) \<in> set (concat batches)}
   \<and> set (rv_observed (fold reveal_callback batches (reveal_mount els))) =
       set els - {e. (e, True) \<in> set (concat batches)}"
  unfolding reveal_callbacks by (simp add: reveal_entries reveal_mount_def)

subsection \<open>The rows of platforms\<close>

lemma repeat_items_total:
  assumes "items \<noteq> []"
  shows "\<exists>n. repeat_items items acc = Some (acc @ concat (replicate n items))
           \<and> (n = 0 \<or> length acc + (n - 1) * length items < 24) \<and> 24 \<le> length acc + n * length items"
proof (induction "24 - length acc" arbitrary: acc rule: less_induct)
  case less
  show ?case
  proof (cases "length acc < 24")
    case False
    then show ?thesis by (intro exI [of _ 0]) (simp add: repeat_items.simps)
  next
    case True
    have "24 - length (acc @ items) < 24 - length acc"
      using True assms by (cases items) auto
    from less [OF this] obtain n where n: "repeat_items items (acc @ items) = Some ((acc @ items) @ concat (replicate n items))"
        "n = 0 \<or> length (acc @ items) + (n - 1) * length items < 24"
        "24 \<le> length (acc @ items) + n * length items"
      by blast
    have "repeat_items items acc = Some (acc @ concat (replicate (Suc n) items))"
      using True n(1) by (subst repeat_items.simps) simp
    moreover have "length acc + (Suc n - 1) * length items < 24"
      using n(2) True by (cases n) auto
    ultimately show ?thesis using n(3) by (intro exI [of _ "Suc n"]) (simp add: add.assoc)
  qed
qed

lemma repeat_items_nil:
  assumes "repeat_items items acc = Some r"
  shows "items = [] \<longrightarrow> 24 \<le> length acc"
proof (rule repeat_items.raw_induct [where P = "\<lambda>items acc r. items = [] \<longrightarrow> 24 \<le> length acc", OF _ assms])
  fix f :: "'a list \<Rightarrow> 'a list \<Rightarrow> 'a list option" and items acc r
  assume IH: "\<And>items acc r. f items acc = Some r \<Longrightarrow> items = [] \<longrightarrow> 24 \<le> length acc"
    and eq: "(if length acc < 24 then f items (acc @ items) else Some acc) = Some r"
  show "items = [] \<longrightarrow> 24 \<le> length acc"
    using eq IH [of items "acc @ items" r] by (auto split: if_splits)
qed

text \<open>
  C39. The loop that fills a row of platforms ends exactly for a non-empty list of items: it then
  returns whole copies of the list, at least 24 items and not a copy more than needed; with an empty
  list it would never end, and both lists of the page are non-empty.
\<close>

theorem repeat_items_terminates:
  "((\<exists>r. repeat_items items [] = Some r) \<longleftrightarrow> items \<noteq> [])
   \<and> (\<exists>n. repeat_items (i # is) [] = Some (concat (replicate n (i # is)))
        \<and> 24 \<le> n * length (i # is) \<and> (n - 1) * length (i # is) < 24)
   \<and> OS_ITEMS \<noteq> [] \<and> ARCH_ITEMS \<noteq> []"
proof (intro conjI)
  show "(\<exists>r. repeat_items items [] = Some r) \<longleftrightarrow> items \<noteq> []"
    using repeat_items_nil [of items "[]"] repeat_items_total [of items "[]"] by auto
  show "\<exists>n. repeat_items (i # is) [] = Some (concat (replicate n (i # is)))
        \<and> 24 \<le> n * length (i # is) \<and> (n - 1) * length (i # is) < 24"
    using repeat_items_total [of "i # is" "[]"] by fastforce
qed (simp_all add: OS_ITEMS_def ARCH_ITEMS_def)

definition marquee_ok :: "rat \<Rightarrow> rat \<Rightarrow> bool" where
  "marquee_ok baseSpeed half \<longleftrightarrow> 0 \<le> baseSpeed \<and> 0 < half \<and> baseSpeed / 10 \<le> half"

definition marquee_inv :: "marquee_dir \<Rightarrow> rat \<Rightarrow> marquee \<Rightarrow> bool" where
  "marquee_inv direction half s \<longleftrightarrow>
     1 / 5 \<le> mq_target s \<and> mq_target s \<le> 1 \<and> 1 / 5 \<le> mq_speed s \<and> mq_speed s \<le> 1
     \<and> (if direction = ToLeft then - half < mq_pos s \<and> mq_pos s \<le> 0 else - half \<le> mq_pos s \<and> mq_pos s < 0)
     \<and> (case mq_translateX s of Some p \<Rightarrow> - half \<le> p \<and> p \<le> 0 | None \<Rightarrow> True)"

lemma approach_bounds:
  fixes s t :: rat
  assumes "1 / 5 \<le> t" and "t \<le> 1" and "1 / 5 \<le> s" and "s \<le> 1"
  shows "1 / 5 \<le> s + (t - s) * (4 / 100)" "s + (t - s) * (4 / 100) \<le> 1"
  using assms by (simp_all add: field_simps)

lemma move_bounds:
  fixes b sp dt :: rat
  assumes "0 \<le> b" and "0 \<le> sp" and "sp \<le> 1" and "0 \<le> dt" and "dt \<le> 1 / 10"
  shows "0 \<le> b * sp * dt" "b * sp * dt \<le> b / 10"
proof -
  show "0 \<le> b * sp * dt" using assms by simp
  have "b * sp \<le> b * 1" using assms by (intro mult_left_mono) auto
  then have "b * sp * dt \<le> b * (1 / 10)" using assms by (intro mult_mono) auto
  then show "b * sp * dt \<le> b / 10" by simp
qed

lemma marquee_tick_inv:
  assumes ok: "marquee_ok b h" and inv: "marquee_inv d h s" and t: "mq_last s \<le> now"
  shows "marquee_inv d h (marquee_tick d b h now s)"
proof (cases "mq_visible s")
  case False
  with inv show ?thesis by (simp add: marquee_tick_def marquee_inv_def)
next
  case True
  define sp where "sp = mq_speed s + (mq_target s - mq_speed s) * (4 / 100)"
  define mv where "mv = b * sp * min ((now - mq_last s) / 1000) (1 / 10)"
  have sp: "1 / 5 \<le> sp" "sp \<le> 1"
    using inv approach_bounds [of "mq_target s" "mq_speed s"] by (auto simp: sp_def marquee_inv_def)
  have mv: "0 \<le> mv" "mv \<le> h"
  proof -
    have "0 \<le> min ((now - mq_last s) / 1000) (1 / 10)" "min ((now - mq_last s) / 1000) (1 / 10) \<le> 1 / 10"
      using t by simp_all
    moreover have "0 \<le> b" "b / 10 \<le> h" using ok by (simp_all add: marquee_ok_def)
    ultimately have "0 \<le> mv" "mv \<le> b / 10"
      using move_bounds [of b sp "min ((now - mq_last s) / 1000) (1 / 10)"] sp unfolding mv_def by simp_all
    then show "0 \<le> mv" "mv \<le> h" using \<open>b / 10 \<le> h\<close> by linarith+
  qed
  have eq: "marquee_tick d b h now s =
      (let pos = (if d = ToLeft then (if mq_pos s - mv \<le> - h then mq_pos s - mv + h else mq_pos s - mv)
                  else (if 0 \<le> mq_pos s + mv then mq_pos s + mv - h else mq_pos s + mv))
       in s\<lparr>mq_last := now, mq_speed := sp, mq_pos := pos, mq_translateX := Some pos\<rparr>)"
    using True by (simp add: marquee_tick_def sp_def mv_def Let_def)
  show ?thesis
    unfolding eq using inv sp mv ok by (auto simp: marquee_inv_def marquee_ok_def Let_def)
qed

interpretation mq: state_machine
  "\<lambda>s. \<exists>now. s = marquee_start d h now marquee_refs" "marquee_step d b h"
  "\<lambda>s. marquee_ok b h \<longrightarrow> marquee_inv d h s" for d b h
proof
  show "marquee_ok b h \<longrightarrow> marquee_inv d h s"
    if "\<exists>now. s = marquee_start d h now marquee_refs" for s
    using that by (cases d) (auto simp: marquee_start_def marquee_refs_def marquee_inv_def marquee_ok_def Let_def)
  show "marquee_ok b h \<longrightarrow> marquee_inv d h t"
    if "marquee_ok b h \<longrightarrow> marquee_inv d h s" "marquee_step d b h s t" for s t
    using that(2)
  proof cases
    case (tick now)
    with that(1) show ?thesis by (simp add: marquee_tick_inv)
  qed (use that(1) in \<open>simp_all add: marquee_onEnter_def marquee_onLeave_def marquee_observe_def marquee_inv_def\<close>)
qed


lemma marquee_sample_reach:
  "marquee_reach ToLeft 45 100 (marquee_tick ToLeft 45 100 50 (marquee_start ToLeft 100 0 marquee_refs))"
proof (rule reach_step)
  show "marquee_reach ToLeft 45 100 (marquee_start ToLeft 100 0 marquee_refs)" by (rule reach_init) blast
  show "marquee_step ToLeft 45 100 (marquee_start ToLeft 100 0 marquee_refs)
      (marquee_tick ToLeft 45 100 50 (marquee_start ToLeft 100 0 marquee_refs))"
    by (rule marquee_step.tick) (simp add: marquee_start_def Let_def marquee_refs_def)
qed



subsection \<open>The typed terminal session\<close>

lemma length_schedule [simp]: "length (schedule i c ls) = length ls"
  by (induction ls arbitrary: i c) (simp_all add: Let_def)

lemma line_delay_pos: "0 < line_delay l"
  by (simp add: line_delay_def)

lemma schedule_later: "(d, n) \<in> set (schedule i c ls) \<Longrightarrow> c < d"
proof (induction ls arbitrary: i c)
  case (Cons l ls)
  then show ?case using line_delay_pos [of l] by (fastforce simp: Let_def)
qed simp

lemma schedule_sorted: "sorted_wrt (\<lambda>a b. fst a < fst b) (schedule i c ls)"
  by (induction ls arbitrary: i c) (auto simp: Let_def dest: schedule_later)

lemma schedule_counts: "map snd (schedule i c ls) = [Suc i..<Suc (i + length ls)]"
proof (induction ls arbitrary: i c)
  case (Cons l ls)
  show ?case
    by (simp add: Let_def Cons.IH upt_conv_Cons del: upt_Suc)
qed simp

lemma schedule_nth_count: "k < length ls \<Longrightarrow> snd (schedule i c ls ! k) = Suc (i + k)"
  using arg_cong [OF schedule_counts [of i c ls], of "\<lambda>xs. xs ! k"]
  by (simp del: upt_Suc)

definition typed_inv :: "typed_section \<Rightarrow> bool" where
  "typed_inv s \<longleftrightarrow>
     (if \<not> ty_mounted s then ty_timers s = [] \<and> \<not> ty_observing s
      else if ty_active s
      then \<not> ty_observing s \<and> ty_visibleCount s \<le> length TERMINAL_LINES
           \<and> ty_timers s = drop (ty_visibleCount s) (schedule 0 400 TERMINAL_LINES)
      else ty_timers s = [] \<and> ty_visibleCount s = 0)"

text \<open>Of the pending timers only the first can fire: the deadlines increase strictly.\<close>

lemma earliest_is_first:
  assumes "ty_timers s = drop k (schedule 0 400 TERMINAL_LINES)"
    and "tm \<in> set (ty_timers s)" and "\<And>tm'. tm' \<in> set (ty_timers s) \<Longrightarrow> fst tm \<le> fst tm'"
  shows "ty_timers s = tm # drop (Suc k) (schedule 0 400 TERMINAL_LINES) \<and> snd tm = Suc k
       \<and> k < length TERMINAL_LINES"
proof -
  let ?sc = "schedule 0 400 TERMINAL_LINES"
  have k: "k < length ?sc" using assms(1,2) by (metis drop_all empty_iff empty_set not_le)
  then have dr: "ty_timers s = ?sc ! k # drop (Suc k) ?sc" using assms(1) by (simp add: Cons_nth_drop_Suc)
  have "sorted_wrt (\<lambda>a b. fst a < fst b) (ty_timers s)"
    unfolding assms(1) by (rule sorted_wrt_drop [OF schedule_sorted])
  then have later: "fst (?sc ! k) < fst tm'" if "tm' \<in> set (drop (Suc k) ?sc)" for tm'
    using that unfolding dr by simp
  have "tm = ?sc ! k"
    using assms(2,3) later [of tm] unfolding dr by (metis leD list.set_intros(1) set_ConsD)
  then show ?thesis using k dr schedule_nth_count [of k TERMINAL_LINES 0 400] by simp
qed

interpretation ty: state_machine "\<lambda>s. s = typed_mount" typed_step typed_inv
proof
  show "typed_inv s" if "s = typed_mount" for s
    using that by (simp add: typed_mount_def typed_inv_def)
  show "typed_inv t" if inv: "typed_inv s" and step: "typed_step s t" for s t
    using step
  proof cases
    case (intersect b)
    then have "ty_mounted s" "\<not> ty_active s" "ty_timers s = []" "ty_visibleCount s = 0"
      using inv by (auto simp: typed_inv_def split: if_splits)
    then show ?thesis using intersect by (simp add: typed_inv_def typed_callback_def)
  next
    case (fire tm)
    then have "ty_timers s \<noteq> []" by auto
    then have m: "ty_mounted s" "ty_active s" "\<not> ty_observing s"
      "ty_timers s = drop (ty_visibleCount s) (schedule 0 400 TERMINAL_LINES)"
      using inv by (auto simp: typed_inv_def split: if_splits)
    from earliest_is_first [OF m(4) fire(2,3)] show ?thesis
      using m fire(1) by (simp add: typed_inv_def typed_fire_def)
  next
    case unmount
    then show ?thesis by (simp add: typed_inv_def typed_unmount_def)
  qed
qed

text \<open>
  The terminal session is typed line by line to the end: in every reachable state at most all lines
  are visible, an inactive or removed section has no timer left, and in an active one each pending line
  has exactly one timer; as long as a line is missing the next timer shows exactly one more line, and
  when no timer is left every line is visible.
\<close>

theorem typed_section_progress:
  assumes "typed_reach s"
  shows "(\<not> ty_mounted s \<or> \<not> ty_active s \<longrightarrow> ty_timers s = [])
       \<and> (ty_mounted s \<and> ty_active s \<longrightarrow>
            length (ty_timers s) + ty_visibleCount s = length TERMINAL_LINES
            \<and> (if ty_visibleCount s = length TERMINAL_LINES then ty_timers s = []
               else \<exists>t. typed_step s t \<and> ty_visibleCount t = Suc (ty_visibleCount s)
                     \<and> length (ty_timers s) = Suc (length (ty_timers t))))"
proof -
  let ?sc = "schedule 0 400 TERMINAL_LINES" and ?v = "ty_visibleCount s"
  have inv: "typed_inv s" using ty.reach_inv [OF assms] .
  have "\<exists>t. typed_step s t \<and> ty_visibleCount t = Suc ?v \<and> length (ty_timers s) = Suc (length (ty_timers t))"
    if d: "ty_timers s = drop ?v ?sc" and lt: "?v < length TERMINAL_LINES"
  proof -
    have hd: "ty_timers s = ?sc ! ?v # drop (Suc ?v) ?sc" using d lt by (simp add: Cons_nth_drop_Suc)
    have "sorted_wrt (\<lambda>a b. fst a < fst b) (ty_timers s)"
      unfolding d by (rule sorted_wrt_drop [OF schedule_sorted])
    then have "typed_step s (typed_fire (?sc ! ?v) s)"
      by (intro typed_step.fire) (auto simp: hd)
    then show ?thesis
      using schedule_nth_count [OF lt, of 0 400] by (intro exI [of _ "typed_fire (?sc ! ?v) s"]) (simp add: typed_fire_def hd)
  qed
  then show ?thesis using inv by (auto simp: typed_inv_def split: if_splits)
qed

lemma terminal_line_count: "length TERMINAL_LINES = 15"
  unfolding TERMINAL_LINES_def by simp

theorem typed_section_progress_witness:
  "length (ty_timers (typed_callback True typed_mount)) + ty_visibleCount (typed_callback True typed_mount) = 15"
proof -
  have "typed_reach (typed_callback True typed_mount)"
    by (rule reach_step [of _ _ typed_mount], rule reach_init, rule refl)
       (rule typed_step.intersect, simp add: typed_mount_def)
  moreover have "ty_mounted (typed_callback True typed_mount)" "ty_active (typed_callback True typed_mount)"
    by (simp_all add: typed_callback_def typed_mount_def)
  ultimately show ?thesis using typed_section_progress terminal_line_count by metis
qed


end
