(* ===== verification/HomePage.thy ===== *)
theory HomePage
  imports Landing
begin

text \<open>
  The trees of the public pages: the landing page (src/ui/app/page.tsx) with the sections of
  src/ui/components/landing, the terms (src/ui/app/terms/page.tsx), the logo, the root layout and the
  toaster.  As elsewhere constant classes, styles and the constant geometry of drawings (but the logo's)
  are left out and what depends on data or state is kept.  Characters outside ASCII are their UTF-8 bytes.

  The theorems are about navigation: every link of these pages leads to a section of the same page or
  to a page the middleware lets anyone see, the identifiers of the landing page are unambiguous, and
  the actions a visitor has are signing in, the theme switch and scrolling up.
\<close>

subsection \<open>logo.tsx\<close>

definition shield_path :: string where
  "shield_path = ''M24 4 L40 12 V28 L24 44 L8 28 V12 Z''"

definition spokes_path :: string where
  "spokes_path = ''M24 20 L15 32 M24 20 L33 32 M24 20 V10''"

definition disc :: "string \<Rightarrow> string \<Rightarrow> string \<Rightarrow> (string \<times> attr) list \<Rightarrow> 'a node" where
  "disc cx cy r as = El ''circle'' ([(''cx'', AStr cx), (''cy'', AStr cy), (''r'', AStr r)] @ as) [] []"

definition LogoIcon :: "int \<Rightarrow> bool \<Rightarrow> 'a node" where
  "LogoIcon sz outlined =
     El ''svg'' [(''width'', AInt sz), (''height'', AInt sz), (''viewBox'', AStr ''0 0 48 48'')] []
       [El ''path'' [(''d'', AStr shield_path), (''strokeWidth'', AStr (if outlined then ''2'' else ''2.5''))] [] [],
        El ''path'' [(''d'', AStr spokes_path), (''strokeWidth'', AStr (if outlined then ''1.8'' else ''1.5''))] [] [],
        disc ''24'' ''20'' (if outlined then ''4'' else ''3.5'')
          [(''fill'', AStr (if outlined then ''none'' else ''currentColor'')),
           (''stroke'', AStr (if outlined then ''currentColor'' else ''none'')),
           (''strokeWidth'', if outlined then AStr ''2'' else ANone)],
        el ''Fragment''
          (map (\<lambda>(x, y).
                  if outlined
                  then disc x y ''2.5'' [(''stroke'', AStr ''currentColor''), (''strokeWidth'', AStr ''1.8'')]
                  else disc x y ''2'' [(''fill'', AStr ''currentColor'')])
             [(''24'', ''10''), (''15'', ''32''), (''33'', ''32'')])]"

datatype logo_size = LogoSm | LogoMd | LogoLg

definition logo_sizes :: "logo_size \<Rightarrow> int \<times> string" where
  "logo_sizes sz = (case sz of LogoSm \<Rightarrow> (24, ''text-base'') | LogoMd \<Rightarrow> (32, ''text-lg'') | LogoLg \<Rightarrow> (40, ''text-2xl''))"

definition LogoFull :: "logo_size \<Rightarrow> bool \<Rightarrow> 'a node" where
  "LogoFull sz collapsed =
     el ''div''
       (el ''div'' [icon ''div'', LogoIcon (fst (logo_sizes sz)) False]
        # shown (\<not> collapsed)
            (El ''span'' [(''className'', AClasses [snd (logo_sizes sz), ''font-bold tracking-tight text-foreground''])] []
               [Text ''Edge'', el ''span'' [Text ''Guardian'']]))"

subsection \<open>parallax-wrapper.tsx\<close>

text \<open>
  Every scroll event requests a frame; a frame moves the element while it is in the document.  The
  clean-up cancels only the last frame requested.
\<close>

record parallax =
  px_element :: bool
  px_listening :: bool
  px_raf :: "nat option"
  px_frames :: "nat list"
  px_next :: nat
  px_transform :: "rat option"

definition parallax_mount :: parallax where
  "parallax_mount =
     \<lparr>px_element = True, px_listening = True, px_raf = None, px_frames = [], px_next = 0, px_transform = None\<rparr>"

definition parallax_onScroll :: "parallax \<Rightarrow> parallax" where
  "parallax_onScroll s =
     s\<lparr>px_raf := Some (px_next s), px_frames := px_frames s @ [px_next s], px_next := px_next s + 1\<rparr>"

definition parallax_frame :: "nat \<Rightarrow> rat \<Rightarrow> parallax \<Rightarrow> parallax" where
  "parallax_frame k scrollY s =
     (let s1 = s\<lparr>px_frames := remove1 k (px_frames s)\<rparr>
      in if px_element s then s1\<lparr>px_transform := Some (scrollY * (12 / 100))\<rparr> else s1)"

definition parallax_cleanup :: "parallax \<Rightarrow> parallax" where
  "parallax_cleanup s =
     s\<lparr>px_element := False, px_listening := False,
       px_frames := (case px_raf s of Some k \<Rightarrow> remove1 k (px_frames s) | None \<Rightarrow> px_frames s)\<rparr>"

definition ParallaxWrapper_render :: "'a node list \<Rightarrow> 'a node" where
  "ParallaxWrapper_render children = el ''div'' children"

inductive parallax_step :: "parallax \<Rightarrow> parallax \<Rightarrow> bool" where
  scroll: "px_listening s \<Longrightarrow> parallax_step s (parallax_onScroll s)"
| frame: "k \<in> set (px_frames s) \<Longrightarrow> parallax_step s (parallax_frame k y s)"
| unmount: "px_element s \<Longrightarrow> parallax_step s (parallax_cleanup s)"

subsection \<open>Rendering of marquee-section.tsx and terminal-section.tsx\<close>

definition ICON_FILE :: "(string \<times> string) list" where
  "ICON_FILE = [(''linux'', ''/icons/linux.svg''), (''raspberrypi'', ''/icons/raspberrypi.svg'')]"

definition ICON_COLOR :: "(string \<times> string) list" where
  "ICON_COLOR =
     [(''ubuntu'', ''text-[#E95420]''), (''debian'', ''text-[#A81D33] dark:text-[#D64468]''),
      (''alpine'', ''text-[#0D597F]''), (''nvidia'', ''text-[#76B900]''), (''intel'', ''text-[#0071C5]''),
      (''arm'', ''text-[#0091BD]''), (''espressif'', ''text-[#E7352C]''), (''android'', ''text-[#34A853]''),
      (''riscv'', ''text-[#283272] dark:text-[#6478D8]'')]"

definition platform_icon_keys :: "string list" where
  "platform_icon_keys =
     [''ubuntu'', ''debian'', ''alpine'', ''nvidia'', ''intel'', ''arm'', ''espressif'', ''android'', ''riscv'']"

text \<open>A pill of a row; \<open>paths\<close> is the table of outlines \<open>PLATFORM_ICONS\<close>, data of a drawing.\<close>

definition renderPill :: "(string \<rightharpoonup> string) \<Rightarrow> PlatformItem \<Rightarrow> 'a node" where
  "renderPill paths item =
     el ''div''
       ([case map_of ICON_FILE (pi_icon item) of
           Some f \<Rightarrow> El ''img'' [(''src'', AStr f)] [] []
         | None \<Rightarrow>
             El ''svg''
               [(''className'',
                 AStr (''h-9 w-9 shrink-0 fill-current ''
                       @ (case map_of ICON_COLOR (pi_icon item) of Some c \<Rightarrow> c | None \<Rightarrow> ''text-foreground'')))] []
               [El ''path'' [(''d'', AStr (case paths (pi_icon item) of Some d \<Rightarrow> d | None \<Rightarrow> ''''))] [] []],
         el ''span'' [Text (pi_name item)]]
        @ shown (truthy (pi_detail item)) (el ''span'' [Text (the (pi_detail item))]))"

definition MarqueeRow_render :: "(string \<rightharpoonup> string) \<Rightarrow> PlatformItem list \<Rightarrow> 'a node" where
  "MarqueeRow_render paths repeated =
     el ''div'' [el ''div'' (map (renderPill paths) repeated @ map (renderPill paths) repeated)]"

definition MarqueeSection_render :: "(string \<rightharpoonup> string) \<Rightarrow> 'a node" where
  "MarqueeSection_render paths =
     el ''div''
       (map (\<lambda>items. MarqueeRow_render paths (the (repeat_items items [])))
          [OS_ITEMS, ARCH_ITEMS])"

text \<open>The UTF-8 bytes of a UTF-16 unit outside the surrogates.\<close>

definition utf8_unit :: "nat \<Rightarrow> string" where
  "utf8_unit u =
     map (char_of :: nat \<Rightarrow> char)
       (if u < 0x80 then [u]
        else if u < 0x800 then [0xC0 + u div 64, 0x80 + u mod 64]
        else [0xE0 + u div 4096, 0x80 + u div 64 mod 64, 0x80 + u mod 64])"

definition terminal_row_node :: "term_row \<Rightarrow> 'a node" where
  "terminal_row_node r =
     (case r of
        GapRow \<Rightarrow> icon ''div''
      | LineRow cls prompt txt \<Rightarrow>
          El ''div'' [(''className'', AStr cls)] []
            ((case prompt of Some c \<Rightarrow> [El ''span'' [(''className'', AStr c)] [] [Text ''$ '']] | None \<Rightarrow> [])
             @ [Text (concat (map utf8_unit txt))]))"

definition TerminalSection_render :: "nat \<Rightarrow> 'a node" where
  "TerminalSection_render visibleCount =
     el ''div''
       [el ''div''
          [el ''div''
             [icon ''div'', icon ''div'', icon ''div'',
              el ''span'' [Text (''edge@rpi-gateway-01 '' @ [CHR 0xE2, CHR 0x80, CHR 0x94] @ '' edgeguard'')]],
           el ''div'' (map terminal_row_node (terminal_rows visibleCount) @ shown (0 < visibleCount) (icon ''span''))]]"

subsection \<open>discovery-section.tsx\<close>

record discovery =
  di_observing :: bool
  di_active :: bool

definition discovery_mount :: discovery where
  "discovery_mount = \<lparr>di_observing = True, di_active = False\<rparr>"

definition discovery_callback :: "bool \<Rightarrow> discovery \<Rightarrow> discovery" where
  "discovery_callback isIntersecting s = (if isIntersecting then \<lparr>di_observing = False, di_active = True\<rparr> else s)"

text \<open>\<open>opacity\<close> of the parts that fade in, and the delay of a transition.\<close>

definition fade :: "bool \<Rightarrow> attr" where
  "fade active = AInt (if active then 1 else 0)"

definition after_ms :: "int \<Rightarrow> attr" where
  "after_ms d = AStr (show_int d @ ''ms'')"

text \<open>\<open>len\<close> is \<open>Math.hypot\<close>, the length of the line.\<close>

definition discovery_line :: "(int \<Rightarrow> int \<Rightarrow> rat) \<Rightarrow> bool \<Rightarrow> discovery_node \<Rightarrow> 'a node" where
  "discovery_line hypot active n =
     (let len = hypot (fst hub - dn_x n) (snd hub - dn_y n);
          ends = [(''x1'', AInt (dn_x n)), (''y1'', AInt (dn_y n)), (''x2'', AInt (fst hub)), (''y2'', AInt (snd hub))]
      in el ''g''
           [El ''line'' ends [] [],
            El ''line''
              (ends @ [(''strokeDasharray'', ANum len), (''strokeDashoffset'', ANum (if active then 0 else len)),
                       (''delay'', after_ms (dn_delay n + 400))]) [] []])"

definition discovery_device :: "bool \<Rightarrow> discovery_node \<Rightarrow> 'a node" where
  "discovery_device active n =
     (let lx = fst (node_label n); anchor = snd (node_label n);
          centre = [(''cx'', AInt (dn_x n)), (''cy'', AInt (dn_y n))]
      in el ''g''
           [El ''circle''
              (centre @ [(''opacity'', fade active), (''transform'', AStr (if active then ''scale(1)'' else ''scale(0)'')),
                         (''delay'', after_ms (dn_delay n + 200))]) [] [],
            El ''circle'' (centre @ [(''opacity'', fade active), (''delay'', after_ms (dn_delay n + 400))]) [] [],
            El ''text''
              [(''x'', AInt lx), (''y'', AInt (dn_y n - 2)), (''textAnchor'', AStr anchor), (''opacity'', fade active),
               (''delay'', after_ms (dn_delay n + 600))] [] [Text (dn_name n)],
            El ''text''
              [(''x'', AInt lx), (''y'', AInt (dn_y n + 14)), (''textAnchor'', AStr anchor), (''fill'', AStr (dn_color n)),
               (''opacity'', fade active), (''delay'', after_ms (dn_delay n + 1400))] []
              [Text ([CHR 0xE2, CHR 0x97, CHR 0x8F] @ '' ''), Text (dn_status n)]])"

definition discovery_pulse :: "nat \<times> discovery_node \<Rightarrow> 'a node" where
  "discovery_pulse p =
     (case p of (i, n) \<Rightarrow>
        el ''circle''
          [El ''animateMotion''
             [(''dur'', ANum (2 + of_nat i * (3 / 10))),
              (''path'',
               AStr (''M'' @ show_int (dn_x n) @ '','' @ show_int (dn_y n) @ '' L'' @ show_int (fst hub) @ '','' @ show_int (snd hub)))]
             [] []])"

definition discovery_hub :: "bool \<Rightarrow> 'a node list" where
  "discovery_hub active =
     (let centre = [(''cx'', AInt (fst hub)), (''cy'', AInt (snd hub))]
      in [El ''circle'' (centre @ [(''opacity'', fade active)]) [] []]
         @ shown active (el ''Fragment'' [El ''circle'' centre [] [], El ''circle'' centre [] []])
         @ [El ''circle''
              (centre @ [(''opacity'', fade active), (''transform'', AStr (if active then ''scale(1)'' else ''scale(0.3)''))]) [] [],
            El ''path'' [(''opacity'', fade active)] [] [],
            El ''path'' [(''opacity'', fade active)] [] [],
            El ''text'' [(''x'', AInt (fst hub)), (''y'', AInt (snd hub + 55)), (''opacity'', fade active)] []
              [Text ''EdgeGuardian Controller'']])"

definition DiscoverySection_render :: "(int \<Rightarrow> int \<Rightarrow> rat) \<Rightarrow> bool \<Rightarrow> 'a node" where
  "DiscoverySection_render hypot active =
     el ''div''
       [el ''div''
          [el ''svg''
             ([el ''defs''
                 [El ''filter'' [(''id'', AStr ''pulse-glow'')] []
                    [icon ''feGaussianBlur'', el ''feMerge'' [icon ''feMergeNode'', icon ''feMergeNode'']],
                  El ''radialGradient'' [(''id'', AStr ''hub-bg'')] [] [icon ''stop'', icon ''stop'']]]
              @ map (discovery_line hypot active) discovery_nodes
              @ discovery_hub active
              @ map (discovery_device active) discovery_nodes
              @ (if active then map discovery_pulse (enumerate 0 discovery_nodes) else []))]]"

subsection \<open>app/page.tsx\<close>

type_synonym mock_device = "string \<times> string \<times> string \<times> string \<times> string"

definition MOCK_DEVICES :: "mock_device list" where
  "MOCK_DEVICES =
     [(''rpi-gateway-01'', ''online'', ''23%'', ''41%'', ''us-west''),
      (''jetson-ai-07'', ''online'', ''67%'', ''72%'', ''eu-central''),
      (''esp32-temp-04'', ''degraded'', ''89%'', ''34%'', ''ap-south''),
      (''nuc-edge-05'', ''online'', ''12%'', ''28%'', ''us-east''),
      (''rpi-sensor-02'', ''online'', ''45%'', ''55%'', ''eu-west'')]"

definition CHART_BARS :: "int list" where
  "CHART_BARS = [40, 55, 38, 72, 65, 48, 82, 58, 45, 90, 75, 62, 50, 68, 78, 42, 85, 55, 70, 60]"

definition LOG_ENTRIES :: "(string \<times> string \<times> string \<times> string) list" where
  "LOG_ENTRIES =
     [(''14:32:01'', ''info'', ''Heartbeat received from rpi-gateway-01'', ''fleet''),
      (''14:32:03'', ''warn'', ''CPU threshold exceeded (89%) on esp32-temp-04'', ''health''),
      (''14:32:05'', ''info'', ''Firmware v2.5.0 verified, initiating install'', ''ota''),
      (''14:32:06'', ''info'', ''Desired state reconciled on jetson-ai-07'', ''reconciler''),
      (''14:32:08'', ''info'', ''OTA rollout 92% complete for fleet-west'', ''deploy'')]"

definition ST_DOT_map :: "(string \<times> string) list" where
  "ST_DOT_map = [(''online'', ''bg-emerald-400''), (''degraded'', ''bg-amber-400''), (''offline'', ''bg-zinc-600'')]"

definition ST_DOT :: "string \<Rightarrow> string" where
  "ST_DOT st = (case map_of ST_DOT_map st of Some c \<Rightarrow> c | None \<Rightarrow> ''undefined'')"

datatype landing_act = LpNav navbar_act | LpStart

record landing_page =
  lp_navbar :: navbar
  lp_discovery :: discovery
  lp_terminal :: typed_section

definition SectionLabel :: "'a node list \<Rightarrow> 'a node" where
  "SectionLabel children = el ''div'' children"

definition ScrollReveal_render :: "'a node list \<Rightarrow> 'a node" where
  "ScrollReveal_render children = el ''div'' children"

definition DashboardMockup :: "'a node" where
  "DashboardMockup =
     el ''div''
       [icon ''div'',
        el ''div''
          [el ''div''
             [el ''div''
                [icon ''div'', icon ''div'', icon ''div'', el ''span'' [Text ''EdgeGuardian Dashboard'']],
              el ''div''
                [el ''div''
                   ([el ''div'' [icon ''div'']]
                    @ map
                      (\<lambda>i. El ''div''
                         [(''className'',
                           AStr
                             (''w-6 h-1 rounded-full ''
                              @ (if i = 2 then ''bg-primary/30'' else ''bg-slate-200 dark:bg-white/10'')))] []
                         []) [1, 2, 3, 4, 5 :: int]),
                 el ''div''
                   [el ''div''
                      (map
                         (\<lambda>(m_label, m_val). el ''div''
                            [el ''div'' [Text m_label], el ''div'' [Text m_val]])
                         [(''Devices'', ''1,847''), (''Online'', ''1,823''), (''Deploying'', ''12'')]),
                    el ''div''
                      [el ''div'' [Text (''Fleet CPU '' @ [CHR 0xE2, CHR 0x80, CHR 0x94] @ '' 24h'')],
                       el ''div''
                         (map
                            (\<lambda>(i, h). El ''div''
                               [(''style'',
                                 AClasses
                                   [show_int h @ ''%'',
                                    if 80 < h then ''linear-gradient(to top, rgba(251,191,36,0.6), rgba(251,191,36,0.15))'' else ''linear-gradient(to top, rgba(6,182,212,0.6), rgba(6,182,212,0.1))'',
                                    show_int (800 + int i * 50) @ ''ms''])] [] []) (enumerate 0 CHART_BARS))],
                    el ''div''
                      (map
                         (\<lambda>(d_name, d_status, d_cpu, d_mem, d_region). el ''div''
                            [El ''div''
                               [(''className'', AStr (''h-2 w-2 rounded-full shrink-0 '' @ (ST_DOT d_status)))]
                               [] [],
                             el ''span'' [Text d_name],
                             el ''span'' [Text d_cpu]]) (js_slice 0 4 MOCK_DEVICES))]]]]]"

definition landing_atmosphere :: "'a node" where
  "landing_atmosphere =
     el ''div'' [icon ''div'', icon ''div'', icon ''div'', icon ''div'', icon ''div'']"

definition landing_hero :: "landing_act node" where
  "landing_hero =
     el ''section''
       [el ''div''
          [el ''div''
             [el ''p'' [Text ''Kubernetes-style orchestration for IoT''],
              el ''h1'' [Text ''Deploy to thousands.'', icon ''br'', el ''span'' [Text ''Monitor everything.'']],
              el ''p''
                [Text ''Sub-5MB agents that self-heal. Declarative YAML config. OTA updates with automatic rollback. Built for ARM, x86, and everything in between.''],
              el ''div''
                [on_click ''Button'' [(''size'', AStr ''lg'')] LpStart [Text ''Get Started''],
                 El ''a'' [(''href'', AStr ''#terminal'')] [] [Text ''See It In Action'']]],
           el ''div'' [ParallaxWrapper_render [DashboardMockup]]]]"

definition landing_stats :: "'a node" where
  "landing_stats =
     el ''section''
       [el ''div''
          (map
             (\<lambda>(s_value, s_label, s_suffix). el ''div''
                [el ''div'' [Text s_value, el ''span'' [Text s_suffix]], el ''div'' [Text s_label]])
             [(''1,847'', ''Devices Managed'', ''''),
              (''99.9'', ''Uptime SLA'', ''%''),
              (''< 5'', ''Agent Binary'', '' MB''),
              (''30'', ''Reconcile Cycle'', ''s'')])]"

definition landing_platforms :: "(string \<rightharpoonup> string) \<Rightarrow> 'a node" where
  "landing_platforms paths =
     el ''section''
       [el ''div''
          [SectionLabel [Text ''Compatibility''],
           el ''h2'' [Text ''Runs '', el ''span'' [Text ''everywhere'']],
           el ''p''
             [Text ''From single-board computers to industrial gateways - one agent binary, every platform.'']],
        MarqueeSection_render paths]"

definition feature_fleet :: "'a node" where
  "feature_fleet =
     el ''div''
       [icon ''div'',
        SectionLabel [Text ''Fleet Dashboard''],
        el ''h3'' [Text ''Every device. One view.''],
        el ''p''
          [Text ''Real-time visibility into your entire fleet. Health scores, resource metrics, connection status - filter and drill into any device instantly.''],
        el ''div''
          [el ''div''
             (map
                (\<lambda>(m_v, m_l, m_c). el ''div''
                   [El ''div'' [(''className'', AStr (''text-sm font-bold '' @ m_c))] [] [Text m_v],
                    el ''div'' [Text m_l]])
                [(''1,847'', ''total'', ''text-foreground''),
                 (''1,823'', ''online'', ''text-emerald-600 dark:text-emerald-400''),
                 (''24'', ''attention'', ''text-amber-600 dark:text-amber-400'')]),
           el ''div''
             (map
                (\<lambda>(d_name, d_status, d_cpu, d_mem, d_region). el ''div''
                   [El ''div'' [(''className'', AStr (''h-2 w-2 rounded-full shrink-0 '' @ (ST_DOT d_status)))]
                      [] [],
                    el ''span'' [Text d_name],
                    el ''span'' [Text d_cpu]]) MOCK_DEVICES)]]"

definition feature_ota :: "'a node" where
  "feature_ota =
     El ''div'' [(''id'', AStr ''updates'')] []
       [icon ''div'',
        SectionLabel [Text ''OTA Updates''],
        el ''h3'' [Text ''Ship fearlessly.''],
        el ''p''
          [Text ''Rolling, canary, and immediate deployment strategies. Signed artifacts with integrity verification. Automatic rollback on failure.''],
        el ''div''
          [el ''div'' [el ''span'' [Text ''firmware-v2.5.0''], el ''span'' [Text ''Rolling'']],
           el ''div'' [icon ''div''],
           el ''div'' [el ''span'' [Text ''78% complete''], el ''span'' [Text ''3 remaining'']],
           el ''div''
             (map
                (\<lambda>i. El ''div''
                   [(''className'',
                     AStr
                       (''h-2 flex-1 rounded-full transition-all duration-500 ''
                        @
                          (if i < 12 then ''bg-emerald-500/60'' else
                             (if i < 13 then ''bg-primary/60 landing-pulse'' else ''bg-slate-200 dark:bg-white/10''))))]
                   [] []) [0..<16 :: nat])]]"

definition feature_security :: "'a node" where
  "feature_security =
     El ''div'' [(''id'', AStr ''security'')] []
       [icon ''div'',
        SectionLabel [Text ''Zero-Trust Security''],
        el ''h3'' [Text ''Secured from day one.''],
        el ''p''
          [Text ''Mutual TLS on every connection. Encrypted, ticket-authenticated remote shells. Role-based access control with a full audit trail.''],
        el ''div''
          [el ''div''
             [icon ''div'',
              icon ''div'',
              icon ''div'',
              icon ''div'',
              el ''div'' [el ''svg'' [icon ''path'', icon ''path'']]]]]"

definition landing_features :: "'a node" where
  "landing_features =
     El ''section'' [(''id'', AStr ''features'')] []
       [el ''div''
          [SectionLabel [Text ''Platform''],
           el ''h2'' [Text ''Everything you need for'', el ''span'' [Text '' edge operations'']],
           el ''p''
             [Text ''A complete platform for managing IoT devices at any scale - from prototypes to production fleets.'']],
        el ''div'' [feature_fleet, feature_ota, feature_security]]"

definition landing_discovery :: "(int \<Rightarrow> int \<Rightarrow> rat) \<Rightarrow> bool \<Rightarrow> 'a node" where
  "landing_discovery hypot active =
     El ''section'' [(''id'', AStr ''discovery'')] []
       [el ''div''
          [SectionLabel [Text ''Auto-Discovery''],
           el ''h2'' [Text ''Devices find '', el ''span'' [Text ''their way home'']],
           el ''p''
             [Text ''Zero-touch provisioning. Devices automatically discover, register, and sync with your controller - no manual configuration required.'']],
        DiscoverySection_render hypot active]"

definition landing_terminal :: "nat \<Rightarrow> 'a node" where
  "landing_terminal visibleCount =
     El ''section'' [(''id'', AStr ''terminal'')] []
       [icon ''div'',
        icon ''div'',
        el ''div''
          [el ''div''
             [SectionLabel [Text ''Live Demo''],
              el ''h2'' [Text ''See it in action''],
              el ''p''
                [Text ''Connect to any device via web terminal or SSH. Deploy firmware updates. Monitor fleet health - all from a single interface.'']],
           TerminalSection_render visibleCount]]"

definition config_card :: "'a node" where
  "config_card =
     el ''div''
       [el ''div''
          [SectionLabel [Text ''Declarative Config''],
           el ''h3'' [Text ''Define once. Converge always.''],
           el ''p''
             [Text ''Push YAML manifests describing desired device state. The agent reconciles automatically - services, files, network config.''],
           el ''div''
             [el ''div''
                [el ''span'' [Text ''kind''],
                 el ''span'' [Text '':''],
                 Text '' '',
                 el ''span'' [Text ''DeviceManifest'']],
              el ''div'' [el ''span'' [Text ''spec''], el ''span'' [Text '':'']],
              el ''div'' [el ''span'' [Text ''services''], el ''span'' [Text '':'']],
              el ''div''
                [el ''span'' [Text ''- ''],
                 el ''span'' [Text ''name:''],
                 Text '' '',
                 el ''span'' [Text ''sensor-agent'']],
              el ''div'' [el ''span'' [Text ''state:''], Text '' '', el ''span'' [Text ''running'']],
              el ''div'' [el ''span'' [Text ''restart:''], Text '' '', el ''span'' [Text ''on-failure'']],
              el ''div''
                [el ''span'' [Text ''- ''],
                 el ''span'' [Text ''name:''],
                 Text '' '',
                 el ''span'' [Text ''data-relay'']],
              el ''div'' [el ''span'' [Text ''state:''], Text '' '', el ''span'' [Text ''running'']],
              el ''div'' [el ''span'' [Text ''files''], el ''span'' [Text '':'']],
              el ''div''
                [el ''span'' [Text ''- ''],
                 el ''span'' [Text ''path:''],
                 Text '' '',
                 el ''span'' [Text ''/etc/edge/config.yaml'']],
              el ''div'' [el ''span'' [Text ''mode:''], Text '' '', el ''span'' [Text ''0644'']]]]]"

definition observability_card :: "'a node" where
  "observability_card =
     el ''div''
       [el ''div''
          [SectionLabel [Text ''Observability''],
           el ''h3'' [Text ''Logs, metrics, insights.''],
           el ''p''
             [Text ''Centralized log aggregation, health dashboards, and real-time alerting. Everything you need to understand your fleet.''],
           el ''div''
             [el ''div'' [icon ''div'', el ''span'' [Text ''Live Log Stream'']],
              el ''div''
                (map
                   (\<lambda>(e_time, e_level, e_msg, e_src). el ''div''
                      [el ''span'' [Text e_time],
                       El ''span''
                         [(''className'',
                           AStr
                             (''shrink-0 uppercase font-semibold tracking-wide text-xs mt-0.5 ''
                              @
                                (if e_level = ''warn'' then ''text-amber-600 dark:text-amber-400'' else ''text-emerald-600 dark:text-emerald-400/70'')))]
                         [] [Text e_level],
                       el ''span'' [Text e_msg]]) LOG_ENTRIES)]]]"

definition landing_deep_dive :: "'a node" where
  "landing_deep_dive =
     El ''section'' [(''id'', AStr ''deep-dive'')] []
       [el ''div''
          [SectionLabel [Text ''Under the Hood''],
           el ''h2'' [Text ''Declarative control.'', el ''span'' [Text '' Total visibility.'']],
           el ''p''
             [Text ''Define desired state in YAML. Monitor everything with centralized logs and real-time metrics.'']],
        el ''div'' [config_card, observability_card]]"

definition landing_cta :: "landing_act node" where
  "landing_cta =
     el ''section''
       [el ''div''
          [icon ''div'',
           icon ''div'',
           icon ''div'',
           el ''div''
             [LogoIcon 56 False,
              el ''h2'' [Text ''Ready to take control?''],
              el ''p''
                [Text ''Sign in to your fleet dashboard or create a new account to get started with EdgeGuardian.''],
              on_click ''Button'' [(''size'', AStr ''lg'')] LpStart [Text ''Get Started''],
              el ''p'' [Text ''Google & GitHub SSO available'']]]]"

definition landing_footer :: "int \<Rightarrow> 'a node" where
  "landing_footer year =
     el ''footer''
       [el ''div''
          [el ''div''
             [el ''div'' [LogoIcon 24 False, el ''span'' [Text ''EdgeGuardian'']],
              el ''div''
                [El ''a'' [(''href'', AStr ''/terms'')] [] [Text ''Terms & Legal''],
                 El ''a'' [(''href'', AStr ''#features'')] [] [Text ''Features''],
                 El ''a'' [(''href'', AStr ''#terminal'')] [] [Text ''Demo'']]],
           el ''div''
             [el ''p''
                [Text ([CHR 0xC2, CHR 0xA9] @ '' ''),
                 Text (show_int year),
                 Text '' EdgeGuardian. All rights reserved.''],
              el ''p''
                [Text ''Currently in beta. Use at your own risk. No warranties expressed or implied. '',
                 El ''a'' [(''href'', AStr ''/terms'')] [] [Text ''Full terms''],
                 Text ''.'']]]]"

text \<open>
  \<open>paths\<close> and \<open>hypot\<close> are the outlines of the platform icons and the length of a vector; \<open>year\<close> is
  the current year.
\<close>

definition LandingPage_render ::
  "(string \<rightharpoonup> string) \<Rightarrow> (int \<Rightarrow> int \<Rightarrow> rat) \<Rightarrow> int \<Rightarrow> landing_page \<Rightarrow> landing_act node" where
  "LandingPage_render paths hypot year s =
     ScrollReveal_render
       [el ''div''
          [landing_atmosphere, map_node LpNav (LandingNavbar_render (lp_navbar s)), landing_hero, landing_stats,
           landing_platforms paths, landing_features, landing_discovery hypot (di_active (lp_discovery s)),
           landing_terminal (ty_visibleCount (lp_terminal s)), landing_deep_dive, landing_cta, landing_footer year]]"

definition landing_handle :: "landing_act \<Rightarrow> landing_page \<Rightarrow> effect list" where
  "landing_handle a s = (case a of LpNav b \<Rightarrow> navbar_handle b (lp_navbar s) | LpStart \<Rightarrow> SignInButton_click)"

subsection \<open>app/terms/page.tsx\<close>

record terms_page =
  tp_mounted :: bool
  tp_resolvedTheme :: "string option"

datatype terms_act = TermsTheme

definition terms_handle :: "terms_act \<Rightarrow> terms_page \<Rightarrow> effect list" where
  "terms_handle a s = [SetTheme (other_theme (tp_resolvedTheme s))]"

definition Section :: "string \<Rightarrow> string \<Rightarrow> 'a node list \<Rightarrow> 'a node" where
  "Section n title children =
     el ''section'' [el ''h2'' [Text n, Text ''. '', Text title], el ''div'' children]"

definition LAST_UPDATED :: string where
  "LAST_UPDATED = ''March 9, 2026''"

definition terms_header :: "terms_page \<Rightarrow> terms_act node" where
  "terms_header s =
     el ''header''
       [el ''div''
          ([El ''Link'' [(''href'', AStr ''/'')] []
              [El ''ArrowLeft'' [(''size'', AInt 18)] [] [],
               LogoIcon 28 False,
               el ''span'' [Text ''Edge'', el ''span'' [Text ''Guardian'']]]]
           @ shown (tp_mounted s)
             (on_click ''button'' [] TermsTheme
                [if tp_resolvedTheme s = Some ''dark'' then El ''Sun'' [(''size'', AInt 20)] [] [] else El ''Moon''
                   [(''size'', AInt 20)] [] []]))]"

definition terms_general :: "'a node list" where
  "terms_general =
     [Section ''1'' ''Acceptance of Terms''
        [el ''p''
           [Text
              (''By accessing or using the EdgeGuardian platform - including the web dashboard, controller API, agent binary, and all related services (collectively, the ''
               @ [CHR 0xE2, CHR 0x80, CHR 0x9C]
               @ ''Service''
               @ [CHR 0xE2, CHR 0x80, CHR 0x9D]
               @ '') - you agree to be bound by these Terms of Service (''
               @ [CHR 0xE2, CHR 0x80, CHR 0x9C]
               @ ''Terms''
               @ [CHR 0xE2, CHR 0x80, CHR 0x9D]
               @ ''). If you do not agree, do not use the Service. Continued use constitutes acceptance of these Terms and any future amendments.'')]],
      Section ''2'' ''Beta Status & Assumption of Risk''
        [el ''p''
           [Text ''EdgeGuardian is currently in beta. By using the Service, you expressly acknowledge and accept all risks associated with beta software.''],
         el ''p''
           [Text ''The Service is under active development. Features may be incomplete, changed, or removed without notice. APIs, protocols, and data formats may change between releases. While we work to ensure stability and reliability, beta software by its nature may contain bugs, defects, or unexpected behavior.''],
         el ''p'' [Text ''You assume sole and complete responsibility for:''],
         el ''ul''
           [el ''li'' [Text ''Evaluating whether the Service is suitable for your intended use case;''],
            el ''li''
              [Text ''Any and all consequences arising from your deployment of the Service on your devices and infrastructure;''],
            el ''li''
              [Text ''Maintaining adequate backups, failover mechanisms, and recovery procedures for any systems managed through the Service;''],
            el ''li''
              [Text ''Ensuring compliance with all laws, regulations, and industry standards applicable to your use.'']]],
      Section ''3'' ''Disclaimer of Warranties''
        [el ''p''
           [Text
              (''The Service is provided ''
               @ [CHR 0xE2, CHR 0x80, CHR 0x9C]
               @ ''as is''
               @ [CHR 0xE2, CHR 0x80, CHR 0x9D]
               @ '' and ''
               @ [CHR 0xE2, CHR 0x80, CHR 0x9C]
               @ ''as available''
               @ [CHR 0xE2, CHR 0x80, CHR 0x9D]
               @ '' without warranty of any kind, whether express, implied, statutory, or otherwise.'')],
         el ''p''
           [Text ''To the maximum extent permitted by applicable law, EdgeGuardian disclaims all warranties, including but not limited to:''],
         el ''ul''
           [el ''li''
              [Text ''Implied warranties of merchantability, fitness for a particular purpose, and non-infringement;''],
            el ''li''
              [Text ''Any warranty that the Service will operate without interruption, error, or data loss;''],
            el ''li''
              [Text ''Any warranty of compatibility with any specific hardware platform, architecture (ARM, x86, RISC-V, or otherwise), operating system, kernel version, or system configuration;''],
            el ''li''
              [Text ''Any warranty that over-the-air updates, binary deployments, or configuration reconciliation will complete successfully on all target devices;''],
            el ''li''
              [Text ''Any warranty regarding the preservation, integrity, or recoverability of device data, telemetry, configurations, or logs.'']]]]"

definition terms_liability :: "'a node list" where
  "terms_liability =
     [Section ''4'' ''Limitation of Liability''
        [el ''p''
           [Text ''In no event shall EdgeGuardian, its author(s), contributors, or affiliates be liable for any direct, indirect, incidental, special, consequential, or exemplary damages arising out of or in connection with your use of the Service.''],
         el ''p''
           [Text
              (''This includes, without limitation: loss of data or configurations; loss of revenue or profits; business interruption; device malfunction, instability, or unrecoverable failure; unauthorized access to your data; failed or partial OTA updates; service outages; or any other damages - regardless of whether EdgeGuardian has been advised of the possibility of such damages. You use the Service entirely at your own risk and expense. In jurisdictions that do not permit full exclusion of liability, liability is limited to the maximum extent permitted by law. The aggregate liability of EdgeGuardian shall in no case exceed zero euros (''
               @ [CHR 0xE2, CHR 0x82, CHR 0xAC]
               @ ''0.00).'')]],
      Section ''5'' ''Device & Infrastructure Risks''
        [el ''p''
           [Text ''The EdgeGuardian agent operates at a system level on target devices. It may manage services, write files, apply configurations, and perform binary updates as part of its normal operation. You acknowledge and agree that:''],
         el ''ul''
           [el ''li''
              [Text ''All installation and deployment of agent software is performed at your sole risk and discretion;''],
            el ''li''
              [Text ''The agent modifies system state by design - including services, files, and network configuration - as directed by the desired-state manifests you define;''],
            el ''li''
              [Text ''Over-the-air binary updates carry inherent risk including device instability, boot failure, or data loss;''],
            el ''li''
              [Text ''Watchdog and rollback mechanisms operate on a best-effort basis and cannot guarantee recovery in all failure scenarios;''],
            el ''li''
              [Text ''EdgeGuardian bears no responsibility for hardware damage, data loss, voided manufacturer warranties, or any other consequence resulting from agent operation on your devices;''],
            el ''li''
              [Text ''You are solely responsible for testing in a controlled environment before deploying to any devices you cannot afford to lose.'']]]]"

definition terms_data :: "'a node list" where
  "terms_data =
     [Section ''6'' ''Data & Privacy''
        [el ''p''
           [Text ''The Service processes the following data categories in the course of normal operation:''],
         el ''ul''
           [el ''li''
              [el ''strong'' [Text ''Account data:''],
               Text '' authentication credentials and profile information via third-party identity providers;''],
            el ''li''
              [el ''strong'' [Text ''Device telemetry:''],
               Text '' hardware metrics, OS information, network status, and agent version;''],
            el ''li''
              [el ''strong'' [Text ''Operational data:''],
               Text '' service state, reconciliation events, deployment progress, and error reports;''],
            el ''li''
              [el ''strong'' [Text ''Usage metadata:''],
               Text '' dashboard interactions, API request logs, and session information.'']],
         el ''p''
           [Text
              (''Data is processed solely to provide and improve the Service. No data is sold to third parties. Data is stored on infrastructure under the Service operator''
               @ [CHR 0x27]
               @ ''s control. Given the beta status of the Service, no guarantee is made regarding the security, integrity, or availability of stored data. You are responsible for compliance with all applicable data protection legislation, including the General Data Protection Regulation (GDPR) where applicable.'')]],
      Section ''7'' ''Third-Party Dependencies''
        [el ''p''
           [Text ''The Service relies on third-party software and services including, but not limited to: PostgreSQL, Keycloak, EMQX, Grafana, Loki, and various open-source libraries. EdgeGuardian makes no warranties regarding the availability, performance, or security of any third-party component. Their use is governed by their respective licenses and terms. EdgeGuardian is not liable for any failure, outage, vulnerability, or data breach originating from a third-party dependency.'']]]"

definition terms_closing :: "'a node list" where
  "terms_closing =
     [Section ''8'' ''Indemnification''
        [el ''p''
           [Text ''You agree to indemnify, defend, and hold harmless EdgeGuardian and its author(s), contributors, and affiliates from any claims, damages, liabilities, costs, or expenses (including legal fees) arising from: (a) your use of the Service; (b) your breach of these Terms; (c) your violation of any third-party right; or (d) any damage to third parties resulting from your use of the Service or devices managed through it.'']],
      Section ''9'' ''Changes & Termination''
        [el ''p''
           [Text ''EdgeGuardian reserves the right to modify, suspend, or discontinue any part of the Service at any time without notice. These Terms may be revised at any time; the date at the top of this page reflects the latest revision. Continued use after changes constitutes acceptance. EdgeGuardian may restrict or terminate your access at its sole discretion, without prior notice or liability.'']],
      Section ''10'' ''Governing Law''
        [el ''p''
           [Text ''These Terms are governed by the laws of the jurisdiction in which the Service operator resides, without regard to conflict-of-law provisions. Disputes shall be resolved exclusively in the competent courts of that jurisdiction. If any provision is found unenforceable, the remaining provisions remain in full effect.'']],
      Section ''11'' ''Entire Agreement''
        [el ''p''
           [Text ''These Terms constitute the entire agreement between you and EdgeGuardian regarding the Service. They supersede all prior agreements and understandings. Failure to enforce any provision does not constitute a waiver of that or any other provision.'']]]"

definition terms_contact :: "'a node" where
  "terms_contact =
     el ''div''
       [el ''h2'' [Text ''Contact''],
        el ''p''
          [Text ''For questions regarding these Terms, open an issue in the project repository or contact the maintainer through the appropriate institutional channels.'']]"

definition terms_footer :: "int \<Rightarrow> 'a node" where
  "terms_footer year =
     el ''footer''
       [el ''div''
          [el ''div'' [LogoIcon 20 False, el ''span'' [Text ''EdgeGuardian'']],
           el ''p''
             [Text ([CHR 0xC2, CHR 0xA9] @ '' ''),
              Text (show_int year),
              Text '' EdgeGuardian. All rights reserved.'']]]"

definition terms_sections :: "'a node list" where
  "terms_sections = terms_general @ terms_liability @ terms_data @ terms_closing"

definition TermsPage_render :: "int \<Rightarrow> terms_page \<Rightarrow> terms_act node" where
  "TermsPage_render year s =
     el ''div''
       [terms_header s,
        el ''main''
          [el ''h1'' [Text ''Terms of Service''],
           el ''p'' [Text ''Last updated: '', Text LAST_UPDATED],
           el ''div'' (terms_sections @ [terms_contact])],
        terms_footer year]"

subsection \<open>app/layout.tsx and toaster.tsx\<close>

definition Toaster_render :: "string option \<Rightarrow> 'a node" where
  "Toaster_render theme = El ''Sonner'' [(''theme'', AStr (case theme of Some t \<Rightarrow> t | None \<Rightarrow> ''system''))] [] []"

text \<open>
  The fonts of the root layout; \<open>fontClass\<close> gives the class name that \<open>next/font\<close> generates for the
  variable of a font.
\<close>

record font =
  ft_family :: string
  ft_subsets :: "string list"
  ft_variable :: string
  ft_display :: string

definition jakarta :: font where
  "jakarta =
     \<lparr>ft_family = ''Plus_Jakarta_Sans'', ft_subsets = [''latin''], ft_variable = ''--font-sans'', ft_display = ''swap''\<rparr>"

definition jetbrains :: font where
  "jetbrains =
     \<lparr>ft_family = ''JetBrains_Mono'', ft_subsets = [''latin''], ft_variable = ''--font-mono'', ft_display = ''swap''\<rparr>"

definition RootLayout_render :: "(font \<Rightarrow> string) \<Rightarrow> 'a node list \<Rightarrow> 'a node" where
  "RootLayout_render fontClass children =
     El ''html'' [(''lang'', AStr ''en'')] []
       [El ''body''
          [(''className'', AStr (fontClass jakarta @ '' '' @ fontClass jetbrains @ '' font-sans min-h-screen antialiased''))] []
          [Providers_render children]]"

subsection \<open>Links and identifiers of a tree\<close>

definition str_attr :: "string \<Rightarrow> (string \<times> attr) list \<Rightarrow> string list" where
  "str_attr k as = (case attr_of k as of AStr v \<Rightarrow> [v] | _ \<Rightarrow> [])"

fun attr_values :: "string \<Rightarrow> 'a node \<Rightarrow> string list" where
  "attr_values k (Text s) = []"
| "attr_values k (El t as hs cs) = str_attr k as @ concat (map (attr_values k) cs)"

text \<open>A link inside the page, or to a page that needs no session.\<close>

definition public_pages :: "string list" where
  "public_pages = [''/'', ''/terms'', ''/auth/login'']"

definition link_ok :: "'a node \<Rightarrow> string \<Rightarrow> bool" where
  "link_ok page h \<longleftrightarrow> h = ''#'' \<or> h \<in> (\<lambda>i. ''#'' @ i) ` set (attr_values ''id'' page) \<or> h \<in> set public_pages"

subsection \<open>Where the links lead\<close>

lemma attr_values_el [simp]: "attr_values k (el t cs) = concat (map (attr_values k) cs)"
  by (simp add: el_def str_attr_def)

lemma attr_values_icon [simp]: "attr_values k (icon t) = []"
  by (simp add: icon_def str_attr_def)

lemma attr_values_on_click [simp]: "attr_values k (on_click t as a cs) = str_attr k as @ concat (map (attr_values k) cs)"
  by (simp add: on_click_def)

lemma attr_values_map_node [simp]: "attr_values k (map_node f n) = attr_values k n"
  by (induction n) (auto intro!: arg_cong [of _ _ concat])

lemma attr_values_shown [simp]: "concat (map (attr_values k) (shown b n)) = (if b then attr_values k n else [])"
  by (simp add: shown_def)

lemma str_attr_Cons [simp]: "str_attr k ((k', v) # as) = (if k' = k then (case v of AStr x \<Rightarrow> [x] | _ \<Rightarrow> []) else str_attr k as)"
  "str_attr k [] = []"
  by (simp_all add: str_attr_def)

lemma logo_values [simp]: "attr_values ''id'' (LogoIcon n b) = []" "attr_values ''href'' (LogoIcon n b) = []"
  by (simp_all add: LogoIcon_def disc_def)

lemma marquee_values [simp]:
  "attr_values ''id'' (MarqueeSection_render paths) = []" "attr_values ''href'' (MarqueeSection_render paths) = []"
  by (simp_all add: MarqueeSection_render_def MarqueeRow_render_def renderPill_def split: option.split)

lemma terminal_values [simp]:
  "attr_values ''id'' (TerminalSection_render n) = []" "attr_values ''href'' (TerminalSection_render n) = []"
  by (auto simp: TerminalSection_render_def terminal_row_node_def split: term_row.splits option.splits)

lemma discovery_values [simp]:
  "attr_values ''id'' (DiscoverySection_render hypot active) = [''pulse-glow'', ''hub-bg'']"
  "attr_values ''href'' (DiscoverySection_render hypot active) = []"
  by (auto simp: DiscoverySection_render_def discovery_line_def discovery_hub_def discovery_device_def
      discovery_pulse_def Let_def)

lemma concat_map_empty: "(\<And>x. f (g x) = []) \<Longrightarrow> concat (map (f \<circ> g) xs) = []"
  by simp

lemma feature_ota_values [simp]:
  "attr_values ''id'' (feature_ota :: 'a node) = [''updates'']" "attr_values ''href'' (feature_ota :: 'a node) = []"
  by (simp_all add: feature_ota_def SectionLabel_def concat_map_empty)

lemma landing_ids:
  "attr_values ''id'' (landing_atmosphere :: 'a node) = []" "attr_values ''id'' (LandingNavbar_render nb) = []"
  "attr_values ''id'' landing_hero = []" "attr_values ''id'' (landing_stats :: 'a node) = []"
  "attr_values ''id'' (landing_platforms paths :: 'a node) = []"
  "attr_values ''id'' (landing_features :: 'a node) = [''features'', ''updates'', ''security'']"
  "attr_values ''id'' (landing_discovery hypot active :: 'a node) = [''discovery'', ''pulse-glow'', ''hub-bg'']"
  "attr_values ''id'' (landing_terminal n :: 'a node) = [''terminal'']"
  "attr_values ''id'' (landing_deep_dive :: 'a node) = [''deep-dive'']"
  "attr_values ''id'' landing_cta = []" "attr_values ''id'' (landing_footer year :: 'a node) = []"
  by (auto simp: landing_atmosphere_def LandingNavbar_render_def navbar_links_def landing_hero_def ParallaxWrapper_render_def
      DashboardMockup_def landing_stats_def landing_platforms_def SectionLabel_def landing_features_def feature_fleet_def
      feature_security_def landing_discovery_def landing_terminal_def landing_deep_dive_def
      config_card_def observability_card_def landing_cta_def landing_footer_def)

lemma landing_hrefs:
  "attr_values ''href'' (landing_atmosphere :: 'a node) = []"
  "attr_values ''href'' (LandingNavbar_render nb) = [''#features'', ''#discovery'', ''#terminal'', ''#'']"
  "attr_values ''href'' landing_hero = [''#terminal'']" "attr_values ''href'' (landing_stats :: 'a node) = []"
  "attr_values ''href'' (landing_platforms paths :: 'a node) = []"
  "attr_values ''href'' (landing_features :: 'a node) = []"
  "attr_values ''href'' (landing_discovery hypot active :: 'a node) = []"
  "attr_values ''href'' (landing_terminal n :: 'a node) = []"
  "attr_values ''href'' (landing_deep_dive :: 'a node) = []"
  "attr_values ''href'' landing_cta = []"
  "attr_values ''href'' (landing_footer year :: 'a node) = [''/terms'', ''#features'', ''#terminal'', ''/terms'']"
  by (auto simp: landing_atmosphere_def LandingNavbar_render_def navbar_links_def landing_hero_def ParallaxWrapper_render_def
      DashboardMockup_def landing_stats_def landing_platforms_def SectionLabel_def landing_features_def feature_fleet_def
      feature_security_def landing_discovery_def landing_terminal_def landing_deep_dive_def
      config_card_def observability_card_def landing_cta_def landing_footer_def)

lemma terms_values:
  "attr_values ''href'' (terms_header s) = [''/'']" "attr_values ''href'' (terms_footer year :: 'a node) = []"
  "attr_values ''href'' (terms_contact :: 'a node) = []"
  "concat (map (attr_values ''href'') (terms_sections :: 'a node list)) = []"
  by (auto simp: terms_header_def terms_footer_def terms_contact_def terms_sections_def terms_general_def
      terms_liability_def terms_data_def terms_closing_def Section_def)


subsection \<open>What a visitor can do\<close>

lemma offers_static:
  "offers_in hid (LogoIcon n b :: 'a node) = {}" "offers_in hid (DashboardMockup :: 'a node) = {}"
  "offers_in hid (MarqueeSection_render paths :: 'a node) = {}"
  "offers_in hid (TerminalSection_render k :: 'a node) = {}"
  "offers_in hid (DiscoverySection_render hypot active :: 'a node) = {}"
  by (auto simp: LogoIcon_def disc_def DashboardMockup_def MarqueeSection_render_def MarqueeRow_render_def renderPill_def
      TerminalSection_render_def terminal_row_node_def DiscoverySection_render_def discovery_line_def discovery_hub_def
      discovery_device_def discovery_pulse_def Let_def dialog_content_def closed_dialog_def
      split: option.splits term_row.splits prod.splits if_splits)

lemma offers_landing_parts:
  "offers_in hid (landing_atmosphere :: 'a node) = {}" "offers_in hid landing_hero = {LpStart}"
  "offers_in hid (landing_stats :: 'a node) = {}" "offers_in hid (landing_platforms paths :: 'a node) = {}"
  "offers_in hid (landing_features :: 'a node) = {}" "offers_in hid (landing_discovery hypot active :: 'a node) = {}"
  "offers_in hid (landing_terminal k :: 'a node) = {}" "offers_in hid (landing_deep_dive :: 'a node) = {}"
  "offers_in hid landing_cta = {LpStart}" "offers_in hid (landing_footer year :: 'a node) = {}"
  by (auto simp: offers_static landing_atmosphere_def landing_hero_def ParallaxWrapper_render_def landing_stats_def
      landing_platforms_def SectionLabel_def landing_features_def feature_fleet_def feature_ota_def feature_security_def
      landing_discovery_def landing_terminal_def landing_deep_dive_def config_card_def observability_card_def
      landing_cta_def landing_footer_def dialog_content_def closed_dialog_def)

lemma offers_navbar:
  "offers_in hid (LandingNavbar_render nb) = {NavTop, NavStart} \<union> (if nb_mounted nb then {NavTheme} else {})"
  by (auto simp: LandingNavbar_render_def navbar_links_def dialog_content_def closed_dialog_def)

text \<open>
  What a visitor of the landing page can do, in every state: scroll up, switch the theme once the
  bar is mounted, and sign in; each of the three sign-in buttons starts the one provider and returns
  to the dashboard.
\<close>

theorem landing_visitor:
  "offers (LandingPage_render paths hypot year s) =
     {LpNav NavTop, LpNav NavStart, LpStart} \<union> (if nb_mounted (lp_navbar s) then {LpNav NavTheme} else {})
   \<and> landing_handle LpStart s = [SignInTo ''keycloak'' ''/dashboard'']
   \<and> landing_handle (LpNav NavStart) s = landing_handle LpStart s
   \<and> landing_handle (LpNav NavTop) s = [ScrollToTop]"
  by (auto simp: offers_def LandingPage_render_def ScrollReveal_render_def offers_landing_parts offers_navbar
      landing_handle_def navbar_handle_def SignInButton_click_def split: if_splits)

text \<open>The sections of the terms are numbered in order.\<close>

lemma terms_numbered: "map (hd \<circ> texts) (terms_sections :: 'a node list) = map show_int [1..11]"
proof -
  have "(hd \<circ> texts) (Section n t cs :: 'a node) = n" for n t cs by (simp add: Section_def)
  moreover have "map show_int [1..11] =
      [''1'', ''2'', ''3'', ''4'', ''5'', ''6'', ''7'', ''8'', ''9'', ''10'', ''11'']" by code_simp
  ultimately show ?thesis
    by (simp add: terms_sections_def terms_general_def terms_liability_def terms_data_def terms_closing_def)
qed

text \<open>Every platform of the two rows has a picture, and a drawn one has a colour.\<close>

lemma platform_icons_complete:
  "list_all (\<lambda>p. pi_icon p \<in> fst ` set ICON_FILE \<or> pi_icon p \<in> set platform_icon_keys \<inter> fst ` set ICON_COLOR)
     (OS_ITEMS @ ARCH_ITEMS)"
  by (simp add: OS_ITEMS_def ARCH_ITEMS_def ICON_FILE_def platform_icon_keys_def ICON_COLOR_def)

text \<open>
  A frame requested before the clean-up can still run after it, since only the last one is cancelled,
  but it moves nothing.
\<close>

lemma parallax_still:
  "parallax_step s t \<Longrightarrow> \<not> px_element s \<Longrightarrow> \<not> px_element t \<and> px_transform t = px_transform s"
  by (induction rule: parallax_step.induct) (simp_all add: parallax_onScroll_def parallax_frame_def Let_def)

lemma parallax_frame_outlives_cleanup:
  "px_frames (parallax_cleanup (parallax_onScroll (parallax_onScroll parallax_mount))) = [0]"
  by (simp add: parallax_cleanup_def parallax_onScroll_def parallax_mount_def)

end
