(* ===== verification/AppShell.thy ===== *)
theory AppShell
  imports HomePage
begin

text \<open>
  What the application declares to the framework: the generated icons (src/ui/app/icon.tsx and
  apple-icon.tsx), the metadata of the root layout (src/ui/app/layout.tsx), the configuration given to
  NextAuth with its logger (src/ui/lib/auth.ts) and the composition of class names (src/ui/lib/utils.ts).

  \<open>ImageResponse\<close> is Next's: an icon is the tree and the options handed to it.  NextAuth calls the
  logger; what it passes is an argument.
\<close>

subsection \<open>icon.tsx and apple-icon.tsx\<close>

record 'a image_response =
  ir_tree :: "'a node"
  ir_width :: int
  ir_height :: int

definition icon_contentType :: string where
  "icon_contentType = ''image/png''"

definition icon_size :: "int \<times> int" where
  "icon_size = (32, 32)"

definition Icon :: "'a image_response" where
  "Icon =
     \<lparr>ir_tree =
        El ''div''
          [(''width'', AInt 32), (''height'', AInt 32), (''display'', AStr ''flex''), (''alignItems'', AStr ''center''),
           (''justifyContent'', AStr ''center''), (''background'', AStr ''#06060a''), (''borderRadius'', AInt 6)] []
          [El ''svg'' [(''width'', AStr ''26''), (''height'', AStr ''26''), (''viewBox'', AStr ''0 0 48 48''), (''fill'', AStr ''none'')] []
             [El ''path'' [(''d'', AStr shield_path), (''fill'', AStr ''#06b6d4'')] [] [],
              disc ''24'' ''20'' ''4'' [(''fill'', AStr ''#06060a'')],
              disc ''24'' ''10'' ''2.5'' [(''fill'', AStr ''#06060a'')],
              disc ''15'' ''32'' ''2.5'' [(''fill'', AStr ''#06060a'')],
              disc ''33'' ''32'' ''2.5'' [(''fill'', AStr ''#06060a'')]]],
      ir_width = fst icon_size, ir_height = snd icon_size\<rparr>"

definition apple_size :: "int \<times> int" where
  "apple_size = (180, 180)"

definition AppleIcon :: "'a image_response" where
  "AppleIcon =
     \<lparr>ir_tree =
        El ''div''
          [(''width'', AInt 180), (''height'', AInt 180), (''display'', AStr ''flex''), (''alignItems'', AStr ''center''),
           (''justifyContent'', AStr ''center''),
           (''background'', AStr ''linear-gradient(135deg, #06060a 0%, #0c1220 100%)''), (''borderRadius'', AInt 40)] []
          [El ''svg'' [(''width'', AStr ''120''), (''height'', AStr ''120''), (''viewBox'', AStr ''0 0 48 48''), (''fill'', AStr ''none'')] []
             [El ''path'' [(''d'', AStr shield_path), (''fill'', AStr ''#06b6d4'')] [] [],
              El ''path'' [(''d'', AStr spokes_path), (''stroke'', AStr ''#080e18''), (''strokeWidth'', AStr ''2''),
                 (''strokeLinecap'', AStr ''round'')] [] [],
              disc ''24'' ''20'' ''4'' [(''fill'', AStr ''#080e18'')],
              disc ''24'' ''10'' ''2.5'' [(''fill'', AStr ''#080e18'')],
              disc ''15'' ''32'' ''2.5'' [(''fill'', AStr ''#080e18'')],
              disc ''33'' ''32'' ''2.5'' [(''fill'', AStr ''#080e18'')]]],
      ir_width = fst apple_size, ir_height = snd apple_size\<rparr>"

subsection \<open>The metadata of layout.tsx\<close>

record metadata =
  md_default :: string
  md_template :: string
  md_description :: string
  md_og :: "(string \<times> string) list"
  md_twitter :: "(string \<times> string) list"

definition root_metadata :: metadata where
  "root_metadata =
     \<lparr>md_default = ''EdgeGuardian'', md_template = ''%s | EdgeGuardian'',
      md_description = ''Kubernetes-style IoT fleet management. Sub-5MB agents, declarative YAML config, OTA updates with automatic rollback. Built for ARM, x86, and everything in between.'',
      md_og =
        [(''title'', ''EdgeGuardian - IoT Fleet Management''),
         (''description'', ''Deploy to thousands. Monitor everything. Sub-5MB agents that self-heal with declarative config and OTA updates.''),
         (''siteName'', ''EdgeGuardian''), (''type'', ''website'')],
      md_twitter =
        [(''card'', ''summary_large_image''), (''title'', ''EdgeGuardian - IoT Fleet Management''),
         (''description'', ''Deploy to thousands. Monitor everything. Sub-5MB agents that self-heal with declarative config and OTA updates.'')]\<rparr>"

subsection \<open>The NextAuth configuration of auth.ts\<close>

record keycloak_provider =
  kp_clientId :: string
  kp_clientSecret :: string
  kp_issuer :: string

definition auth_provider :: "auth_env \<Rightarrow> keycloak_provider" where
  "auth_provider e = \<lparr>kp_clientId = client_id e, kp_clientSecret = client_secret e, kp_issuer = issuer e\<rparr>"

definition auth_signIn_page :: string where
  "auth_signIn_page = ''/auth/login''"

text \<open>
  The logger.  An error code may have a cause, with a message (\<open>None\<close> when absent) and a stack; the
  text of a value is given with it.  A printed argument \<open>None\<close> is \<open>undefined\<close>.
\<close>

record log_cause =
  lc_message :: "string option"
  lc_text :: string
  lc_stack :: "string option"

datatype console = ConsoleError "string option list" | ConsoleWarn "string option list" | ConsoleLog "string option list"

definition logger_error :: "string \<Rightarrow> log_cause option \<Rightarrow> console list" where
  "logger_error code cause =
     [ConsoleError [Some ''[auth-dbg] error'', Some code],
      ConsoleError
        [Some ''[auth-dbg] cause:'',
         case cause of
           None \<Rightarrow> None
         | Some c \<Rightarrow> if truthy (lc_message c) then lc_message c else Some (lc_text c)],
      ConsoleError [Some ''[auth-dbg] cause-stack:'', Option.bind cause lc_stack]]"

definition logger_warn :: "string \<Rightarrow> console list" where
  "logger_warn code = [ConsoleWarn [Some ''[auth-dbg] warn'', Some code]]"

definition logger_debug :: "string \<Rightarrow> string option \<Rightarrow> console list" where
  "logger_debug code metadata = [ConsoleLog [Some ''[auth-dbg]'', Some code, metadata]]"

subsection \<open>utils.ts\<close>

text \<open>\<open>clsx\<close> and \<open>twMerge\<close> are third-party.\<close>

definition cn :: "('v list \<Rightarrow> string) \<Rightarrow> (string \<Rightarrow> string) \<Rightarrow> 'v list \<Rightarrow> string" where
  "cn clsx twMerge inputs = twMerge (clsx inputs)"

subsection \<open>Agreement\<close>

text \<open>The icons draw the mark of the logo: the same shield, the same spokes (the small icon has none), the same nodes.\<close>

lemma icons_draw_logo:
  "attr_values ''d'' (ir_tree AppleIcon) = attr_values ''d'' (LogoIcon sz b)"
  "attr_values ''d'' (ir_tree Icon) = take 1 (attr_values ''d'' (LogoIcon sz b))"
  "attr_values ''cx'' (ir_tree AppleIcon) = attr_values ''cx'' (LogoIcon sz b)"
  "attr_values ''cy'' (ir_tree AppleIcon) = attr_values ''cy'' (LogoIcon sz b)"
  "attr_values ''cx'' (ir_tree Icon) = attr_values ''cx'' (LogoIcon sz b)"
  "attr_values ''cy'' (ir_tree Icon) = attr_values ''cy'' (LogoIcon sz b)"
  by (simp_all add: Icon_def AppleIcon_def LogoIcon_def disc_def str_attr_def)

text \<open>
  The sign-in page of the configuration is the page the middleware redirects to, it is public, and the
  provider uses the credentials that a token refresh sends.
\<close>

lemma auth_configuration_agrees:
  "middleware e origin path (None :: 'a option) = Next
   \<or> (\<exists>q. middleware e origin path (None :: 'a option) = Redirect (origin @ auth_signIn_page @ ''?'' @ q))"
  "\<not> mw_matcher auth_signIn_page"
  "refresh_url e = kp_issuer (auth_provider e) @ ''/protocol/openid-connect/token''"
  "map_of (refresh_form e r) ''client_id'' = Some (kp_clientId (auth_provider e))"
  "map_of (refresh_form e r) ''client_secret'' = Some (kp_clientSecret (auth_provider e))"
  by (simp_all add: middleware_def auth_signIn_page_def mw_matcher_def refresh_url_def auth_provider_def refresh_form_def)

text \<open>Shared previews say the same on both networks.\<close>

lemma metadata_agrees:
  "map_of (md_og root_metadata) ''title'' = map_of (md_twitter root_metadata) ''title''"
  "map_of (md_og root_metadata) ''description'' = map_of (md_twitter root_metadata) ''description''"
  by (simp_all add: root_metadata_def)

end
