(* ===== verification/Primitives.thy ===== *)
theory Primitives
  imports View
begin

text \<open>
  The widgets of src/ui/components/ui.  A component is a function from its properties, its handlers
  and its children to the tree it returns, over the primitives of Radix and cmdk
  (\<open>DialogPrimitive.Root\<close>, \<open>CommandPrimitive.Item\<close>, ...), which are third-party.  The arguments
  of \<open>cn\<close> are kept as \<open>AClasses\<close>; \<open>ref\<close> and \<open>displayName\<close> have no counterpart.

  \<open>expand\<close> (theory Radix) replaces every widget of a page by the tree its component returns.
  Note that alert-dialog.tsx and sheet.tsx build on the primitives of a plain dialog: both import
  @radix-ui/react-dialog.
\<close>

type_synonym attrs = "(string \<times> attr) list"
type_synonym 'a handlers = "(string \<times> 'a handler) list"
type_synonym 'a wrapper = "attrs \<Rightarrow> 'a handlers \<Rightarrow> 'a node list \<Rightarrow> 'a node"

subsection \<open>Properties\<close>

definition drop_attrs :: "string list \<Rightarrow> attrs \<Rightarrow> attrs" where
  "drop_attrs ks as = filter (\<lambda>(k, v). k \<notin> set ks) as"

text \<open>A destructured property with a default: the default applies when it is absent.\<close>

definition prop_or :: "attr \<Rightarrow> string \<Rightarrow> attrs \<Rightarrow> attr" where
  "prop_or d k as = (if attr_of k as = ANone then d else attr_of k as)"

definition default_prop :: "string \<Rightarrow> attr \<Rightarrow> attrs \<Rightarrow> attrs" where
  "default_prop k d as = (k, prop_or d k as) # drop_attrs [k] as"

text \<open>\<open>className={cn(base, className)} {...props}\<close>.\<close>

definition class_arg :: "attrs \<Rightarrow> string list" where
  "class_arg as = (case attr_of ''className'' as of AStr s \<Rightarrow> [s] | AClasses l \<Rightarrow> l | _ \<Rightarrow> [])"

definition cn_prop :: "string list \<Rightarrow> attrs \<Rightarrow> attrs" where
  "cn_prop base as = (''className'', AClasses (base @ class_arg as)) # drop_attrs [''className''] as"

text \<open>\<open>className="base" {...props}\<close>: the caller's class name replaces the constant one.\<close>

definition default_class :: "string list \<Rightarrow> attrs \<Rightarrow> attrs" where
  "default_class base as = (if attr_of ''className'' as = ANone then (''className'', AClasses base) # as else as)"

text \<open>The class a \<open>cva\<close> table gives a variant property.\<close>

definition variant_class :: "(string \<times> string) list \<Rightarrow> string \<Rightarrow> attr \<Rightarrow> string list" where
  "variant_class tbl dflt a =
     (case map_of tbl (case a of AStr v \<Rightarrow> v | _ \<Rightarrow> dflt) of Some c \<Rightarrow> [c] | None \<Rightarrow> [])"

subsection \<open>button.tsx\<close>

definition button_base :: string where
  "button_base = ''inline-flex items-center justify-center gap-2 whitespace-nowrap rounded-lg text-sm font-semibold tracking-tight cursor-pointer transition-all duration-200 focus-visible:outline-none focus-visible:ring-2 focus-visible:ring-ring/50 focus-visible:ring-offset-2 focus-visible:ring-offset-background disabled:pointer-events-none disabled:opacity-40 active:scale-[0.97]''"

definition button_variants :: "(string \<times> string) list" where
  "button_variants =
     [(''default'', ''bg-primary text-primary-foreground shadow-md shadow-primary/20 hover:shadow-lg hover:shadow-primary/30 hover:brightness-110''),
      (''destructive'', ''bg-destructive text-destructive-foreground shadow-md shadow-destructive/20 hover:shadow-lg hover:shadow-destructive/30 hover:brightness-110''),
      (''outline'', ''border border-border bg-transparent shadow-sm hover:bg-accent hover:text-accent-foreground hover:border-primary/30''),
      (''secondary'', ''bg-secondary text-secondary-foreground shadow-sm hover:bg-secondary/80''),
      (''ghost'', ''hover:bg-accent hover:text-accent-foreground''),
      (''link'', ''text-primary underline-offset-4 hover:underline'')]"

definition button_sizes :: "(string \<times> string) list" where
  "button_sizes =
     [(''default'', ''h-9 px-4 py-2''), (''sm'', ''h-8 rounded-md px-3 text-xs''),
      (''lg'', ''h-11 rounded-lg px-8 text-base''), (''icon'', ''h-9 w-9'')]"

definition buttonVariants :: "attr \<Rightarrow> attr \<Rightarrow> string list" where
  "buttonVariants variant sz =
     button_base # variant_class button_variants ''default'' variant @ variant_class button_sizes ''default'' sz"

definition Button :: "'a wrapper" where
  "Button as hs cs =
     El (if attr_of ''asChild'' as = ABool True then ''Slot'' else ''button'')
       (cn_prop (buttonVariants (attr_of ''variant'' as) (attr_of ''size'' as))
          (drop_attrs [''variant'', ''size'', ''asChild''] as))
       hs cs"

subsection \<open>badge.tsx\<close>

definition badge_base :: string where
  "badge_base = ''inline-flex items-center rounded-full border px-2.5 py-0.5 text-xs font-semibold transition-all duration-200 focus:outline-none focus:ring-2 focus:ring-ring/50 focus:ring-offset-2''"

definition badge_variants :: "(string \<times> string) list" where
  "badge_variants =
     [(''default'', ''border-transparent bg-primary text-primary-foreground shadow-sm shadow-primary/20 hover:bg-primary/90''),
      (''secondary'', ''border-transparent bg-secondary text-secondary-foreground hover:bg-secondary/80''),
      (''destructive'', ''border-transparent bg-destructive text-destructive-foreground shadow-sm hover:bg-destructive/90''),
      (''outline'', ''text-foreground'')]"

definition badgeVariants :: "attr \<Rightarrow> string list" where
  "badgeVariants variant = badge_base # variant_class badge_variants ''default'' variant"

definition Badge :: "'a wrapper" where
  "Badge as hs cs =
     El ''div'' (cn_prop (badgeVariants (attr_of ''variant'' as)) (drop_attrs [''variant''] as)) hs cs"

subsection \<open>label.tsx\<close>

definition labelVariants :: "string list" where
  "labelVariants = [''text-sm font-medium leading-none peer-disabled:cursor-not-allowed peer-disabled:opacity-70'']"

definition Label :: "'a wrapper" where
  "Label as hs cs =
     El ''LabelPrimitive.Root'' (cn_prop labelVariants as) hs cs"

subsection \<open>input.tsx\<close>

definition Input :: "'a wrapper" where
  "Input as hs cs =
     El ''input'' (cn_prop [''flex h-9 w-full rounded-lg border border-input bg-background/50 px-3 py-1 text-base shadow-sm transition-all duration-200 file:border-0 file:bg-transparent file:text-sm file:font-medium file:text-foreground placeholder:text-muted-foreground focus-visible:outline-none focus-visible:ring-2 focus-visible:ring-ring/50 focus-visible:border-primary/50 disabled:cursor-not-allowed disabled:opacity-40 md:text-sm''] as) hs cs"

subsection \<open>textarea.tsx\<close>

definition Textarea :: "'a wrapper" where
  "Textarea as hs cs =
     El ''textarea'' (cn_prop [''flex min-h-[60px] w-full rounded-md border border-input bg-transparent px-3 py-2 text-base shadow-sm placeholder:text-muted-foreground focus-visible:outline-none focus-visible:ring-1 focus-visible:ring-ring disabled:cursor-not-allowed disabled:opacity-50 md:text-sm''] as) hs cs"

subsection \<open>skeleton.tsx\<close>

definition Skeleton :: "'a wrapper" where
  "Skeleton as hs cs =
     El ''div'' (cn_prop [''animate-pulse rounded-lg bg-muted/60''] as) hs cs"

subsection \<open>card.tsx\<close>

definition Card :: "'a wrapper" where
  "Card as hs cs =
     El ''div'' (cn_prop [''rounded-xl border bg-card/80 text-card-foreground shadow-sm backdrop-blur-sm transition-all duration-300 hover:shadow-md''] as) hs cs"

definition CardHeader :: "'a wrapper" where
  "CardHeader as hs cs =
     El ''div'' (cn_prop [''flex flex-col space-y-1.5 p-6''] as) hs cs"

definition CardTitle :: "'a wrapper" where
  "CardTitle as hs cs =
     El ''div'' (cn_prop [''font-semibold leading-none tracking-tight''] as) hs cs"

definition CardDescription :: "'a wrapper" where
  "CardDescription as hs cs =
     El ''div'' (cn_prop [''text-sm text-muted-foreground''] as) hs cs"

definition CardContent :: "'a wrapper" where
  "CardContent as hs cs =
     El ''div'' (cn_prop [''p-6 pt-0''] as) hs cs"

subsection \<open>table.tsx\<close>

definition Table :: "'a wrapper" where
  "Table as hs cs =
     El ''div'' (cn_prop [''relative w-full overflow-auto''] []) [] [El ''table'' (cn_prop [''w-full caption-bottom text-sm''] as) hs cs]"

definition TableHeader :: "'a wrapper" where
  "TableHeader as hs cs =
     El ''thead'' (cn_prop [''[&_tr]:border-b''] as) hs cs"

definition TableBody :: "'a wrapper" where
  "TableBody as hs cs =
     El ''tbody'' (cn_prop [''[&_tr:last-child]:border-0''] as) hs cs"

definition TableRow :: "'a wrapper" where
  "TableRow as hs cs =
     El ''tr'' (cn_prop [''border-b border-border/50 transition-colors hover:bg-muted/30 data-[state=selected]:bg-muted/50''] as) hs cs"

definition TableHead :: "'a wrapper" where
  "TableHead as hs cs =
     El ''th'' (cn_prop [''h-10 px-3 text-left align-middle text-xs font-semibold uppercase tracking-wider text-muted-foreground [&:has([role=checkbox])]:pr-0''] as) hs cs"

definition TableCell :: "'a wrapper" where
  "TableCell as hs cs =
     El ''td'' (cn_prop [''p-3 align-middle [&:has([role=checkbox])]:pr-0''] as) hs cs"

subsection \<open>avatar.tsx\<close>

definition Avatar :: "'a wrapper" where
  "Avatar as hs cs =
     El ''AvatarPrimitive.Root'' (cn_prop [''relative flex h-10 w-10 shrink-0 overflow-hidden rounded-full''] as) hs cs"

definition AvatarImage :: "'a wrapper" where
  "AvatarImage as hs cs =
     El ''AvatarPrimitive.Image'' (cn_prop [''aspect-square h-full w-full''] as) hs cs"

definition AvatarFallback :: "'a wrapper" where
  "AvatarFallback as hs cs =
     El ''AvatarPrimitive.Fallback'' (cn_prop [''flex h-full w-full items-center justify-center rounded-full bg-muted''] as) hs cs"

subsection \<open>tabs.tsx\<close>

definition Tabs :: "'a wrapper" where
  "Tabs as hs cs =
     El ''TabsPrimitive.Root'' as hs cs"

definition TabsList :: "'a wrapper" where
  "TabsList as hs cs =
     El ''TabsPrimitive.List'' (cn_prop [''inline-flex h-10 items-center justify-center rounded-xl bg-muted/50 p-1 text-muted-foreground''] as) hs cs"

definition TabsTrigger :: "'a wrapper" where
  "TabsTrigger as hs cs =
     El ''TabsPrimitive.Trigger'' (cn_prop [''inline-flex items-center justify-center whitespace-nowrap rounded-lg px-3 py-1.5 text-sm font-medium ring-offset-background transition-all duration-200 focus-visible:outline-none focus-visible:ring-2 focus-visible:ring-ring/50 focus-visible:ring-offset-2 disabled:pointer-events-none disabled:opacity-50 data-[state=active]:bg-background data-[state=active]:text-foreground data-[state=active]:shadow-sm''] as) hs cs"

definition TabsContent :: "'a wrapper" where
  "TabsContent as hs cs =
     El ''TabsPrimitive.Content'' (cn_prop [''mt-2 ring-offset-background focus-visible:outline-none focus-visible:ring-2 focus-visible:ring-ring focus-visible:ring-offset-2''] as) hs cs"

subsection \<open>tooltip.tsx\<close>

definition TooltipProvider :: "'a wrapper" where
  "TooltipProvider as hs cs =
     El ''TooltipPrimitive.Provider'' as hs cs"

definition Tooltip :: "'a wrapper" where
  "Tooltip as hs cs =
     El ''TooltipPrimitive.Root'' as hs cs"

definition TooltipTrigger :: "'a wrapper" where
  "TooltipTrigger as hs cs =
     El ''TooltipPrimitive.Trigger'' as hs cs"

definition TooltipContent :: "'a wrapper" where
  "TooltipContent as hs cs =
     El ''TooltipPrimitive.Portal'' [] []
       [El ''TooltipPrimitive.Content'' (default_prop ''sideOffset'' (AInt 4) (cn_prop [''z-50 overflow-hidden rounded-lg bg-popover/95 backdrop-blur-lg border px-3 py-1.5 text-xs text-popover-foreground shadow-lg animate-in fade-in-0 zoom-in-95 data-[state=closed]:animate-out data-[state=closed]:fade-out-0 data-[state=closed]:zoom-out-95 data-[side=bottom]:slide-in-from-top-2 data-[side=left]:slide-in-from-right-2 data-[side=right]:slide-in-from-left-2 data-[side=top]:slide-in-from-bottom-2''] as)) hs cs]"

subsection \<open>checkbox.tsx\<close>

definition Checkbox :: "'a wrapper" where
  "Checkbox as hs cs =
     El ''CheckboxPrimitive.Root'' (cn_prop [''peer h-4 w-4 shrink-0 rounded-sm border border-primary shadow focus-visible:outline-none focus-visible:ring-1 focus-visible:ring-ring disabled:cursor-not-allowed disabled:opacity-50 data-[state=checked]:bg-primary data-[state=checked]:text-primary-foreground''] as) hs
       [El ''CheckboxPrimitive.Indicator'' (cn_prop [''flex items-center justify-center text-current''] []) [] [El ''Check'' (cn_prop [''h-4 w-4''] []) [] []]]"

subsection \<open>switch.tsx\<close>

definition Switch :: "'a wrapper" where
  "Switch as hs cs =
     El ''SwitchPrimitives.Root'' (cn_prop [''peer inline-flex h-5 w-9 shrink-0 cursor-pointer items-center rounded-full border-2 border-transparent shadow-sm transition-all duration-200 focus-visible:outline-none focus-visible:ring-2 focus-visible:ring-ring/50 focus-visible:ring-offset-2 focus-visible:ring-offset-background disabled:cursor-not-allowed disabled:opacity-40 data-[state=checked]:bg-primary data-[state=checked]:shadow-primary/25 data-[state=unchecked]:bg-input''] as) hs [El ''SwitchPrimitives.Thumb'' (cn_prop [''pointer-events-none block h-4 w-4 rounded-full bg-background shadow-lg ring-0 transition-transform data-[state=checked]:translate-x-4 data-[state=unchecked]:translate-x-0''] []) [] []]"

subsection \<open>scroll-area.tsx\<close>

definition ScrollBar :: "'a wrapper" where
  "ScrollBar as hs cs =
     El ''ScrollAreaPrimitive.ScrollAreaScrollbar''
       (default_prop ''orientation'' (AStr ''vertical'')
         (cn_prop
            ([''flex touch-none select-none transition-colors'']
             @ (if prop_or (AStr ''vertical'') ''orientation'' as = AStr ''vertical'' then [''h-full w-2.5 border-l border-l-transparent p-[1px]''] else [])
             @ (if prop_or (AStr ''vertical'') ''orientation'' as = AStr ''horizontal'' then [''h-2.5 flex-col border-t border-t-transparent p-[1px]''] else []))
            as))
       hs [El ''ScrollAreaPrimitive.ScrollAreaThumb'' (cn_prop [''relative flex-1 rounded-full bg-border''] []) [] []]"

definition ScrollArea :: "'a wrapper" where
  "ScrollArea as hs cs =
     El ''ScrollAreaPrimitive.Root'' (cn_prop [''relative overflow-hidden''] as) hs
       [El ''ScrollAreaPrimitive.Viewport'' (cn_prop [''h-full w-full rounded-[inherit]''] []) [] cs,
        ScrollBar [] [] [],
        El ''ScrollAreaPrimitive.Corner'' [] [] []]"

subsection \<open>dialog.tsx\<close>

definition Dialog :: "'a wrapper" where
  "Dialog as hs cs =
     El ''DialogPrimitive.Root'' as hs cs"

definition DialogTrigger :: "'a wrapper" where
  "DialogTrigger as hs cs =
     El ''DialogPrimitive.Trigger'' as hs cs"

definition DialogPortal :: "'a wrapper" where
  "DialogPortal as hs cs =
     El ''DialogPrimitive.Portal'' as hs cs"

definition DialogClose :: "'a wrapper" where
  "DialogClose as hs cs =
     El ''DialogPrimitive.Close'' as hs cs"

definition DialogOverlay :: "'a wrapper" where
  "DialogOverlay as hs cs =
     El ''DialogPrimitive.Overlay'' (cn_prop [''fixed inset-0 z-50 bg-black/60 backdrop-blur-sm data-[state=open]:animate-in data-[state=closed]:animate-out data-[state=closed]:fade-out-0 data-[state=open]:fade-in-0''] as) hs cs"

definition DialogContent :: "'a wrapper" where
  "DialogContent as hs cs =
     DialogPortal [] []
       [DialogOverlay [] [] [],
        El ''DialogPrimitive.Content'' (cn_prop [''fixed left-[50%] top-[50%] z-50 grid w-full max-w-lg translate-x-[-50%] translate-y-[-50%] gap-4 border bg-card/95 backdrop-blur-xl p-6 shadow-2xl shadow-black/20 duration-200 data-[state=open]:animate-in data-[state=closed]:animate-out data-[state=closed]:fade-out-0 data-[state=open]:fade-in-0 data-[state=closed]:zoom-out-95 data-[state=open]:zoom-in-95 data-[state=closed]:slide-out-to-left-1/2 data-[state=closed]:slide-out-to-top-[48%] data-[state=open]:slide-in-from-left-1/2 data-[state=open]:slide-in-from-top-[48%] sm:rounded-xl''] as) hs
          (cs @ [El ''DialogPrimitive.Close'' (cn_prop [''absolute right-4 top-4 rounded-sm opacity-70 ring-offset-background transition-opacity hover:opacity-100 focus:outline-none focus:ring-2 focus:ring-ring focus:ring-offset-2 disabled:pointer-events-none data-[state=open]:bg-accent data-[state=open]:text-muted-foreground''] []) []
                   [El ''X'' (cn_prop [''h-4 w-4''] []) [] [], El ''span'' (cn_prop [''sr-only''] []) [] [Text ''Close'']]])]"

definition DialogHeader :: "'a wrapper" where
  "DialogHeader as hs cs =
     El ''div'' (cn_prop [''flex flex-col space-y-1.5 text-center sm:text-left''] as) hs cs"

definition DialogFooter :: "'a wrapper" where
  "DialogFooter as hs cs =
     El ''div'' (cn_prop [''flex flex-col-reverse sm:flex-row sm:justify-end sm:space-x-2''] as) hs cs"

definition DialogTitle :: "'a wrapper" where
  "DialogTitle as hs cs =
     El ''DialogPrimitive.Title'' (cn_prop [''text-lg font-semibold leading-none tracking-tight''] as) hs cs"

definition DialogDescription :: "'a wrapper" where
  "DialogDescription as hs cs =
     El ''DialogPrimitive.Description'' (cn_prop [''text-sm text-muted-foreground''] as) hs cs"

subsection \<open>alert-dialog.tsx\<close>

definition AlertDialog :: "'a wrapper" where
  "AlertDialog as hs cs =
     El ''DialogPrimitive.Root'' as hs cs"

definition AlertDialogTrigger :: "'a wrapper" where
  "AlertDialogTrigger as hs cs =
     El ''DialogPrimitive.Trigger'' as hs cs"

definition AlertDialogPortal :: "'a wrapper" where
  "AlertDialogPortal as hs cs =
     El ''DialogPrimitive.Portal'' as hs cs"

definition AlertDialogOverlay :: "'a wrapper" where
  "AlertDialogOverlay as hs cs =
     El ''DialogPrimitive.Overlay'' (cn_prop [''fixed inset-0 z-50 bg-black/60 backdrop-blur-sm data-[state=open]:animate-in data-[state=closed]:animate-out data-[state=closed]:fade-out-0 data-[state=open]:fade-in-0''] as) hs cs"

definition AlertDialogContent :: "'a wrapper" where
  "AlertDialogContent as hs cs =
     AlertDialogPortal [] []
       [AlertDialogOverlay [] [] [],
        El ''DialogPrimitive.Content'' (cn_prop [''fixed left-[50%] top-[50%] z-50 grid w-full max-w-lg translate-x-[-50%] translate-y-[-50%] gap-4 border bg-card/95 backdrop-blur-xl p-6 shadow-2xl shadow-black/20 duration-200 data-[state=open]:animate-in data-[state=closed]:animate-out data-[state=closed]:fade-out-0 data-[state=open]:fade-in-0 data-[state=closed]:zoom-out-95 data-[state=open]:zoom-in-95 data-[state=closed]:slide-out-to-left-1/2 data-[state=closed]:slide-out-to-top-[48%] data-[state=open]:slide-in-from-left-1/2 data-[state=open]:slide-in-from-top-[48%] sm:rounded-xl''] as) hs cs]"

definition AlertDialogHeader :: "'a wrapper" where
  "AlertDialogHeader as hs cs =
     El ''div'' (cn_prop [''flex flex-col space-y-2 text-center sm:text-left''] as) hs cs"

definition AlertDialogFooter :: "'a wrapper" where
  "AlertDialogFooter as hs cs =
     El ''div'' (cn_prop [''flex flex-col-reverse sm:flex-row sm:justify-end sm:space-x-2''] as) hs cs"

definition AlertDialogTitle :: "'a wrapper" where
  "AlertDialogTitle as hs cs =
     El ''DialogPrimitive.Title'' (cn_prop [''text-lg font-semibold''] as) hs cs"

definition AlertDialogDescription :: "'a wrapper" where
  "AlertDialogDescription as hs cs =
     El ''DialogPrimitive.Description'' (cn_prop [''text-sm text-muted-foreground''] as) hs cs"

definition AlertDialogAction :: "'a wrapper" where
  "AlertDialogAction as hs cs =
     El ''DialogPrimitive.Close'' (cn_prop (buttonVariants ANone ANone) as) hs cs"

definition AlertDialogCancel :: "'a wrapper" where
  "AlertDialogCancel as hs cs =
     El ''DialogPrimitive.Close''
       (cn_prop (buttonVariants (AStr ''outline'') ANone @ [''mt-2 sm:mt-0'']) as) hs cs"

subsection \<open>sheet.tsx\<close>

definition Sheet :: "'a wrapper" where
  "Sheet as hs cs =
     El ''DialogPrimitive.Root'' as hs cs"

definition SheetTrigger :: "'a wrapper" where
  "SheetTrigger as hs cs =
     El ''DialogPrimitive.Trigger'' as hs cs"

definition SheetClose :: "'a wrapper" where
  "SheetClose as hs cs =
     El ''DialogPrimitive.Close'' as hs cs"

definition SheetPortal :: "'a wrapper" where
  "SheetPortal as hs cs =
     El ''DialogPrimitive.Portal'' as hs cs"

definition SheetOverlay :: "'a wrapper" where
  "SheetOverlay as hs cs =
     El ''DialogPrimitive.Overlay'' (cn_prop [''fixed inset-0 z-50 bg-black/60 backdrop-blur-sm data-[state=open]:animate-in data-[state=closed]:animate-out data-[state=closed]:fade-out-0 data-[state=open]:fade-in-0''] as) hs cs"

definition sheet_base :: string where
  "sheet_base = ''fixed z-50 gap-4 bg-background/95 backdrop-blur-xl p-6 shadow-2xl transition ease-in-out data-[state=closed]:duration-300 data-[state=open]:duration-500 data-[state=open]:animate-in data-[state=closed]:animate-out''"

definition sheet_sides :: "(string \<times> string) list" where
  "sheet_sides =
     [(''top'', ''inset-x-0 top-0 border-b data-[state=closed]:slide-out-to-top data-[state=open]:slide-in-from-top''),
      (''bottom'', ''inset-x-0 bottom-0 border-t data-[state=closed]:slide-out-to-bottom data-[state=open]:slide-in-from-bottom''),
      (''left'', ''inset-y-0 left-0 h-full w-3/4 border-r data-[state=closed]:slide-out-to-left data-[state=open]:slide-in-from-left sm:max-w-sm''),
      (''right'', ''inset-y-0 right-0 h-full w-3/4 border-l data-[state=closed]:slide-out-to-right data-[state=open]:slide-in-from-right sm:max-w-sm'')]"

definition sheetVariants :: "attr \<Rightarrow> string list" where
  "sheetVariants side = sheet_base # variant_class sheet_sides ''right'' side"

definition SheetContent :: "'a wrapper" where
  "SheetContent as hs cs =
     SheetPortal [] []
       [SheetOverlay [] [] [],
        El ''DialogPrimitive.Content''
          (cn_prop (sheetVariants (prop_or (AStr ''right'') ''side'' as)) (drop_attrs [''side''] as)) hs
          (El ''DialogPrimitive.Close'' (cn_prop [''absolute right-4 top-4 rounded-sm opacity-70 ring-offset-background transition-opacity hover:opacity-100 focus:outline-none focus:ring-2 focus:ring-ring focus:ring-offset-2 disabled:pointer-events-none data-[state=open]:bg-secondary''] []) []
             [El ''X'' (cn_prop [''h-4 w-4''] []) [] [], El ''span'' (cn_prop [''sr-only''] []) [] [Text ''Close'']] # cs)]"

definition SheetHeader :: "'a wrapper" where
  "SheetHeader as hs cs =
     El ''div'' (cn_prop [''flex flex-col space-y-2 text-center sm:text-left''] as) hs cs"

definition SheetFooter :: "'a wrapper" where
  "SheetFooter as hs cs =
     El ''div'' (cn_prop [''flex flex-col-reverse sm:flex-row sm:justify-end sm:space-x-2''] as) hs cs"

definition SheetTitle :: "'a wrapper" where
  "SheetTitle as hs cs =
     El ''DialogPrimitive.Title'' (cn_prop [''text-lg font-semibold text-foreground''] as) hs cs"

definition SheetDescription :: "'a wrapper" where
  "SheetDescription as hs cs =
     El ''DialogPrimitive.Description'' (cn_prop [''text-sm text-muted-foreground''] as) hs cs"

subsection \<open>command.tsx\<close>

definition Command :: "'a wrapper" where
  "Command as hs cs =
     El ''CommandPrimitive'' (cn_prop [''flex h-full w-full flex-col overflow-hidden rounded-md bg-popover text-popover-foreground''] as) hs cs"

definition CommandDialog :: "'a wrapper" where
  "CommandDialog as hs cs =
     Dialog as hs
       [DialogContent (cn_prop [''overflow-hidden p-0''] []) []
          [DialogTitle (cn_prop [''sr-only''] []) [] [Text ''Command palette''],
           Command (cn_prop [''[&_[cmdk-group-heading]]:px-2 [&_[cmdk-group-heading]]:font-medium [&_[cmdk-group-heading]]:text-muted-foreground [&_[cmdk-group]:not([hidden])_~[cmdk-group]]:pt-0 [&_[cmdk-input-wrapper]_svg]:h-5 [&_[cmdk-input-wrapper]_svg]:w-5 [&_[cmdk-input]]:h-12 [&_[cmdk-item]]:px-2 [&_[cmdk-item]]:py-3 [&_[cmdk-group]]:px-2''] []) [] cs]]"

definition CommandInput :: "'a wrapper" where
  "CommandInput as hs cs =
     El ''div'' ((''cmdk-input-wrapper'', AStr '''') # cn_prop [''flex items-center border-b px-3''] []) []
       [El ''Search'' (cn_prop [''mr-2 h-4 w-4 shrink-0 opacity-50''] []) [] [], El ''CommandPrimitive.Input'' (cn_prop [''flex h-10 w-full rounded-md bg-transparent py-3 text-sm outline-none placeholder:text-muted-foreground disabled:cursor-not-allowed disabled:opacity-50''] as) hs cs]"

definition CommandList :: "'a wrapper" where
  "CommandList as hs cs =
     El ''CommandPrimitive.List'' (cn_prop [''max-h-[300px] overflow-y-auto overflow-x-hidden''] as) hs cs"

definition CommandEmpty :: "'a wrapper" where
  "CommandEmpty as hs cs =
     El ''CommandPrimitive.Empty'' (default_class [''py-6 text-center text-sm''] as) hs cs"

definition CommandGroup :: "'a wrapper" where
  "CommandGroup as hs cs =
     El ''CommandPrimitive.Group'' (cn_prop [''overflow-hidden p-1 text-foreground [&_[cmdk-group-heading]]:px-2 [&_[cmdk-group-heading]]:py-1.5 [&_[cmdk-group-heading]]:text-xs [&_[cmdk-group-heading]]:font-medium [&_[cmdk-group-heading]]:text-muted-foreground''] as) hs cs"

definition CommandSeparator :: "'a wrapper" where
  "CommandSeparator as hs cs =
     El ''CommandPrimitive.Separator'' (cn_prop [''-mx-1 h-px bg-border''] as) hs cs"

definition CommandItem :: "'a wrapper" where
  "CommandItem as hs cs =
     El ''CommandPrimitive.Item'' (cn_prop [''relative flex cursor-default gap-2 select-none items-center rounded-lg px-2 py-1.5 text-sm outline-none transition-colors data-[selected=true]:bg-accent data-[selected=true]:text-accent-foreground data-[disabled=true]:pointer-events-none data-[disabled=true]:opacity-50 [&_svg]:pointer-events-none [&_svg]:size-4 [&_svg]:shrink-0''] as) hs cs"

definition CommandShortcut :: "'a wrapper" where
  "CommandShortcut as hs cs =
     El ''span'' (cn_prop [''ml-auto text-xs tracking-widest text-muted-foreground''] as) hs cs"

subsection \<open>select.tsx\<close>

definition Select :: "'a wrapper" where
  "Select as hs cs =
     El ''SelectPrimitive.Root'' as hs cs"

definition SelectGroup :: "'a wrapper" where
  "SelectGroup as hs cs =
     El ''SelectPrimitive.Group'' as hs cs"

definition SelectValue :: "'a wrapper" where
  "SelectValue as hs cs =
     El ''SelectPrimitive.Value'' as hs cs"

definition SelectTrigger :: "'a wrapper" where
  "SelectTrigger as hs cs =
     El ''SelectPrimitive.Trigger'' (cn_prop [''flex h-9 w-full items-center justify-between whitespace-nowrap rounded-lg border border-input bg-background/50 px-3 py-2 text-sm shadow-sm ring-offset-background transition-all duration-200 placeholder:text-muted-foreground focus:outline-none focus:ring-2 focus:ring-ring/50 focus:border-primary/50 disabled:cursor-not-allowed disabled:opacity-40 [&>span]:line-clamp-1''] as) hs
       (cs @ [El ''SelectPrimitive.Icon'' [(''asChild'', ABool True)] [] [El ''ChevronDown'' (cn_prop [''h-4 w-4 opacity-50''] []) [] []]])"

definition SelectScrollUpButton :: "'a wrapper" where
  "SelectScrollUpButton as hs cs =
     El ''SelectPrimitive.ScrollUpButton'' (cn_prop [''flex cursor-default items-center justify-center py-1''] as) hs [El ''ChevronUp'' (cn_prop [''h-4 w-4''] []) [] []]"

definition SelectScrollDownButton :: "'a wrapper" where
  "SelectScrollDownButton as hs cs =
     El ''SelectPrimitive.ScrollDownButton'' (cn_prop [''flex cursor-default items-center justify-center py-1''] as) hs [El ''ChevronDown'' (cn_prop [''h-4 w-4''] []) [] []]"

definition SelectContent :: "'a wrapper" where
  "SelectContent as hs cs =
     El ''SelectPrimitive.Portal'' [] []
       [El ''SelectPrimitive.Content''
          (default_prop ''position'' (AStr ''popper'')
            (cn_prop
               ([''relative z-50 max-h-96 min-w-[8rem] overflow-hidden rounded-xl border bg-popover/95 backdrop-blur-xl text-popover-foreground shadow-xl data-[state=open]:animate-in data-[state=closed]:animate-out data-[state=closed]:fade-out-0 data-[state=open]:fade-in-0 data-[state=closed]:zoom-out-95 data-[state=open]:zoom-in-95 data-[side=bottom]:slide-in-from-top-2 data-[side=left]:slide-in-from-right-2 data-[side=right]:slide-in-from-left-2 data-[side=top]:slide-in-from-bottom-2'']
                @ (if prop_or (AStr ''popper'') ''position'' as = AStr ''popper'' then [''data-[side=bottom]:translate-y-1 data-[side=left]:-translate-x-1 data-[side=right]:translate-x-1 data-[side=top]:-translate-y-1''] else []))
               as))
          hs
          [SelectScrollUpButton [] [] [],
           El ''SelectPrimitive.Viewport''
             (cn_prop ([''p-1''] @ (if prop_or (AStr ''popper'') ''position'' as = AStr ''popper'' then [''h-[var(--radix-select-trigger-height)] w-full min-w-[var(--radix-select-trigger-width)]''] else [])) [])
             [] cs,
           SelectScrollDownButton [] [] []]]"

definition SelectLabel :: "'a wrapper" where
  "SelectLabel as hs cs =
     El ''SelectPrimitive.Label'' (cn_prop [''px-2 py-1.5 text-sm font-semibold''] as) hs cs"

definition SelectItem :: "'a wrapper" where
  "SelectItem as hs cs =
     El ''SelectPrimitive.Item'' (cn_prop [''relative flex w-full cursor-default select-none items-center rounded-lg py-1.5 pl-2 pr-8 text-sm outline-none transition-colors focus:bg-accent focus:text-accent-foreground data-[disabled]:pointer-events-none data-[disabled]:opacity-50''] as) hs
       [El ''span'' (cn_prop [''absolute right-2 flex h-3.5 w-3.5 items-center justify-center''] []) []
          [El ''SelectPrimitive.ItemIndicator'' [] [] [El ''Check'' (cn_prop [''h-4 w-4''] []) [] []]],
        El ''SelectPrimitive.ItemText'' [] [] cs]"

definition SelectSeparator :: "'a wrapper" where
  "SelectSeparator as hs cs =
     El ''SelectPrimitive.Separator'' (cn_prop [''-mx-1 my-1 h-px bg-muted''] as) hs cs"

subsection \<open>dropdown-menu.tsx\<close>

definition DropdownMenu :: "'a wrapper" where
  "DropdownMenu as hs cs =
     El ''DropdownMenuPrimitive.Root'' as hs cs"

definition DropdownMenuTrigger :: "'a wrapper" where
  "DropdownMenuTrigger as hs cs =
     El ''DropdownMenuPrimitive.Trigger'' as hs cs"

definition DropdownMenuGroup :: "'a wrapper" where
  "DropdownMenuGroup as hs cs =
     El ''DropdownMenuPrimitive.Group'' as hs cs"

definition DropdownMenuPortal :: "'a wrapper" where
  "DropdownMenuPortal as hs cs =
     El ''DropdownMenuPrimitive.Portal'' as hs cs"

definition DropdownMenuSub :: "'a wrapper" where
  "DropdownMenuSub as hs cs =
     El ''DropdownMenuPrimitive.Sub'' as hs cs"

definition DropdownMenuRadioGroup :: "'a wrapper" where
  "DropdownMenuRadioGroup as hs cs =
     El ''DropdownMenuPrimitive.RadioGroup'' as hs cs"

definition DropdownMenuSubTrigger :: "'a wrapper" where
  "DropdownMenuSubTrigger as hs cs =
     El ''DropdownMenuPrimitive.SubTrigger''
       (cn_prop ([''flex cursor-default select-none items-center gap-2 rounded-sm px-2 py-1.5 text-sm outline-none focus:bg-accent data-[state=open]:bg-accent [&_svg]:pointer-events-none [&_svg]:size-4 [&_svg]:shrink-0''] @ (if attr_of ''inset'' as = ABool True then [''pl-8''] else [])) (drop_attrs [''inset''] as))
       hs (cs @ [El ''ChevronRight'' (cn_prop [''ml-auto''] []) [] []])"

definition DropdownMenuSubContent :: "'a wrapper" where
  "DropdownMenuSubContent as hs cs =
     El ''DropdownMenuPrimitive.SubContent'' (cn_prop [''z-50 min-w-[8rem] overflow-hidden rounded-md border bg-popover p-1 text-popover-foreground shadow-lg data-[state=open]:animate-in data-[state=closed]:animate-out data-[state=closed]:fade-out-0 data-[state=open]:fade-in-0 data-[state=closed]:zoom-out-95 data-[state=open]:zoom-in-95 data-[side=bottom]:slide-in-from-top-2 data-[side=left]:slide-in-from-right-2 data-[side=right]:slide-in-from-left-2 data-[side=top]:slide-in-from-bottom-2''] as) hs cs"

definition DropdownMenuContent :: "'a wrapper" where
  "DropdownMenuContent as hs cs =
     El ''DropdownMenuPrimitive.Portal'' [] []
       [El ''DropdownMenuPrimitive.Content'' (default_prop ''sideOffset'' (AInt 4) (cn_prop [''z-50 min-w-[8rem] overflow-hidden rounded-xl border bg-popover/95 backdrop-blur-xl p-1 text-popover-foreground shadow-xl data-[state=open]:animate-in data-[state=closed]:animate-out data-[state=closed]:fade-out-0 data-[state=open]:fade-in-0 data-[state=closed]:zoom-out-95 data-[state=open]:zoom-in-95 data-[side=bottom]:slide-in-from-top-2 data-[side=left]:slide-in-from-right-2 data-[side=right]:slide-in-from-left-2 data-[side=top]:slide-in-from-bottom-2''] as)) hs cs]"

definition DropdownMenuItem :: "'a wrapper" where
  "DropdownMenuItem as hs cs =
     El ''DropdownMenuPrimitive.Item''
       (cn_prop ([''relative flex cursor-default select-none items-center gap-2 rounded-lg px-2 py-1.5 text-sm outline-none transition-colors focus:bg-accent focus:text-accent-foreground data-[disabled]:pointer-events-none data-[disabled]:opacity-50 [&_svg]:pointer-events-none [&_svg]:size-4 [&_svg]:shrink-0''] @ (if attr_of ''inset'' as = ABool True then [''pl-8''] else [])) (drop_attrs [''inset''] as))
       hs cs"

definition DropdownMenuCheckboxItem :: "'a wrapper" where
  "DropdownMenuCheckboxItem as hs cs =
     El ''DropdownMenuPrimitive.CheckboxItem'' (cn_prop [''relative flex cursor-default select-none items-center rounded-sm py-1.5 pl-8 pr-2 text-sm outline-none transition-colors focus:bg-accent focus:text-accent-foreground data-[disabled]:pointer-events-none data-[disabled]:opacity-50''] as) hs
       (El ''span'' (cn_prop [''absolute left-2 flex h-3.5 w-3.5 items-center justify-center''] []) []
           [El ''DropdownMenuPrimitive.ItemIndicator'' [] [] [El ''Check'' (cn_prop [''h-4 w-4''] []) [] []]]
        # cs)"

definition DropdownMenuRadioItem :: "'a wrapper" where
  "DropdownMenuRadioItem as hs cs =
     El ''DropdownMenuPrimitive.RadioItem'' (cn_prop [''relative flex cursor-default select-none items-center rounded-sm py-1.5 pl-8 pr-2 text-sm outline-none transition-colors focus:bg-accent focus:text-accent-foreground data-[disabled]:pointer-events-none data-[disabled]:opacity-50''] as) hs
       (El ''span'' (cn_prop [''absolute left-2 flex h-3.5 w-3.5 items-center justify-center''] []) []
           [El ''DropdownMenuPrimitive.ItemIndicator'' [] [] [El ''Circle'' (cn_prop [''h-2 w-2 fill-current''] []) [] []]]
        # cs)"

definition DropdownMenuLabel :: "'a wrapper" where
  "DropdownMenuLabel as hs cs =
     El ''DropdownMenuPrimitive.Label''
       (cn_prop ([''px-2 py-1.5 text-sm font-semibold''] @ (if attr_of ''inset'' as = ABool True then [''pl-8''] else [])) (drop_attrs [''inset''] as))
       hs cs"

definition DropdownMenuSeparator :: "'a wrapper" where
  "DropdownMenuSeparator as hs cs =
     El ''DropdownMenuPrimitive.Separator'' (cn_prop [''-mx-1 my-1 h-px bg-muted''] as) hs cs"

definition DropdownMenuShortcut :: "'a wrapper" where
  "DropdownMenuShortcut as hs cs =
     El ''span'' (cn_prop [''ml-auto text-xs tracking-widest opacity-60''] as) hs cs"

end
