(* ===== verification/Radix.thy ===== *)
theory Radix
  imports Primitives Widgets
begin

text \<open>
  The contract between the widgets of src/ui/components/ui and the primitives they wrap, and the
  proof that the widgets keep the one the pages rely on.

  \<open>expand\<close> replaces every widget of a tree by what its component returns.  The locale \<open>radix\<close>
  states what the documentation of Radix promises of a behaviour \<open>P\<close>: \<open>P op fs n\<close> is the set of
  actions a user can trigger on \<open>n\<close>, opening menus and switching panels included, inside a dialog
  that is open iff \<open>op\<close> and whose \<open>onOpenChange\<close> callbacks are \<open>fs\<close>.  \<open>prim_offers\<close> is one such
  behaviour.

  The pages are stated with \<open>View.offers\<close>, which looks at the widgets themselves.  Inside the locale
  it is shown that nothing can be triggered on the expanded page that \<open>offers\<close> does not list
  (\<open>expand_upper\<close>), and that the actions of \<open>sure_in\<close> can be (\<open>expand_lower\<close>): all of \<open>offers\<close> but
  the callbacks of dialog roots and tabs, the toggle of a checkbox to the state it is in, and the
  selection of the value a select already has.
\<close>

subsection \<open>Replacing widgets by what they return\<close>

definition neutral_table :: "(string \<times> 'a wrapper) list" where
  "neutral_table =
     [(''Button'', Button), (''Badge'', Badge), (''Label'', Label), (''Input'', Input),
      (''Textarea'', Textarea), (''Skeleton'', Skeleton), (''Card'', Card), (''CardHeader'', CardHeader),
      (''CardTitle'', CardTitle), (''CardDescription'', CardDescription), (''CardContent'', CardContent),
      (''Table'', Table), (''TableHeader'', TableHeader), (''TableBody'', TableBody),
      (''TableRow'', TableRow), (''TableHead'', TableHead), (''TableCell'', TableCell),
      (''Avatar'', Avatar), (''AvatarImage'', AvatarImage), (''AvatarFallback'', AvatarFallback),
      (''TabsList'', TabsList), (''TabsTrigger'', TabsTrigger), (''TabsContent'', TabsContent),
      (''TooltipProvider'', TooltipProvider), (''Tooltip'', Tooltip),
      (''TooltipTrigger'', TooltipTrigger), (''TooltipContent'', TooltipContent),
      (''ScrollArea'', ScrollArea), (''DialogPortal'', DialogPortal), (''DialogOverlay'', DialogOverlay),
      (''DialogHeader'', DialogHeader), (''DialogFooter'', DialogFooter), (''DialogTitle'', DialogTitle),
      (''DialogDescription'', DialogDescription), (''AlertDialogPortal'', AlertDialogPortal),
      (''AlertDialogOverlay'', AlertDialogOverlay), (''AlertDialogHeader'', AlertDialogHeader),
      (''AlertDialogFooter'', AlertDialogFooter), (''AlertDialogTitle'', AlertDialogTitle),
      (''AlertDialogDescription'', AlertDialogDescription), (''SheetPortal'', SheetPortal),
      (''SheetOverlay'', SheetOverlay), (''SheetHeader'', SheetHeader), (''SheetFooter'', SheetFooter),
      (''SheetTitle'', SheetTitle), (''SheetDescription'', SheetDescription), (''Command'', Command),
      (''CommandInput'', CommandInput), (''CommandList'', CommandList), (''CommandEmpty'', CommandEmpty),
      (''CommandGroup'', CommandGroup), (''CommandSeparator'', CommandSeparator),
      (''CommandItem'', CommandItem), (''CommandShortcut'', CommandShortcut),
      (''SelectGroup'', SelectGroup), (''SelectValue'', SelectValue), (''SelectTrigger'', SelectTrigger),
      (''SelectContent'', SelectContent), (''SelectLabel'', SelectLabel), (''SelectItem'', SelectItem),
      (''SelectSeparator'', SelectSeparator), (''DropdownMenu'', DropdownMenu),
      (''DropdownMenuTrigger'', DropdownMenuTrigger), (''DropdownMenuGroup'', DropdownMenuGroup),
      (''DropdownMenuPortal'', DropdownMenuPortal), (''DropdownMenuSub'', DropdownMenuSub),
      (''DropdownMenuRadioGroup'', DropdownMenuRadioGroup),
      (''DropdownMenuSubTrigger'', DropdownMenuSubTrigger),
      (''DropdownMenuSubContent'', DropdownMenuSubContent),
      (''DropdownMenuContent'', DropdownMenuContent), (''DropdownMenuItem'', DropdownMenuItem),
      (''DropdownMenuCheckboxItem'', DropdownMenuCheckboxItem),
      (''DropdownMenuRadioItem'', DropdownMenuRadioItem), (''DropdownMenuLabel'', DropdownMenuLabel),
      (''DropdownMenuSeparator'', DropdownMenuSeparator),
      (''DropdownMenuShortcut'', DropdownMenuShortcut)]"

definition leaf_table :: "(string \<times> 'a wrapper) list" where
  "leaf_table =
     [(''ScrollBar'', ScrollBar), (''SelectScrollUpButton'', SelectScrollUpButton),
      (''SelectScrollDownButton'', SelectScrollDownButton)]"

definition part_table :: "(string \<times> 'a wrapper) list" where
  "part_table =
     [(''DialogTrigger'', DialogTrigger), (''DialogClose'', DialogClose),
      (''AlertDialogTrigger'', AlertDialogTrigger), (''AlertDialogAction'', AlertDialogAction),
      (''AlertDialogCancel'', AlertDialogCancel), (''SheetTrigger'', SheetTrigger),
      (''SheetClose'', SheetClose)]"

definition content_table :: "(string \<times> 'a wrapper) list" where
  "content_table =
     [(''DialogContent'', DialogContent), (''AlertDialogContent'', AlertDialogContent),
      (''SheetContent'', SheetContent)]"

definition root_table :: "(string \<times> 'a wrapper) list" where
  "root_table =
     [(''Dialog'', Dialog), (''AlertDialog'', AlertDialog), (''Sheet'', Sheet)]"

definition control_table :: "(string \<times> 'a wrapper) list" where
  "control_table =
     [(''Checkbox'', Checkbox), (''Switch'', Switch), (''Tabs'', Tabs)]"

definition ui_table :: "(string \<times> 'a wrapper) list" where
  "ui_table =
     (''CommandDialog'', CommandDialog) # (''Select'', Select)
     # root_table @ content_table @ control_table @ part_table @ leaf_table @ neutral_table"

fun expand :: "'a node \<Rightarrow> 'a node" where
  "expand (Text s) = Text s"
| "expand (El t as hs cs) =
     (case map_of ui_table t of
        Some W \<Rightarrow> W as hs (map expand cs)
      | None \<Rightarrow> El t as hs (map expand cs))"

subsection \<open>The documented behaviour of the primitives\<close>

definition toggle_root :: "string \<Rightarrow> bool" where
  "toggle_root t \<longleftrightarrow> t = ''CheckboxPrimitive.Root'' \<or> t = ''SwitchPrimitives.Root''"

definition dialog_part :: "string \<Rightarrow> bool" where
  "dialog_part t \<longleftrightarrow>
     t = ''DialogPrimitive.Trigger'' \<or> t = ''DialogPrimitive.Close'' \<or> t = ''DialogPrimitive.Content''"

definition special_tag :: "string \<Rightarrow> bool" where
  "special_tag t \<longleftrightarrow>
     toggle_root t \<or> dialog_part t \<or> t = ''DialogPrimitive.Root'' \<or> t = ''TabsPrimitive.Root''
     \<or> t = ''SelectPrimitive.Root''"

fun plain_actions :: "'a handler \<Rightarrow> 'a set" where
  "plain_actions (Do a) = {a}"
| "plain_actions (OnBool f) = {f True, f False}"
| "plain_actions (OnText f) = range f"

definition own :: "attrs \<Rightarrow> 'a handlers \<Rightarrow> 'a set" where
  "own as hs = (if is_disabled as then {} else (\<Union>h \<in> set hs. plain_actions (snd h)))"

fun prim_values :: "'a node \<Rightarrow> string list" where
  "prim_values (Text s) = []"
| "prim_values (El t as hs cs) =
     (if t = ''SelectPrimitive.Item'' then (case attr_of ''value'' as of AStr v \<Rightarrow> [v] | _ \<Rightarrow> [])
      else concat (map prim_values cs))"

fun change_fun :: "'a handler \<Rightarrow> (bool \<Rightarrow> 'a) list" where
  "change_fun (OnBool f) = [f]"
| "change_fun (Do a) = []"
| "change_fun (OnText f) = []"

definition changes :: "'a handlers \<Rightarrow> (bool \<Rightarrow> 'a) list" where
  "changes hs = concat (map (change_fun \<circ> snd) hs)"

definition all_changes :: "(bool \<Rightarrow> 'a) list \<Rightarrow> 'a set" where
  "all_changes fs = (\<Union>f \<in> set fs. {f True, f False})"

fun select_actions :: "string list \<Rightarrow> 'a handler \<Rightarrow> 'a set" where
  "select_actions vs (OnText f) = f ` set vs"
| "select_actions vs (Do a) = {a}"
| "select_actions vs (OnBool f) = {f True, f False}"

text \<open>
  \<open>select\<close> needs every item to have a value: an empty one makes the primitive throw.  A controlled
  select reports a value only when it changes, a controlled checkbox only its toggle.  \<open>dismiss\<close> is
  Escape, or a click outside the content.
\<close>

locale radix =
  fixes P :: "bool \<Rightarrow> (bool \<Rightarrow> 'a) list \<Rightarrow> 'a node \<Rightarrow> 'a set"
  assumes text_none: "P op fs (Text s) = {}"
    and plain: "\<not> special_tag t \<Longrightarrow> P op fs (El t as hs cs) = own as hs \<union> (\<Union>c \<in> set cs. P op fs c)"
    and toggle_upper: "toggle_root t \<or> t = ''TabsPrimitive.Root'' \<Longrightarrow>
          P op fs (El t as hs cs) \<subseteq> own as hs \<union> (\<Union>c \<in> set cs. P op fs c)"
    and toggle_lower: "toggle_root t \<or> t = ''TabsPrimitive.Root'' \<Longrightarrow> c \<in> set cs \<Longrightarrow>
          P op fs c \<subseteq> P op fs (El t as hs cs)"
    and toggle: "toggle_root t \<Longrightarrow> \<not> is_disabled as \<Longrightarrow> attr_of ''checked'' as = ABool b \<Longrightarrow>
          (k, OnBool f) \<in> set hs \<Longrightarrow> f (\<not> b) \<in> P op fs (El t as hs cs)"
    and toggle_do: "toggle_root t \<Longrightarrow> \<not> is_disabled as \<Longrightarrow> (k, Do a) \<in> set hs \<Longrightarrow> a \<in> P op fs (El t as hs cs)"
    and select_upper: "P op fs (El ''SelectPrimitive.Root'' as hs cs) \<subseteq>
          (if is_disabled as then {}
           else (\<Union>h \<in> set hs. select_actions (concat (map prim_values cs)) (snd h)))
          \<union> (\<Union>c \<in> set cs. P op fs c)"
    and select_lower: "c \<in> set cs \<Longrightarrow> P op fs c \<subseteq> P op fs (El ''SelectPrimitive.Root'' as hs cs)"
    and select: "\<not> is_disabled as \<Longrightarrow> (k, OnText g) \<in> set hs \<Longrightarrow>
          v \<in> set (concat (map prim_values cs)) \<Longrightarrow> [] \<notin> set (concat (map prim_values cs)) \<Longrightarrow>
          attr_of ''value'' as \<noteq> AStr v \<Longrightarrow> g v \<in> P op fs (El ''SelectPrimitive.Root'' as hs cs)"
    and root: "P op fs (El ''DialogPrimitive.Root'' as hs cs) =
          (\<Union>c \<in> set cs. P (attr_of ''open'' as \<noteq> ABool False) (changes hs) c)"
    and part_upper: "dialog_part t \<Longrightarrow>
          P op fs (El t as hs cs) \<subseteq> own as hs \<union> all_changes fs \<union> (\<Union>c \<in> set cs. P op fs c)"
    and part_lower: "dialog_part t \<Longrightarrow> t \<noteq> ''DialogPrimitive.Content'' \<or> op \<Longrightarrow>
          own as hs \<union> (\<Union>c \<in> set cs. P op fs c) \<subseteq> P op fs (El t as hs cs)"
    and closed_content: "P False fs (El ''DialogPrimitive.Content'' as hs cs) = {}"
    and dismiss: "f \<in> set fs \<Longrightarrow> f False \<in> P True fs (El ''DialogPrimitive.Content'' as hs cs)"
    and close_button: "\<not> is_disabled as \<Longrightarrow> f \<in> set fs \<Longrightarrow>
          f False \<in> P True fs (El ''DialogPrimitive.Close'' as hs cs)"
    and open_button: "\<not> is_disabled as \<Longrightarrow> f \<in> set fs \<Longrightarrow>
          f True \<in> P False fs (El ''DialogPrimitive.Trigger'' as hs cs)"

text \<open>A behaviour with these properties.\<close>

fun toggle_actions :: "attrs \<Rightarrow> 'a handler \<Rightarrow> 'a set" where
  "toggle_actions as (OnBool f) =
     (case attr_of ''checked'' as of ABool b \<Rightarrow> {f (\<not> b)} | _ \<Rightarrow> {f True, f False})"
| "toggle_actions as (Do a) = {a}"
| "toggle_actions as (OnText f) = range f"

definition part_actions :: "string \<Rightarrow> bool \<Rightarrow> (bool \<Rightarrow> 'a) list \<Rightarrow> 'a set" where
  "part_actions t op fs =
     (if op then (if dialog_part t then (\<lambda>f. f False) ` set fs else {})
      else (if t = ''DialogPrimitive.Trigger'' then (\<lambda>f. f True) ` set fs else {}))"

definition prim_own :: "bool \<Rightarrow> (bool \<Rightarrow> 'a) list \<Rightarrow> string \<Rightarrow> attrs \<Rightarrow> 'a handlers \<Rightarrow> string list \<Rightarrow> 'a set" where
  "prim_own op fs t as hs vs =
     (if is_disabled as then {}
      else if toggle_root t then \<Union>h \<in> set hs. toggle_actions as (snd h)
      else if t = ''SelectPrimitive.Root'' then \<Union>h \<in> set hs. select_actions vs (snd h)
      else own as hs \<union> part_actions t op fs)
     \<union> (if t = ''DialogPrimitive.Content'' then (\<lambda>f. f False) ` set fs else {})"

fun prim_offers :: "bool \<Rightarrow> (bool \<Rightarrow> 'a) list \<Rightarrow> 'a node \<Rightarrow> 'a set" where
  "prim_offers op fs (Text s) = {}"
| "prim_offers op fs (El t as hs cs) =
     (if t = ''DialogPrimitive.Root''
      then \<Union>c \<in> set cs. prim_offers (attr_of ''open'' as \<noteq> ABool False) (changes hs) c
      else if t = ''DialogPrimitive.Content'' \<and> \<not> op then {}
      else prim_own op fs t as hs (concat (map prim_values cs)) \<union> (\<Union>c \<in> set cs. prim_offers op fs c))"

lemma special_tags [simp]:
  "toggle_root ''CheckboxPrimitive.Root''" "toggle_root ''SwitchPrimitives.Root''"
  "dialog_part ''DialogPrimitive.Trigger''" "dialog_part ''DialogPrimitive.Close''"
  "dialog_part ''DialogPrimitive.Content''"
  "\<not> toggle_root ''TabsPrimitive.Root''" "\<not> toggle_root ''SelectPrimitive.Root''"
  "\<not> toggle_root ''DialogPrimitive.Trigger''" "\<not> toggle_root ''DialogPrimitive.Close''"
  "\<not> toggle_root ''DialogPrimitive.Content''" "\<not> dialog_part ''DialogPrimitive.Root''"
  "\<not> dialog_part ''TabsPrimitive.Root''"
  by (simp_all add: toggle_root_def dialog_part_def)

lemma neg_either: "f (\<not> b) = f False \<or> f (\<not> b) = f True"
  by (cases b) simp_all

lemma toggle_actions_plain: "toggle_actions as h \<subseteq> plain_actions h"
  by (cases h) (simp_all add: neg_either disj_commute split: attr.split)

lemma toggle_actions_own: "\<not> is_disabled as \<Longrightarrow> (\<Union>h \<in> set hs. toggle_actions as (snd h)) \<subseteq> own as hs"
  by (simp add: own_def) (rule UN_mono [OF subset_refl toggle_actions_plain])

lemma prim_own_plain:
  "\<not> special_tag t \<Longrightarrow> prim_own op fs t as hs vs = own as hs"
  by (auto simp: prim_own_def special_tag_def part_actions_def dialog_part_def own_def)

lemma prim_own_toggle:
  "toggle_root t \<or> t = ''TabsPrimitive.Root'' \<Longrightarrow> prim_own op fs t as hs vs \<subseteq> own as hs"
  using toggle_actions_own [of as hs]
  by (auto simp: prim_own_def part_actions_def dialog_part_def toggle_root_def)

lemma part_actions_changes: "part_actions t op fs \<subseteq> all_changes fs" "(\<lambda>f. f False) ` set fs \<subseteq> all_changes fs"
  by (auto simp: part_actions_def all_changes_def)

lemma dialog_part_tag: "dialog_part t \<Longrightarrow> \<not> toggle_root t \<and> t \<noteq> ''SelectPrimitive.Root'' \<and> t \<noteq> ''DialogPrimitive.Root''"
  by (elim dialog_part_def [THEN iffD1, elim_format] disjE) simp_all

lemma prim_own_part:
  assumes "dialog_part t"
  shows "prim_own op fs t as hs vs \<subseteq> own as hs \<union> all_changes fs" "own as hs \<subseteq> prim_own op fs t as hs vs"
proof -
  have *: "prim_own op fs t as hs vs =
      (if is_disabled as then {} else own as hs \<union> part_actions t op fs)
      \<union> (if t = ''DialogPrimitive.Content'' then (\<lambda>f. f False) ` set fs else {})"
    using dialog_part_tag [OF assms] by (simp only: prim_own_def simp_thms if_False)
  show "prim_own op fs t as hs vs \<subseteq> own as hs \<union> all_changes fs"
    unfolding * using part_actions_changes(1) [of t op fs] part_actions_changes(2) [of fs] by (simp split: if_split) blast
  show "own as hs \<subseteq> prim_own op fs t as hs vs"
    unfolding * by (auto simp: own_def)
qed

lemma prim_own_toggles:
  assumes "toggle_root t" "\<not> is_disabled as" "attr_of ''checked'' as = ABool b" "(k, OnBool f) \<in> set hs"
  shows "f (\<not> b) \<in> prim_own op fs t as hs vs"
  using assms by (auto simp: prim_own_def intro!: bexI [of _ "(k, OnBool f)"])

lemma prim_own_toggle_do:
  assumes "toggle_root t" "\<not> is_disabled as" "(k, Do a) \<in> set hs"
  shows "a \<in> prim_own op fs t as hs vs"
  using assms by (auto simp: prim_own_def intro!: bexI [of _ "(k, Do a)"])

lemma prim_own_selects:
  assumes "\<not> is_disabled as" "(k, OnText f) \<in> set hs" "v \<in> set vs"
  shows "f v \<in> prim_own op fs ''SelectPrimitive.Root'' as hs vs"
  using assms by (auto simp: prim_own_def intro!: bexI [of _ "(k, OnText f)"])

lemma prim_offers_El:
  "t \<noteq> ''DialogPrimitive.Root'' \<Longrightarrow> t \<noteq> ''DialogPrimitive.Content'' \<or> op \<Longrightarrow>
   prim_offers op fs (El t as hs cs) =
     prim_own op fs t as hs (concat (map prim_values cs)) \<union> (\<Union>c \<in> set cs. prim_offers op fs c)"
  by auto

lemma toggle_tag: "toggle_root t \<or> t = ''TabsPrimitive.Root'' \<Longrightarrow> t \<noteq> ''DialogPrimitive.Root'' \<and> t \<noteq> ''DialogPrimitive.Content''"
  by (elim toggle_root_def [THEN iffD1, elim_format] disjE) simp_all

lemma prim_own_parts:
  assumes "f \<in> set fs"
  shows "f False \<in> prim_own True fs ''DialogPrimitive.Content'' as hs vs"
    "\<not> is_disabled as \<Longrightarrow> f False \<in> prim_own True fs ''DialogPrimitive.Close'' as hs vs"
    "\<not> is_disabled as \<Longrightarrow> f True \<in> prim_own False fs ''DialogPrimitive.Trigger'' as hs vs"
  using assms by (simp_all add: prim_own_def part_actions_def)

lemma prim_offers_toggle:
  assumes "toggle_root t \<or> t = ''TabsPrimitive.Root''"
  shows "prim_offers op fs (El t as hs cs) =
    prim_own op fs t as hs (concat (map prim_values cs)) \<union> (\<Union>c \<in> set cs. prim_offers op fs c)"
  using toggle_tag [OF assms] by (intro prim_offers_El) (simp_all only: simp_thms)

lemma prim_offers_part:
  assumes "dialog_part t" "t \<noteq> ''DialogPrimitive.Content'' \<or> op"
  shows "prim_offers op fs (El t as hs cs) =
    prim_own op fs t as hs (concat (map prim_values cs)) \<union> (\<Union>c \<in> set cs. prim_offers op fs c)"
  using dialog_part_tag [OF assms(1)] assms(2) by (intro prim_offers_El) (simp_all only: simp_thms)

interpretation prim: radix prim_offers
proof unfold_locales
  fix op :: bool and fs :: "(bool \<Rightarrow> 'a) list" and t :: string and as :: attrs and b k
    and f :: "bool \<Rightarrow> 'a" and g :: "string \<Rightarrow> 'a" and v :: string
    and hs :: "'a handlers" and cs :: "'a node list" and c :: "'a node"
  show "prim_offers op fs (Text v) = {}" by simp
  show "prim_offers op fs (El t as hs cs) = own as hs \<union> (\<Union>c \<in> set cs. prim_offers op fs c)"
    if "\<not> special_tag t"
  proof -
    have "t \<noteq> ''DialogPrimitive.Root''" "t \<noteq> ''DialogPrimitive.Content''"
      using that by (simp_all add: special_tag_def dialog_part_def)
    then show ?thesis by (simp only: prim_offers_El prim_own_plain [OF that] simp_thms)
  qed
  show "prim_offers op fs (El t as hs cs) \<subseteq> own as hs \<union> (\<Union>c \<in> set cs. prim_offers op fs c)"
    if "toggle_root t \<or> t = ''TabsPrimitive.Root''"
    unfolding prim_offers_toggle [OF that] by (rule Un_mono [OF prim_own_toggle [OF that] subset_refl])
  show "prim_offers op fs c \<subseteq> prim_offers op fs (El t as hs cs)"
    if "toggle_root t \<or> t = ''TabsPrimitive.Root''" "c \<in> set cs"
    unfolding prim_offers_toggle [OF that(1)] using UN_upper [OF that(2)] by (rule le_supI2)
  show "f (\<not> b) \<in> prim_offers op fs (El t as hs cs)"
    if "toggle_root t" "\<not> is_disabled as" "attr_of ''checked'' as = ABool b" "(k, OnBool f) \<in> set hs"
    unfolding prim_offers_toggle [OF disjI1 [OF that(1)]] using prim_own_toggles [OF that] by (rule UnI1)
  show "a \<in> prim_offers op fs (El t as hs cs)"
    if "toggle_root t" "\<not> is_disabled as" "(k, Do a) \<in> set hs" for a
    unfolding prim_offers_toggle [OF disjI1 [OF that(1)]] using prim_own_toggle_do [OF that] by (rule UnI1)
  show "prim_offers op fs (El t as hs cs) \<subseteq> own as hs \<union> all_changes fs \<union> (\<Union>c \<in> set cs. prim_offers op fs c)"
    if "dialog_part t"
  proof (cases "t \<noteq> ''DialogPrimitive.Content'' \<or> op")
    case True
    then show ?thesis unfolding prim_offers_part [OF that True] by (intro Un_mono prim_own_part(1) [OF that] subset_refl)
  qed simp
  show "own as hs \<union> (\<Union>c \<in> set cs. prim_offers op fs c) \<subseteq> prim_offers op fs (El t as hs cs)"
    if "dialog_part t" "t \<noteq> ''DialogPrimitive.Content'' \<or> op"
    unfolding prim_offers_part [OF that] by (intro Un_mono prim_own_part(2) [OF that(1)] subset_refl)
  show "prim_offers op fs (El ''SelectPrimitive.Root'' as hs cs) \<subseteq>
      (if is_disabled as then {}
       else (\<Union>h \<in> set hs. select_actions (concat (map prim_values cs)) (snd h)))
      \<union> (\<Union>c \<in> set cs. prim_offers op fs c)"
    by (simp add: prim_own_def)
  show "prim_offers op fs c \<subseteq> prim_offers op fs (El ''SelectPrimitive.Root'' as hs cs)" if "c \<in> set cs"
    using that by auto
  show "g v \<in> prim_offers op fs (El ''SelectPrimitive.Root'' as hs cs)"
    if "\<not> is_disabled as" "(k, OnText g) \<in> set hs" "v \<in> set (concat (map prim_values cs))"
    using prim_own_selects [OF that, of op fs] by simp
  show "f False \<in> prim_offers True fs (El ''DialogPrimitive.Content'' as hs cs)" if "f \<in> set fs"
    using prim_own_parts(1) [OF that] by simp
  show "f False \<in> prim_offers True fs (El ''DialogPrimitive.Close'' as hs cs)"
    if "\<not> is_disabled as" "f \<in> set fs"
    using prim_own_parts(2) [OF that(2,1)] by simp
  show "f True \<in> prim_offers False fs (El ''DialogPrimitive.Trigger'' as hs cs)"
    if "\<not> is_disabled as" "f \<in> set fs"
    using prim_own_parts(3) [OF that(2,1)] by simp
qed simp_all

subsection \<open>Pages made of widgets\<close>

definition dialog_root :: "string \<Rightarrow> bool" where
  "dialog_root t \<longleftrightarrow> t \<in> set [''Dialog'', ''AlertDialog'', ''CommandDialog'', ''Sheet'']"

text \<open>Widgets that render no children of their own.\<close>

definition leaf_tag :: "string \<Rightarrow> bool" where
  "leaf_tag t \<longleftrightarrow> t \<in> set [''Checkbox'', ''Switch'', ''ScrollBar'', ''SelectScrollUpButton'', ''SelectScrollDownButton'']"

definition content_tag :: "string \<Rightarrow> bool" where
  "content_tag t \<longleftrightarrow> t \<in> set [''DialogContent'', ''AlertDialogContent'', ''SheetContent'']"

definition palette_tag :: "string \<Rightarrow> bool" where
  "palette_tag t \<longleftrightarrow> t \<in> set [''CommandInput'', ''CommandList'']"

text \<open>
  What a page has to respect to use the widgets: the contents of a dialog stand directly under it,
  the command dialog holds its input and its list, a dialog root has only \<open>onOpenChange\<close>, the items
  of a select have a value, and the primitives are not used directly.
\<close>

definition well_used :: "string \<Rightarrow> string \<Rightarrow> attrs \<Rightarrow> 'a handlers \<Rightarrow> 'a node list \<Rightarrow> bool" where
  "well_used p t as hs cs \<longleftrightarrow>
     (content_tag t \<longrightarrow> dialog_root p \<and> p \<noteq> ''CommandDialog'')
     \<and> (palette_tag t \<longleftrightarrow> p = ''CommandDialog'')
     \<and> \<not> special_tag t \<and> t \<noteq> ''SelectPrimitive.Item''
     \<and> (dialog_root t \<longrightarrow> \<not> is_disabled as \<and> (\<forall>h \<in> set hs. change_fun (snd h) \<noteq> []))
     \<and> (leaf_tag t \<longrightarrow> cs = [])
     \<and> (t = ''SelectItem'' \<longrightarrow> attr_of ''value'' as \<noteq> AStr [])"

fun well_placed :: "string \<Rightarrow> 'a node \<Rightarrow> bool" where
  "well_placed p (Text s) = True"
| "well_placed p (El t as hs cs) \<longleftrightarrow> well_used p t as hs cs \<and> (\<forall>c \<in> set cs. well_placed t c)"

text \<open>The actions that are certain to be on offer.\<close>

definition soft :: "string \<Rightarrow> bool" where
  "soft t \<longleftrightarrow> dialog_root t \<or> t = ''Tabs''"

fun sure_actions :: "string \<Rightarrow> attrs \<Rightarrow> 'a node list \<Rightarrow> 'a handler \<Rightarrow> 'a set" where
  "sure_actions t as cs (Do a) = (if soft t \<or> t = ''Select'' then {} else {a})"
| "sure_actions t as cs (OnBool f) =
     (if soft t \<or> t = ''Select'' then {}
      else if t \<in> set [''Checkbox'', ''Switch'']
      then (case attr_of ''checked'' as of ABool b \<Rightarrow> {f (\<not> b)} | _ \<Rightarrow> {})
      else {f True, f False})"
| "sure_actions t as cs (OnText f) =
     (if soft t \<or> t \<in> set [''Checkbox'', ''Switch''] then {}
      else if t = ''Select''
      then f ` {v \<in> set (concat (map item_values cs)). attr_of ''value'' as \<noteq> AStr v}
      else range f)"

fun sure_in :: "bool \<Rightarrow> 'a node \<Rightarrow> 'a set" where
  "sure_in hid (Text s) = {}"
| "sure_in hid (El t as hs cs) =
     (if hid \<and> dialog_content t then {}
      else (if is_disabled as then {} else (\<Union>h \<in> set hs. sure_actions t as cs (snd h)))
         \<union> (\<Union>c \<in> set cs. sure_in (closed_dialog t as) c))"

subsection \<open>Properties through the wrappers\<close>

lemma attr_of_drop [simp]: "k \<notin> set ks \<Longrightarrow> attr_of k (drop_attrs ks as) = attr_of k as"
  by (induction as) (auto simp: drop_attrs_def attr_of_def)

lemma attr_of_cn [simp]: "k \<noteq> ''className'' \<Longrightarrow> attr_of k (cn_prop b as) = attr_of k as"
  by (simp add: cn_prop_def)

lemma attr_of_default_prop [simp]: "k \<noteq> k' \<Longrightarrow> attr_of k (default_prop k' v as) = attr_of k as"
  by (simp add: default_prop_def)

lemma attr_of_default_class [simp]: "k \<noteq> ''className'' \<Longrightarrow> attr_of k (default_class b as) = attr_of k as"
  by (simp add: default_class_def)

lemma is_disabled_wrap [simp]:
  "''disabled'' \<notin> set ks \<Longrightarrow> is_disabled (drop_attrs ks as) = is_disabled as"
  "is_disabled (cn_prop b as) = is_disabled as"
  "k \<noteq> ''disabled'' \<Longrightarrow> is_disabled (default_prop k v as) = is_disabled as"
  "is_disabled (default_class b as) = is_disabled as"
  by (simp_all add: is_disabled_def)

lemma own_wrap [simp]:
  "''disabled'' \<notin> set ks \<Longrightarrow> own (drop_attrs ks as) hs = own as hs"
  "own (cn_prop b as) hs = own as hs"
  "k \<noteq> ''disabled'' \<Longrightarrow> own (default_prop k v as) hs = own as hs"
  "own (default_class b as) hs = own as hs"
  "own as [] = {}"
  by (simp_all add: own_def)

text \<open>A wrapper around an element offers that element's own actions and those of its children.\<close>

definition upper_ok :: "(bool \<Rightarrow> (bool \<Rightarrow> 'a) list \<Rightarrow> 'a node \<Rightarrow> 'a set) \<Rightarrow> bool \<Rightarrow> 'a wrapper \<Rightarrow> bool" where
  "upper_ok P op W \<longleftrightarrow>
     (\<forall>fs as hs cs. P op fs (W as hs cs) \<subseteq> own as hs \<union> all_changes fs \<union> (\<Union>c \<in> set cs. P op fs c))"

definition lower_ok :: "(bool \<Rightarrow> (bool \<Rightarrow> 'a) list \<Rightarrow> 'a node \<Rightarrow> 'a set) \<Rightarrow> bool \<Rightarrow> 'a wrapper \<Rightarrow> 'a node list \<Rightarrow> bool" where
  "lower_ok P op W cs \<longleftrightarrow> (\<forall>fs as hs. own as hs \<union> (\<Union>c \<in> set cs. P op fs c) \<subseteq> P op fs (W as hs cs))"

definition faithful :: "(bool \<Rightarrow> (bool \<Rightarrow> 'a) list \<Rightarrow> 'a node \<Rightarrow> 'a set) \<Rightarrow> 'a wrapper \<Rightarrow> bool" where
  "faithful P W \<longleftrightarrow> (\<forall>op fs as hs cs. P op fs (W as hs cs) = own as hs \<union> (\<Union>c \<in> set cs. P op fs c))"

lemma faithful_bounds: "faithful P W \<Longrightarrow> upper_ok P op W \<and> lower_ok P op W cs"
  by (auto simp: faithful_def upper_ok_def lower_ok_def)

lemmas neutral_defs =
  Button_def Badge_def Label_def Input_def Textarea_def Skeleton_def Card_def CardHeader_def
  CardTitle_def CardDescription_def CardContent_def Table_def TableHeader_def TableBody_def TableRow_def
  TableHead_def TableCell_def Avatar_def AvatarImage_def AvatarFallback_def TabsList_def TabsTrigger_def
  TabsContent_def TooltipProvider_def Tooltip_def TooltipTrigger_def TooltipContent_def ScrollArea_def
  DialogPortal_def DialogOverlay_def DialogHeader_def DialogFooter_def DialogTitle_def
  DialogDescription_def AlertDialogPortal_def AlertDialogOverlay_def AlertDialogHeader_def
  AlertDialogFooter_def AlertDialogTitle_def AlertDialogDescription_def SheetPortal_def SheetOverlay_def
  SheetHeader_def SheetFooter_def SheetTitle_def SheetDescription_def Command_def CommandInput_def
  CommandList_def CommandEmpty_def CommandGroup_def CommandSeparator_def CommandItem_def
  CommandShortcut_def SelectGroup_def SelectValue_def SelectTrigger_def SelectContent_def
  SelectLabel_def SelectItem_def SelectSeparator_def DropdownMenu_def DropdownMenuTrigger_def
  DropdownMenuGroup_def DropdownMenuPortal_def DropdownMenuSub_def DropdownMenuRadioGroup_def
  DropdownMenuSubTrigger_def DropdownMenuSubContent_def DropdownMenuContent_def DropdownMenuItem_def
  DropdownMenuCheckboxItem_def DropdownMenuRadioItem_def DropdownMenuLabel_def DropdownMenuSeparator_def
  DropdownMenuShortcut_def

subsection \<open>The values of a select survive the expansion\<close>

lemma list_all_entry: "list_all (\<lambda>(t, W). Q t W) xs \<Longrightarrow> (t, W) \<in> set xs \<Longrightarrow> Q t W"
  by (auto simp: list_all_iff)

definition keeps_values :: "'a wrapper \<Rightarrow> bool" where
  "keeps_values W \<longleftrightarrow> (\<forall>as hs cs. prim_values (W as hs cs) = concat (map prim_values cs))"

lemmas leaf_defs = ScrollBar_def SelectScrollUpButton_def SelectScrollDownButton_def
lemmas part_defs = DialogTrigger_def DialogClose_def AlertDialogTrigger_def AlertDialogAction_def
  AlertDialogCancel_def SheetTrigger_def SheetClose_def
lemmas content_defs = DialogContent_def AlertDialogContent_def SheetContent_def DialogPortal_def
  AlertDialogPortal_def SheetPortal_def DialogOverlay_def AlertDialogOverlay_def SheetOverlay_def

lemma neutral_values: "list_all (\<lambda>(t, W). t = ''SelectItem'' \<or> keeps_values W) neutral_table"
  unfolding neutral_table_def list.pred_inject prod.case keeps_values_def
  by (intro conjI TrueI; (rule disjI1, rule refl)?; (rule disjI2, intro allI)?; simp add: neutral_defs leaf_defs)

lemma special_values:
  "list_all (\<lambda>(t, W). keeps_values W) (part_table @ content_table @ root_table)"
  "keeps_values CommandDialog" "keeps_values Select" "keeps_values Tabs"
  unfolding part_table_def content_table_def root_table_def append.simps list.pred_inject prod.case keeps_values_def
  by (intro conjI TrueI allI; simp add: part_defs content_defs Dialog_def AlertDialog_def Sheet_def
      CommandDialog_def DialogTitle_def Command_def Select_def Tabs_def)+

lemma leaf_values:
  "list_all (\<lambda>(t, W). \<forall>as hs. prim_values (W as hs []) = []) leaf_table"
  "prim_values (Checkbox as hs cs) = []" "prim_values (Switch as hs cs) = []"
  by (simp_all add: leaf_table_def leaf_defs Checkbox_def Switch_def)

lemma ui_values:
  assumes "map_of ui_table t = Some W" "leaf_tag t \<longrightarrow> cs = []" "t \<noteq> ''SelectItem''"
  shows "prim_values (W as hs cs) = concat (map prim_values cs)"
proof -
  have "(t, W) \<in> set ui_table" using assms(1) by (rule map_of_SomeD)
  then consider "(t, W) \<in> set neutral_table" | "(t, W) \<in> set leaf_table"
    | "(t, W) \<in> set (part_table @ content_table @ root_table)" | "(t, W) \<in> set control_table"
    | "W = CommandDialog" | "W = Select"
    unfolding ui_table_def set_append set_simps by blast
  then show ?thesis
  proof cases
    case 1
    show ?thesis using list_all_entry [OF neutral_values 1] assms(3) by (simp add: keeps_values_def)
  next
    case 2
    then have "leaf_tag t" by (auto simp: leaf_table_def leaf_tag_def)
    then show ?thesis using list_all_entry [OF leaf_values(1) 2] assms(2) by simp
  next
    case 3
    show ?thesis using list_all_entry [OF special_values(1) 3] by (simp add: keeps_values_def)
  next
    case 4
    then have "W = Tabs \<or> leaf_tag t \<and> (W = Checkbox \<or> W = Switch)"
      by (auto simp: control_table_def leaf_tag_def)
    then show ?thesis using assms(2) special_values(4) [unfolded keeps_values_def] by (auto simp: leaf_values)
  qed (simp_all add: special_values(2,3) [unfolded keeps_values_def])
qed

lemma SelectItem_entry: "map_of ui_table ''SelectItem'' = Some SelectItem"
  by (simp add: ui_table_def root_table_def content_table_def control_table_def part_table_def leaf_table_def
      neutral_table_def)

lemma expand_values: "well_placed p n \<Longrightarrow> prim_values (expand n) = item_values n"
proof (induction n arbitrary: p)
  case (El t as hs cs)
  have cs: "concat (map prim_values (map expand cs)) = concat (map item_values cs)"
    using El.prems by (auto intro!: arg_cong [of _ _ concat] El.IH)
  show ?case
  proof (cases "t = ''SelectItem''")
    case True
    then show ?thesis by (simp add: SelectItem_entry SelectItem_def split: attr.splits)
  next
    case False
    have t: "leaf_tag t \<longrightarrow> map expand cs = []" "t \<noteq> ''SelectPrimitive.Item''"
      using El.prems by (simp_all add: well_used_def)
    show ?thesis
    proof (cases "map_of (ui_table :: (string \<times> 'a wrapper) list) t")
      case None
      then show ?thesis using False t(2) cs by simp
    next
      case (Some W)
      then show ?thesis using ui_values [OF Some t(1) False] False cs by simp
    qed
  qed
qed simp

subsection \<open>Kinds of tags\<close>

definition ordinary :: "string \<Rightarrow> bool" where
  "ordinary t \<longleftrightarrow> \<not> dialog_root t \<and> \<not> content_tag t \<and> t \<notin> set [''Select'', ''Tabs'', ''Checkbox'', ''Switch'']"

lemma ui_entry:
  "map_of ui_table t = Some W \<Longrightarrow>
   (t, W) \<in> set neutral_table \<or> (t, W) \<in> set leaf_table \<or> (t, W) \<in> set part_table
   \<or> (t, W) \<in> set content_table \<or> (t, W) \<in> set root_table \<or> (t, W) \<in> set control_table
   \<or> (t, W) = (''CommandDialog'', CommandDialog) \<or> (t, W) = (''Select'', Select)"
  by (drule map_of_SomeD) (auto simp only: ui_table_def set_append set_simps)

lemma ui_lookup:
  "map_of ui_table ''Dialog'' = Some Dialog" "map_of ui_table ''AlertDialog'' = Some AlertDialog"
  "map_of ui_table ''Sheet'' = Some Sheet" "map_of ui_table ''CommandDialog'' = Some CommandDialog"
  "map_of ui_table ''DialogContent'' = Some DialogContent"
  "map_of ui_table ''AlertDialogContent'' = Some AlertDialogContent"
  "map_of ui_table ''SheetContent'' = Some SheetContent"
  "map_of ui_table ''Select'' = Some Select" "map_of ui_table ''Tabs'' = Some Tabs"
  "map_of ui_table ''Checkbox'' = Some Checkbox" "map_of ui_table ''Switch'' = Some Switch"
  unfolding ui_table_def content_table_def root_table_def control_table_def by simp_all

subsection \<open>What the expanded page offers\<close>

context radix
begin

lemma neutral_faithful: "list_all (\<lambda>(t, W). faithful P W) neutral_table"
  unfolding neutral_table_def list.pred_inject prod.case faithful_def
  by (intro conjI TrueI allI; simp add: neutral_defs ScrollBar_def SelectScrollUpButton_def SelectScrollDownButton_def
      plain text_none special_tag_def toggle_root_def dialog_part_def)

lemmas tag_defs = special_tag_def toggle_root_def dialog_part_def

lemma leaf_bounds: "list_all (\<lambda>(t, W). upper_ok P op W \<and> lower_ok P op W []) leaf_table"
  unfolding leaf_table_def list.pred_inject prod.case upper_ok_def lower_ok_def
  by (intro conjI TrueI allI; simp add: leaf_defs plain tag_defs; blast)

lemma element_faithful: "\<not> special_tag t \<Longrightarrow> faithful P (El t)"
  by (simp add: faithful_def plain)

lemmas part_rules =
  part_upper [OF special_tags(3)] part_upper [OF special_tags(4)]
  part_upper [OF special_tags(3), where as = "cn_prop b as" for b as, unfolded own_wrap]
  part_upper [OF special_tags(4), where as = "cn_prop b as" for b as, unfolded own_wrap]
  part_lower [OF special_tags(3), simplified] part_lower [OF special_tags(4), simplified]
  part_lower [OF special_tags(3), where as = "cn_prop b as" for b as, simplified]
  part_lower [OF special_tags(4), where as = "cn_prop b as" for b as, simplified]

lemma part_bounds: "list_all (\<lambda>(t, W). upper_ok P op W \<and> lower_ok P op W cs) part_table"
  unfolding part_table_def list.pred_inject prod.case upper_ok_def lower_ok_def
  by (intro conjI TrueI allI; simp add: part_defs part_rules)

lemma content_open:
  "own as hs \<union> (\<Union>c \<in> set cs. P True fs c) \<subseteq> P True fs (El ''DialogPrimitive.Content'' as hs cs)"
  "P True fs (El ''DialogPrimitive.Content'' as hs cs) \<subseteq> own as hs \<union> all_changes fs \<union> (\<Union>c \<in> set cs. P True fs c)"
  by (rule part_lower; simp) (rule part_upper; simp)

lemma close_x:
  "P op fs (El ''DialogPrimitive.Close'' (cn_prop b []) []
     [El ''X'' (cn_prop b' []) [] [], El ''span'' (cn_prop b'' []) [] [Text v]]) \<subseteq> all_changes fs"
  using part_rules(4) [of op fs b "[]" "[]" "[El ''X'' (cn_prop b' []) [] [], El ''span'' (cn_prop b'' []) [] [Text v]]"]
  by (simp add: plain tag_defs text_none)

lemma content_closed: "list_all (\<lambda>(t, W). \<forall>fs as hs cs. P False fs (W as hs cs) = {}) content_table"
  unfolding content_table_def list.pred_inject prod.case
  by (intro conjI TrueI allI; simp add: content_defs plain tag_defs closed_content)

lemma sandwich:
  "A' \<union> B \<subseteq> E \<Longrightarrow> E \<subseteq> A' \<union> C \<union> B \<Longrightarrow> B' \<subseteq> B \<Longrightarrow> B \<subseteq> B' \<union> C \<Longrightarrow> A' \<union> B' \<subseteq> E \<and> E \<subseteq> A' \<union> C \<union> B'"
  by blast

lemma content_with_close:
  assumes "own as' hs = own as hs" "P True fs x \<subseteq> all_changes fs" "set cs' = set cs \<or> set cs' = insert x (set cs)"
  shows "own as hs \<union> (\<Union>c \<in> set cs. P True fs c) \<subseteq> P True fs (El ''DialogPrimitive.Content'' as' hs cs')
    \<and> P True fs (El ''DialogPrimitive.Content'' as' hs cs') \<subseteq> own as hs \<union> all_changes fs \<union> (\<Union>c \<in> set cs. P True fs c)"
proof (rule sandwich [OF content_open [where as = as' and hs = hs and cs = cs', unfolded assms(1)]])
  show "(\<Union>c \<in> set cs. P True fs c) \<subseteq> (\<Union>c \<in> set cs'. P True fs c)"
    "(\<Union>c \<in> set cs'. P True fs c) \<subseteq> (\<Union>c \<in> set cs. P True fs c) \<union> all_changes fs"
    using assms(2,3) by auto
qed

lemma content_close_at:
  assumes "own as' hs = own as hs" "P True fs x \<subseteq> all_changes fs"
  shows "own as hs \<union> (\<Union>c \<in> set cs. P True fs c) \<subseteq> P True fs (El ''DialogPrimitive.Content'' as' hs (cs @ [x]))
    \<and> P True fs (El ''DialogPrimitive.Content'' as' hs (cs @ [x])) \<subseteq> own as hs \<union> all_changes fs \<union> (\<Union>c \<in> set cs. P True fs c)"
    "own as hs \<union> (\<Union>c \<in> set cs. P True fs c) \<subseteq> P True fs (El ''DialogPrimitive.Content'' as' hs (x # cs))
    \<and> P True fs (El ''DialogPrimitive.Content'' as' hs (x # cs)) \<subseteq> own as hs \<union> all_changes fs \<union> (\<Union>c \<in> set cs. P True fs c)"
  by (rule content_with_close [OF assms]; simp)+

lemma portals:
  "P op fs (DialogPortal [] [] [DialogOverlay [] [] [], n]) = P op fs n"
  "P op fs (AlertDialogPortal [] [] [AlertDialogOverlay [] [] [], n]) = P op fs n"
  "P op fs (SheetPortal [] [] [SheetOverlay [] [] [], n]) = P op fs n"
  by (simp_all add: content_defs plain tag_defs)

lemma content_bounds: "list_all (\<lambda>(t, W). upper_ok P True W \<and> lower_ok P True W cs) content_table"
proof -
  let ?ok = "\<lambda>n as hs cs fs. own as hs \<union> (\<Union>c \<in> set cs. P True fs c) \<subseteq> P True fs n
    \<and> P True fs n \<subseteq> own as hs \<union> all_changes fs \<union> (\<Union>c \<in> set cs. P True fs c)"
  have "?ok (DialogContent as hs cs) as hs cs fs" "?ok (SheetContent as hs cs) as hs cs fs" for as hs cs fs
    unfolding DialogContent_def SheetContent_def portals by (rule content_close_at; (rule close_x)?; simp)+
  moreover have "?ok (AlertDialogContent as hs cs) as hs cs fs" for as hs cs fs
    unfolding AlertDialogContent_def portals
    by (rule content_with_close [where x = "Text []"]) (simp_all add: text_none)
  ultimately show ?thesis
    by (simp only: content_table_def list.pred_inject prod.case upper_ok_def lower_ok_def simp_thms)
qed

lemma mark_inner:
  "P op fs (El ''CheckboxPrimitive.Indicator'' (cn_prop b []) [] [El ''Check'' (cn_prop b' []) [] []]) = {}"
  "P op fs (El ''SwitchPrimitives.Thumb'' (cn_prop b []) [] []) = {}"
  by (simp_all add: plain tag_defs)

lemma control_upper: "list_all (\<lambda>(t, W). upper_ok P op W) control_table"
proof -
  have "P op fs (Checkbox as hs cs) \<subseteq> own as hs" "P op fs (Switch as hs cs) \<subseteq> own as hs" for fs as hs cs
    unfolding Checkbox_def Switch_def
    by (rule toggle_upper [THEN order_trans]; simp add: mark_inner)+
  then have "P op fs (Checkbox as hs cs) \<subseteq> own as hs \<union> all_changes fs \<union> (\<Union>c \<in> set cs. P op fs c)"
    "P op fs (Switch as hs cs) \<subseteq> own as hs \<union> all_changes fs \<union> (\<Union>c \<in> set cs. P op fs c)" for fs as hs cs
    by (simp_all only: le_supI1)
  moreover have "P op fs (Tabs as hs cs) \<subseteq> own as hs \<union> all_changes fs \<union> (\<Union>c \<in> set cs. P op fs c)" for fs as hs cs
    unfolding Tabs_def by (rule toggle_upper [THEN order_trans], simp) blast
  ultimately show ?thesis
    by (simp add: control_table_def upper_ok_def)
qed

lemma control_lower:
  "c \<in> set cs \<Longrightarrow> P op fs c \<subseteq> P op fs (Tabs as hs cs)"
  "\<not> is_disabled as \<Longrightarrow> attr_of ''checked'' as = ABool b \<Longrightarrow> (k, OnBool f) \<in> set hs \<Longrightarrow>
     f (\<not> b) \<in> P op fs (Checkbox as hs cs) \<inter> P op fs (Switch as hs cs)"
  unfolding Tabs_def Checkbox_def Switch_def
  by (rule toggle_lower; simp) (rule IntI; rule toggle; simp)

lemma control_do:
  "\<not> is_disabled as \<Longrightarrow> (k, Do a) \<in> set hs \<Longrightarrow> a \<in> P op fs (Checkbox as hs cs) \<inter> P op fs (Switch as hs cs)"
  unfolding Checkbox_def Switch_def by (rule IntI; rule toggle_do; simp)

lemma Command_dialog_closed: "attr_of ''open'' as = ABool False \<Longrightarrow> P op fs (CommandDialog as hs cs) = {}"
  using content_closed
  by (simp add: CommandDialog_def Dialog_def root content_table_def)

lemma Command_dialog_open:
  assumes "attr_of ''open'' as \<noteq> ABool False"
  shows "(\<Union>c \<in> set cs. P True (changes hs) c) \<subseteq> P op fs (CommandDialog as hs cs)"
    "P op fs (CommandDialog as hs cs) \<subseteq> all_changes (changes hs) \<union> (\<Union>c \<in> set cs. P True (changes hs) c)"
proof -
  have b: "upper_ok P True DialogContent" "lower_ok P True DialogContent cs'" for cs'
    using content_bounds [of cs'] by (simp_all only: content_table_def list.pred_inject prod.case)
  have *: "(\<Union>c \<in> set cs'. P True fs' c) \<subseteq> P True fs' (DialogContent (cn_prop b []) [] cs')"
    "P True fs' (DialogContent (cn_prop b []) [] cs') \<subseteq> all_changes fs' \<union> (\<Union>c \<in> set cs'. P True fs' c)" for fs' b cs'
    using b(2) [unfolded lower_ok_def, rule_format, where as = "cn_prop b []" and hs = "[]" and fs = fs']
      b(1) [unfolded upper_ok_def, rule_format, where as = "cn_prop b []" and hs = "[]" and fs = fs' and cs = cs']
    by simp_all
  have **: "(\<Union>c \<in> set [DialogTitle (cn_prop b []) [] [Text v], Command (cn_prop b' []) [] cs]. P True (changes hs) c)
      = (\<Union>c \<in> set cs. P True (changes hs) c)" for b b' v
    by (simp add: DialogTitle_def Command_def plain tag_defs text_none)
  note c = * [where fs' = "changes hs"
      and cs' = "[DialogTitle (cn_prop b []) [] [Text v], Command (cn_prop b' []) [] cs]" for b v b', unfolded **]
  show "(\<Union>c \<in> set cs. P True (changes hs) c) \<subseteq> P op fs (CommandDialog as hs cs)"
    "P op fs (CommandDialog as hs cs) \<subseteq> all_changes (changes hs) \<union> (\<Union>c \<in> set cs. P True (changes hs) c)"
    unfolding CommandDialog_def Dialog_def root using assms by (simp_all add: c)
qed

text \<open>How a widget is expanded, by the kind of its tag.\<close>

lemma element_bounds:
  assumes "map_of ui_table t = Some W" "ordinary t" "leaf_tag t \<longrightarrow> cs = []"
  shows "upper_ok P op W \<and> lower_ok P op W cs"
  using ui_entry [OF assms(1)]
proof (elim disjE)
  show "(t, W) \<in> set neutral_table \<Longrightarrow> ?thesis"
    using list_all_entry [OF neutral_faithful] faithful_bounds by blast
  show ?thesis if "(t, W) \<in> set leaf_table"
  proof -
    have "cs = []" using that assms(3) by (auto simp: leaf_table_def leaf_tag_def)
    then show ?thesis using list_all_entry [OF leaf_bounds that] by simp
  qed
  show "(t, W) \<in> set part_table \<Longrightarrow> ?thesis"
    by (rule list_all_entry [OF part_bounds])
qed (use assms(2) in \<open>auto simp: ordinary_def content_tag_def dialog_root_def root_table_def
    content_table_def control_table_def\<close>)

lemma expand_ordinary:
  assumes "well_used p t as hs cs" "ordinary t"
  obtains W where "expand (El t as hs cs) = W as hs (map expand cs)"
    "\<And>op. upper_ok P op W" "\<And>op. lower_ok P op W (map expand cs)"
proof (cases "map_of (ui_table :: (string \<times> 'a wrapper) list) t")
  case None
  have "\<not> special_tag t" using assms(1) by (simp add: well_used_def)
  then show ?thesis using that [of "El t"] None faithful_bounds [OF element_faithful] by simp
next
  case (Some W)
  have "leaf_tag t \<longrightarrow> map expand cs = []" using assms(1) by (simp add: well_used_def)
  then show ?thesis using that [of W] Some element_bounds [OF Some assms(2)] by simp
qed

lemma handler_plain: "t \<noteq> ''Select'' \<Longrightarrow> handler_actions t cs h = plain_actions h"
  by (cases h) simp_all

lemma sure_plain: "sure_actions t as cs h \<subseteq> plain_actions h"
  by (cases h) (simp_all add: neg_either disj_commute image_subset_iff split: attr.split)

lemma not_root_open: "\<not> dialog_root t \<Longrightarrow> closed_dialog t as = False"
  by (simp add: closed_dialog_def dialog_root_def)

lemma root_open: "dialog_root t \<Longrightarrow> closed_dialog t as \<longleftrightarrow> attr_of ''open'' as = ABool False"
  by (simp add: closed_dialog_def dialog_root_def)

lemma offers_own:
  assumes "t \<noteq> ''Select''" "\<not> dialog_root t" "\<not> (hid \<and> dialog_content t)"
  shows "offers_in hid (El t as hs cs) = own as hs \<union> (\<Union>c \<in> set cs. offers_in False c)"
  by (simp only: offers_in.simps if_not_P [OF assms(3)] own_def handler_plain [OF assms(1)] not_root_open [OF assms(2)])

lemma sure_own:
  assumes "\<not> dialog_root t"
  shows "sure_in hid (El t as hs cs) \<subseteq> own as hs \<union> (\<Union>c \<in> set cs. sure_in False c)"
proof -
  have "(\<Union>h \<in> set hs. sure_actions t as cs (snd h)) \<subseteq> (\<Union>h \<in> set hs. plain_actions (snd h))"
    by (rule UN_mono [OF subset_refl sure_plain])
  then show ?thesis by (auto simp: own_def not_root_open [OF assms])
qed

lemma upper_step:
  assumes "upper_ok P op W" "t \<noteq> ''Select''" "\<not> dialog_root t" "\<not> (hid \<and> dialog_content t)"
    and "\<And>c. c \<in> set cs \<Longrightarrow> P op fs (expand c) \<subseteq> offers_in False c \<union> all_changes fs"
  shows "P op fs (W as hs (map expand cs)) \<subseteq> offers_in hid (El t as hs cs) \<union> all_changes fs"
proof -
  have "P op fs (W as hs (map expand cs)) \<subseteq> own as hs \<union> all_changes fs \<union> (\<Union>c \<in> set cs. P op fs (expand c))"
    using assms(1) [unfolded upper_ok_def, rule_format, where as = as and hs = hs and fs = fs and cs = "map expand cs"] by simp
  also have "(\<Union>c \<in> set cs. P op fs (expand c)) \<subseteq> (\<Union>c \<in> set cs. offers_in False c) \<union> all_changes fs"
    using assms(5) by blast
  finally show ?thesis unfolding offers_own [OF assms(2-4)] by blast
qed

lemma lower_step:
  assumes "lower_ok P op W (map expand cs)" "\<not> dialog_root t"
    and "\<And>c. c \<in> set cs \<Longrightarrow> sure_in False c \<subseteq> P op fs (expand c)"
  shows "sure_in hid (El t as hs cs) \<subseteq> P op fs (W as hs (map expand cs))"
proof -
  have "own as hs \<union> (\<Union>c \<in> set cs. P op fs (expand c)) \<subseteq> P op fs (W as hs (map expand cs))"
    using assms(1) [unfolded lower_ok_def, rule_format, where as = as and hs = hs and fs = fs] by simp
  moreover have "(\<Union>c \<in> set cs. sure_in False c) \<subseteq> (\<Union>c \<in> set cs. P op fs (expand c))"
    using assms(3) by blast
  ultimately show ?thesis
    by (rule order_trans [OF sure_own [OF assms(2)] order_trans [OF Un_mono [OF subset_refl]], rotated])
qed

lemma tag_kinds:
  "ordinary t \<or> content_tag t \<or> (dialog_root t \<and> t \<noteq> ''CommandDialog'') \<or> t = ''CommandDialog'' \<or> t = ''Select''
   \<or> t \<in> set [''Tabs'', ''Checkbox'', ''Switch'']"
  by (cases "dialog_root t"; cases "content_tag t"; cases "t = ''Select''"; cases "t = ''CommandDialog''"; cases "t = ''Tabs''"; cases "t = ''Checkbox''")
    (simp_all add: ordinary_def)

lemma tag_cases:
  obtains (ordinary) "ordinary t" | (content) "content_tag t" | (dialog) "dialog_root t" "t \<noteq> ''CommandDialog''"
  | (palette) "t = ''CommandDialog''" | (menu) "t = ''Select''" | (control) "t \<in> set [''Tabs'', ''Checkbox'', ''Switch'']"
  using tag_kinds [of t] that by (elim disjE conjE)

lemma root_tag: "dialog_root t \<Longrightarrow> \<not> dialog_content t \<and> t \<noteq> ''Select''"
  by (simp add: dialog_root_def) (elim disjE; simp)

lemma changes_offered:
  assumes "well_used p t as hs cs" "dialog_root t"
  shows "all_changes (changes hs) \<subseteq> offers_in hid (El t as hs cs)"
proof -
  have "\<not> dialog_content t" "\<not> is_disabled as" "t \<noteq> ''Select''"
    using assms root_tag by (simp_all add: well_used_def)
  moreover have "all_changes (changes hs) \<subseteq> (\<Union>h \<in> set hs. plain_actions (snd h))"
  proof
    fix a assume "a \<in> all_changes (changes hs)"
    then obtain f h where "h \<in> set hs" "f \<in> set (change_fun (snd h))" "a \<in> {f True, f False}"
      by (auto simp: all_changes_def changes_def)
    then have "a \<in> plain_actions (snd h)" by (cases "snd h") auto
    with \<open>h \<in> set hs\<close> show "a \<in> (\<Union>h \<in> set hs. plain_actions (snd h))" by blast
  qed
  ultimately show ?thesis by (auto simp: handler_plain)
qed

lemma expand_dialog:
  "dialog_root t \<Longrightarrow> t \<noteq> ''CommandDialog'' \<Longrightarrow>
   expand (El t as hs cs) = El ''DialogPrimitive.Root'' as hs (map expand cs)"
  by (simp add: dialog_root_def) (elim disjE; simp add: ui_lookup Dialog_def AlertDialog_def Sheet_def)

lemma expand_content:
  assumes "content_tag t"
  obtains W where "expand (El t as hs cs) = W as hs (map expand cs)" "(t, W) \<in> set content_table"
proof -
  have "\<exists>W. expand (El t as hs cs) = W as hs (map expand cs) \<and> (t, W) \<in> set content_table"
    using assms by (simp add: content_tag_def) (elim disjE; simp add: ui_lookup content_table_def)
  then show thesis using that by (elim exE conjE)
qed

lemma expand_control:
  assumes "t \<in> set [''Tabs'', ''Checkbox'', ''Switch'']"
  obtains W where "expand (El t as hs cs) = W as hs (map expand cs)" "(t, W) \<in> set control_table"
proof -
  have "\<exists>W. expand (El t as hs cs) = W as hs (map expand cs) \<and> (t, W) \<in> set control_table"
    using assms by simp (elim disjE; simp add: ui_lookup control_table_def)
  then show thesis using that by (elim exE conjE)
qed

lemma content_kind: "dialog_content t \<longleftrightarrow> content_tag t \<or> palette_tag t"
  by (simp only: dialog_content_def content_tag_def palette_tag_def list.set insert_iff empty_iff simp_thms disj_ac)

lemma control_kind:
  "t \<in> set [''Tabs'', ''Checkbox'', ''Switch''] \<Longrightarrow> \<not> dialog_root t \<and> \<not> dialog_content t \<and> t \<noteq> ''Select''"
  by simp (elim disjE; simp add: dialog_root_def)

lemma ordinary_kind: "ordinary t \<Longrightarrow> \<not> dialog_root t \<and> \<not> content_tag t \<and> t \<noteq> ''Select''"
  by (simp add: ordinary_def)

lemma content_not_root: "content_tag t \<Longrightarrow> \<not> dialog_root t \<and> t \<noteq> ''Select''"
  by (simp add: content_tag_def) (elim disjE; simp add: dialog_root_def)

lemma dialog_upper:
  assumes "well_used p t as hs cs" "dialog_root t"
    and "\<And>c. c \<in> set cs \<Longrightarrow> Q c \<subseteq> offers_in (closed_dialog t as) c \<union> all_changes (changes hs)"
  shows "all_changes (changes hs) \<union> (\<Union>c \<in> set cs. Q c) \<subseteq> offers_in hid (El t as hs cs)"
proof -
  have "(\<Union>c \<in> set cs. offers_in (closed_dialog t as) c) \<subseteq> offers_in hid (El t as hs cs)"
    using root_tag [OF assms(2)] by simp
  moreover have "(\<Union>c \<in> set cs. Q c) \<subseteq> (\<Union>c \<in> set cs. offers_in (closed_dialog t as) c) \<union> all_changes (changes hs)"
    using assms(3) by blast
  ultimately show ?thesis using changes_offered [OF assms(1,2), of hid] by (meson Un_least order_trans)
qed

lemma absorb_parts: "E \<subseteq> A \<union> B \<Longrightarrow> B \<subseteq> C \<union> D \<Longrightarrow> E \<subseteq> A \<union> C \<union> D"
  by blast

lemma select_upper_step:
  assumes "\<And>c. c \<in> set cs \<Longrightarrow> P op fs (expand c) \<subseteq> offers_in False c \<union> all_changes fs"
    and "concat (map prim_values (map expand cs)) = concat (map item_values cs)"
  shows "P op fs (El ''SelectPrimitive.Root'' as hs (map expand cs)) \<subseteq> offers_in hid (El ''Select'' as hs cs) \<union> all_changes fs"
proof -
  have "select_actions vs h = handler_actions ''Select'' cs h" if "vs = concat (map item_values cs)" for vs h
    using that by (cases h) simp_all
  then have "P op fs (El ''SelectPrimitive.Root'' as hs (map expand cs)) \<subseteq>
      (if is_disabled as then {} else (\<Union>h \<in> set hs. handler_actions ''Select'' cs (snd h)))
      \<union> (\<Union>c \<in> set cs. P op fs (expand c))"
    using select_upper [of op fs as hs "map expand cs"] assms(2) by (simp only: set_map image_image)
  moreover have "(\<Union>c \<in> set cs. P op fs (expand c)) \<subseteq> (\<Union>c \<in> set cs. offers_in False c) \<union> all_changes fs"
    using assms(1) by blast
  ultimately show ?thesis
    unfolding offers_in.simps by (simp add: absorb_parts)
qed

lemma palette_open: "well_used p t as hs cs \<Longrightarrow> p = ''CommandDialog'' \<longrightarrow> op \<Longrightarrow> \<not> content_tag t \<Longrightarrow> \<not> (\<not> op \<and> dialog_content t)"
  by (cases op) (simp_all add: content_kind well_used_def)

lemma content_upper_step:
  assumes "content_tag t"
    and "\<And>c. c \<in> set cs \<Longrightarrow> P op fs (expand c) \<subseteq> offers_in False c \<union> all_changes fs"
  shows "P op fs (expand (El t as hs cs)) \<subseteq> offers_in (b \<and> \<not> op) (El t as hs cs) \<union> all_changes fs"
proof -
  obtain W where W: "expand (El t as hs cs) = W as hs (map expand cs)" "(t, W) \<in> set content_table"
    by (rule expand_content [OF assms(1)])
  show ?thesis
  proof (cases op)
    case True
    then have "upper_ok P op W" using list_all_entry [OF content_bounds W(2)] by simp
    then show ?thesis
      unfolding W(1) using content_not_root [OF assms(1)] assms(2) True by (intro upper_step) simp_all
  next
    case False
    then show ?thesis unfolding W(1) using list_all_entry [OF content_closed W(2)] by simp
  qed
qed

lemma dialog_upper_step:
  assumes "well_used p t as hs cs" "dialog_root t"
    and "\<And>c op. c \<in> set cs \<Longrightarrow> t = ''CommandDialog'' \<longrightarrow> op \<Longrightarrow>
      P op (changes hs) (expand c) \<subseteq> offers_in (\<not> op) c \<union> all_changes (changes hs)"
  shows "P op fs (expand (El t as hs cs)) \<subseteq> offers_in hid (El t as hs cs)"
proof (cases "t = ''CommandDialog''")
  case False
  have "all_changes (changes hs) \<union> (\<Union>c \<in> set cs. P (attr_of ''open'' as \<noteq> ABool False) (changes hs) (expand c))
      \<subseteq> offers_in hid (El t as hs cs)"
    using assms(2) assms(3) [of _ "attr_of ''open'' as \<noteq> ABool False"] False
    by (intro dialog_upper [OF assms(1,2)]) (simp add: root_open)
  then show ?thesis unfolding expand_dialog [OF assms(2) False] root by simp
next
  case True
  show ?thesis
  proof (cases "attr_of ''open'' as = ABool False")
    case True
    then show ?thesis by (simp add: \<open>t = _\<close> ui_lookup Command_dialog_closed)
  next
    case False
    have "all_changes (changes hs) \<union> (\<Union>c \<in> set cs. P True (changes hs) (expand c)) \<subseteq> offers_in hid (El t as hs cs)"
      using assms(2) assms(3) [of _ True] False by (intro dialog_upper [OF assms(1,2)]) (simp add: root_open)
    moreover have "P op fs (expand (El t as hs cs)) \<subseteq>
        all_changes (changes hs) \<union> (\<Union>c \<in> set cs. P True (changes hs) (expand c))"
      using Command_dialog_open(2) [OF False, of op fs hs "map expand cs"] by (simp add: \<open>t = _\<close> ui_lookup)
    ultimately show ?thesis by (rule order_trans [rotated])
  qed
qed

lemma expand_upper:
  "well_placed p n \<Longrightarrow> p = ''CommandDialog'' \<longrightarrow> op \<Longrightarrow>
   P op fs (expand n) \<subseteq> offers_in (dialog_root p \<and> \<not> op) n \<union> all_changes fs"
proof (induction n arbitrary: p op fs)
  case (Text s)
  show ?case by (simp add: text_none)
next
  case (El t as hs cs)
  let ?hid = "dialog_root p \<and> \<not> op"
  have used: "well_used p t as hs cs" and sub: "\<And>c. c \<in> set cs \<Longrightarrow> well_placed t c"
    using El.prems(1) by simp_all
  have IH: "P op fs (expand c) \<subseteq> offers_in False c \<union> all_changes fs" if "\<not> dialog_root t" "c \<in> set cs" for c op fs
    using El.IH [OF that(2) sub [OF that(2)], of op fs] that(1) by (auto simp: dialog_root_def)
  show ?case
  proof (cases t rule: tag_cases)
    case ordinary
    obtain W where W: "expand (El t as hs cs) = W as hs (map expand cs)" "upper_ok P op W"
      using expand_ordinary [OF used ordinary] by metis
    show ?thesis
      unfolding W(1) using ordinary_kind [OF ordinary] palette_open [OF used El.prems(2)] IH
      by (intro upper_step [OF W(2)]) simp_all
  next
    case content
    then show ?thesis using content_not_root IH by (intro content_upper_step) simp_all
  next
    case dialog
    then show ?thesis using El.IH [OF _ sub] by (intro dialog_upper_step [THEN le_supI1, OF used]) simp_all
  next
    case palette
    then have "dialog_root t" by (simp add: dialog_root_def)
    then show ?thesis using El.IH [OF _ sub] by (intro dialog_upper_step [THEN le_supI1, OF used]) simp_all
  next
    case menu
    have "concat (map prim_values (map expand cs)) = concat (map item_values cs)"
      by (auto intro!: arg_cong [of _ _ concat] expand_values sub)
    moreover have "expand (El t as hs cs) = El ''SelectPrimitive.Root'' as hs (map expand cs)"
      by (simp add: menu ui_lookup Select_def)
    moreover have "\<not> dialog_root t" by (simp add: menu dialog_root_def)
    ultimately show ?thesis using select_upper_step IH menu by simp
  next
    case control
    obtain W where W: "expand (El t as hs cs) = W as hs (map expand cs)" "(t, W) \<in> set control_table"
      by (rule expand_control [OF control])
    show ?thesis
      unfolding W(1) using control_kind [OF control] IH
      by (intro upper_step [OF list_all_entry [OF control_upper W(2)]]) simp_all
  qed
qed

lemma AlertDialogContent_dismiss: "f \<in> set fs \<Longrightarrow> f False \<in> P True fs (AlertDialogContent as hs cs)"
  unfolding AlertDialogContent_def portals by (rule dismiss)

lemma UN_snd_least: "(\<And>k h. (k, h) \<in> set hs \<Longrightarrow> F h \<subseteq> E) \<Longrightarrow> (\<Union>h \<in> set hs. F (snd h)) \<subseteq> E"
  by force

lemma soft_sure: "soft t \<Longrightarrow> \<not> dialog_content t \<Longrightarrow> sure_in hid (El t as hs cs) = (\<Union>c \<in> set cs. sure_in (closed_dialog t as) c)"
proof -
  assume "soft t" "\<not> dialog_content t"
  then have "sure_actions t as cs h = {}" for h by (cases h) simp_all
  with \<open>\<not> dialog_content t\<close> show ?thesis by simp
qed

lemma dialog_lower_step:
  assumes "well_used p t as hs cs" "dialog_root t" "\<And>c. c \<in> set cs \<Longrightarrow> well_placed t c"
    and "\<And>c op. c \<in> set cs \<Longrightarrow> t = ''CommandDialog'' \<longrightarrow> op \<Longrightarrow> sure_in (\<not> op) c \<subseteq> P op (changes hs) (expand c)"
  shows "sure_in hid (El t as hs cs) \<subseteq> P op fs (expand (El t as hs cs))"
proof -
  have s: "sure_in hid (El t as hs cs) = (\<Union>c \<in> set cs. sure_in (attr_of ''open'' as = ABool False) c)"
    using soft_sure [of t hid as hs cs] assms(2) root_tag [OF assms(2)] root_open [OF assms(2)]
    by (simp only: soft_def simp_thms)
  show ?thesis
  proof (cases "t = ''CommandDialog''")
    case False
    then show ?thesis
      using assms(4) [of _ "attr_of ''open'' as \<noteq> ABool False"] False
      unfolding expand_dialog [OF assms(2) False] root s by (simp add: UN_mono)
  next
    case t: True
    show ?thesis
    proof (cases "attr_of ''open'' as = ABool False")
      case True
      have "sure_in True c = {}" if "c \<in> set cs" for c
        using assms(3) [OF that] by (cases c) (simp_all add: t well_used_def content_kind)
      with True show ?thesis unfolding s by simp
    next
      case False
      have "(\<Union>c \<in> set cs. sure_in False c) \<subseteq> (\<Union>c \<in> set cs. P True (changes hs) (expand c))"
        using assms(4) [of _ True] by (intro UN_mono) simp_all
      also have "\<dots> \<subseteq> P op fs (CommandDialog as hs (map expand cs))"
        using Command_dialog_open(1) [OF False, where cs = "map expand cs" and hs = hs and op = op and fs = fs] by simp
      finally show ?thesis using False unfolding s by (simp add: t ui_lookup)
    qed
  qed
qed

lemma content_lower_step:
  assumes "content_tag t" "b" "\<And>c. c \<in> set cs \<Longrightarrow> sure_in False c \<subseteq> P op fs (expand c)"
  shows "sure_in (b \<and> \<not> op) (El t as hs cs) \<subseteq> P op fs (expand (El t as hs cs))"
proof -
  obtain W where W: "expand (El t as hs cs) = W as hs (map expand cs)" "(t, W) \<in> set content_table"
    by (rule expand_content [OF assms(1)])
  show ?thesis
  proof (cases op)
    case True
    then have "lower_ok P op W (map expand cs)" using list_all_entry [OF content_bounds W(2)] by simp
    then show ?thesis
      unfolding W(1) using content_not_root [OF assms(1)] assms(3) by (intro lower_step) simp_all
  next
    case False
    then show ?thesis using assms(1,2) by (simp add: content_kind)
  qed
qed

lemma item_values_nonempty: "well_placed p n \<Longrightarrow> [] \<notin> set (item_values n)"
proof (induction n arbitrary: p)
  case (El t as hs cs)
  then show ?case by (cases "t = ''SelectItem''") (auto simp: well_used_def split: attr.split)
qed simp

lemma select_lower_step:
  assumes "\<And>c. c \<in> set cs \<Longrightarrow> well_placed p c" "\<And>c. c \<in> set cs \<Longrightarrow> sure_in False c \<subseteq> P op fs (expand c)"
  shows "sure_in hid (El ''Select'' as hs cs) \<subseteq> P op fs (El ''SelectPrimitive.Root'' as hs (map expand cs))"
proof -
  have v: "concat (map prim_values (map expand cs)) = concat (map item_values cs)"
    by (auto intro!: arg_cong [of _ _ concat] expand_values assms(1))
  have e: "[] \<notin> set (concat (map item_values cs))" using item_values_nonempty [OF assms(1)] by simp
  have "sure_actions ''Select'' as cs h \<subseteq> P op fs (El ''SelectPrimitive.Root'' as hs (map expand cs))"
    if "(k, h) \<in> set hs" "\<not> is_disabled as" for k h
  proof (cases h)
    case (OnText g)
    then show ?thesis
      using select [of as k g hs _ "map expand cs" op fs, unfolded v] that e by (auto simp: soft_def dialog_root_def)
  qed (simp_all add: soft_def dialog_root_def)
  then have "(\<Union>h \<in> set hs. sure_actions ''Select'' as cs (snd h))
      \<subseteq> P op fs (El ''SelectPrimitive.Root'' as hs (map expand cs))" if "\<not> is_disabled as"
    using that by (intro UN_snd_least)
  moreover have "(\<Union>c \<in> set cs. sure_in False c) \<subseteq> P op fs (El ''SelectPrimitive.Root'' as hs (map expand cs))"
    using assms(2) select_lower [of _ "map expand cs"] by (force intro!: UN_least)
  ultimately show ?thesis by simp
qed

lemma control_lower_step:
  assumes "t \<in> set [''Tabs'', ''Checkbox'', ''Switch'']" "leaf_tag t \<longrightarrow> cs = []"
    and "\<And>c. c \<in> set cs \<Longrightarrow> sure_in False c \<subseteq> P op fs (expand c)"
  shows "sure_in hid (El t as hs cs) \<subseteq> P op fs (expand (El t as hs cs))"
proof (cases "t = ''Tabs''")
  case True
  have "(\<Union>c \<in> set cs. sure_in False c) \<subseteq> P op fs (Tabs as hs (map expand cs))"
    using assms(3) control_lower(1) [of _ "map expand cs"] by (force intro!: UN_least)
  then show ?thesis using soft_sure [of t hid as hs cs] by (simp add: True soft_def ui_lookup)
next
  case False
  with assms(1) have t: "t = ''Checkbox'' \<or> t = ''Switch''" by simp
  then have cs: "cs = []" using assms(2) by (auto simp: leaf_tag_def)
  have "sure_actions t as cs h \<subseteq> P op fs (expand (El t as hs cs))" if "(k, h) \<in> set hs" "\<not> is_disabled as" for k h
  proof (cases h)
    case (OnBool f)
    have "f (\<not> b) \<in> P op fs (expand (El t as hs cs))" if "attr_of ''checked'' as = ABool b" for b
      using control_lower(2) [OF \<open>\<not> is_disabled as\<close> that \<open>(k, h) \<in> set hs\<close> [unfolded OnBool], of op fs "map expand cs"] t
      by (elim disjE) (simp_all add: ui_lookup)
    then show ?thesis using t OnBool by (simp split: attr.split)
  next
    case (Do a)
    have "a \<in> P op fs (expand (El t as hs cs))"
      using control_do [OF \<open>\<not> is_disabled as\<close> \<open>(k, h) \<in> set hs\<close> [unfolded Do], of op fs "map expand cs"] t
      by (elim disjE) (simp_all add: ui_lookup)
    then show ?thesis by (simp add: Do)
  qed (use t in auto)
  then have "(\<Union>h \<in> set hs. sure_actions t as cs (snd h)) \<subseteq> P op fs (expand (El t as hs cs))" if "\<not> is_disabled as"
    using that by (intro UN_snd_least)
  then show ?thesis
    using control_kind [OF assms(1)] by (simp add: cs del: expand.simps)
qed

lemma expand_lower:
  "well_placed p n \<Longrightarrow> p = ''CommandDialog'' \<longrightarrow> op \<Longrightarrow> sure_in (dialog_root p \<and> \<not> op) n \<subseteq> P op fs (expand n)"
proof (induction n arbitrary: p op fs)
  case (Text s)
  show ?case by simp
next
  case (El t as hs cs)
  have used: "well_used p t as hs cs" and sub: "\<And>c. c \<in> set cs \<Longrightarrow> well_placed t c"
    using El.prems(1) by simp_all
  have IH: "sure_in False c \<subseteq> P op fs (expand c)" if "\<not> dialog_root t" "c \<in> set cs" for c op fs
    using El.IH [OF that(2) sub [OF that(2)], of op fs] that(1) by (auto simp: dialog_root_def)
  show ?case
  proof (cases t rule: tag_cases)
    case ordinary
    obtain W where W: "expand (El t as hs cs) = W as hs (map expand cs)" "lower_ok P op W (map expand cs)"
      using expand_ordinary [OF used ordinary] by metis
    show ?thesis
      unfolding W(1) using ordinary_kind [OF ordinary] IH by (intro lower_step [OF W(2)]) simp_all
  next
    case content
    then have "dialog_root p" using used by (simp add: well_used_def)
    then show ?thesis using content content_not_root IH by (intro content_lower_step) simp_all
  next
    case dialog
    then show ?thesis using El.IH [OF _ sub] sub by (intro dialog_lower_step [OF used]) simp_all
  next
    case palette
    then have "dialog_root t" by (simp add: dialog_root_def)
    then show ?thesis using El.IH [OF _ sub] sub by (intro dialog_lower_step [OF used]) simp_all
  next
    case menu
    moreover have "\<not> dialog_root t" by (simp add: menu dialog_root_def)
    ultimately show ?thesis using select_lower_step [of cs t] IH sub by (simp add: ui_lookup Select_def del: sure_in.simps)
  next
    case control
    moreover have "leaf_tag t \<longrightarrow> cs = []" using used by (simp add: well_used_def)
    ultimately show ?thesis using control_kind [OF control] IH by (intro control_lower_step) simp_all
  qed
qed

end

lemmas placed_defs = well_used_def content_tag_def palette_tag_def special_tag_def toggle_root_def
  dialog_part_def leaf_tag_def dialog_root_def

lemma ConfirmDialog_placed: "well_placed [] (ConfirmDialog open1 chg t d l v act loading)"
  by (simp add: ConfirmDialog_def el_def on_click_def placed_defs)

lemma ConfirmDialog_sure:
  "sure_in False (ConfirmDialog open1 chg t d l v act loading) = (if open1 \<and> \<not> loading then {act} else {})"
  by (simp add: ConfirmDialog_def el_def on_click_def soft_def dialog_root_def)



text \<open>
  C25. The confirmation dialog on its real widgets: an open dialog can be dismissed at any time, also
  while the mutation runs and its Cancel button is disabled, since it is built on a plain dialog;
  the confirm action can be triggered exactly while the dialog is open and nothing runs.
\<close>

theorem ConfirmDialog_dismissible:
  assumes "radix P" "act \<notin> {chg True, chg False}"
  shows "chg False \<in> P op [] (expand (ConfirmDialog True chg t d l v act loading))
    \<and> (act \<in> P op [] (expand (ConfirmDialog open1 chg t d l v act loading)) \<longleftrightarrow> open1 \<and> \<not> loading)"
proof
  have "expand (ConfirmDialog True chg t d l v act loading) =
      El ''DialogPrimitive.Root'' [(''open'', ABool True)] [(''onOpenChange'', OnBool chg)]
        [AlertDialogContent [] [] (map expand cs)]"
    if "ConfirmDialog True chg t d l v act loading =
      El ''AlertDialog'' [(''open'', ABool True)] [(''onOpenChange'', OnBool chg)] [El ''AlertDialogContent'' [] [] cs]" for cs
    unfolding that by (simp add: ui_lookup AlertDialog_def)
  then show "chg False \<in> P op [] (expand (ConfirmDialog True chg t d l v act loading))"
    by (simp add: ConfirmDialog_def el_def radix.root [OF assms(1)] changes_def
        radix.AlertDialogContent_dismiss [OF assms(1)] del: expand.simps)
  let ?n = "ConfirmDialog open1 chg t d l v act loading"
  have "P op [] (expand ?n) \<subseteq> offers_in False ?n" "sure_in False ?n \<subseteq> P op [] (expand ?n)"
    using radix.expand_upper [OF assms(1) ConfirmDialog_placed, of op "[]" open1 chg t d l v act loading]
      radix.expand_lower [OF assms(1) ConfirmDialog_placed, of op open1 chg t d l v act loading "[]"]
    by (simp_all add: dialog_root_def all_changes_def)
  moreover have "act \<in> offers_in False ?n \<longleftrightarrow> open1 \<and> \<not> loading"
    using assms(2) by (auto simp: offers_in_ConfirmDialog)
  moreover have "open1 \<and> \<not> loading \<Longrightarrow> act \<in> sure_in False ?n" by (simp add: ConfirmDialog_sure)
  ultimately show "act \<in> P op [] (expand ?n) \<longleftrightarrow> open1 \<and> \<not> loading"
    by (meson subsetD)
qed

theorem ConfirmDialog_dismissible_witness:
  "(Some False :: bool option) \<in> prim_offers False []
     (expand (ConfirmDialog True Some ''Delete'' ''Sure?'' ''Delete'' ''destructive'' None True))"
  using ConfirmDialog_dismissible [where op = False and act = None and chg = Some, OF prim.radix_axioms] by simp

end
