(* ===== verification/PageWidgets.thy ===== *)
theory PageWidgets
  imports Radix DevicesPage Certificates Settings Terminal Dashboard
begin

text \<open>
  The pages on their real widgets.  \<open>well_placed\<close> and \<open>typed\<close> are shown for the trees of the devices,
  certificates, settings and terminal pages, so that the refinement of theory Radix applies to them:
  a step a user takes on the expanded page is a step of the page's own relation, and the invariants
  of the pages hold of the widgets too.
\<close>

subsection \<open>The properties the pages give their widgets\<close>

text \<open>
  The types of the properties of components/ui: a variant is a key of its table, a side a key of the
  sheet's, switches are booleans, values strings, and a handler takes what its event gives.
\<close>

definition prop_typed :: "string \<Rightarrow> string \<Rightarrow> attr \<Rightarrow> bool" where
  "prop_typed t k a \<longleftrightarrow>
     (if k = ''variant'' \<and> t = ''Button'' then a \<in> AStr ` fst ` set button_variants
      else if k = ''size'' \<and> t = ''Button'' then a \<in> AStr ` fst ` set button_sizes
      else if k = ''variant'' \<and> t = ''Badge'' then a \<in> AStr ` fst ` set badge_variants
      else if k = ''side'' \<and> t = ''SheetContent'' then a \<in> AStr ` fst ` set sheet_sides
      else if k \<in> set [''disabled'', ''open'', ''checked''] then a \<in> range ABool
      else if k \<in> set [''value'', ''defaultValue'', ''placeholder'', ''href'', ''type''] then a \<in> range AStr
      else True)"

fun handler_typed :: "string \<Rightarrow> 'a handler \<Rightarrow> bool" where
  "handler_typed k (Do a) \<longleftrightarrow> k \<notin> set [''onOpenChange'', ''onValueChange'', ''onChange'']"
| "handler_typed k (OnBool f) \<longleftrightarrow> k \<in> set [''onOpenChange'', ''onCheckedChange'']"
| "handler_typed k (OnText f) \<longleftrightarrow> k \<in> set [''onValueChange'', ''onChange'']"

fun typed :: "'a node \<Rightarrow> bool" where
  "typed (Text s) = True"
| "typed (El t as hs cs) \<longleftrightarrow>
     (\<forall>(k, a) \<in> set as. prop_typed t k a) \<and> (\<forall>(k, h) \<in> set hs. handler_typed k h) \<and> (\<forall>c \<in> set cs. typed c)"

text \<open>Every button has a base, a variant and a size class, every badge a base and a variant class.\<close>

fun styled :: "'a node \<Rightarrow> bool" where
  "styled (Text s) = True"
| "styled (El t as hs cs) \<longleftrightarrow>
     (t = ''Button'' \<longrightarrow> length (buttonVariants (attr_of ''variant'' as) (attr_of ''size'' as)) = 3)
     \<and> (t = ''Badge'' \<longrightarrow> length (badgeVariants (attr_of ''variant'' as)) = 2)
     \<and> (\<forall>c \<in> set cs. styled c)"

definition props_typed :: "string \<Rightarrow> attrs \<Rightarrow> 'a handlers \<Rightarrow> bool" where
  "props_typed t as hs \<longleftrightarrow> (\<forall>(k, a) \<in> set as. prop_typed t k a) \<and> (\<forall>(k, h) \<in> set hs. handler_typed k h)"

definition sound :: "string \<Rightarrow> 'a node \<Rightarrow> bool" where
  "sound p n \<longleftrightarrow> well_placed p n \<and> typed n"

lemma sound_Text [simp]: "sound p (Text s)"
  by (simp add: sound_def)

lemma sound_El [simp]:
  "sound p (El t as hs cs) \<longleftrightarrow> well_used p t as hs cs \<and> props_typed t as hs \<and> (\<forall>c \<in> set cs. sound t c)"
  by (auto simp: sound_def props_typed_def)

lemma sound_el [simp]: "sound p (el t cs) \<longleftrightarrow> well_used p t [] [] cs \<and> (\<forall>c \<in> set cs. sound t c)"
  by (simp add: el_def props_typed_def)

lemma sound_icon [simp]:
  "sound p (icon t :: 'a node) \<longleftrightarrow> well_used p t [] ([] :: 'a handlers) ([] :: 'a node list)"
  by (simp add: icon_def props_typed_def)

lemma sound_on_click [simp]:
  "sound p (on_click t as a cs) \<longleftrightarrow>
     well_used p t as [(''onClick'', Do a)] cs \<and> (\<forall>(k, a) \<in> set as. prop_typed t k a) \<and> (\<forall>c \<in> set cs. sound t c)"
  by (simp add: on_click_def props_typed_def)

lemmas sound_defs = placed_defs props_typed_def prop_typed_def button_variants_def button_sizes_def badge_variants_def
  sheet_sides_def

lemma ConfirmDialog_in_div: "sound ''div'' (ConfirmDialog open1 chg t d l v act loading)"
  by (simp add: ConfirmDialog_def sound_defs)

lemma StateBadge_sound: "sound ''TableCell'' (StateBadge st)"
  by (simp add: StateBadge_def Let_def sound_defs)

lemma row_skeleton_sound: "sound ''TableBody'' (TableRowSkeleton n)"
  by (simp add: TableRowSkeleton_def skeleton_def sound_defs)

subsection \<open>Devices\<close>

lemma devices_header_sound: "sound ''div'' (devices_header s)"
  by (simp add: devices_header_def PageHeader_def Let_def sound_defs)

lemma devices_filter_bar_sound:
  "(\<And>d. d \<in> set (dp_list s) \<Longrightarrow> dv_architecture d \<noteq> []) \<Longrightarrow> sound ''div'' (devices_filter_bar s)"
  by (auto simp: devices_filter_bar_def sound_defs architectures_def)

lemma devices_bulk_bar_sound: "c \<in> set (devices_bulk_bar s) \<Longrightarrow> sound ''div'' c"
  by (simp add: devices_bulk_bar_def sound_defs split: if_splits)

lemma device_row_sound: "sound ''TableBody'' (device_row fdt s d)"
  by (auto simp: device_row_def label_badges_def Let_def StateBadge_sound sound_defs split: if_splits)

lemma devices_table_sound: "sound ''div'' (devices_table lc fdt s)"
  by (simp add: devices_table_def Let_def SortHeader_def EmptyState_def row_skeleton_sound device_row_sound sound_defs)

lemma devices_pager_sound: "c \<in> set (devices_pager lc s) \<Longrightarrow> sound ''div'' c"
  by (simp add: devices_pager_def sound_defs show_int_nonempty split: if_splits)

lemma DevicesPage_sound:
  "(\<And>d. d \<in> set (dp_list s) \<Longrightarrow> dv_architecture d \<noteq> []) \<Longrightarrow> sound [] (DevicesPage_render lc fdt s)"
  using devices_header_sound [of s] devices_filter_bar_sound [of s] devices_bulk_bar_sound [of _ s]
    devices_table_sound [of lc fdt s] devices_pager_sound [of _ lc s] ConfirmDialog_in_div
  by (auto simp: DevicesPage_render_def devices_confirm_def sound_defs)

subsection \<open>Certificates\<close>

lemma cert_badges_sound: "sound ''TableCell'' (requestStateBadge st)" "sound ''TableCell'' (statusBadge st)"
  by (simp_all add: requestStateBadge_def statusBadge_def StateBadge_sound sound_defs)

lemma request_row_sound: "sound ''TableBody'' (request_row ld s r)"
  by (auto simp: request_row_def Let_def cert_badges_sound sound_defs split: if_splits)

lemma cert_row_sound: "sound ''TableBody'' (cert_row ld ms now c)"
  by (auto simp: cert_row_def cert_badges_sound sound_defs split: if_splits)

lemma certs_pager_sound: "c \<in> set (certs_pager n p t a b) \<Longrightarrow> sound ''TabsContent'' c"
  by (simp add: certs_pager_def sound_defs split: if_splits)

lemma requests_empty_sound: "sound ''TableBody'' (requests_empty s)"
  by (simp add: requests_empty_def EmptyState_def sound_defs)

lemma requests_panel_sound: "sound ''Tabs'' (requests_panel ld s)"
  by (auto simp: requests_panel_def request_row_sound certs_pager_sound requests_empty_sound row_skeleton_sound
      sound_defs split: if_splits)

lemma certs_panel_sound: "sound ''Tabs'' (certs_panel ld ms now s)"
  by (auto simp: certs_panel_def cert_row_sound certs_pager_sound row_skeleton_sound EmptyState_def sound_defs
      split: if_splits)

lemma Certificates_sound: "sound [] (Certificates_render ld ms now s)"
  using requests_panel_sound [of ld s] certs_panel_sound [of ld ms now s] ConfirmDialog_in_div
  by (auto simp: Certificates_render_def PageHeader_def reject_dialog_def revoke_dialog_def sound_defs split: if_splits)

subsection \<open>Settings\<close>

lemma settings_rows_sound:
  "c \<in> set (skeleton_rows m n) \<Longrightarrow> sound ''TableBody'' c" "sound ''TableBody'' (empty_row i t d)"
  "sound ''Table'' (table_head ts)" "sound ''div'' (installer_link base os arch secret label)"
  by (auto simp: skeleton_rows_def skeleton_def empty_row_def EmptyState_def table_head_def installer_link_def sound_defs)

lemma member_row_sound: "sound ''TableBody'' (member_row fdt m)"
  by (auto simp: member_row_def sound_defs split: if_splits)

lemma invitations_card_sound: "c \<in> set (invitations_card fdt m) \<Longrightarrow> sound ''TabsContent'' c"
  by (auto simp: invitations_card_def settings_rows_sound sound_defs split: if_splits)

lemma members_panel_sound: "sound ''Tabs'' (members_panel fdt m)"
  by (auto simp: members_panel_def settings_rows_sound member_row_sound invitations_card_sound sound_defs
      split: if_splits)

lemma token_row_sound: "sound ''TableBody'' (token_row base fdt t)"
  by (simp add: token_row_def settings_rows_sound sound_defs)

lemma tokens_panel_sound: "sound ''Tabs'' (tokens_panel base fdt t)"
  by (auto simp: tokens_panel_def settings_rows_sound token_row_sound sound_defs split: if_splits)

lemma key_row_sound: "sound ''TableBody'' (key_row fdt k)"
  by (simp add: key_row_def sound_defs)

lemma keys_panel_sound: "sound ''Tabs'' (keys_panel fdt k)"
  by (auto simp: keys_panel_def created_key_box_def settings_rows_sound key_row_sound sound_defs split: if_splits)

lemma general_panel_sound: "sound ''Tabs'' (general_panel s)"
  by (simp add: general_panel_def sound_defs)

lemma settings_dialogs_sound:
  "sound ''div'' (invite_dialog m)" "sound ''div'' (token_dialog t)" "sound ''div'' (key_dialog k)"
  by (simp_all add: invite_dialog_def token_dialog_def key_dialog_def sound_defs)

lemma Settings_sound: "sound [] (Settings_render base fdt s)"
  by (simp add: Settings_render_def PageHeader_def general_panel_sound members_panel_sound tokens_panel_sound
      keys_panel_sound settings_dialogs_sound remove_dialog_def deleteToken_dialog_def deleteKey_dialog_def
      ConfirmDialog_in_div sound_defs)

subsection \<open>Terminal\<close>

lemma STATUS_VARIANT_cases:
  "STATUS_VARIANT st = ''default'' \<or> STATUS_VARIANT st = ''secondary'' \<or> STATUS_VARIANT st = ''outline''
   \<or> STATUS_VARIANT st = ''destructive''"
  by (cases st) (simp_all add: STATUS_VARIANT_def)

lemma Terminal_sound: "sound [] (Terminal_render s)"
  using STATUS_VARIANT_cases [of "tm_status s"]
  by (auto simp: Terminal_render_def Let_def PageHeader_def skeleton_def sound_defs)

subsection \<open>Overview\<close>

lemma charts_sound:
  "sound ''FleetHealthChart'' (FleetHealthChart a b c)" "sound ''ResourceUtilizationChart'' (ResourceUtilizationChart ds)"
  by (auto simp: FleetHealthChart_def ResourceUtilizationChart_def Let_def sound_defs)

lemma dashboard_cards_sound: "sound ''div'' (dashboard_cards s)"
  by (simp add: dashboard_cards_def MetricCard_def metric_def Let_def truthy_def MiniRingChart_def MetricCardSkeleton_def
      skeleton_def sound_defs)

lemma dashboard_state_card_sound: "sound ''div'' (dashboard_state_card s)"
  by (simp add: dashboard_state_card_def sound_defs)

lemma dashboard_attention_sound: "sound ''div'' (dashboard_attention s)"
  by (simp add: dashboard_attention_def attention_row_def StateBadge_sound sound_defs)

lemma dashboard_activity_sound: "sound ''div'' (dashboard_activity fdt s)"
  by (simp add: dashboard_activity_def sound_defs split: option.split list.split)

lemma Dashboard_sound: "sound [] (Dashboard_render fdt s)"
  by (simp add: Dashboard_render_def PageHeader_def dashboard_cards_sound dashboard_state_card_sound
      dashboard_attention_sound dashboard_activity_sound charts_sound sound_defs split: option.split)

subsection \<open>Steps on the widgets\<close>

lemma sound_placed: "sound p n \<Longrightarrow> well_placed p n"
  by (simp add: sound_def)

lemma widget_action: "radix P \<Longrightarrow> well_placed [] n \<Longrightarrow> a \<in> P op [] (expand n) \<Longrightarrow> a \<in> offers n"
  using radix.expand_upper [of P "[]" n op "[]"] by (auto simp: dialog_root_def offers_def all_changes_def)

text \<open>
  C16. Whatever the primitives do within their documentation, an action a user triggers on the expanded
  devices, certificates, settings or terminal page is a step of that page, so the invariants shown of
  the steps hold on the real widgets.  For the devices page every device needs an architecture.
\<close>

theorem widget_actions_are_steps:
  assumes "radix Pd" "radix Pc" "radix Ps" "radix Pt"
    and "\<forall>d \<in> set (dp_list sd). dv_architecture d \<noteq> []" "tm_mounted st"
  shows "(\<forall>a \<in> Pd op [] (expand (DevicesPage_render lc fdt sd)). devices_step lc fdt sd (fst (devices_handle lc a sd)))
    \<and> (\<forall>a \<in> Pc op [] (expand (Certificates_render ld ms now sc)). certs_step ld ms now sc (fst (certs_handle a sc)))
    \<and> (\<forall>a \<in> Ps op [] (expand (Settings_render base fdt ss)). settings_step base fdt ss (fst (settings_handle a ss)))
    \<and> (\<forall>a \<in> Pt op [] (expand (Terminal_render st)).
         terminal_step base origin st (after_commit st (fst (terminal_handle a st))))"
proof (intro conjI ballI)
  show "devices_step lc fdt sd (fst (devices_handle lc a sd))"
    if "a \<in> Pd op [] (expand (DevicesPage_render lc fdt sd))" for a
    using that assms(5) by (intro devices_step.user widget_action [OF assms(1)] sound_placed DevicesPage_sound) simp_all
  show "certs_step ld ms now sc (fst (certs_handle a sc))"
    if "a \<in> Pc op [] (expand (Certificates_render ld ms now sc))" for a
    using that by (intro certs_step.user widget_action [OF assms(2) sound_placed [OF Certificates_sound]])
  show "settings_step base fdt ss (fst (settings_handle a ss))"
    if "a \<in> Ps op [] (expand (Settings_render base fdt ss))" for a
    using that by (intro settings_step.user widget_action [OF assms(3) sound_placed [OF Settings_sound]])
  show "terminal_step base origin st (after_commit st (fst (terminal_handle a st)))"
    if "a \<in> Pt op [] (expand (Terminal_render st))" for a
    using that assms(6) by (intro terminal_step.user widget_action [OF assms(4) sound_placed [OF Terminal_sound]])
qed

theorem widget_actions_are_steps_witness:
  "terminal_step [] [] terminal_init (after_commit terminal_init (fst (terminal_handle BackToDevice terminal_init)))"
proof -
  have "BackToDevice \<in> sure_in False (Terminal_render terminal_init)"
    by (simp add: Terminal_render_def terminal_init_def Let_def el_def on_click_def soft_def dialog_root_def)
  then have "BackToDevice \<in> prim_offers True [] (expand (Terminal_render terminal_init))"
    using prim.expand_lower [OF sound_placed [OF Terminal_sound], of True terminal_init "[]"] by (auto simp: dialog_root_def)
  moreover have "\<forall>d \<in> set (dp_list (devices_init None)). dv_architecture d \<noteq> []" "tm_mounted terminal_init"
    by (simp_all add: dp_list_def devices_init_def terminal_init_def)
  ultimately show ?thesis
    by (intro widget_actions_are_steps [OF prim.radix_axioms prim.radix_axioms prim.radix_axioms prim.radix_axioms,
      where op = True and st = terminal_init and sd = "devices_init None", THEN conjunct2, THEN conjunct2,
      THEN conjunct2, THEN bspec])
qed

text \<open>A device with an empty architecture puts an item without a value into the filter's select.\<close>

lemma devices_empty_architecture_item:
  "d \<in> set (dp_list s) \<Longrightarrow> dv_architecture d = [] \<Longrightarrow> [] \<in> set (item_values (devices_filter_bar s))"
  by (force simp: devices_filter_bar_def architectures_def)

lemma typed_el [simp]: "typed (el t cs) \<longleftrightarrow> (\<forall>c \<in> set cs. typed c)"
  by (simp add: el_def)

lemma typed_on_click [simp]:
  "typed (on_click t as a cs) \<longleftrightarrow> (\<forall>(k, v) \<in> set as. prop_typed t k v) \<and> (\<forall>c \<in> set cs. typed c)"
  by (simp add: on_click_def)

lemma devices_filter_bar_typed: "typed (devices_filter_bar s)"
  by (auto simp: devices_filter_bar_def icon_def prop_typed_def button_variants_def button_sizes_def)

lemma sound_typed: "sound p n \<Longrightarrow> typed n"
  by (simp add: sound_def)

lemma attr_of_absent_or_typed: "\<forall>(k, v) \<in> set as. prop_typed t k v \<Longrightarrow> attr_of k as = ANone \<or> prop_typed t k (attr_of k as)"
  by (auto simp: attr_of_def split: option.split dest!: map_of_SomeD)

lemma variant_class_known:
  "a = ANone \<or> a \<in> AStr ` fst ` set tbl \<Longrightarrow> d \<in> fst ` set tbl \<Longrightarrow> length (variant_class tbl d a) = 1"
proof -
  assume "a = ANone \<or> a \<in> AStr ` fst ` set tbl" "d \<in> fst ` set tbl"
  then have "(case a of AStr v \<Rightarrow> v | _ \<Rightarrow> d) \<in> fst ` set tbl" by (elim disjE imageE) (simp_all add: rev_image_eqI)
  then show ?thesis by (auto simp: variant_class_def map_of_eq_None_iff split: option.split)
qed

lemma typed_styled: "typed n \<Longrightarrow> styled n"
proof (induction n)
  case (El t as hs cs)
  then have as: "attr_of k as = ANone \<or> prop_typed t k (attr_of k as)" for k
    by (intro attr_of_absent_or_typed) simp
  have "length (buttonVariants (attr_of ''variant'' as) (attr_of ''size'' as)) = 3" if "t = ''Button''"
    using as [of "''variant''"] as [of "''size''"] that
      variant_class_known [of "attr_of ''variant'' as" button_variants "''default''"]
      variant_class_known [of "attr_of ''size'' as" button_sizes "''default''"]
    by (simp add: prop_typed_def buttonVariants_def) (simp add: button_variants_def button_sizes_def)
  moreover have "length (badgeVariants (attr_of ''variant'' as)) = 2" if "t = ''Badge''"
    using as [of "''variant''"] that variant_class_known [of "attr_of ''variant'' as" badge_variants "''default''"]
    by (simp add: prop_typed_def badgeVariants_def) (simp add: badge_variants_def)
  ultimately show ?case using El by simp
qed simp


end
