(* ===== verification/Loading.thy ===== *)
theory Loading
  imports Navigation Dashboard DeviceTools
begin

text \<open>
  Code splitting: the components that src/ui loads with \<open>lazy\<close> or \<open>dynamic\<close> (layout.tsx, sidebar.tsx,
  the overview, device and manifest pages), the \<open>Suspense\<close> elements around them, and what is on screen
  while their chunks are loading or after one of them failed to load.

  A chunk is pending, loaded or failed.  Rendering a tree gives a screen: nodes, a suspension that
  the nearest \<open>Suspense\<close> turns into its fallback, or an error for the nearest error boundary.  How
  React and Next combine these is a parameter \<open>R\<close> under the laws of the locale \<open>react\<close>, which leave
  open what happens when one child suspends and another throws; \<open>mount\<close> is a function that meets
  them.  The other theories render the components as loaded.
\<close>

subsection \<open>The split points of the code\<close>

text \<open>\<open>Lazy\<close> holds the module; \<open>Dynamic\<close> also whether a skeleton is shown while it loads.\<close>

datatype split = Lazy string | Dynamic string bool

definition layout_splits :: "(string \<times> split) list" where
  "layout_splits =
     [(''CommandPalette'', Lazy ''@/components/command-palette''),
      (''UserMenu'', Lazy ''@/components/user-menu''),
      (''Sheet'', Lazy ''@/components/ui/sheet''), (''SheetContent'', Lazy ''@/components/ui/sheet''),
      (''SheetTrigger'', Lazy ''@/components/ui/sheet''), (''SheetTitle'', Lazy ''@/components/ui/sheet'')]"

definition sidebar_splits :: "(string \<times> split) list" where
  "sidebar_splits = [(''OrgSwitcher'', Lazy ''@/components/org-switcher'')]"

definition dashboard_splits :: "(string \<times> split) list" where
  "dashboard_splits =
     [(''FleetHealthChart'', Dynamic ''@/components/fleet-health-chart'' True),
      (''ResourceUtilizationChart'', Dynamic ''@/components/resource-utilization-chart'' True),
      (''MiniRingChart'', Dynamic ''@/components/mini-ring-chart'' False)]"

definition detail_splits :: "(string \<times> split) list" where
  "detail_splits =
     [(''Sparkline'', Dynamic ''@/components/sparkline'' False),
      (''DeviceResourceChart'', Dynamic ''@/components/device-resource-chart'' True)]"

definition Editor_split :: "string \<times> split" where
  "Editor_split = (''Editor'', Dynamic ''@monaco-editor/react'' False)"

definition splits :: "(string \<times> split) list" where
  "splits = Editor_split # layout_splits @ sidebar_splits @ dashboard_splits @ detail_splits"

definition split_of :: "string \<Rightarrow> split option" where
  "split_of t = map_of splits t"

definition loading_nodes :: "bool \<Rightarrow> 'a node list" where
  "loading_nodes b = (if b then [skeleton] else [])"

text \<open>The fallbacks of the \<open>Suspense\<close> elements, found by the component they wrap; the others have none.\<close>

definition MobileSidebar_fallback :: "'a node list" where
  "MobileSidebar_fallback = [el ''Button'' [icon ''Menu'']]"

definition Sidebar_fallback :: "'a node list" where
  "Sidebar_fallback = [icon ''div'']"

fun suspense_fallback :: "'a node list \<Rightarrow> 'a node list" where
  "suspense_fallback (El t as hs cs # ns) =
     (if t = ''Sheet'' then MobileSidebar_fallback else if t = ''OrgSwitcher'' then Sidebar_fallback else [])"
| "suspense_fallback _ = []"

subsection \<open>Rendering while chunks load\<close>

datatype chunk = Pending | Loaded | Failed string

type_synonym loads = "string \<Rightarrow> chunk"

datatype 'a screen = Shown "'a node list" | Suspended | Thrown string

fun on_screen :: "'a screen \<Rightarrow> 'a node list" where
  "on_screen (Shown ns) = ns"
| "on_screen _ = []"

text \<open>
  How the screens of the children settle the screen of an element: all are shown, or one of them is
  suspended (\<open>fb\<close> is what is shown instead, if anything), or one of them threw.
\<close>

definition settles ::
  "('a node \<Rightarrow> 'a screen) \<Rightarrow> 'a node list \<Rightarrow> ('a node list \<Rightarrow> 'a node list) \<Rightarrow> 'a node list option \<Rightarrow> 'a screen \<Rightarrow> bool" where
  "settles r cs wrap fb res \<longleftrightarrow>
     ((\<forall>c \<in> set cs. r c = Shown (on_screen (r c))) \<and> res = Shown (wrap (concat (map (\<lambda>c. on_screen (r c)) cs))))
     \<or> ((\<exists>c \<in> set cs. r c = Suspended) \<and> res = (case fb of None \<Rightarrow> Suspended | Some ns \<Rightarrow> Shown ns))
     \<or> (\<exists>e. (\<exists>c \<in> set cs. r c = Thrown e) \<and> res = Thrown e)"

locale react =
  fixes R :: "loads \<Rightarrow> 'a node \<Rightarrow> 'a screen"
  assumes R_text: "R L (Text s) = Shown [Text s]"
    and R_element: "split_of t = None \<Longrightarrow> t \<noteq> ''Suspense'' \<Longrightarrow>
      settles (R L) cs (\<lambda>ns. [El t as hs ns]) None (R L (El t as hs cs))"
    and R_suspense:
      "settles (R L) cs (\<lambda>ns. [El ''Suspense'' as hs ns]) (Some [El ''Suspense'' as hs (suspense_fallback cs)])
         (R L (El ''Suspense'' as hs cs))"
    and R_lazy: "split_of t = Some (Lazy m) \<Longrightarrow>
      (case L m of
         Pending \<Rightarrow> R L (El t as hs cs) = Suspended
       | Failed e \<Rightarrow> R L (El t as hs cs) = Thrown e
       | Loaded \<Rightarrow> settles (R L) cs (\<lambda>ns. [El t as hs ns]) None (R L (El t as hs cs)))"
    and R_dynamic: "split_of t = Some (Dynamic m b) \<Longrightarrow>
      (case L m of
         Pending \<Rightarrow> R L (El t as hs cs) = Shown (loading_nodes b)
       | Failed e \<Rightarrow> R L (El t as hs cs) = Thrown e
       | Loaded \<Rightarrow> settles (R L) cs (\<lambda>ns. [El t as hs ns]) (Some (loading_nodes b)) (R L (El t as hs cs)))"

subsection \<open>A renderer that meets the laws\<close>

fun gather :: "'a screen list \<Rightarrow> 'a screen" where
  "gather [] = Shown []"
| "gather (x # xs) =
     (case x of
        Thrown e \<Rightarrow> Thrown e
      | Suspended \<Rightarrow> (case gather xs of Thrown e \<Rightarrow> Thrown e | _ \<Rightarrow> Suspended)
      | Shown ns \<Rightarrow> (case gather xs of Shown ms \<Rightarrow> Shown (ns @ ms) | r \<Rightarrow> r))"

definition wrap_screen :: "('a node list \<Rightarrow> 'a node list) \<Rightarrow> 'a node list option \<Rightarrow> 'a screen \<Rightarrow> 'a screen" where
  "wrap_screen wrap fb r =
     (case r of
        Shown ns \<Rightarrow> Shown (wrap ns)
      | Suspended \<Rightarrow> (case fb of None \<Rightarrow> Suspended | Some ns \<Rightarrow> Shown ns)
      | Thrown e \<Rightarrow> Thrown e)"

fun mount :: "loads \<Rightarrow> 'a node \<Rightarrow> 'a screen" where
  "mount L (Text s) = Shown [Text s]"
| "mount L (El t as hs cs) =
     (let through = (\<lambda>fb. wrap_screen (\<lambda>ns. [El t as hs ns]) fb (gather (map (mount L) cs)))
      in if t = ''Suspense'' then through (Some [El t as hs (suspense_fallback cs)])
         else (case split_of t of
                 None \<Rightarrow> through None
               | Some (Lazy m) \<Rightarrow>
                   (case L m of Pending \<Rightarrow> Suspended | Failed e \<Rightarrow> Thrown e | Loaded \<Rightarrow> through None)
               | Some (Dynamic m b) \<Rightarrow>
                   (case L m of Pending \<Rightarrow> Shown (loading_nodes b) | Failed e \<Rightarrow> Thrown e
                    | Loaded \<Rightarrow> through (Some (loading_nodes b)))))"

lemma gather_settles: "settles r cs wrap fb (wrap_screen wrap fb (gather (map r cs)))"
proof -
  have "((\<forall>c \<in> set cs. r c = Shown (on_screen (r c))) \<and> gather (map r cs) = Shown (concat (map (\<lambda>c. on_screen (r c)) cs)))
      \<or> ((\<exists>c \<in> set cs. r c = Suspended) \<and> gather (map r cs) = Suspended)
      \<or> (\<exists>e. (\<exists>c \<in> set cs. r c = Thrown e) \<and> gather (map r cs) = Thrown e)"
  proof (induction cs)
    case (Cons c cs)
    then show ?case by (cases "r c") auto
  qed simp
  then show ?thesis unfolding settles_def wrap_screen_def by auto
qed

lemma split_of_Suspense [simp]: "split_of ''Suspense'' = None"
  by (simp add: split_of_def splits_def Editor_split_def layout_splits_def sidebar_splits_def dashboard_splits_def
      detail_splits_def)

interpretation mount: react mount
  by unfold_locales (auto simp: Let_def gather_settles split: chunk.split)

subsection \<open>What is on screen, whatever the renderer\<close>

lemma tags_el [simp]: "tags (el t cs) = t # concat (map tags cs)"
  by (simp add: el_def)

lemma tags_icon [simp]: "tags (icon t) = [t]"
  by (simp add: icon_def)

lemma tags_on_click [simp]: "tags (on_click t as a cs) = t # concat (map tags cs)"
  by (simp add: on_click_def)

lemma tags_map_node [simp]: "tags (map_node f n) = tags n"
proof (induction n)
  case (El t as hs cs)
  then have eq: "map (tags \<circ> map_node f) cs = map tags cs" by simp
  show ?case by (simp only: node.map tags.simps map_map eq)
qed simp

lemma offers_in_fallbacks:
  "c \<in> set (suspense_fallback cs) \<Longrightarrow> offers_in h c = {} \<and> item_values c = []"
  "c \<in> set (loading_nodes b) \<Longrightarrow> offers_in h c = {} \<and> item_values c = []"
  by (cases cs rule: suspense_fallback.cases;
      auto simp: MobileSidebar_fallback_def Sidebar_fallback_def split: if_splits)
     (auto simp: loading_nodes_def skeleton_def split: if_splits)

text \<open>Elements outside every split point: what \<open>always_offers\<close> and \<open>always_hrefs\<close> list cannot be missing.\<close>

definition split_free :: "'a node \<Rightarrow> bool" where
  "split_free n \<longleftrightarrow> list_all (\<lambda>t. split_of t = None) (tags n)"

fun always_offers :: "bool \<Rightarrow> 'a node \<Rightarrow> 'a set" where
  "always_offers h (Text s) = {}"
| "always_offers h (El t as hs cs) =
     (if split_free (El t as hs cs) then offers_in h (El t as hs cs)
      else if t = ''Suspense'' \<or> split_of t \<noteq> None \<or> h \<and> dialog_content t then {}
      else \<Union>c \<in> set cs. always_offers (closed_dialog t as) c)"

fun always_hrefs :: "'a node \<Rightarrow> string list" where
  "always_hrefs (Text s) = []"
| "always_hrefs (El t as hs cs) =
     (if split_free (El t as hs cs) then hrefs (El t as hs cs)
      else if t = ''Suspense'' \<or> split_of t \<noteq> None then []
      else concat (map always_hrefs cs))"

text \<open>A tree is guarded when every lazy component stands below a \<open>Suspense\<close> or a dynamic component.\<close>

fun guarded :: "'a node \<Rightarrow> bool" where
  "guarded (Text s) \<longleftrightarrow> True"
| "guarded (El t as hs cs) \<longleftrightarrow>
     t = ''Suspense'' \<or>
     (case split_of t of None \<Rightarrow> list_all guarded cs | Some (Lazy m) \<Rightarrow> False | Some (Dynamic m b) \<Rightarrow> True)"

lemma split_free_El: "split_free (El t as hs cs) \<longleftrightarrow> split_of t = None \<and> list_all split_free cs"
  by (auto simp: split_free_def list_all_iff)

lemma guarded_split_free: "split_free n \<Longrightarrow> guarded n"
  by (induction n) (auto simp: split_free_El list_all_iff)

text \<open>The chunks a tree needs have arrived.\<close>

fun module_of :: "split \<Rightarrow> string" where
  "module_of (Lazy m) = m"
| "module_of (Dynamic m b) = m"

definition arrived :: "loads \<Rightarrow> 'a node \<Rightarrow> bool" where
  "arrived L n \<longleftrightarrow> list_all (\<lambda>t. case split_of t of None \<Rightarrow> True | Some sp \<Rightarrow> L (module_of sp) = Loaded) (tags n)"

lemma arrived_El:
  "arrived L (El t as hs cs) \<longleftrightarrow>
     (case split_of t of None \<Rightarrow> True | Some sp \<Rightarrow> L (module_of sp) = Loaded) \<and> list_all (arrived L) cs"
  by (auto simp: arrived_def list_all_iff)

lemma split_free_arrived: "split_free n \<Longrightarrow> arrived L n"
  by (simp add: arrived_def split_free_def list_all_iff)

lemma hrefs_child: "c \<in> set cs \<Longrightarrow> set (hrefs c) \<subseteq> set (hrefs (El t as hs cs))"
  unfolding hrefs.simps set_append by (rule le_supI2) auto

lemma if_mono: "A \<subseteq> B \<Longrightarrow> (if b then {} else A) \<subseteq> (if b then {} else B)"
  by simp

context react
begin

lemma El_cases:
  obtains (through) fb where "settles (R L) cs (\<lambda>ns. [El t as hs ns]) fb (R L (El t as hs cs))"
      "fb = None \<and> t \<noteq> ''Suspense'' \<and> (\<forall>m b. split_of t \<noteq> Some (Dynamic m b)) \<or> (\<exists>b. fb = Some (loading_nodes b) \<and> (\<exists>m. split_of t = Some (Dynamic m b)))
       \<or> fb = Some [El t as hs (suspense_fallback cs)] \<and> t = ''Suspense''"
      "case split_of t of None \<Rightarrow> True | Some sp \<Rightarrow> L (module_of sp) = Loaded"
  | (waiting) m where "split_of t = Some (Lazy m)" "L m = Pending" "R L (El t as hs cs) = Suspended"
  | (loading) m b where "split_of t = Some (Dynamic m b)" "L m = Pending" "R L (El t as hs cs) = Shown (loading_nodes b)"
  | (failed) sp e where "split_of t = Some sp" "L (module_of sp) = Failed e" "R L (El t as hs cs) = Thrown e"
proof (cases "split_of t")
  case None
  then show ?thesis
    using R_element [of t L cs as hs] R_suspense [of L cs as hs] through
    by (cases "t = ''Suspense''") auto
next
  case (Some sp)
  then have t: "t \<noteq> ''Suspense''" by auto
  show ?thesis
  proof (cases sp)
    case (Lazy m)
    then show ?thesis
      using Some t R_lazy [of t m L as hs cs] through waiting failed by (cases "L m") auto
  next
    case (Dynamic m b)
    then show ?thesis
      using Some t R_dynamic [of t m b L as hs cs] through loading failed by (cases "L m") auto
  qed
qed

lemma R_arrived: "arrived L n \<Longrightarrow> R L n = Shown [n]"
proof (induction n)
  case (Text s)
  show ?case by (rule R_text)
next
  case (El t as hs cs)
  then have cs: "\<forall>c \<in> set cs. R L c = Shown [c]" and sp: "case split_of t of None \<Rightarrow> True | Some sp \<Rightarrow> L (module_of sp) = Loaded"
    by (auto simp: arrived_El list_all_iff)
  have self: "concat (map (\<lambda>c. on_screen (R L c)) cs) = cs" using cs by (induction cs) auto
  show ?case
    by (rule El_cases [where L = L and cs = cs and t = t and as = as and hs = hs])
       (use sp cs self in \<open>auto simp: settles_def\<close>)
qed

lemma R_guarded: "guarded n \<Longrightarrow> R L n \<noteq> Suspended"
proof (induction n)
  case (El t as hs cs)
  show ?case
    by (rule El_cases [where L = L and cs = cs and t = t and as = as and hs = hs])
       (use El in \<open>auto simp: settles_def list_all_iff split: option.splits split.splits\<close>)
qed (simp add: R_text)

text \<open>An error on screen is the error of a chunk that failed.\<close>

lemma R_thrown: "R L n = Thrown e \<Longrightarrow> \<exists>m. L m = Failed e"
proof (induction n)
  case (El t as hs cs)
  show ?case
    by (rule El_cases [where L = L and cs = cs and t = t and as = as and hs = hs]) (use El in \<open>auto simp: settles_def split: option.splits\<close>)
qed (simp add: R_text)

text \<open>What can be done on a screen can be done on the loaded page, and the elements outside split points are there.\<close>

lemma R_offers:
  assumes "R L n = Shown ns"
  shows "(\<Union>c \<in> set ns. offers_in h c) \<subseteq> offers_in h n" and "(\<Union>c \<in> set ns. set (item_values c)) \<subseteq> set (item_values n)"
proof -
  have "(\<forall>h. (\<Union>c \<in> set ns. offers_in h c) \<subseteq> offers_in h n)
      \<and> (\<Union>c \<in> set ns. set (item_values c)) \<subseteq> set (item_values n)"
    using assms
  proof (induction n arbitrary: ns)
    case (El t as hs cs)
    let ?cs = "concat (map (\<lambda>c. on_screen (R L c)) cs)"
    have "ns = [El t as hs ?cs] \<and> (\<forall>c \<in> set cs. R L c = Shown (on_screen (R L c)))
        \<or> (\<exists>b. ns = loading_nodes b) \<or> t = ''Suspense'' \<and> ns = [El t as hs (suspense_fallback cs)]"
      by (rule El_cases [where L = L and cs = cs and t = t and as = as and hs = hs])
         (use El.prems in \<open>auto simp: settles_def\<close>)
    then consider (through) "ns = [El t as hs ?cs]" "\<forall>c \<in> set cs. R L c = Shown (on_screen (R L c))"
      | (loading) b where "ns = loading_nodes b" | (fallback) "t = ''Suspense''" "ns = [El t as hs (suspense_fallback cs)]"
      by blast
    then show ?case
    proof cases
      case through
      have IH: "(\<Union>x \<in> set (on_screen (R L c)). offers_in h x) \<subseteq> offers_in h c"
        "(\<Union>x \<in> set (on_screen (R L c)). set (item_values x)) \<subseteq> set (item_values c)" if "c \<in> set cs" for c h
        using El.IH [OF that] through(2) that by auto
      have items: "set (concat (map item_values ?cs)) \<subseteq> set (concat (map item_values cs))"
        using IH(2) by (fastforce simp: subset_iff)
      have handlers: "handler_actions t ?cs x \<subseteq> handler_actions t cs x" for x
        using items by (cases x) (auto simp del: set_concat)
      have offers: "(\<Union>c \<in> set ?cs. offers_in h c) \<subseteq> (\<Union>c \<in> set cs. offers_in h c)" for h
        using IH(1) by (fastforce simp: subset_iff)
      have "offers_in h (El t as hs ?cs) \<subseteq> offers_in h (El t as hs cs)" for h
        by (simp only: offers_in.simps) (intro if_mono Un_mono handlers offers UN_mono order_refl)
      moreover have "set (item_values (El t as hs ?cs)) \<subseteq> set (item_values (El t as hs cs))"
        using items by (simp only: item_values.simps split: if_split) simp
      ultimately show ?thesis unfolding through(1) by (simp del: offers_in.simps item_values.simps)
    next
      case loading
      then show ?thesis using offers_in_fallbacks(2) by auto
    next
      case fallback
      have "handler_actions ''Suspense'' xs x = handler_actions ''Suspense'' ys x" for xs ys :: "'a node list" and x
        by (cases x) auto
      then show ?thesis using offers_in_fallbacks(1) [of _ cs] unfolding fallback by fastforce
    qed
  qed (auto simp: R_text)
  then show "(\<Union>c \<in> set ns. offers_in h c) \<subseteq> offers_in h n" and "(\<Union>c \<in> set ns. set (item_values c)) \<subseteq> set (item_values n)"
    by blast+
qed

lemma R_plain:
  assumes "R L (El t as hs cs) = Shown ns" and "split_of t = None" and "t \<noteq> ''Suspense''"
  shows "ns = [El t as hs (concat (map (\<lambda>c. on_screen (R L c)) cs))]"
    and "c \<in> set cs \<Longrightarrow> R L c = Shown (on_screen (R L c))"
  using R_element [OF assms(2,3), of L cs as hs] assms(1) by (auto simp: settles_def)

lemma R_split_free: "R L n = Shown ns \<Longrightarrow> split_free n \<Longrightarrow> ns = [n]"
  using R_arrived [OF split_free_arrived, of n L] by simp

lemma R_always_offers: "R L n = Shown ns \<Longrightarrow> always_offers h n \<subseteq> (\<Union>c \<in> set ns. offers_in h c)"
proof (induction n arbitrary: ns h)
  case (El t as hs cs)
  consider (free) "split_free (El t as hs cs)"
    | (none) "\<not> split_free (El t as hs cs)" "t = ''Suspense'' \<or> split_of t \<noteq> None \<or> h \<and> dialog_content t"
    | (plain) "\<not> split_free (El t as hs cs)" "t \<noteq> ''Suspense''" "split_of t = None" "\<not> (h \<and> dialog_content t)"
    by blast
  then show ?case
  proof cases
    case free
    then show ?thesis using R_split_free [OF El.prems free] by simp
  next
    case none
    then show ?thesis by simp
  next
    case plain
    note shown = R_plain [OF El.prems plain(3,2)]
    have "always_offers h (El t as hs cs) = (\<Union>c \<in> set cs. always_offers (closed_dialog t as) c)"
      using plain by auto
    also have "\<dots> \<subseteq> (\<Union>c \<in> set cs. \<Union>x \<in> set (on_screen (R L c)). offers_in (closed_dialog t as) x)"
      by (rule UN_mono [OF order_refl]) (use El.IH shown(2) in blast)
    also have "\<dots> \<subseteq> (\<Union>c \<in> set ns. offers_in h c)" unfolding shown(1) using plain(4) by auto
    finally show ?thesis .
  qed
qed simp

lemma R_always_hrefs: "R L n = Shown ns \<Longrightarrow> set (always_hrefs n) \<subseteq> (\<Union>c \<in> set ns. set (hrefs c))"
proof (induction n arbitrary: ns)
  case (El t as hs cs)
  consider (free) "split_free (El t as hs cs)"
    | (none) "\<not> split_free (El t as hs cs)" "t = ''Suspense'' \<or> split_of t \<noteq> None"
    | (plain) "\<not> split_free (El t as hs cs)" "t \<noteq> ''Suspense''" "split_of t = None"
    by blast
  then show ?case
  proof cases
    case free
    then show ?thesis using R_split_free [OF El.prems free] by (simp del: hrefs.simps)
  next
    case none
    then show ?thesis by simp
  next
    case plain
    note shown = R_plain [OF El.prems plain(3,2)]
    have "set (always_hrefs (El t as hs cs)) = (\<Union>c \<in> set cs. set (always_hrefs c))" using plain by simp
    also have "\<dots> \<subseteq> (\<Union>c \<in> set cs. \<Union>x \<in> set (on_screen (R L c)). set (hrefs x))"
      by (rule UN_mono [OF order_refl]) (use El.IH shown(2) in blast)
    also have "\<dots> \<subseteq> (\<Union>c \<in> set ns. set (hrefs c))"
      unfolding shown(1) by (simp del: hrefs.simps) (intro UN_least hrefs_child, auto)
    finally show ?thesis .
  qed
qed simp

end

subsection \<open>The layout while its chunks load\<close>

lemmas split_defs = split_of_def splits_def Editor_split_def layout_splits_def sidebar_splits_def
  dashboard_splits_def detail_splits_def

lemma split_of_frame [simp]:
  "split_of ''div'' = None" "split_of ''span'' = None" "split_of ''p'' = None" "split_of ''nav'' = None"
  "split_of ''header'' = None" "split_of ''main'' = None" "split_of ''Link'' = None" "split_of ''button'' = None"
  "split_of ''Button'' = None" "split_of ''Tooltip'' = None" "split_of ''TooltipTrigger'' = None"
  "split_of ''TooltipContent'' = None" "split_of ''Switch'' = None" "split_of ''Avatar'' = None"
  "split_of ''AvatarFallback'' = None" "split_of ''Card'' = None" "split_of ''CardContent'' = None"
  "split_of ''h3'' = None" "split_of ''AlertTriangle'' = None" "split_of ''RotateCcw'' = None"
  by (simp_all add: split_defs)

lemma always_free:
  "split_free n \<Longrightarrow> always_offers h n = offers_in h n" "split_free n \<Longrightarrow> always_hrefs n = hrefs n"
  by (cases n; simp del: offers_in.simps hrefs.simps; simp)+

lemma always_child:
  assumes "split_of t = None" and "t \<noteq> ''Suspense''" and "c \<in> set cs"
  shows "\<not> (h \<and> dialog_content t) \<Longrightarrow> always_offers (closed_dialog t as) c \<subseteq> always_offers h (El t as hs cs)"
    and "set (always_hrefs c) \<subseteq> set (always_hrefs (El t as hs cs))"
proof -
  show "always_offers (closed_dialog t as) c \<subseteq> always_offers h (El t as hs cs)" if "\<not> (h \<and> dialog_content t)"
  proof (cases "split_free (El t as hs cs)")
    case True
    then have "split_free c" using assms(3) by (simp add: split_free_El list_all_iff)
    then show ?thesis using True assms(3) that by (auto simp: always_free)
  qed (use assms that in auto)
  show "set (always_hrefs c) \<subseteq> set (always_hrefs (El t as hs cs))"
  proof (cases "split_free (El t as hs cs)")
    case True
    then have "split_free c" using assms(3) by (simp add: split_free_El list_all_iff)
    then show ?thesis using True hrefs_child [OF assms(3), of t as hs] by (simp only: always_free)
  qed (use assms in auto)
qed

lemma split_free_map_node [simp]: "split_free (map_node f n) = split_free n"
  by (simp add: split_free_def)

lemma always_offers_map_node [simp]: "always_offers h (map_node f n) = f ` always_offers h n"
proof (induction n arbitrary: h)
  case (El t as hs cs)
  have free: "split_free (El t as (map (map_prod id (map_handler f)) hs) (map (map_node f) cs)) = split_free (El t as hs cs)"
    using split_free_map_node [of f "El t as hs cs"] by simp
  have "always_offers h (map_node f (El t as hs cs)) = f ` always_offers h (El t as hs cs)"
    if "split_free (El t as hs cs)"
    using that by (simp only: always_free split_free_map_node offers_in_map_node)
  then show ?case using El free by (auto simp: image_UN simp del: offers_in.simps)
qed simp

lemma always_hrefs_map_node [simp]: "always_hrefs (map_node f n) = always_hrefs n"
proof (induction n)
  case (El t as hs cs)
  then have eq: "map (always_hrefs \<circ> map_node f) cs = map always_hrefs cs" by simp
  have "split_free (map_node f (El t as hs cs)) = split_free (El t as hs cs)"
    "hrefs (map_node f (El t as hs cs)) = hrefs (El t as hs cs)" by (rule split_free_map_node, rule hrefs_map_node)
  then show ?case by (simp only: node.map always_hrefs.simps map_map eq)
qed simp

lemma guarded_map_node [simp]: "guarded (map_node f n) = guarded n"
  by (induction n) (auto simp: list_all_iff split: option.split split.split)

lemma split_free_shapes [simp]:
  "split_free (Text s)"
  "split_free (el t cs) \<longleftrightarrow> split_of t = None \<and> list_all split_free cs"
  "split_free (icon t) \<longleftrightarrow> split_of t = None"
  "split_free (on_click t as a cs) \<longleftrightarrow> split_of t = None \<and> list_all split_free cs"
  "split_free (link_to h cs) \<longleftrightarrow> list_all split_free cs"
  by (simp_all add: el_def icon_def on_click_def link_to_def split_free_El) (simp add: split_free_def)

lemma split_of_icons [simp]:
  "split_of ''LogoIcon'' = None" "split_of ''PanelLeftClose'' = None" "split_of ''PanelLeftOpen'' = None"
  "split_of ''Sun'' = None" "split_of ''Moon'' = None"
  by (simp_all add: split_defs)

lemma sidebar_logo_free: "split_free (sidebar_logo s)"
  by (simp add: sidebar_logo_def split_free_El)

lemma text_of_free: "list_all split_free (text_of x)"
  by (simp add: text_of_def split: option.split)

lemma avatar_free: "split_free (avatar u)" "split_free (theme_icon th)"
  by (simp_all add: avatar_def theme_icon_def split: option.split)

lemma sidebar_bottom_free: "split_free (sidebar_bottom s)"
  by (simp add: sidebar_bottom_def shown_def text_of_free avatar_free split_free_El split: option.split)

lemma sidebar_items_free: "list_all split_free (map (sidebar_item s) navigation)"
  by (simp add: navigation_def sidebar_item_def Let_def shown_def split_free_El) (simp add: split_defs)

lemma crumb_free: "crumb segs i = Some n \<Longrightarrow> split_free n"
  by (auto simp: crumb_def crumb_label_def split_free_El split_defs split: option.splits slot.splits if_splits)

lemma breadcrumbs_free:
  fixes n :: "'a node"
  assumes "Breadcrumbs p = Some n"
  shows "split_free n"
proof (cases "path_segments p = [] \<or> path_segments p = [''dashboard'']")
  case True
  with assms show ?thesis by (auto simp: Breadcrumbs_def)
next
  case False
  let ?cs = "map (crumb (path_segments p)) [0..<length (path_segments p)] :: 'a node option list"
  from False assms have ok: "None \<notin> set ?cs"
    and n: "n = el ''nav'' (link_to ''/dashboard'' [Text ''Dashboard''] # map the ?cs)"
    unfolding Breadcrumbs_def Let_def by (simp_all split: if_splits)
  have "split_free (the c)" if "c \<in> set ?cs" for c :: "'a node option"
  proof -
    obtain i where "c = crumb (path_segments p) i" using \<open>c \<in> set ?cs\<close> by auto
    moreover have "c \<noteq> None" using ok that by metis
    ultimately show ?thesis using crumb_free by fastforce
  qed
  then show ?thesis unfolding n by (simp add: list_all_iff)
qed

lemma sidebar_always:
  "{a \<in> offers (Sidebar_render s c). \<forall>b. a \<noteq> OrgAct b} \<subseteq> always_offers False (Sidebar_render s c)"
  "set (hrefs (Sidebar_render s c)) \<subseteq> set (always_hrefs (Sidebar_render s c))"
proof -
  let ?S = "Sidebar_render s c"
  let ?as = "[(''className'', AClasses [''group/sidebar relative z-10 flex h-full flex-col border-r border-sidebar-border bg-sidebar-background/50 backdrop-blur-xl transition-all duration-300 ease-out overflow-visible'',
                    if sb_collapsed s then ''w-16'' else ''w-64''])]"
  let ?head = "shown (sb_collapsed s)
          (el ''Tooltip''
             [el ''TooltipTrigger'' [on_click ''button'' [] ToggleCollapsed [icon ''PanelLeftOpen'']],
              el ''TooltipContent'' [Text ''Expand sidebar'']]) @ [sidebar_logo s]"
  let ?org = "shown (\<not> sb_collapsed s)
            (el ''div'' [el ''Suspense'' [el ''OrgSwitcher'' (map (map_node OrgAct) (OrgSwitcher c))]])"
  let ?rest = "[el ''nav'' (map (sidebar_item s) navigation), sidebar_bottom s]"
  have S: "?S = El ''div'' ?as [] (?head @ ?org @ ?rest)" by (simp add: Sidebar_render_def)
  have free: "list_all split_free (?head @ ?rest)"
    using sidebar_items_free [of s] by (simp add: sidebar_logo_free sidebar_bottom_free shown_def)
  have part: "offers_in False x \<subseteq> always_offers False ?S" "set (hrefs x) \<subseteq> set (always_hrefs ?S)"
    if "x \<in> set (?head @ ?rest)" for x
  proof -
    have x: "split_free x" "x \<in> set (?head @ ?org @ ?rest)" using free that by (auto simp: list_all_iff)
    show "offers_in False x \<subseteq> always_offers False ?S" "set (hrefs x) \<subseteq> set (always_hrefs ?S)"
      using always_child(1) [OF _ _ x(2), of "''div''" False ?as "[]"] always_child(2) [OF _ _ x(2), of "''div''" ?as "[]"]
      unfolding S [symmetric] by (simp_all add: always_free [OF x(1)])
  qed
  have "a \<in> always_offers False ?S" if "a \<in> offers ?S" "\<forall>b. a \<noteq> OrgAct b" for a
  proof -
    have "a \<in> (\<Union>x \<in> set (?head @ ?org @ ?rest). offers_in False x)"
      using that(1) unfolding S by (simp add: offers_El)
    then obtain x where x: "x \<in> set (?head @ ?org @ ?rest)" "a \<in> offers_in False x" by (rule UN_E)
    have "x \<notin> set ?org" using that(2) x(2) by auto
    then have "x \<in> set (?head @ ?rest)" using x(1) unfolding set_append Un_iff by blast
    from subsetD [OF part(1) [OF this] x(2)] show ?thesis .
  qed
  then show "{a \<in> offers ?S. \<forall>b. a \<noteq> OrgAct b} \<subseteq> always_offers False ?S" by blast
  show "set (hrefs ?S) \<subseteq> set (always_hrefs ?S)" 
  proof -
    have "set (hrefs ?S) = set (hrefs (sidebar_logo s)) \<union> set (hrefs (el ''nav'' (map (sidebar_item s) navigation)))"
      by (simp add: sidebar_links o_def sidebar_item_plain(1))
    then show ?thesis using part(2) [of "sidebar_logo s"] part(2) [of "el ''nav'' (map (sidebar_item s) navigation)"] by simp
  qed
qed

lemma guarded_shapes [simp]:
  "guarded (el ''Suspense'' cs)"
  "split_of t = None \<Longrightarrow> guarded (el t cs) \<longleftrightarrow> t = ''Suspense'' \<or> list_all guarded cs"
  by (simp_all add: el_def)

lemma sidebar_guarded: "guarded (Sidebar_render s c)"
proof -
  have "list_all guarded (map (sidebar_item s) navigation)"
    using sidebar_items_free [of s] guarded_split_free by (metis (no_types, lifting) list_all_iff)
  then show ?thesis
    by (simp add: Sidebar_render_def shown_def guarded_split_free sidebar_logo_free sidebar_bottom_free)
qed

text \<open>The page in the layout: its nodes, or the card of the error boundary.\<close>

definition layout_main :: "'a node list \<Rightarrow> layout \<Rightarrow> 'a layout_act node list" where
  "layout_main children s =
     map (map_node Main) (ErrorBoundary_render (ly_boundary s) None (map (map_node Inner) children))"

definition layout_frame :: "'a layout_act node \<Rightarrow> 'a node list \<Rightarrow> layout \<Rightarrow> 'a layout_act node" where
  "layout_frame trail children s =
     el ''div''
       [el ''div'' [map_node Desktop (Sidebar_render (ly_desktop s) (ly_org s))],
        el ''div''
          [el ''header''
             [MobileSidebar_render s, trail, el ''div'' [],
              el ''Suspense'' [el ''CommandPalette'' [map_node Palette (CommandPalette_render (ly_palette s))]],
              el ''Suspense'' [el ''UserMenu'' (map (map_node Menu) (UserMenu_render (ly_menu s)))]],
           el ''main'' (layout_main children s)]]"

lemma layout_tree:
  assumes "DashboardLayout_render children s = Some n"
  obtains trail where "split_free trail" and "n = layout_frame trail children s"
  using assms breadcrumbs_free by (fastforce simp: DashboardLayout_render_def layout_main_def layout_frame_def)

lemma layout_main_guarded: "list_all guarded children \<Longrightarrow> list_all guarded (layout_main children s)"
proof -
  have "split_free (el ''Card''
          [el ''CardContent''
            [icon ''AlertTriangle'', el ''div'' [el ''h3'' [Text ''Something went wrong''], el ''p'' [Text x]],
             on_click ''Button'' [(''variant'', AStr ''outline'')] (TryAgain :: 'b boundary_act)
               [icon ''RotateCcw'', Text ''Try again'']]])" for x
    by simp
  then show "list_all guarded children \<Longrightarrow> list_all guarded (layout_main children s)"
    by (auto simp: layout_main_def ErrorBoundary_render_def list_all_iff guarded_split_free simp del: split_free_shapes(2))
qed

lemma layout_guarded:
  assumes "DashboardLayout_render children s = Some n" and "list_all guarded children"
  shows "guarded n"
  by (rule layout_tree [OF assms(1)])
     (use layout_main_guarded [OF assms(2)] in
        \<open>simp add: layout_frame_def sidebar_guarded guarded_split_free MobileSidebar_render_def\<close>)

lemma always_el:
  assumes "split_of t = None" and "t \<noteq> ''Suspense''" and "\<not> dialog_content t" and "c \<in> set cs"
  shows "always_offers False c \<subseteq> always_offers False (el t cs)" and "set (always_hrefs c) \<subseteq> set (always_hrefs (el t cs))"
  using always_child(1) [OF assms(1,2,4), of False "[]" "[]"] always_child(2) [OF assms(1,2,4), of "[]" "[]"] assms(3)
  by (simp_all add: el_def)

lemma frame_parts:
  "always_offers False (map_node Desktop (Sidebar_render (ly_desktop s) (ly_org s))) \<subseteq> always_offers False (layout_frame trail children s)"
  "set (always_hrefs (Sidebar_render (ly_desktop s) (ly_org s))) \<subseteq> set (always_hrefs (layout_frame trail children s))"
  "c \<in> set (layout_main children s) \<Longrightarrow> always_offers False c \<subseteq> always_offers False (layout_frame trail children s)"
proof -
  let ?S = "map_node Desktop (Sidebar_render (ly_desktop s) (ly_org s)) :: 'a layout_act node"
  have S: "?S \<in> set [?S]" "el ''div'' [?S] \<in> set [el ''div'' [?S], m]" for m by simp_all
  show "always_offers False ?S \<subseteq> always_offers False (layout_frame trail children s)"
    unfolding layout_frame_def
    by (rule order_trans [OF always_el(1) [OF _ _ _ S(1), of "''div''"] always_el(1) [OF _ _ _ S(2)]]) simp_all
  have "set (always_hrefs ?S) \<subseteq> set (always_hrefs (layout_frame trail children s))"
    unfolding layout_frame_def
    by (rule order_trans [OF always_el(2) [OF _ _ _ S(1), of "''div''"] always_el(2) [OF _ _ _ S(2)]]) simp_all
  then show "set (always_hrefs (Sidebar_render (ly_desktop s) (ly_org s))) \<subseteq> set (always_hrefs (layout_frame trail children s))"
    by simp
  assume c: "c \<in> set (layout_main children s)"
  have M: "el t cs \<in> set [m, el t cs]" for t cs and m :: "'a layout_act node" by simp
  show "always_offers False c \<subseteq> always_offers False (layout_frame trail children s)"
    unfolding layout_frame_def
    by (rule order_trans [OF order_trans [OF always_el(1) [OF _ _ _ c, of "''main''"] always_el(1) [OF _ _ _ M]] always_el(1) [OF _ _ _ M]])
       simp_all
qed

lemma main_always:
  assumes "\<not> eb_hasError (ly_boundary s)" and "c \<in> set children"
  shows "(Main \<circ> Inner) ` always_offers False c \<subseteq> always_offers False (layout_frame trail children s)"
proof -
  have "map_node Main (map_node Inner c) \<in> set (layout_main children s)"
    using assms by (simp add: layout_main_def ErrorBoundary_render_def)
  from frame_parts(3) [OF this] show ?thesis by (simp add: image_comp)
qed

text \<open>
  C34. The dashboard is usable while its code loads: as long as no chunk has failed, whichever chunks are
  still pending and however the renderer schedules them, the layout is on screen (no suspension reaches
  its root); nothing can be triggered that the loaded layout would not offer; every link of the desktop
  sidebar and every control of it but the organization switcher is there, and so is every control of the
  page outside its charts and editor; and once the chunks have arrived the screen is exactly the layout.
\<close>

theorem layout_while_loading:
  fixes children :: "'a node list"
  assumes "react R" and "\<forall>m e. L m \<noteq> Failed e"
    and "DashboardLayout_render children s = Some n" and "list_all guarded children"
    and "\<not> eb_hasError (ly_boundary s)"
  shows "\<exists>n'. R L n = Shown [n'] \<and> offers n' \<subseteq> offers n
     \<and> Desktop ` {a \<in> offers (Sidebar_render (ly_desktop s) (ly_org s)). \<forall>b. a \<noteq> OrgAct b} \<subseteq> offers n'
     \<and> set (hrefs (Sidebar_render (ly_desktop s) (ly_org s))) \<subseteq> set (hrefs n')
     \<and> (\<forall>c \<in> set children. (Main \<circ> Inner) ` always_offers False c \<subseteq> offers n')
     \<and> (arrived L n \<longrightarrow> n' = n)"
proof -
  obtain trail where n: "n = layout_frame trail children s" by (rule layout_tree [OF assms(3)])
  have "R L n \<noteq> Suspended" by (rule react.R_guarded [OF assms(1) layout_guarded [OF assms(3,4)]])
  moreover have "R L n \<noteq> Thrown e" for e using react.R_thrown [OF assms(1)] assms(2) by blast
  ultimately obtain ns where "R L n = Shown ns" by (cases "R L n") auto
  moreover obtain cs where "n = el ''div'' cs" unfolding n layout_frame_def by blast
  ultimately obtain n' where n': "R L n = Shown [n']"
    using react.R_plain(1) [OF assms(1), of L "''div''" "[]" "[]" cs ns] by (auto simp: el_def)
  have offers: "always_offers False n \<subseteq> offers n'" "offers n' \<subseteq> offers n"
    and links: "set (always_hrefs n) \<subseteq> set (hrefs n')"
    using react.R_always_offers [OF assms(1) n', of False] react.R_offers(1) [OF assms(1) n', of False]
      react.R_always_hrefs [OF assms(1) n'] by (simp_all add: offers_def)
  have desktop: "Desktop ` {a \<in> offers (Sidebar_render (ly_desktop s) (ly_org s)). \<forall>b. a \<noteq> OrgAct b} \<subseteq> always_offers False n"
    using frame_parts(1) [of s trail children] image_mono [OF sidebar_always(1) [of "ly_desktop s" "ly_org s"], of Desktop]
    unfolding n by (simp only: always_offers_map_node) (rule order_trans)
  have nav: "set (hrefs (Sidebar_render (ly_desktop s) (ly_org s))) \<subseteq> set (always_hrefs n)"
    unfolding n by (rule order_trans [OF sidebar_always(2) frame_parts(2)])
  have page: "(Main \<circ> Inner) ` always_offers False c \<subseteq> always_offers False n" if "c \<in> set children" for c
    unfolding n by (rule main_always [OF assms(5) that])
  have "arrived L n \<Longrightarrow> n' = n" using react.R_arrived [OF assms(1), of L n] n' by simp
  then show ?thesis
    by (intro exI [of _ n'] conjI ballI impI n' offers(2) order_trans [OF desktop offers(1)] order_trans [OF nav links]
        order_trans [OF page offers(1)])
qed

text \<open>The pages use dynamic components only, so they never suspend the layout.\<close>

definition lazy_tags :: "string list" where
  "lazy_tags = map fst (layout_splits @ sidebar_splits)"

lemma split_of_lazy: "split_of t = Some (Lazy m) \<Longrightarrow> t \<in> set lazy_tags"
  by (auto simp: lazy_tags_def split_defs split: if_splits)

fun eager :: "'a node \<Rightarrow> bool" where
  "eager (Text s) \<longleftrightarrow> True"
| "eager (El t as hs cs) \<longleftrightarrow> t \<notin> set lazy_tags \<and> list_all eager cs"

lemma eager_guarded: "eager n \<Longrightarrow> guarded n"
  by (induction n) (auto simp: list_all_iff split: option.split split.split dest: split_of_lazy)

lemma eager_shapes [simp]:
  "eager (el t cs) \<longleftrightarrow> t \<notin> set lazy_tags \<and> list_all eager cs"
  "eager (icon t) \<longleftrightarrow> t \<notin> set lazy_tags"
  "eager (on_click t as a cs) \<longleftrightarrow> t \<notin> set lazy_tags \<and> list_all eager cs"
  by (simp_all add: el_def icon_def on_click_def)

lemmas eager_tags = lazy_tags_def layout_splits_def sidebar_splits_def

lemma eager_charts:
  "eager (FleetHealthChart a b c)" "eager (ResourceUtilizationChart ds)" "eager (MiniRingChart a b)"
  "eager (Sparkline xs col)" "eager (DeviceResourceChart ps ax)"
  by (simp_all add: FleetHealthChart_def ResourceUtilizationChart_def MiniRingChart_def Sparkline_def
      DeviceResourceChart_def Let_def list_all_iff eager_tags case_prod_beta)

lemma eager_StateBadge: "eager (StateBadge st)"
  by (simp add: StateBadge_def Let_def shown_def eager_tags)

lemma eager_MetricCard:
  "mc_icon p \<notin> set lazy_tags \<Longrightarrow> pred_option eager (mc_chart p) \<Longrightarrow> eager (MetricCard p)"
  by (cases "mc_chart p") (simp_all add: MetricCard_def Let_def eager_tags split: option.split)

lemma eager_dashboard_cards: "eager (dashboard_cards s)"
  by (simp add: dashboard_cards_def eager_charts metric_def MetricCardSkeleton_def skeleton_def numeral_eq_Suc)
     (simp add: eager_MetricCard eager_charts eager_tags)

lemma eager_dashboard_panels:
  "eager (dashboard_state_card s)" "eager (dashboard_attention s)" "eager (dashboard_activity fdt s)"
  by (simp_all add: dashboard_state_card_def dashboard_attention_def attention_row_def dashboard_activity_def
      eager_StateBadge list_all_iff eager_tags case_prod_beta split: option.split list.split)

lemma Dashboard_eager: "eager (Dashboard_render fdt s)"
  by (simp add: Dashboard_render_def PageHeader_def eager_dashboard_cards eager_dashboard_panels eager_charts eager_tags
      split: option.split)

lemma eager_detail_parts:
  "eager (detail_heading s d)" "eager (detail_resources s)" "eager (detail_information fdt d)"
  "eager (detail_labels s d)" "eager (detail_manifest s)" "eager detail_ota" "eager (detail_confirm s d)"
  by (simp_all add: detail_heading_def detail_resources_def detail_information_def detail_labels_def
      detail_label_editor_def detail_manifest_def detail_ota_def detail_confirm_def ConfirmDialog_def select_items_def
      eager_StateBadge eager_charts skeleton_def shown_def Let_def list_all_iff eager_tags case_prod_beta)

lemma eager_detail_metrics: "eager (detail_metrics fdt s d)"
  by (simp add: detail_metrics_def Let_def eager_MetricCard eager_charts metric_def eager_tags)

lemma eager_detail_logs: "detail_logs s = Some n \<Longrightarrow> eager n"
  by (auto simp: detail_logs_def log_body_def log_rows_def select_items_def skeleton_def list_all_iff eager_tags
      case_prod_beta bind_eq_Some_conv split: if_splits)

lemma DeviceDetail_eager: "DeviceDetail_render fdt s = Some n \<Longrightarrow> eager n"
  by (auto simp: DeviceDetail_render_def eager_detail_parts eager_detail_metrics eager_detail_logs DeviceDetailSkeleton_def
      skeleton_def list_all_iff eager_tags MetricCardSkeleton_def split: option.splits if_splits)

theorem layout_while_loading_witness:
  "\<exists>n n'. DashboardLayout_render [Dashboard_render id (\<lparr>db_token = ''t'', db_orgId = None, db_devices = Some [],
           db_devicesLoading = False, db_auditLog = None\<rparr>) :: int node] layout_sample = Some n
     \<and> mount (\<lambda>m. Pending) n = Shown [n'] \<and> ''/certificates'' \<in> set (hrefs n')"
proof -
  let ?page = "Dashboard_render id (\<lparr>db_token = ''t'', db_orgId = None, db_devices = Some [],
           db_devicesLoading = False, db_auditLog = None\<rparr>) :: int node"
  obtain n where n: "DashboardLayout_render [?page] layout_sample = Some n"
    using layout_sample_renders by blast
  have "list_all guarded [?page]" by (simp add: eager_guarded Dashboard_eager)
  moreover have "\<not> eb_hasError (ly_boundary layout_sample)" by (simp add: layout_sample_def boundary_init_def)
  moreover have "\<forall>m e. (\<lambda>m. Pending) (m :: string) \<noteq> Failed e" by simp
  ultimately obtain n' where "mount (\<lambda>m. Pending) n = Shown [n']"
    "set (hrefs (Sidebar_render (ly_desktop layout_sample) (ly_org layout_sample))) \<subseteq> set (hrefs n')"
    using layout_while_loading [where R = mount and L = "\<lambda>m. Pending", OF mount.react_axioms _ n]
    by meson
  moreover have "''/certificates'' \<in> set (hrefs (Sidebar_render d c))" for d c
    by (simp add: sidebar_links navigation_def)
  ultimately have "mount (\<lambda>m. Pending) n = Shown [n'] \<and> ''/certificates'' \<in> set (hrefs n')" by (auto dest: subsetD)
  then show ?thesis using n by blast
qed

subsection \<open>Chunks that fail\<close>

text \<open>The modules a tree cannot be shown without.\<close>

fun split_at :: "string \<Rightarrow> 'a node \<Rightarrow> bool" where
  "split_at m (Text s) \<longleftrightarrow> False"
| "split_at m (El t as hs cs) \<longleftrightarrow> (case split_of t of Some sp \<Rightarrow> module_of sp = m | None \<Rightarrow> False)"

fun needs :: "string \<Rightarrow> 'a node \<Rightarrow> bool" where
  "needs m (Text s) \<longleftrightarrow> False"
| "needs m (El t as hs cs) \<longleftrightarrow>
     split_at m (El t as hs cs)
     \<or> split_of t = None \<and> (if t = ''Suspense'' then length cs = 1 \<and> split_at m (hd cs) else list_ex (needs m) cs)"

lemma split_at_map_node [simp]: "split_at m (map_node f n) = split_at m n"
  by (cases n) simp_all

lemma needs_map_node [simp]: "needs m (map_node f n) = needs m n"
proof (induction n)
  case (El t as hs cs)
  have "split_at m (hd (map (map_node f) cs)) = split_at m (hd cs)" if "length cs = 1"
    using that by (cases cs) simp_all
  then show ?case using El by (auto simp: list_ex_iff simp del: split_at.simps) (auto)
qed simp

context react
begin

lemma R_split_failed: "split_at m n \<Longrightarrow> L m = Failed e \<Longrightarrow> R L n = Thrown e"
proof (cases n)
  case (El t as hs cs)
  assume "split_at m n" "L m = Failed e"
  then obtain sp where sp: "split_of t = Some sp" "module_of sp = m" using El by (auto split: option.splits)
  then show ?thesis
    using R_lazy [of t m L as hs cs] R_dynamic [of t m _ L as hs cs] \<open>L m = Failed e\<close> El by (cases sp) auto
qed simp

lemma R_needs: "needs m n \<Longrightarrow> L m = Failed e \<Longrightarrow> R L n \<noteq> Shown ns"
proof (induction n arbitrary: ns)
  case (El t as hs cs)
  show ?case
  proof (cases "split_at m (El t as hs cs)")
    case True
    then show ?thesis using R_split_failed [where L = L and m = m, OF True El.prems(2)] by simp
  next
    case False
    then have t: "split_of t = None" using El.prems(1) by simp
    show ?thesis
    proof (cases "t = ''Suspense''")
      case True
      then obtain c where "cs = [c]" "split_at m c" using False t El.prems(1) by (auto simp: length_Suc_conv)
      then show ?thesis
        using R_suspense [of L cs as hs] R_split_failed [where L = L and m = m and n = c, OF _ El.prems(2)] True by (auto simp: settles_def)
    next
      case noSuspense: False
      then obtain c where c: "c \<in> set cs" "needs m c" using False t El.prems(1) by (auto simp: list_ex_iff)
      then show ?thesis using R_plain(2) [OF _ t noSuspense c(1)] El.IH [OF c El.prems(2)] by blast
    qed
  qed
qed simp

text \<open>A guarded tree that needs a failed chunk throws.\<close>

lemma R_needs_throws:
  assumes "needs m n" and "L m = Failed e" and "guarded n"
  obtains e' where "R L n = Thrown e'"
  using R_needs [where L = L and m = m, OF assms(1,2)] R_guarded [OF assms(3), of L] by (cases "R L n") auto

end

lemma split_modules:
  "split_at ''@/components/ui/sheet'' (El ''Sheet'' as hs cs)"
  "split_at ''@/components/command-palette'' (el ''CommandPalette'' cs)"
  "split_at ''@/components/user-menu'' (el ''UserMenu'' cs)"
  "split_at ''@/components/org-switcher'' (el ''OrgSwitcher'' cs)"
  by (simp_all add: el_def split_defs)

lemma needs_el: "split_of t = None \<Longrightarrow> t \<noteq> ''Suspense'' \<Longrightarrow> needs m (el t cs) \<longleftrightarrow> list_ex (needs m) cs"
  "needs m (el ''Suspense'' [c]) \<longleftrightarrow> split_at m c"
  by (simp_all add: el_def)

lemma frame_needs:
  "needs ''@/components/ui/sheet'' (layout_frame trail children s)"
  "needs ''@/components/command-palette'' (layout_frame trail children s)"
  "needs ''@/components/user-menu'' (layout_frame trail children s)"
  "\<not> sb_collapsed (ly_desktop s) \<Longrightarrow> needs ''@/components/org-switcher'' (layout_frame trail children s)"
  unfolding layout_frame_def MobileSidebar_render_def
  by (simp_all add: needs_el split_modules Sidebar_render_def shown_def del: split_at.simps)

text \<open>
  C35. A chunk of the frame that fails to load takes the whole dashboard down: when the chunk of the
  palette, of the user menu or of the mobile sidebar has failed (or that of the organization switcher,
  with the sidebar expanded), rendering the layout throws the error of a failed chunk, whatever the page
  and whatever the state of its error boundary, which stands below the frame and cannot help.
\<close>

theorem layout_chunk_failure:
  assumes "react R" and "DashboardLayout_render children s = Some n" and "list_all guarded children"
    and "L m = Failed e"
    and "m = ''@/components/ui/sheet'' \<or> m = ''@/components/command-palette'' \<or> m = ''@/components/user-menu''
       \<or> m = ''@/components/org-switcher'' \<and> \<not> sb_collapsed (ly_desktop s)"
  shows "\<exists>m' e'. L m' = Failed e' \<and> R L n = Thrown e'"
proof -
  obtain trail where n: "n = layout_frame trail children s" by (rule layout_tree [OF assms(2)])
  have "needs m n" unfolding n using assms(5) by (elim disjE conjE) (simp_all add: frame_needs)
  then obtain e' where "R L n = Thrown e'"
    by (rule react.R_needs_throws [where m = m and L = L, OF assms(1) _ assms(4) layout_guarded [OF assms(2,3)]])
  then show ?thesis using react.R_thrown [OF assms(1)] by blast
qed

theorem layout_chunk_failure_witness:
  "\<exists>n e. DashboardLayout_render [Text ''page'' :: int node] layout_sample = Some n
     \<and> mount ((\<lambda>m. Loaded)(''@/components/user-menu'' := Failed ''ChunkLoadError'')) n = Thrown e"
proof -
  let ?L = "(\<lambda>m. Loaded)(''@/components/user-menu'' := Failed ''ChunkLoadError'')"
  obtain n where n: "DashboardLayout_render [Text ''page'' :: int node] layout_sample = Some n"
    using layout_sample_renders by blast
  have "?L ''@/components/user-menu'' = Failed ''ChunkLoadError''" by simp
  from layout_chunk_failure [where L = ?L, OF mount.react_axioms n _ this] n show ?thesis by auto
qed

subsection \<open>A failed chunk of a page\<close>

text \<open>
  A pending chunk arrives or fails, once: the promise of an import is kept, so it is not asked for again.
  An error that the page throws reaches the boundary around it, and the user acts on what is on screen.
\<close>

inductive load_step ::
  "(loads \<Rightarrow> 'a layout_act node \<Rightarrow> 'a layout_act screen) \<Rightarrow> 'a node list \<Rightarrow> loads \<times> layout \<Rightarrow> loads \<times> layout \<Rightarrow> bool"
  for R children where
  arrive: "L m = Pending \<Longrightarrow> load_step R children (L, s) (L(m := c), s)"
| caught: "\<not> eb_hasError (ly_boundary s) \<Longrightarrow> c \<in> set children \<Longrightarrow> R L (map_node Main (map_node Inner c)) = Thrown e \<Longrightarrow>
    load_step R children (L, s) (L, page_error e s)"
| user: "DashboardLayout_render children s = Some n \<Longrightarrow> R L n = Shown [n'] \<Longrightarrow> a \<in> offers n' \<Longrightarrow>
    load_step R children (L, s) (L, fst (layout_handle a s))"

inductive_cases load_stepE: "load_step R children (L, s) x"

interpretation failed_chunk: state_machine "\<lambda>(L, s). L m = Failed e" "load_step R children" "\<lambda>(L, s). L m = Failed e"
  for R :: "loads \<Rightarrow> 'a layout_act node \<Rightarrow> 'a layout_act screen" and children m e
proof
  fix x y :: "loads \<times> layout"
  show "(case x of (L, s) \<Rightarrow> L m = Failed e) \<Longrightarrow> load_step R children x y \<Longrightarrow> (case y of (L, s) \<Rightarrow> L m = Failed e)"
    by (cases x; cases y) (auto elim!: load_stepE)
qed

lemma layout_main_offers:
  assumes "DashboardLayout_render children s = Some n" and "eb_hasError (ly_boundary s)"
  shows "Main a \<in> offers n \<longleftrightarrow> a = TryAgain"
  using mobile_offers_no_page [of a s] unfolding layout_offers [OF assms(1)]
  by (simp_all only: Un_iff layout_act_images assms(2) if_True) simp

text \<open>
  C36. Try again cannot recover from a failed chunk of a page: from then on, in every reachable state, the
  layout does not come on screen until the boundary has caught the error, and while it shows, nothing of
  the page can be triggered but Try again; clicking it renders the page again, which throws the same way,
  since the failed import is never repeated.
\<close>

theorem page_chunk_failure:
  fixes children :: "'a node list"
  assumes "react R" and "list_all guarded children" and "c \<in> set children" and "needs m c"
    and "reach (\<lambda>(L, s). L m = Failed e) (load_step R children) (L, s)"
    and "DashboardLayout_render children s = Some n"
  shows "(\<not> eb_hasError (ly_boundary s) \<longrightarrow> (\<exists>e'. R L (map_node Main (map_node Inner c)) = Thrown e') \<and> (\<forall>ns. R L n \<noteq> Shown ns))
     \<and> (\<forall>n' a. R L n = Shown [n'] \<longrightarrow> Main a \<in> offers n' \<longrightarrow> a = TryAgain)
     \<and> \<not> eb_hasError (ly_boundary (fst (layout_handle (Main TryAgain :: 'a layout_act) s)))"
proof -
  have L: "L m = Failed e" using failed_chunk.reach_inv [OF assms(5)] by simp
  obtain trail where n: "n = layout_frame trail children s" by (rule layout_tree [OF assms(6)])
  have c: "guarded c" using assms(2,3) by (simp add: list_all_iff)
  obtain e' where e': "R L (map_node Main (map_node Inner c)) = Thrown e'"
    by (rule react.R_needs_throws [where m = m and L = L and n = "map_node Main (map_node Inner c)", OF assms(1) _ L])
       (use assms(4) c in simp_all)
  have frame: "R L n \<noteq> Shown ns" if "\<not> eb_hasError (ly_boundary s)" for ns
  proof -
    have "list_ex (needs m) (layout_main children s)"
      using that assms(3,4) by (auto simp: layout_main_def ErrorBoundary_render_def list_ex_iff)
    then have "needs m n" unfolding n layout_frame_def by (simp add: needs_el)
    from react.R_needs [where m = m and L = L, OF assms(1) this L] show ?thesis .
  qed
  moreover have "a = TryAgain" if "R L n = Shown [n']" "Main a \<in> offers n'" for n' a
  proof -
    have "eb_hasError (ly_boundary s)" using frame that(1) by blast
    moreover have "Main a \<in> offers n" using react.R_offers(1) [OF assms(1) that(1), of False] that(2) by (auto simp: offers_def)
    ultimately show ?thesis using layout_main_offers [OF assms(6)] by blast
  qed
  ultimately show ?thesis using e' try_again_frame(2) by blast
qed

text \<open>The overview cannot be shown without the chunk of its chart.\<close>

lemma Dashboard_needs: "needs ''@/components/fleet-health-chart'' (Dashboard_render fdt s)"
proof -
  have "split_at ''@/components/fleet-health-chart'' (el ''FleetHealthChart'' cs)" for cs :: "'a node list"
    by (simp add: el_def split_defs)
  then have "needs ''@/components/fleet-health-chart'' (el ''FleetHealthChart'' cs)" for cs :: "'a node list"
    by (simp add: el_def)
  moreover have "split_of ''CardHeader'' = None" by (simp add: split_defs)
  ultimately show ?thesis by (simp add: Dashboard_render_def needs_el)
qed

theorem page_chunk_failure_witness:
  "\<exists>n. DashboardLayout_render [Dashboard_render id (\<lparr>db_token = ''t'', db_orgId = None, db_devices = Some [],
           db_devicesLoading = False, db_auditLog = None\<rparr>) :: int node] layout_sample = Some n
     \<and> (\<forall>ns. mount ((\<lambda>m. Loaded)(''@/components/fleet-health-chart'' := Failed ''ChunkLoadError'')) n \<noteq> Shown ns)"
proof -
  let ?m = "''@/components/fleet-health-chart''"
  let ?L = "(\<lambda>m. Loaded)(?m := Failed ''ChunkLoadError'')"
  let ?c = "Dashboard_render id (\<lparr>db_token = ''t'', db_orgId = None, db_devices = Some [],
           db_devicesLoading = False, db_auditLog = None\<rparr>) :: int node"
  obtain n where n: "DashboardLayout_render [?c] layout_sample = Some n" using layout_sample_renders by blast
  have "list_all guarded [?c]" by (simp add: eager_guarded Dashboard_eager)
  moreover have "reach (\<lambda>(L, s). L ?m = Failed ''ChunkLoadError'') (load_step mount [?c]) (?L, layout_sample)"
    by (rule reach_init) simp
  moreover have "\<not> eb_hasError (ly_boundary layout_sample)" by (simp add: layout_sample_def boundary_init_def)
  ultimately have "\<forall>ns. mount ?L n \<noteq> Shown ns"
    using page_chunk_failure
      [where c = ?c and m = ?m and e = "''ChunkLoadError''" and L = ?L, OF mount.react_axioms _ _ Dashboard_needs _ n]
    by (simp del: fun_upd_apply)
  then show ?thesis using n by blast
qed

end
