(* ===== verification/Spec2Isabelle.thy ===== *)
theory Spec2Isabelle
  imports Auth Routing DevicesPage Terminal DeviceTools Certificates Dashboard Settings AppShell PageWidgets Loading
begin

text \<open>
  \<^bold>\<open>EdgeGuardian dashboard: a verification library for src/ui.\<close>

  EdgeGuardian manages fleets of edge devices.  A Go agent (src/agent) runs on the devices, a Java
  controller (src/controller) stores their state, and the Next.js application under src/ui, written
  in TypeScript, is what operators use.  This library models that application: its HTTP client, its
  sessions, every page, with its state, its handlers, its queries and mutations and what it renders, and
  the components the pages are made of, down to the styled wrappers of components/ui.

  \<^bold>\<open>How a page is modelled.\<close>  The \<open>useState\<close> variables, the query results and the props of a page are
  the fields of a record; every callback is an action, a constructor of the page's action type; the
  page's \<open>..._handle\<close> function gives the state after an action and the list of effects (mutations,
  toasts, navigation, storage) in the order the code performs them; \<open>..._render\<close> gives the tree the
  component returns, with the actions its controls dispatch.  \<open>View.offers\<close> is the set of actions a
  user can trigger on a tree, so that statements such as "Save can be clicked exactly when" are about
  the rendered page.  Where the order of events matters a page has a step relation
  (\<open>..._step\<close>): an action that is on offer, an answer of a query, the result of a mutation, or an
  event of the environment; \<open>Prelude.reach\<close> gives its reachable states.  A component that throws
  while rendering is \<open>None\<close>; a rejected promise is an \<open>Inl\<close>.

  \<^bold>\<open>Theories.\<close>
  \<^item> \<open>Prelude\<close>: the JavaScript library functions the code uses (split, slice, sort, parseInt, toFixed,
    property lookup with the inherited keys of an object) and the locales \<open>state_machine\<close> and
    \<open>comparator\<close>.
  \<^item> \<open>View\<close>: trees, handlers, effects.
  \<^item> \<open>Primitives\<close>: components/ui, one function from properties and children to a tree per component,
    with the class strings of the code.  \<open>Radix\<close>: \<open>expand\<close> replaces every component of components/ui in
    a page's tree by what its wrapper returns; the locale \<open>radix\<close> states the documented behaviour of the
    primitives the wrappers call, for an arbitrary behaviour \<open>P\<close>, and is interpreted on \<open>prim_offers\<close>.
  \<^item> \<open>Url\<close>: percent and form encoding with their decoders.
  \<^item> \<open>ApiClient\<close>: lib/api-client.ts, lib/api/endpoints.ts, devices.ts, certificates.ts, shell.ts.  The
    server is the field \<open>env_fetch\<close> of an environment, an arbitrary function; \<open>log_env\<close> is the
    environment that records the requests.
  \<^item> \<open>Organizations\<close>: lib/api/organizations.ts, lib/hooks/use-organization.ts, org-switcher.tsx.
  \<^item> \<open>Auth\<close>: lib/auth.ts, middleware.ts, refresh-error-guard.tsx, the redirect of app/page.tsx.
    \<open>Routing\<close>: the rewrites of next.config.ts, on the locale \<open>next_rewrites\<close>.
  \<^item> \<open>Widgets\<close>: the shared components and the data of the charts.
  \<^item> \<open>Listing\<close>: the locale \<open>paged_list\<close>, the contract of a list shown in pages, interpreted on the
    slicing the pages use.
  \<^item> \<open>DevicesPage\<close>, \<open>Format\<close> and \<open>DeviceDetail\<close> (devices/[id]/page.tsx and the polling history hook),
    \<open>DeviceTools\<close> (logs and manifest pages), \<open>Terminal\<close>, \<open>AuditPage\<close>, \<open>Certificates\<close>, \<open>Dashboard\<close>,
    \<open>Settings\<close>: one page each, named as in the code.
  \<^item> \<open>Navigation\<close>: sidebar, breadcrumbs, command palette, user menu, layout, login page, providers.
  \<^item> \<open>PageWidgets\<close>: the pages on the expanded components: what a control of a wrapper dispatches is a
    step of the page, and the properties of every element have the type its component declares.
  \<^item> \<open>Landing\<close>: the moving parts of the public landing page (components/landing).  \<open>HomePage\<close>: the trees
    of the landing page and the terms page, logo, parallax, discovery picture, root layout and toaster.
  \<^item> \<open>Loading\<close>: the components loaded with \<open>lazy\<close> and \<open>dynamic\<close>, their fallbacks, and what is on screen while
    chunks load or after one failed, for every renderer that meets the locale \<open>react\<close>; the other
    theories render these components as loaded.
  \<^item> \<open>AppShell\<close>: generated icons, metadata, the configuration given to NextAuth and its logger, \<open>cn\<close>.
  \<^item> This theory: statements that span components, from a token refresh to the header of a request and
    from a selection to the requests of a bulk delete, and the cache entries that pages share.

  \<^bold>\<open>What is shown.\<close>
  \<^item> Client: the exact outcome of every call, which header carries the token, that endpoint paths are
    injective up to device identifiers with a slash, that query strings read back exactly,
    that a call on the own origin is forwarded to the same path of the controller.
  \<^item> Sessions: what a token refresh does on success, on an outage and on a revoked grant; that a
    session keeps its refresh token for ever; that a flagged session restarts the sign-in.
  \<^item> Devices: the list is the stable sort of the matching devices, the pages partition it, the pager is
    exact, the bulk delete stops at the first failure.
  \<^item> Device detail: the history is a window of the last thirty values, queries ask for a listed range,
    log lines are shown once each in order; the level of a line is its first match.
  \<^item> Terminal: for every interleaving of re-renders, clean-ups, imports, answers and socket events no
    terminal, socket or observer outlives its run, only authorised visitors connect, the badge follows
    the socket, and reconnecting can always succeed.
  \<^item> Certificates, audit log, dashboard, settings: effective states, pages that are never empty by
    mistake, decisions only on pending requests, the mean load, optimistic update with rollback.
  \<^item> Navigation: breadcrumb links are the ancestors of the page, an error of a page leaves the layout
    usable, the sidebar's state survives a reload.
  \<^item> Code splitting: while chunks load the layout is on screen with its navigation and offers nothing the
    loaded layout would not; a failed chunk of the frame takes the whole dashboard down, and Try again
    cannot recover from a failed chunk of a page.
  \<^item> Components: expanding the wrappers keeps the actions a tree offers, so that what is proved with
    \<open>View.offers\<close> holds of the components the code composes, for every behaviour of the primitives that
    meets the locale \<open>radix\<close>; variants, sizes and handlers are among those their components declare.
  \<^item> Public pages: every link leads to a page or to an identifier that is on the page, and a visitor who
    is not signed in can start the sign-in from the landing page.
  \<^item> Landing page: the loop that fills a row of platforms ends, a row never leaves its track, the typed
    session reaches its end line by line.
  \<^item> Some theorems state defects: a page number that is not clamped, a shell that a refreshed token
    closes, confirmation dialogs that can be dismissed while their mutation runs, breadcrumbs that throw on a malformed escape, and the lemmas of the sections on defects.

  \<^bold>\<open>Parameters and bounds.\<close>  The server's answers, the clock, \<open>localeCompare\<close> (a \<open>comparator\<close>), date
  formatting (\<open>fdt\<close>), the origin and environment variables are arguments, as are the behaviour of the
  Radix and cmdk primitives (\<open>P\<close>), rendering with suspensions (\<open>R\<close>), Next's matching of rewrites, \<open>clsx\<close>,
  the class names of fonts, \<open>Math.hypot\<close> and the outlines of the platform icons.  Strings hold
  characters below 128, except constant texts of the public pages, which are written as their UTF-8
  bytes; numbers are exact integers or rationals, so rounding of doubles is not covered.  There is
  no fuel: every loop of the code is a structural recursion except the one of \<open>Landing.repeat_items\<close>,
  which is a \<open>partial_function\<close> with a theorem that says when it returns.

  \<^bold>\<open>Not modelled.\<close>  The agent and the controller, which are other programs in Go and Java; the inside of
  Radix, cmdk and React, beyond the laws of the locales; the constant geometry of drawings other than the
  logo, the drawing of charts, the terminal emulator and the code editor; NextAuth itself, TanStack
  Query's retries and cache expiry; the merging of CSS classes (\<open>cn\<close> is kept as the list of its arguments,
  since it only affects the appearance); build options of next.config.ts; import and export lists.
\<close>

subsection \<open>Sessions and requests\<close>

text \<open>
  C5. A refreshed token reaches the controller: after a successful refresh the session object carries
  the new access token, a request that a page makes with the session's token is authorised by exactly
  that token, no new sign-in is started, and an error flag of the old token does not stop the landing
  page from sending the user on.
\<close>

theorem refreshed_token_reaches_requests:
  assumes "\<not> still_valid now t" and "truthy (tk_refreshToken t)"
    and "endpoint (refresh_form e (the (tk_refreshToken t))) = Answer code (Some b)"
    and "200 \<le> code" and "code \<le> 299" and "tb_access_token b = Some a" and "a \<noteq> []"
    and "se_error s = None" and "se_user s"
    and "ses = session_callback e (jwt e endpoint now now2 None t) s"
  shows "se_accessToken ses = Some a
       \<and> map_of (rq_headers (build_request base path (options_get (the (se_accessToken ses))))) ''Authorization''
           = Some (''Bearer '' @ a)
       \<and> RefreshErrorGuard_effect (Some ses) = [] \<and> landing_redirect (Some ses) = Some ''/dashboard''"
proof -
  have jwt: "jwt e endpoint now now2 None t = jwt_answer now2 (Answer code (Some b)) t"
    using assms(1-3) by (simp add: jwt_def jwt_account_def)
  have ses: "se_accessToken ses = Some a" "se_error ses = None" "se_user ses"
    unfolding assms(10) jwt using assms(4-9)
    by (simp_all add: session_callback_def jwt_answer_def Let_def truthy_def)
  have "map_of (rq_headers (build_request base path (options_get a))) ''Authorization'' = Some (''Bearer '' @ a)"
    using assms(7) by (simp add: build_request_def request_headers_def options_get_def truthy_def)
  then show ?thesis
    using ses by (simp add: RefreshErrorGuard_effect_def landing_redirect_def truthy_def)
qed

theorem refreshed_token_reaches_requests_witness:
  "\<exists>ses. ses = session_callback env_default
            (jwt env_default (\<lambda>_. Answer 200 (Some body_ok)) 200000 200500 None jwt_fresh) session_empty
     \<and> map_of (rq_headers (build_request ''https://api'' ''/api/v1/devices''
           (options_get (the (se_accessToken ses))))) ''Authorization'' = Some (''Bearer '' @ ''new'')"
proof (intro exI conjI)
  have "truthy (tk_refreshToken jwt_fresh)" "\<not> still_valid 200000 jwt_fresh"
    "tb_access_token body_ok = Some ''new''" "se_error session_empty = None" "se_user session_empty"
    by (simp_all add: still_valid_def jwt_fresh_def truthy_def body_ok_def session_empty_def)
  note facts = this
  let ?ses = "session_callback env_default
            (jwt env_default (\<lambda>_. Answer 200 (Some body_ok)) 200000 200500 None jwt_fresh) session_empty"
  show "?ses = ?ses" by (rule refl)
  show "map_of (rq_headers (build_request ''https://api'' ''/api/v1/devices''
           (options_get (the (se_accessToken ?ses))))) ''Authorization'' = Some (''Bearer '' @ ''new'')"
    by (rule refreshed_token_reaches_requests
          [OF facts(2,1) refl _ _ facts(3) _ facts(4,5) refl, THEN conjunct2, THEN conjunct1]) simp_all
qed

subsection \<open>Deleting the selected devices\<close>

lemma failed_call_reports: "\<not> call_ok c \<Longrightarrow> call_failure c \<noteq> None"
  by (simp add: call_ok_def call_failure_def split: sum.splits)



subsection \<open>Pages that share cache entries\<close>

lemma getStart_map_agrees: "r \<in> set (map fst getStart_map) \<Longrightarrow> range_ms getStart_map r = range_ms TIME_RANGE_MS r"
  by (auto simp: getStart_map_def TIME_RANGE_MS_def range_ms_def)

text \<open>
  C30. The log view of the device page and the log page share cache entries consistently: for every range
  the log page offers, whenever their keys are equal, the two pages, asked at the same time with the same
  session, send the same request, although each computes the start of its range with a table of its own;
  and different filters never share an entry.
\<close>

theorem shared_log_cache:
  assumes "lg_timeRange s \<in> set (map fst getStart_map)" and "lg_token s = Some (dd_token d)"
  shows "(logs_key s = detail_logs_key d \<longrightarrow> logs_fetch e now s = detail_fetch_logs e now d)
       \<and> (logs_key s = detail_logs_key d \<longleftrightarrow>
            lg_id s = dd_id d \<and> lg_level s = dd_logLevel d \<and> lg_search s = dd_logSearch d
            \<and> lg_timeRange s = dd_logTimeRange d)"
  using assms getStart_map_agrees [of "lg_timeRange s"]
  by (auto simp: logs_key_def detail_logs_key_def logs_fetch_def detail_fetch_logs_def logs_params_def
      detail_log_params_def getStart_def rangeStartIso_def)

theorem shared_log_cache_witness:
  "logs_fetch (log_env ''b'' (\<lambda>r. Inl ''down'')) 0 (logs_init ''pi'' (Some ''t''))
     = detail_fetch_logs (log_env ''b'' (\<lambda>r. Inl ''down'')) 0 (detail_init ''pi'' ''t'' None)"
proof -
  have "logs_key (logs_init ''pi'' (Some ''t'')) = detail_logs_key (detail_init ''pi'' ''t'' None)"
    by (simp add: logs_key_def detail_logs_key_def logs_init_def detail_init_def)
  then show ?thesis
    using shared_log_cache [of "logs_init ''pi'' (Some ''t'')" "detail_init ''pi'' ''t'' None"
        "log_env ''b'' (\<lambda>r. Inl ''down'')" 0]
    by (simp add: logs_init_def detail_init_def getStart_map_def)
qed

text \<open>
  Deleting one device from its page invalidates nothing, while the bulk delete invalidates the entry
  that the device list, the dashboard and the palette share: after the single delete the list the user
  is sent to can still show the deleted device until its entry is stale.
\<close>

theorem single_delete_keeps_list_cached:
  "(\<forall>k. InvalidateQueries k \<notin> set (snd (deleteDevice_onSuccess d)))
   \<and> RouterPush ''/devices'' \<in> set (snd (deleteDevice_onSuccess d))
   \<and> InvalidateQueries palette_key \<in> set (snd (delete_onSuccess s))"
  by (simp add: deleteDevice_onSuccess_def delete_onSuccess_def palette_key_def)

end
